(* ===== verification/Prelude.thy ===== *)
theory Prelude
  imports
    "HOL-Library.Word"
    "HOL-Library.Monad_Syntax"
begin

text \<open>
  Shared vocabulary of the development: the machine types of the Rust sources, the
  \<^verbatim>\<open>match\<close> on integer literals, the string operations of the Rust standard library that
  the sources call, and generic lemmas on words and lists.

  Conventions used everywhere:
  \<^item> \<^verbatim>\<open>u8\<close>, \<^verbatim>\<open>u16\<close>, \<^verbatim>\<open>u32\<close>, \<^verbatim>\<open>u64\<close> are words of that width; \<^verbatim>\<open>i32\<close> and \<^verbatim>\<open>i64\<close>
    are words too, read with \<open>sint\<close> where the code compares or shifts them as signed;
  \<^item> \<^verbatim>\<open>usize\<close> (an index or a length) is \<open>nat\<close>;
  \<^item> a panic (\<^verbatim>\<open>unreachable!\<close>, \<^verbatim>\<open>assert!\<close>, an index out of bounds) is the value \<open>None\<close>
    of an option; where the code itself returns an \<^verbatim>\<open>Option\<close>, the text says so.
\<close>

unbundle bit_operations_syntax

section \<open>Machine types\<close>

type_synonym u8 = "8 word"
type_synonym u16 = "16 word"
type_synonym u32 = "32 word"
type_synonym u64 = "64 word"
type_synonym i32 = "32 word"
type_synonym i64 = "64 word"

named_theorems dsp_defs \<open>operations unfolded when a proof follows the code\<close>
named_theorems dsp_frame \<open>fields an operation leaves unchanged\<close>

section \<open>Integer \<^verbatim>\<open>match\<close>\<close>

text \<open>
  \<open>switch x [(k1, e1), (k2, e2), \<dots>] e\<close> is \<^verbatim>\<open>match x { k1 => e1, k2 => e2, ..., _ => e }\<close>:
  the first arm whose literal equals the scrutinee.
\<close>

fun switch :: "'a \<Rightarrow> ('a \<times> 'b) list \<Rightarrow> 'b \<Rightarrow> 'b" where
  "switch x [] d = d"
| "switch x ((k, v) # arms) d = (if x = k then v else switch x arms d)"

lemma switch_default: "x \<notin> fst ` set arms \<Longrightarrow> switch x arms d = d"
  by (induction x arms d rule: switch.induct) auto

lemma switch_elem: "switch x arms d = d \<or> (\<exists>v. (x, v) \<in> set arms \<and> switch x arms d = v)"
  by (induction x arms d rule: switch.induct) auto

lemma switch_SomeD: "switch x arms None = Some v \<Longrightarrow> (x, Some v) \<in> set arms"
  by (induction arms) (auto split: if_splits)

section \<open>Loops with panics\<close>

text \<open>
  A counted loop over a state whose body can panic, and the rule that carries an invariant
  through it.
\<close>

fun mfold :: "('a \<Rightarrow> 's \<Rightarrow> 's option) \<Rightarrow> 'a list \<Rightarrow> 's \<Rightarrow> 's option" where
  "mfold f [] s = Some s"
| "mfold f (x # xs) s = Option.bind (f x s) (mfold f xs)"

lemma mfold_append: "mfold f (xs @ ys) s = Option.bind (mfold f xs s) (mfold f ys)"
  by (induction xs arbitrary: s) (auto split: Option.bind_split)

lemma mfold_upt_invar:
  assumes "I 0 s" and "\<And>i s. i < n \<Longrightarrow> I i s \<Longrightarrow> \<exists>s'. f i s = Some s' \<and> I (Suc i) s'"
  shows "\<exists>s'. mfold f [0..<n] s = Some s' \<and> I n s'"
  using assms(2)
proof (induction n)
  case 0
  then show ?case using assms(1) by simp
next
  case (Suc n)
  then obtain s' where "mfold f [0..<n] s = Some s'" "I n s'" by fastforce
  moreover obtain s'' where "f n s' = Some s''" "I (Suc n) s''"
    using Suc.prems [of n] calculation(2) by auto
  ultimately show ?case by (simp add: mfold_append)
qed

section \<open>Strings\<close>

text \<open>
  \<^verbatim>\<open>str::split_once\<close> at one character, \<^verbatim>\<open>str::split\<close> at one character (the pieces, at
  least one) and \<^verbatim>\<open>str::strip_prefix\<close> with one character.
\<close>

fun split_once :: "char \<Rightarrow> string \<Rightarrow> (string \<times> string) option" where
  "split_once c [] = None"
| "split_once c (x # xs) =
     (if x = c then Some ([], xs)
      else map_option (\<lambda>(a, b). (x # a, b)) (split_once c xs))"

fun split_char :: "char \<Rightarrow> string \<Rightarrow> string list" where
  "split_char c [] = [[]]"
| "split_char c (x # xs) =
     (if x = c then [] # split_char c xs
      else (case split_char c xs of [] \<Rightarrow> [[x]] | y # ys \<Rightarrow> (x # y) # ys))"

fun strip_prefix :: "char \<Rightarrow> string \<Rightarrow> string option" where
  "strip_prefix c [] = None"
| "strip_prefix c (x # xs) = (if x = c then Some xs else None)"

lemma split_char_not_Nil [simp]: "split_char c xs \<noteq> []"
  by (cases xs) (auto split: list.split)

lemma split_once_append:
  "c \<notin> set xs \<Longrightarrow> split_once c (xs @ c # ys) = Some (xs, ys)"
  by (induction xs) auto

lemma split_char_append:
  "c \<notin> set xs \<Longrightarrow> split_char c (xs @ c # ys) = xs # split_char c ys"
  by (induction xs) auto

lemma split_char_single: "c \<notin> set xs \<Longrightarrow> split_char c xs = [xs]"
  by (induction xs) auto

section \<open>Words\<close>

text \<open>A statement about all words of a fixed width is one about all their numbers.\<close>

lemma word_all_nat:
  "(\<forall>w::'a::len word. P w) \<longleftrightarrow> (\<forall>n < 2 ^ LENGTH('a). P (word_of_nat n))"
proof (intro iffI allI impI)
  fix w :: "'a word"
  assume "\<forall>n < 2 ^ LENGTH('a). P (word_of_nat n)"
  moreover have "unat w < 2 ^ LENGTH('a)" by simp
  ultimately have "P (word_of_nat (unat w))" by blast
  then show "P w" by simp
qed blast

lemma word_in_image: "unat w < n \<Longrightarrow> w \<in> word_of_nat ` {..<n}" for w :: "'a::len word"
  by (rule image_eqI [of _ _ "unat w"]) simp_all

lemma word8_all: "(\<forall>w::8 word. P w) \<longleftrightarrow> list_all (\<lambda>n. P (word_of_nat n)) [0..<256]"
  by (simp only: word_all_nat list_all_iff) auto

text \<open>
  \<^verbatim>\<open>w & (1 << n) != 0\<close> is \<open>bit w n\<close>, which the definitions write directly.
\<close>

lemma and_exp_eq: "(w AND 2 ^ n :: 'a::len word) = (if bit w n then 2 ^ n else 0)"
  by (rule bit_word_eqI) (auto simp: bit_simps)

lemma and_exp_eq_0_iff: "(w AND 2 ^ n :: 'a::len word) = 0 \<longleftrightarrow> \<not> bit w n"
proof
  assume "w AND 2 ^ n = 0"
  then have "\<not> bit (w AND 2 ^ n) n" by simp
  then show "\<not> bit w n" by (auto simp: bit_simps dest: bit_imp_le_length)
qed (simp add: and_exp_eq)

lemma bit_test_code: "(w AND push_bit n 1 :: 'a::len word) \<noteq> 0 \<longleftrightarrow> bit w n"
  by (simp add: and_exp_eq_0_iff)

lemma unat_and_mask: "unat (w AND mask n :: 'a::len word) = unat w mod 2 ^ n"
  by (metis take_bit_eq_mask take_bit_eq_mod unsigned_take_bit_eq)

lemma and_mask_le: "unat (w AND mask n :: 'a::len word) < 2 ^ n"
  by (simp add: unat_and_mask)

end
