(* ===== verification/Isa.thy ===== *)
theory Isa
  imports Prelude
begin

text \<open>
  \<^verbatim>\<open>crates/core/src/lib.rs\<close>, first part: architectural constants, the register file and its
  widths, the register-field tables of the encodings, and the small enums (memory space,
  accumulator, condition code, multiply-shift operation). A register index is the \<^verbatim>\<open>usize\<close> of
  the \<^verbatim>\<open>reg::\<close> constants, so a \<open>nat\<close>.
\<close>

section \<open>Architectural constants\<close>

definition PERIPH_BASE :: u32 where "PERIPH_BASE = 0xFFFF80"
definition PERIPH_SIZE :: nat where "PERIPH_SIZE = 128"

abbreviation (input) PC_MASK :: u32 where "PC_MASK \<equiv> 0xFFFFFF"

definition mask_pc :: "u32 \<Rightarrow> u32" where
  "mask_pc v = v AND PC_MASK"

section \<open>Register indices\<close>

text \<open>The constants of the module \<^verbatim>\<open>reg\<close>, prefixed with \<open>reg_\<close>.\<close>

abbreviation (input) reg_X0 :: nat where "reg_X0 \<equiv> 0x04"
abbreviation (input) reg_X1 :: nat where "reg_X1 \<equiv> 0x05"
abbreviation (input) reg_Y0 :: nat where "reg_Y0 \<equiv> 0x06"
abbreviation (input) reg_Y1 :: nat where "reg_Y1 \<equiv> 0x07"
abbreviation (input) reg_A0 :: nat where "reg_A0 \<equiv> 0x08"
abbreviation (input) reg_B0 :: nat where "reg_B0 \<equiv> 0x09"
abbreviation (input) reg_A2 :: nat where "reg_A2 \<equiv> 0x0a"
abbreviation (input) reg_B2 :: nat where "reg_B2 \<equiv> 0x0b"
abbreviation (input) reg_A1 :: nat where "reg_A1 \<equiv> 0x0c"
abbreviation (input) reg_B1 :: nat where "reg_B1 \<equiv> 0x0d"
abbreviation (input) reg_A :: nat where "reg_A \<equiv> 0x0e"
abbreviation (input) reg_B :: nat where "reg_B \<equiv> 0x0f"
abbreviation (input) reg_R0 :: nat where "reg_R0 \<equiv> 0x10"
abbreviation (input) reg_N0 :: nat where "reg_N0 \<equiv> 0x18"
abbreviation (input) reg_M0 :: nat where "reg_M0 \<equiv> 0x20"
abbreviation (input) reg_EP :: nat where "reg_EP \<equiv> 0x2a"
abbreviation (input) reg_TEMP :: nat where "reg_TEMP \<equiv> 0x2b"
abbreviation (input) reg_VBA :: nat where "reg_VBA \<equiv> 0x30"
abbreviation (input) reg_SC :: nat where "reg_SC \<equiv> 0x31"
abbreviation (input) reg_SZ :: nat where "reg_SZ \<equiv> 0x38"
abbreviation (input) reg_SR :: nat where "reg_SR \<equiv> 0x39"
abbreviation (input) reg_OMR :: nat where "reg_OMR \<equiv> 0x3a"
abbreviation (input) reg_SP :: nat where "reg_SP \<equiv> 0x3b"
abbreviation (input) reg_SSH :: nat where "reg_SSH \<equiv> 0x3c"
abbreviation (input) reg_SSL :: nat where "reg_SSL \<equiv> 0x3d"
abbreviation (input) reg_LA :: nat where "reg_LA \<equiv> 0x3e"
abbreviation (input) reg_LC :: nat where "reg_LC \<equiv> 0x3f"
abbreviation (input) reg_NULL :: nat where "reg_NULL \<equiv> 0x00"
abbreviation (input) reg_COUNT :: nat where "reg_COUNT \<equiv> 0x40"

text \<open>The status-register bit positions of the module \<^verbatim>\<open>sr\<close>.\<close>

abbreviation (input) sr_C :: nat where "sr_C \<equiv> 0"
abbreviation (input) sr_V :: nat where "sr_V \<equiv> 1"
abbreviation (input) sr_Z :: nat where "sr_Z \<equiv> 2"
abbreviation (input) sr_N :: nat where "sr_N \<equiv> 3"
abbreviation (input) sr_U :: nat where "sr_U \<equiv> 4"
abbreviation (input) sr_E :: nat where "sr_E \<equiv> 5"
abbreviation (input) sr_L :: nat where "sr_L \<equiv> 6"
abbreviation (input) sr_S :: nat where "sr_S \<equiv> 7"
abbreviation (input) sr_I0 :: nat where "sr_I0 \<equiv> 8"
abbreviation (input) sr_I1 :: nat where "sr_I1 \<equiv> 9"
abbreviation (input) sr_S0 :: nat where "sr_S0 \<equiv> 10"
abbreviation (input) sr_S1 :: nat where "sr_S1 \<equiv> 11"
abbreviation (input) sr_SC :: nat where "sr_SC \<equiv> 13"
abbreviation (input) sr_DM :: nat where "sr_DM \<equiv> 14"
abbreviation (input) sr_LF :: nat where "sr_LF \<equiv> 15"
abbreviation (input) sr_FV :: nat where "sr_FV \<equiv> 16"
abbreviation (input) sr_SA :: nat where "sr_SA \<equiv> 17"
abbreviation (input) sr_CE :: nat where "sr_CE \<equiv> 19"
abbreviation (input) sr_SM :: nat where "sr_SM \<equiv> 20"
abbreviation (input) sr_RM :: nat where "sr_RM \<equiv> 21"

section \<open>Small enums\<close>

datatype mem_space = Space_X | Space_Y | Space_P

text \<open>\<^verbatim>\<open>MemSpace::xy\<close> panics on anything but one opcode bit.\<close>

definition mem_space_xy :: "u32 \<Rightarrow> mem_space option" where
  "mem_space_xy v = switch v [(0, Some Space_X), (1, Some Space_Y)] None"

datatype accumulator = Acc_A | Acc_B

definition acc_u8 :: "accumulator \<Rightarrow> u8" where
  "acc_u8 d = (case d of Acc_A \<Rightarrow> 0 | Acc_B \<Rightarrow> 1)"

datatype mul_shift_op = MulShift_Mpy | MulShift_Mpyr | MulShift_Mac | MulShift_Macr

datatype cond_code =
    CC_CC | CC_GE | CC_NE | CC_PL | CC_NN | CC_EC | CC_LC | CC_GT
  | CC_CS | CC_LT | CC_EQ | CC_MI | CC_NR | CC_ES | CC_LS | CC_LE

text \<open>
  \<^verbatim>\<open>CondCode::from_bits\<close> asserts \<^verbatim>\<open>bits < 16\<close> and transmutes: the discriminants are the
  positions in the declaration.
\<close>

definition cond_codes :: "cond_code list" where
  "cond_codes = [CC_CC, CC_GE, CC_NE, CC_PL, CC_NN, CC_EC, CC_LC, CC_GT,
                 CC_CS, CC_LT, CC_EQ, CC_MI, CC_NR, CC_ES, CC_LS, CC_LE]"

definition cond_code_from_bits :: "u32 \<Rightarrow> cond_code option" where
  "cond_code_from_bits bits = (if bits < 16 then Some (cond_codes ! unat bits) else None)"

section \<open>Register fields of the encodings\<close>

definition qq_reg :: "u8 \<Rightarrow> nat option" where
  "qq_reg qq = switch qq
     [(0, Some reg_X0), (1, Some reg_Y0), (2, Some reg_X1), (3, Some reg_Y1)] None"

definition qq_reg_mulshift :: "u8 \<Rightarrow> nat option" where
  "qq_reg_mulshift qq = switch qq
     [(0, Some reg_Y1), (1, Some reg_X0), (2, Some reg_Y0), (3, Some reg_X1)] None"

text \<open>The next four return an \<^verbatim>\<open>Option\<close> in the code: \<open>None\<close> is a reserved field value.\<close>

definition qqqq_regs :: "u8 \<Rightarrow> (nat \<times> nat) option" where
  "qqqq_regs qqqq = switch qqqq
     [(0x0, Some (reg_X0, reg_X0)), (0x1, Some (reg_Y0, reg_Y0)),
      (0x2, Some (reg_X1, reg_X0)), (0x3, Some (reg_Y1, reg_Y0)),
      (0x4, Some (reg_X0, reg_Y1)), (0x5, Some (reg_Y0, reg_X0)),
      (0x6, Some (reg_X1, reg_Y0)), (0x7, Some (reg_Y1, reg_X1)),
      (0x8, Some (reg_X1, reg_X1)), (0x9, Some (reg_Y1, reg_Y1)),
      (0xA, Some (reg_X0, reg_X1)), (0xB, Some (reg_Y0, reg_Y1)),
      (0xC, Some (reg_Y1, reg_X0)), (0xD, Some (reg_X0, reg_Y0)),
      (0xE, Some (reg_Y0, reg_X1)), (0xF, Some (reg_X1, reg_Y1))] None"

definition sss_reg :: "u8 \<Rightarrow> nat option" where
  "sss_reg sss = switch sss
     [(2, Some reg_A1), (3, Some reg_B1), (4, Some reg_X0),
      (5, Some reg_Y0), (6, Some reg_X1), (7, Some reg_Y1)] None"

definition qqq_reg :: "u8 \<Rightarrow> nat option" where
  "qqq_reg qqq = switch qqq
     [(2, Some reg_A0), (3, Some reg_B0), (4, Some reg_X0),
      (5, Some reg_Y0), (6, Some reg_X1), (7, Some reg_Y1)] None"

definition ggg_reg :: "u8 \<Rightarrow> accumulator \<Rightarrow> nat option" where
  "ggg_reg ggg d = switch ggg
     [(0, Some (case d of Acc_A \<Rightarrow> reg_B | Acc_B \<Rightarrow> reg_A)),
      (4, Some reg_X0), (5, Some reg_Y0), (6, Some reg_X1), (7, Some reg_Y1)] None"

definition REGISTERS_TCC :: "(nat \<times> nat) list" where
  "REGISTERS_TCC =
     [(reg_B, reg_A), (reg_A, reg_B),
      (reg_NULL, reg_NULL), (reg_NULL, reg_NULL), (reg_NULL, reg_NULL),
      (reg_NULL, reg_NULL), (reg_NULL, reg_NULL), (reg_NULL, reg_NULL),
      (reg_X0, reg_A), (reg_X0, reg_B), (reg_Y0, reg_A), (reg_Y0, reg_B),
      (reg_X1, reg_A), (reg_X1, reg_B), (reg_Y1, reg_A), (reg_Y1, reg_B)]"

section \<open>Register widths\<close>

text \<open>
  \<^verbatim>\<open>REG_MASKS\<close>: the array is all ones, then one store per register; \<open>List.update\<close> is a
  store in range.
\<close>

definition REG_MASKS :: "u32 list" where
  "REG_MASKS =
    (let m = replicate reg_COUNT 0xFFFFFFFF;
         m = m[reg_X0 := 0x00FFFFFF, reg_X1 := 0x00FFFFFF,
               reg_Y0 := 0x00FFFFFF, reg_Y1 := 0x00FFFFFF,
               reg_A0 := 0x00FFFFFF, reg_B0 := 0x00FFFFFF,
               reg_A2 := 0x000000FF, reg_B2 := 0x000000FF,
               reg_A1 := 0x00FFFFFF, reg_B1 := 0x00FFFFFF,
               reg_A := 0x00FFFFFF, reg_B := 0x00FFFFFF];
         m = fold (\<lambda>i m. m[reg_R0 + i := 0x00FFFFFF, reg_N0 + i := 0x00FFFFFF,
                           reg_M0 + i := 0x00FFFFFF]) [0..<8] m
     in m[reg_EP := 0x00FFFFFF, reg_VBA := 0x00FFFF00, reg_SC := 0x0000001F,
          reg_SZ := 0x00FFFFFF, reg_SR := 0x00FBEFFF, reg_OMR := 0x00FFFFDF,
          reg_SP := 0x0000003F, reg_SSH := 0x00FFFFFF, reg_SSL := 0x00FFFFFF,
          reg_LA := 0x00FFFFFF, reg_LC := 0x00FFFFFF, reg_TEMP := 0x00FFFFFF,
          reg_NULL := 0])"

definition mask_reg :: "nat \<Rightarrow> u32 \<Rightarrow> u32" where
  "mask_reg r v = v AND REG_MASKS ! r"

section \<open>Register names\<close>

definition REGISTER_NAMES :: "string list" where
  "REGISTER_NAMES =
    ['''', '''', '''', '''', ''x0'', ''x1'', ''y0'', ''y1'', ''a0'', ''b0'', ''a2'', ''b2'',
     ''a1'', ''b1'', ''a'', ''b'', ''r0'', ''r1'', ''r2'', ''r3'', ''r4'', ''r5'', ''r6'',
     ''r7'', ''n0'', ''n1'', ''n2'', ''n3'', ''n4'', ''n5'', ''n6'', ''n7'', ''m0'', ''m1'',
     ''m2'', ''m3'', ''m4'', ''m5'', ''m6'', ''m7'', '''', '''', ''ep'', '''', '''', '''',
     '''', '''', ''vba'', ''sc'', '''', '''', '''', '''', '''', '''', ''sz'', ''sr'', ''omr'',
     ''sp'', ''ssh'', ''ssl'', ''la'', ''lc'']"

definition CC_NAMES :: "string list" where
  "CC_NAMES =
    [''cc'', ''ge'', ''ne'', ''pl'', ''nn'', ''ec'', ''lc'', ''gt'',
     ''cs'', ''lt'', ''eq'', ''mi'', ''nr'', ''es'', ''ls'', ''le'']"

definition REGISTERS_LMOVE :: "string list" where
  "REGISTERS_LMOVE = [''a10'', ''b10'', ''x'', ''y'', ''a'', ''b'', ''ab'', ''ba'']"

section \<open>Lemmas\<close>

text \<open>The array after all its stores, evaluated once.\<close>

lemma REG_MASKS_list:
  "REG_MASKS =
    [0x0, 0xFFFFFFFF, 0xFFFFFFFF, 0xFFFFFFFF, 0xFFFFFF, 0xFFFFFF, 0xFFFFFF, 0xFFFFFF,
     0xFFFFFF, 0xFFFFFF, 0xFF, 0xFF, 0xFFFFFF, 0xFFFFFF, 0xFFFFFF, 0xFFFFFF,
     0xFFFFFF, 0xFFFFFF, 0xFFFFFF, 0xFFFFFF, 0xFFFFFF, 0xFFFFFF, 0xFFFFFF, 0xFFFFFF,
     0xFFFFFF, 0xFFFFFF, 0xFFFFFF, 0xFFFFFF, 0xFFFFFF, 0xFFFFFF, 0xFFFFFF, 0xFFFFFF,
     0xFFFFFF, 0xFFFFFF, 0xFFFFFF, 0xFFFFFF, 0xFFFFFF, 0xFFFFFF, 0xFFFFFF, 0xFFFFFF,
     0xFFFFFFFF, 0xFFFFFFFF, 0xFFFFFF, 0xFFFFFF, 0xFFFFFFFF, 0xFFFFFFFF, 0xFFFFFFFF, 0xFFFFFFFF,
     0xFFFF00, 0x1F, 0xFFFFFFFF, 0xFFFFFFFF, 0xFFFFFFFF, 0xFFFFFFFF, 0xFFFFFFFF, 0xFFFFFFFF,
     0xFFFFFF, 0xFBEFFF, 0xFFFFDF, 0x3F, 0xFFFFFF, 0xFFFFFF, 0xFFFFFF, 0xFFFFFF]"
  by code_simp

lemma length_REG_MASKS [simp]: "length REG_MASKS = 64"
  by (simp add: REG_MASKS_list)

lemma REG_MASKS_eval [simp]:
  "REG_MASKS ! reg_SR = 0x00FBEFFF" "REG_MASKS ! reg_SP = 0x3F" "REG_MASKS ! reg_SC = 0x1F"
  "REG_MASKS ! reg_SSH = 0xFFFFFF" "REG_MASKS ! reg_SSL = 0xFFFFFF"
  "REG_MASKS ! reg_LA = 0xFFFFFF" "REG_MASKS ! reg_LC = 0xFFFFFF"
  "REG_MASKS ! reg_TEMP = 0xFFFFFF" "REG_MASKS ! reg_VBA = 0xFFFF00"
  "REG_MASKS ! reg_R0 = 0xFFFFFF" "REG_MASKS ! reg_M0 = 0xFFFFFF"
  "REG_MASKS ! reg_N0 = 0xFFFFFF"
  by (simp_all add: REG_MASKS_list)

lemma length_REGISTER_NAMES [simp]: "length REGISTER_NAMES = 64"
  by (simp add: REGISTER_NAMES_def)

lemma cond_code_from_bits_Some: "bits < 16 \<Longrightarrow> \<exists>cc. cond_code_from_bits bits = Some cc"
  by (simp add: cond_code_from_bits_def)

lemma mem_space_xy_Some: "v < 2 \<Longrightarrow> \<exists>s. mem_space_xy v = Some s \<and> s \<noteq> Space_P"
proof -
  assume "v < 2"
  then have "unat v < 2" by unat_arith
  then have "unat v = 0 \<or> unat v = 1" by arith
  then have "v = 0 \<or> v = 1" by (metis unat_0 unat_1 word_unat_eq_iff)
  then show ?thesis by (auto simp: mem_space_xy_def)
qed

text \<open>
  Reads through \<open>mask_reg\<close> keep a value inside its register's width.
\<close>

lemma mask_reg_idem [simp]: "mask_reg r (mask_reg r v) = mask_reg r v"
  by (simp add: mask_reg_def and.assoc)

lemma mask_pc_idem [simp]: "mask_pc (mask_pc v) = mask_pc v"
  by (simp add: mask_pc_def and.assoc)

lemma mask_pc_mask: "mask_pc v = v AND mask 24"
  by (simp add: mask_pc_def mask_eq_exp_minus_1)

lemma unat_mask_pc: "unat (mask_pc v) = unat v mod 2 ^ 24"
  by (simp add: mask_pc_mask unat_and_mask)

end
