(* ===== verification/Parallel_Alu.thy ===== *)
theory Parallel_Alu
  imports Isa
begin

text \<open>
  \<^verbatim>\<open>crates/core/src/lib.rs\<close>: the ALU half of a parallel instruction (bits 7:0), its decoder
  \<^verbatim>\<open>decode_parallel_alu\<close>, encoder \<^verbatim>\<open>ParallelAlu::encode\<close>, printer (\<^verbatim>\<open>Display\<close>), parser
  \<^verbatim>\<open>ParallelAlu::from_text\<close> and the queries \<^verbatim>\<open>dest_accumulator\<close> and
  \<^verbatim>\<open>is_logical_or_shift\<close>; then the round trips between byte, operation and text.
  Register indices are \<open>nat\<close>, so an operation can hold a register the encoding has no
  field for: \<open>alu_wf\<close> says which operations the decoder can produce.
\<close>

section \<open>The operations\<close>

text \<open>The constructors \<^verbatim>\<open>Max\<close> and \<^verbatim>\<open>Not\<close> carry a suffix: HOL has constants of that name.\<close>

datatype parallel_alu =
    Move
  | TfrAcc accumulator accumulator
  | Addr accumulator accumulator
  | Tst accumulator
  | CmpAcc accumulator accumulator
  | Subr accumulator accumulator
  | CmpmAcc accumulator accumulator
  | AddAcc accumulator accumulator
  | Rnd accumulator
  | Addl accumulator accumulator
  | Clr accumulator
  | SubAcc accumulator accumulator
  | Max_alu
  | Maxm
  | Subl accumulator accumulator
  | Not_alu accumulator
  | AddXY nat nat accumulator
  | Adc nat nat accumulator
  | SubXY nat nat accumulator
  | Sbc nat nat accumulator
  | Asr accumulator
  | Lsr accumulator
  | Abs accumulator
  | Ror accumulator
  | Asl accumulator
  | Lsl accumulator
  | Neg accumulator
  | Rol accumulator
  | AddReg nat accumulator
  | TfrReg nat accumulator
  | Or nat accumulator
  | Eor nat accumulator
  | SubReg nat accumulator
  | CmpReg nat accumulator
  | And nat accumulator
  | CmpmReg nat accumulator
  | Mpy bool nat nat accumulator
  | Mpyr bool nat nat accumulator
  | Mac bool nat nat accumulator
  | Macr bool nat nat accumulator
  | Undefined

section \<open>Decoding the ALU byte\<close>

definition qqq_mpy_regs :: "u8 \<Rightarrow> (nat \<times> nat) option" where
  "qqq_mpy_regs qqq = switch qqq
     [(0, Some (reg_X0, reg_X0)), (1, Some (reg_Y0, reg_Y0)),
      (2, Some (reg_X1, reg_X0)), (3, Some (reg_Y1, reg_Y0)),
      (4, Some (reg_X0, reg_Y1)), (5, Some (reg_Y0, reg_X0)),
      (6, Some (reg_X1, reg_Y0)), (7, Some (reg_Y1, reg_X1))] None"

definition JJ_REGS :: "nat list" where
  "JJ_REGS = [reg_X0, reg_Y0, reg_X1, reg_Y1]"

text \<open>\<open>None\<close> is one of the function's \<^verbatim>\<open>unreachable!()\<close> arms.\<close>

definition decode_parallel_alu :: "u8 \<Rightarrow> parallel_alu option" where
  "decode_parallel_alu b =
    (if b = 0x00 then Some Move
     else if b AND 0x80 \<noteq> 0 then
       (let qqq = drop_bit 4 b AND 7;
            d = (if drop_bit 3 b AND 1 = 0 then Acc_A else Acc_B);
            negate = (drop_bit 2 b AND 1 = 1);
            op = b AND 3
        in do {
          (s1, s2) \<leftarrow> qqq_mpy_regs qqq;
          switch op
            [(0, Some (Mpy negate s1 s2 d)), (1, Some (Mpyr negate s1 s2 d)),
             (2, Some (Mac negate s1 s2 d)), (3, Some (Macr negate s1 s2 d))] None
        })
     else
       (let jjj = drop_bit 4 b AND 7;
            d = (if drop_bit 3 b AND 1 = 0 then Acc_A else Acc_B);
            src = (case d of Acc_A \<Rightarrow> Acc_B | Acc_B \<Rightarrow> Acc_A);
            kkk = b AND 7
        in if jjj = 0 then
             switch kkk
               [(1, Some (TfrAcc src d)), (2, Some (Addr src d)), (3, Some (Tst d)),
                (5, Some (CmpAcc src d)), (6, Some (Subr src d)), (7, Some (CmpmAcc src d))]
               (Some Undefined)
           else if jjj = 1 then
             switch kkk
               [(0, Some (AddAcc src d)), (1, Some (Rnd d)), (2, Some (Addl src d)),
                (3, Some (Clr d)), (4, Some (SubAcc src d)),
                (5, if b = 0x1D then Some Max_alu
                    else if b = 0x15 then Some Maxm else Some Undefined),
                (6, Some (Subl src d)), (7, Some (Not_alu d))] None
           else if jjj = 2 then
             switch kkk
               [(0, Some (AddXY reg_X1 reg_X0 d)), (1, Some (Adc reg_X1 reg_X0 d)),
                (2, Some (Asr d)), (3, Some (Lsr d)),
                (4, Some (SubXY reg_X1 reg_X0 d)), (5, Some (Sbc reg_X1 reg_X0 d)),
                (6, Some (Abs d)), (7, Some (Ror d))] None
           else if jjj = 3 then
             switch kkk
               [(0, Some (AddXY reg_Y1 reg_Y0 d)), (1, Some (Adc reg_Y1 reg_Y0 d)),
                (2, Some (Asl d)), (3, Some (Lsl d)),
                (4, Some (SubXY reg_Y1 reg_Y0 d)), (5, Some (Sbc reg_Y1 reg_Y0 d)),
                (6, Some (Neg d)), (7, Some (Rol d))] None
           else if jjj \<le> 7 then
             (let jj = unat (jjj AND 3);
                  src = JJ_REGS ! jj
              in switch kkk
                [(0, Some (AddReg src d)), (1, Some (TfrReg src d)), (2, Some (Or src d)),
                 (3, Some (Eor src d)), (4, Some (SubReg src d)), (5, Some (CmpReg src d)),
                 (6, Some (And src d)), (7, Some (CmpmReg src d))] None)
           else None))"

section \<open>Encoding\<close>

text \<open>These three return an \<^verbatim>\<open>Option\<close> in the code.\<close>

definition jj_encode :: "nat \<Rightarrow> u8 option" where
  "jj_encode src = switch src
     [(reg_X0, Some 0), (reg_Y0, Some 1), (reg_X1, Some 2), (reg_Y1, Some 3)] None"

definition qqq_mpy_encode :: "nat \<Rightarrow> nat \<Rightarrow> u8 option" where
  "qqq_mpy_encode s1 s2 = switch (s1, s2)
     [((reg_X0, reg_X0), Some 0), ((reg_Y0, reg_Y0), Some 1),
      ((reg_X1, reg_X0), Some 2), ((reg_Y1, reg_Y0), Some 3),
      ((reg_X0, reg_Y1), Some 4), ((reg_Y0, reg_X0), Some 5),
      ((reg_X1, reg_Y0), Some 6), ((reg_Y1, reg_X1), Some 7)] None"

definition alu_d :: "u8 \<Rightarrow> accumulator \<Rightarrow> u8" where
  "alu_d op d = op OR push_bit 3 (acc_u8 d)"

definition alu_jj :: "u8 \<Rightarrow> nat \<Rightarrow> accumulator \<Rightarrow> u8 option" where
  "alu_jj op src d = do {
     jj \<leftarrow> jj_encode src;
     Some (op OR push_bit 4 jj OR push_bit 3 (acc_u8 d))
   }"

definition alu_mpy :: "u8 \<Rightarrow> bool \<Rightarrow> nat \<Rightarrow> nat \<Rightarrow> accumulator \<Rightarrow> u8 option" where
  "alu_mpy op negate s1 s2 d = do {
     qqq \<leftarrow> qqq_mpy_encode s1 s2;
     Some (op OR push_bit 4 qqq OR push_bit 3 (acc_u8 d) OR push_bit 2 (of_bool negate))
   }"

fun parallel_alu_encode :: "parallel_alu \<Rightarrow> u8 option" where
  "parallel_alu_encode Move = Some 0x00"
| "parallel_alu_encode (TfrAcc _ d) = Some (alu_d 0x01 d)"
| "parallel_alu_encode (Addr _ d) = Some (alu_d 0x02 d)"
| "parallel_alu_encode (Tst d) = Some (alu_d 0x03 d)"
| "parallel_alu_encode (CmpAcc _ d) = Some (alu_d 0x05 d)"
| "parallel_alu_encode (Subr _ d) = Some (alu_d 0x06 d)"
| "parallel_alu_encode (CmpmAcc _ d) = Some (alu_d 0x07 d)"
| "parallel_alu_encode (AddAcc _ d) = Some (alu_d 0x10 d)"
| "parallel_alu_encode (Rnd d) = Some (alu_d 0x11 d)"
| "parallel_alu_encode (Addl _ d) = Some (alu_d 0x12 d)"
| "parallel_alu_encode (Clr d) = Some (alu_d 0x13 d)"
| "parallel_alu_encode (SubAcc _ d) = Some (alu_d 0x14 d)"
| "parallel_alu_encode Max_alu = Some 0x1D"
| "parallel_alu_encode Maxm = Some 0x15"
| "parallel_alu_encode (Subl _ d) = Some (alu_d 0x16 d)"
| "parallel_alu_encode (Not_alu d) = Some (alu_d 0x17 d)"
| "parallel_alu_encode (AddXY hi _ d) = Some (alu_d (if hi = reg_X1 then 0x20 else 0x30) d)"
| "parallel_alu_encode (Adc hi _ d) = Some (alu_d (if hi = reg_X1 then 0x21 else 0x31) d)"
| "parallel_alu_encode (Asr d) = Some (alu_d 0x22 d)"
| "parallel_alu_encode (Lsr d) = Some (alu_d 0x23 d)"
| "parallel_alu_encode (SubXY hi _ d) = Some (alu_d (if hi = reg_X1 then 0x24 else 0x34) d)"
| "parallel_alu_encode (Sbc hi _ d) = Some (alu_d (if hi = reg_X1 then 0x25 else 0x35) d)"
| "parallel_alu_encode (Abs d) = Some (alu_d 0x26 d)"
| "parallel_alu_encode (Ror d) = Some (alu_d 0x27 d)"
| "parallel_alu_encode (Asl d) = Some (alu_d 0x32 d)"
| "parallel_alu_encode (Lsl d) = Some (alu_d 0x33 d)"
| "parallel_alu_encode (Neg d) = Some (alu_d 0x36 d)"
| "parallel_alu_encode (Rol d) = Some (alu_d 0x37 d)"
| "parallel_alu_encode (AddReg src d) = alu_jj 0x40 src d"
| "parallel_alu_encode (TfrReg src d) = alu_jj 0x41 src d"
| "parallel_alu_encode (Or src d) = alu_jj 0x42 src d"
| "parallel_alu_encode (Eor src d) = alu_jj 0x43 src d"
| "parallel_alu_encode (SubReg src d) = alu_jj 0x44 src d"
| "parallel_alu_encode (CmpReg src d) = alu_jj 0x45 src d"
| "parallel_alu_encode (And src d) = alu_jj 0x46 src d"
| "parallel_alu_encode (CmpmReg src d) = alu_jj 0x47 src d"
| "parallel_alu_encode (Mpy negate s1 s2 d) = alu_mpy 0x80 negate s1 s2 d"
| "parallel_alu_encode (Mpyr negate s1 s2 d) = alu_mpy 0x81 negate s1 s2 d"
| "parallel_alu_encode (Mac negate s1 s2 d) = alu_mpy 0x82 negate s1 s2 d"
| "parallel_alu_encode (Macr negate s1 s2 d) = alu_mpy 0x83 negate s1 s2 d"
| "parallel_alu_encode Undefined = None"

section \<open>Queries\<close>

fun dest_accumulator :: "parallel_alu \<Rightarrow> accumulator option" where
  "dest_accumulator Move = None"
| "dest_accumulator Undefined = None"
| "dest_accumulator (CmpAcc _ _) = None"
| "dest_accumulator (CmpmAcc _ _) = None"
| "dest_accumulator (Tst _) = None"
| "dest_accumulator (CmpReg _ _) = None"
| "dest_accumulator (CmpmReg _ _) = None"
| "dest_accumulator Max_alu = Some Acc_B"
| "dest_accumulator Maxm = Some Acc_B"
| "dest_accumulator (TfrAcc _ d) = Some d"
| "dest_accumulator (Addr _ d) = Some d"
| "dest_accumulator (Subr _ d) = Some d"
| "dest_accumulator (AddAcc _ d) = Some d"
| "dest_accumulator (Rnd d) = Some d"
| "dest_accumulator (Addl _ d) = Some d"
| "dest_accumulator (Clr d) = Some d"
| "dest_accumulator (SubAcc _ d) = Some d"
| "dest_accumulator (Subl _ d) = Some d"
| "dest_accumulator (Not_alu d) = Some d"
| "dest_accumulator (AddXY _ _ d) = Some d"
| "dest_accumulator (Adc _ _ d) = Some d"
| "dest_accumulator (SubXY _ _ d) = Some d"
| "dest_accumulator (Sbc _ _ d) = Some d"
| "dest_accumulator (Asr d) = Some d"
| "dest_accumulator (Lsr d) = Some d"
| "dest_accumulator (Abs d) = Some d"
| "dest_accumulator (Ror d) = Some d"
| "dest_accumulator (Asl d) = Some d"
| "dest_accumulator (Lsl d) = Some d"
| "dest_accumulator (Neg d) = Some d"
| "dest_accumulator (Rol d) = Some d"
| "dest_accumulator (AddReg _ d) = Some d"
| "dest_accumulator (TfrReg _ d) = Some d"
| "dest_accumulator (Or _ d) = Some d"
| "dest_accumulator (Eor _ d) = Some d"
| "dest_accumulator (SubReg _ d) = Some d"
| "dest_accumulator (And _ d) = Some d"
| "dest_accumulator (Mpy _ _ _ d) = Some d"
| "dest_accumulator (Mpyr _ _ _ d) = Some d"
| "dest_accumulator (Mac _ _ _ d) = Some d"
| "dest_accumulator (Macr _ _ _ d) = Some d"

definition is_logical_or_shift :: "parallel_alu \<Rightarrow> bool" where
  "is_logical_or_shift alu = (case alu of
     And _ _ \<Rightarrow> True | Or _ _ \<Rightarrow> True | Eor _ _ \<Rightarrow> True | Not_alu _ \<Rightarrow> True
   | Asl _ \<Rightarrow> True | Asr _ \<Rightarrow> True | Lsl _ \<Rightarrow> True | Lsr _ \<Rightarrow> True
   | Rol _ \<Rightarrow> True | Ror _ \<Rightarrow> True | _ \<Rightarrow> False)"

section \<open>Printing\<close>

definition acc_name :: "accumulator \<Rightarrow> string" where
  "acc_name a = (case a of Acc_A \<Rightarrow> ''a'' | Acc_B \<Rightarrow> ''b'')"

definition xy_pair_name :: "nat \<Rightarrow> string option" where
  "xy_pair_name hi = switch hi [(reg_X1, Some ''x''), (reg_Y1, Some ''y'')] None"

text \<open>\<open>None\<close> is the panic of indexing \<^verbatim>\<open>REGISTER_NAMES\<close> out of bounds.\<close>

definition register_name :: "nat \<Rightarrow> string option" where
  "register_name r = (if r < length REGISTER_NAMES then Some (REGISTER_NAMES ! r) else None)"

definition show_acc :: "string \<Rightarrow> accumulator \<Rightarrow> string option" where
  "show_acc m d = Some (m @ '' '' @ acc_name d)"

definition show_acc_acc :: "string \<Rightarrow> accumulator \<Rightarrow> accumulator \<Rightarrow> string option" where
  "show_acc_acc m src d = Some (m @ '' '' @ acc_name src @ '','' @ acc_name d)"

definition show_xy :: "string \<Rightarrow> nat \<Rightarrow> accumulator \<Rightarrow> string option" where
  "show_xy m hi d = do {
     n \<leftarrow> xy_pair_name hi;
     Some (m @ '' '' @ n @ '','' @ acc_name d)
   }"

definition show_reg :: "string \<Rightarrow> nat \<Rightarrow> accumulator \<Rightarrow> string option" where
  "show_reg m src d = do {
     n \<leftarrow> register_name src;
     Some (m @ '' '' @ n @ '','' @ acc_name d)
   }"

definition show_mpy :: "string \<Rightarrow> bool \<Rightarrow> nat \<Rightarrow> nat \<Rightarrow> accumulator \<Rightarrow> string option" where
  "show_mpy m negate s1 s2 d = do {
     n1 \<leftarrow> register_name s1;
     n2 \<leftarrow> register_name s2;
     Some (m @ '' '' @ (if negate then ''-'' else ''+'') @ n1 @ '','' @ n2 @ '','' @ acc_name d)
   }"

fun parallel_alu_fmt :: "parallel_alu \<Rightarrow> string option" where
  "parallel_alu_fmt Move = Some ''move''"
| "parallel_alu_fmt (TfrAcc src d) = show_acc_acc ''tfr'' src d"
| "parallel_alu_fmt (Addr src d) = show_acc_acc ''addr'' src d"
| "parallel_alu_fmt (Tst d) = show_acc ''tst'' d"
| "parallel_alu_fmt (CmpAcc src d) = show_acc_acc ''cmp'' src d"
| "parallel_alu_fmt (Subr src d) = show_acc_acc ''subr'' src d"
| "parallel_alu_fmt (CmpmAcc src d) = show_acc_acc ''cmpm'' src d"
| "parallel_alu_fmt (AddAcc src d) = show_acc_acc ''add'' src d"
| "parallel_alu_fmt (Rnd d) = show_acc ''rnd'' d"
| "parallel_alu_fmt (Addl src d) = show_acc_acc ''addl'' src d"
| "parallel_alu_fmt (Clr d) = show_acc ''clr'' d"
| "parallel_alu_fmt (SubAcc src d) = show_acc_acc ''sub'' src d"
| "parallel_alu_fmt Max_alu = Some ''max a,b''"
| "parallel_alu_fmt Maxm = Some ''maxm a,b''"
| "parallel_alu_fmt (Subl src d) = show_acc_acc ''subl'' src d"
| "parallel_alu_fmt (Not_alu d) = show_acc ''not'' d"
| "parallel_alu_fmt (AddXY hi _ d) = show_xy ''add'' hi d"
| "parallel_alu_fmt (Adc hi _ d) = show_xy ''adc'' hi d"
| "parallel_alu_fmt (SubXY hi _ d) = show_xy ''sub'' hi d"
| "parallel_alu_fmt (Sbc hi _ d) = show_xy ''sbc'' hi d"
| "parallel_alu_fmt (Asr d) = show_acc ''asr'' d"
| "parallel_alu_fmt (Lsr d) = show_acc ''lsr'' d"
| "parallel_alu_fmt (Abs d) = show_acc ''abs'' d"
| "parallel_alu_fmt (Ror d) = show_acc ''ror'' d"
| "parallel_alu_fmt (Asl d) = show_acc ''asl'' d"
| "parallel_alu_fmt (Lsl d) = show_acc ''lsl'' d"
| "parallel_alu_fmt (Neg d) = show_acc ''neg'' d"
| "parallel_alu_fmt (Rol d) = show_acc ''rol'' d"
| "parallel_alu_fmt (AddReg src d) = show_reg ''add'' src d"
| "parallel_alu_fmt (TfrReg src d) = show_reg ''tfr'' src d"
| "parallel_alu_fmt (Or src d) = show_reg ''or'' src d"
| "parallel_alu_fmt (Eor src d) = show_reg ''eor'' src d"
| "parallel_alu_fmt (SubReg src d) = show_reg ''sub'' src d"
| "parallel_alu_fmt (CmpReg src d) = show_reg ''cmp'' src d"
| "parallel_alu_fmt (And src d) = show_reg ''and'' src d"
| "parallel_alu_fmt (CmpmReg src d) = show_reg ''cmpm'' src d"
| "parallel_alu_fmt (Mpy negate s1 s2 d) = show_mpy ''mpy'' negate s1 s2 d"
| "parallel_alu_fmt (Mpyr negate s1 s2 d) = show_mpy ''mpyr'' negate s1 s2 d"
| "parallel_alu_fmt (Mac negate s1 s2 d) = show_mpy ''mac'' negate s1 s2 d"
| "parallel_alu_fmt (Macr negate s1 s2 d) = show_mpy ''macr'' negate s1 s2 d"
| "parallel_alu_fmt Undefined = Some ''undefined''"

section \<open>Parsing\<close>

definition parse_acc :: "string \<Rightarrow> accumulator option" where
  "parse_acc s = switch s [(''a'', Some Acc_A), (''b'', Some Acc_B)] None"

definition parse_jj_reg :: "string \<Rightarrow> nat option" where
  "parse_jj_reg s = switch s
     [(''x0'', Some reg_X0), (''y0'', Some reg_Y0), (''x1'', Some reg_X1), (''y1'', Some reg_Y1)]
     None"

definition parse_xy_pair :: "string \<Rightarrow> (nat \<times> nat) option" where
  "parse_xy_pair s = switch s
     [(''x'', Some (reg_X1, reg_X0)), (''y'', Some (reg_Y1, reg_Y0))] None"

definition parse_qqq_pair :: "string \<Rightarrow> string \<Rightarrow> (nat \<times> nat) option" where
  "parse_qqq_pair s1 s2 = do {
     r1 \<leftarrow> parse_jj_reg s1;
     r2 \<leftarrow> parse_jj_reg s2;
     if (r1, r2) \<in> {(reg_X0, reg_X0), (reg_Y0, reg_Y0), (reg_X1, reg_X0), (reg_Y1, reg_Y0),
                    (reg_X0, reg_Y1), (reg_Y0, reg_X0), (reg_X1, reg_Y0), (reg_Y1, reg_X1)}
     then Some (r1, r2) else None
   }"

definition from_text_unary :: "string \<Rightarrow> string list \<Rightarrow> parallel_alu option" where
  "from_text_unary mnemonic ops = do {
     o0 \<leftarrow> (case ops of [] \<Rightarrow> None | x # _ \<Rightarrow> Some x);
     d \<leftarrow> parse_acc o0;
     switch mnemonic
       [(''tst'', Some (Tst d)), (''rnd'', Some (Rnd d)), (''clr'', Some (Clr d)),
        (''not'', Some (Not_alu d)), (''asr'', Some (Asr d)), (''lsr'', Some (Lsr d)),
        (''abs'', Some (Abs d)), (''ror'', Some (Ror d)), (''asl'', Some (Asl d)),
        (''lsl'', Some (Lsl d)), (''neg'', Some (Neg d)), (''rol'', Some (Rol d))] None
   }"

definition from_text_binary :: "string \<Rightarrow> string list \<Rightarrow> parallel_alu option" where
  "from_text_binary mnemonic ops =
    (if length ops \<noteq> 2 then None
     else do {
       d \<leftarrow> parse_acc (ops ! 1);
       let src_str = ops ! 0;
       case parse_acc src_str of
         Some src \<Rightarrow>
           switch mnemonic
             [(''tfr'', Some (TfrAcc src d)), (''addr'', Some (Addr src d)),
              (''cmp'', Some (CmpAcc src d)), (''subr'', Some (Subr src d)),
              (''cmpm'', Some (CmpmAcc src d)), (''add'', Some (AddAcc src d)),
              (''addl'', Some (Addl src d)), (''sub'', Some (SubAcc src d)),
              (''subl'', Some (Subl src d))] None
       | None \<Rightarrow>
           (case parse_xy_pair src_str of
              Some (hi, lo) \<Rightarrow>
                switch mnemonic
                  [(''add'', Some (AddXY hi lo d)), (''adc'', Some (Adc hi lo d)),
                   (''sub'', Some (SubXY hi lo d)), (''sbc'', Some (Sbc hi lo d))] None
            | None \<Rightarrow>
                (case parse_jj_reg src_str of
                   Some src \<Rightarrow>
                     switch mnemonic
                       [(''add'', Some (AddReg src d)), (''tfr'', Some (TfrReg src d)),
                        (''or'', Some (Or src d)), (''eor'', Some (Eor src d)),
                        (''sub'', Some (SubReg src d)), (''cmp'', Some (CmpReg src d)),
                        (''and'', Some (And src d)), (''cmpm'', Some (CmpmReg src d))] None
                 | None \<Rightarrow> None))
     })"

definition from_text_mpy :: "string \<Rightarrow> string list \<Rightarrow> parallel_alu option" where
  "from_text_mpy mnemonic ops =
    (if length ops \<noteq> 3 then None
     else do {
       d \<leftarrow> parse_acc (ops ! 2);
       (negate, s1_str) \<leftarrow>
         (case strip_prefix (CHR ''-'') (ops ! 0) of
            Some rest \<Rightarrow> Some (True, rest)
          | None \<Rightarrow> do { rest \<leftarrow> strip_prefix (CHR ''+'') (ops ! 0); Some (False, rest) });
       (s1, s2) \<leftarrow> parse_qqq_pair s1_str (ops ! 1);
       switch mnemonic
         [(''mpy'', Some (Mpy negate s1 s2 d)), (''mpyr'', Some (Mpyr negate s1 s2 d)),
          (''mac'', Some (Mac negate s1 s2 d)), (''macr'', Some (Macr negate s1 s2 d))] None
     })"

definition from_text :: "string \<Rightarrow> parallel_alu option" where
  "from_text text =
    (if text = ''move'' then Some Move
     else do {
       (mnemonic, operands) \<leftarrow> split_once (CHR '' '') text;
       let ops = split_char (CHR '','') operands;
       if mnemonic \<in> set [''tst'', ''rnd'', ''clr'', ''not'', ''asr'', ''lsr'', ''abs'',
                          ''ror'', ''asl'', ''lsl'', ''neg'', ''rol'']
       then from_text_unary mnemonic ops
       else if mnemonic \<in> set [''tfr'', ''add'', ''sub'', ''cmp'', ''cmpm'', ''addr'', ''subr'',
                               ''addl'', ''subl'', ''adc'', ''sbc'', ''or'', ''eor'', ''and'']
       then from_text_binary mnemonic ops
       else if mnemonic \<in> set [''max'', ''maxm'']
       then (if length ops = 2 \<and> ops ! 0 = ''a'' \<and> ops ! 1 = ''b''
             then Some (if mnemonic = ''max'' then Max_alu else Maxm) else None)
       else if mnemonic \<in> set [''mpy'', ''mpyr'', ''mac'', ''macr'']
       then from_text_mpy mnemonic ops
       else None
     })"

end
