(* ===== verification/Instr.thy ===== *)
theory Instr
  imports Parallel_Alu
begin

text \<open>
  \<^verbatim>\<open>crates/core/src/lib.rs\<close>: the type of decoded instructions. The enum \<^verbatim>\<open>Instruction\<close> has 181
  variants under section comments; each section is a datatype here, with the source's variant
  names as constructors and its fields in the source's order, and the type \<open>instruction\<close> wraps
  the sections. The variants that stand alone (the parallel instruction, \<^verbatim>\<open>Tcc\<close>, \<^verbatim>\<open>Vsl\<close> and the
  two fallbacks) are constructors of \<open>instruction\<close> itself.
\<close>

section \<open>Parallel move types\<close>

datatype parallel_move_type = Pm0 | Pm1 | Pm2 | Pm3 | Pm4 | Pm5 | Pm8

text \<open>\<open>None\<close> is the \<^verbatim>\<open>unreachable!()\<close> arm of \<^verbatim>\<open>ParallelMoveType::from_bits\<close>.\<close>

definition move_type_from_bits :: "u32 \<Rightarrow> parallel_move_type option" where
  "move_type_from_bits bits =
    (if bits = 0 then Some Pm0
     else if bits = 1 then Some Pm1
     else if bits = 2 then Some Pm2
     else if bits = 3 then Some Pm3
     else if bits = 4 then Some Pm4
     else if 5 \<le> bits \<and> bits \<le> 7 then Some Pm5
     else if 8 \<le> bits \<and> bits \<le> 15 then Some Pm8
     else None)"

section \<open>Instructions\<close>

text \<open>The group \<open>arith\<close>: the arithmetic group with an immediate, and \<^verbatim>\<open>cmpu\<close>.\<close>

datatype arith_instr =
    AddImm u8 accumulator
  | AddLong accumulator
  | SubImm u8 accumulator
  | SubLong accumulator
  | CmpImm u8 accumulator
  | CmpLong accumulator
  | CmpU nat accumulator
  | AndImm u8 accumulator
  | AndLong accumulator
  | OrLong accumulator
  | OrImm u8 accumulator
  | EorImm u8 accumulator
  | EorLong accumulator
  | AndI u8 u8
  | OrI u8 u8

text \<open>The group \<open>shift\<close>: shifts.\<close>

datatype shift_instr =
    AslImm u8 accumulator accumulator
  | AsrImm u8 accumulator accumulator
  | LslImm u8 accumulator
  | LsrImm u8 accumulator
  | AslReg nat accumulator accumulator
  | AsrReg nat accumulator accumulator
  | LslReg nat accumulator
  | LsrReg nat accumulator

text \<open>The group \<open>branch\<close>: branches and jumps.\<close>

datatype branch_instr =
    Bcc cond_code i32
  | BccLong cond_code
  | Bra i32
  | BraLong
  | Bsr i32
  | BsrLong
  | BccRn cond_code u8
  | BraRn u8
  | BsrRn u8
  | Bscc cond_code i32
  | BsccLong cond_code
  | BsccRn cond_code u8
  | Brkcc cond_code
  | Jcc cond_code u32
  | JccEa cond_code u8
  | Jmp u32
  | JmpEa u8
  | Jscc cond_code u32
  | JsccEa cond_code u8
  | Jsr u32
  | JsrEa u8

text \<open>The group \<open>bitop\<close>: bit manipulation.\<close>

datatype bitop_instr =
    BchgEa mem_space u8 u8
  | BchgAa mem_space u8 u8
  | BchgPp mem_space u8 u8
  | BchgQq mem_space u8 u8
  | BchgReg u8 u8
  | BclrEa mem_space u8 u8
  | BclrAa mem_space u8 u8
  | BclrPp mem_space u8 u8
  | BclrQq mem_space u8 u8
  | BclrReg u8 u8
  | BsetEa mem_space u8 u8
  | BsetAa mem_space u8 u8
  | BsetPp mem_space u8 u8
  | BsetQq mem_space u8 u8
  | BsetReg u8 u8
  | BtstEa mem_space u8 u8
  | BtstAa mem_space u8 u8
  | BtstPp mem_space u8 u8
  | BtstQq mem_space u8 u8
  | BtstReg u8 u8

text \<open>The group \<open>bit_branch\<close>: branch on a bit.\<close>

datatype bit_branch_instr =
    BrclrEa mem_space u8 u8
  | BrclrAa mem_space u8 u8
  | BrclrPp mem_space u8 u8
  | BrclrQq mem_space u8 u8
  | BrclrReg u8 u8
  | BrsetEa mem_space u8 u8
  | BrsetAa mem_space u8 u8
  | BrsetPp mem_space u8 u8
  | BrsetQq mem_space u8 u8
  | BrsetReg u8 u8

text \<open>The group \<open>bit_bsr\<close>: branch to subroutine on a bit.\<close>

datatype bit_bsr_instr =
    BsclrEa mem_space u8 u8
  | BsclrAa mem_space u8 u8
  | BsclrPp mem_space u8 u8
  | BsclrQq mem_space u8 u8
  | BsclrReg u8 u8
  | BssetEa mem_space u8 u8
  | BssetAa mem_space u8 u8
  | BssetPp mem_space u8 u8
  | BssetQq mem_space u8 u8
  | BssetReg u8 u8

text \<open>The group \<open>bit_jump\<close>: jump on a bit.\<close>

datatype bit_jump_instr =
    JclrEa mem_space u8 u8
  | JclrAa mem_space u8 u8
  | JclrPp mem_space u8 u8
  | JclrQq mem_space u8 u8
  | JclrReg u8 u8
  | JsetEa mem_space u8 u8
  | JsetAa mem_space u8 u8
  | JsetPp mem_space u8 u8
  | JsetQq mem_space u8 u8
  | JsetReg u8 u8
  | JsclrEa mem_space u8 u8
  | JsclrAa mem_space u8 u8
  | JsclrPp mem_space u8 u8
  | JsclrQq mem_space u8 u8
  | JsclrReg u8 u8
  | JssetEa mem_space u8 u8
  | JssetAa mem_space u8 u8
  | JssetPp mem_space u8 u8
  | JssetQq mem_space u8 u8
  | JssetReg u8 u8

text \<open>The group \<open>loop\<close>: hardware loops.\<close>

datatype loop_instr =
    DoEa mem_space u8
  | DoAa mem_space u8
  | DoImm u16
  | DoReg u8
  | DoForever
  | DorEa mem_space u8
  | DorAa mem_space u8
  | DorImm u16
  | DorReg u8
  | DorForever
  | EndDo
  | RepEa mem_space u8
  | RepAa mem_space u8
  | RepImm u16
  | RepReg u8

text \<open>The group \<open>move\<close>: moves.\<close>

datatype move_instr =
    MoveLongDisp mem_space bool u8 u8
  | MoveShortDisp mem_space u8 bool u8 u8
  | MovecEa u8 u8 bool mem_space
  | MovecAa u8 u8 bool mem_space
  | MovecReg u8 u8 bool
  | MovecImm u8 u8
  | MovemEa u8 u8 bool
  | MovemAa u8 u8 bool
  | Movep23 u8 u8 bool mem_space mem_space
  | MovepQq u8 u8 bool mem_space mem_space
  | Movep1 u8 u8 bool mem_space
  | Movep0 u8 u8 bool mem_space
  | MovepQqPea u8 u8 bool mem_space
  | MovepQqR u8 u8 bool mem_space

text \<open>The group \<open>mul\<close>: multiplications and the division step.\<close>

datatype mul_instr =
    MulShift mul_shift_op u8 nat accumulator bool
  | MpyI bool accumulator nat
  | MpyrI bool accumulator nat
  | MacI bool accumulator nat
  | MacrI bool accumulator nat
  | Dmac u8 bool accumulator nat nat
  | MacSU u8 bool accumulator nat nat
  | MpySU u8 bool accumulator nat nat
  | Div nat accumulator

text \<open>The group \<open>address\<close>: address arithmetic.\<close>

datatype address_instr =
    Lua u8 u8
  | LuaRel u8 u8 u8 bool
  | LraRn u8 u8
  | LraDisp u8
  | Norm u8 accumulator

text \<open>The group \<open>misc\<close>: program control and system instructions.\<close>

datatype misc_instr =
    Nop
  | Dec accumulator
  | Inc accumulator
  | Illegal
  | Reset
  | Rti
  | Rts
  | Stop
  | Wait

text \<open>The group \<open>special\<close>: specialised instructions, traps and debug.\<close>

datatype special_instr =
    Clb accumulator accumulator
  | Normf nat accumulator
  | Debug
  | Debugcc cond_code
  | Trap
  | Trapcc cond_code

text \<open>The group \<open>field\<close>: bit-field instructions.\<close>

datatype field_instr =
    Merge nat accumulator
  | ExtractReg nat accumulator accumulator
  | ExtractImm accumulator accumulator
  | ExtractuReg nat accumulator accumulator
  | ExtractuImm accumulator accumulator
  | InsertReg nat nat accumulator
  | InsertImm nat accumulator

text \<open>The group \<open>cache\<close>: instruction-cache control.\<close>

datatype cache_instr =
    Pflush
  | Pflushun
  | Pfree
  | PlockEa u8
  | Plockr
  | PunlockEa u8
  | Punlockr


text \<open>All instructions.\<close>

datatype instruction =
    Parallel parallel_alu parallel_move_type u32
  | Arith arith_instr
  | Shift shift_instr
  | Branch branch_instr
  | Bitop bitop_instr
  | Bit_branch bit_branch_instr
  | Bit_bsr bit_bsr_instr
  | Bit_jump bit_jump_instr
  | Loop loop_instr
  | Move_op move_instr
  | Mul mul_instr
  | Address address_instr
  | Misc misc_instr
  | Special special_instr
  | Field field_instr
  | Cache cache_instr
  | Tcc cond_code "(nat \<times> nat) option" "(u8 \<times> u8) option"
  | Vsl accumulator u8 u8
  | Unimplemented string u32
  | Unknown u32

lemma move_type_from_bits_Some: "bits < 16 \<Longrightarrow> \<exists>m. move_type_from_bits bits = Some m"
proof -
  assume "bits < 16"
  then have "unat bits < 16" by unat_arith
  then have "bits \<in> word_of_nat ` {..<16}" by (rule word_in_image)
  then have "bits \<in> set (map word_of_nat [0..<16])" by (simp add: atLeast0LessThan)
  moreover have "list_all (\<lambda>b. move_type_from_bits b \<noteq> None) (map word_of_nat [0..<16])"
    by code_simp
  ultimately show ?thesis by (auto simp: list_all_iff)
qed

end
