(* ===== verification/Opcode_Table.thy ===== *)
theory Opcode_Table
  imports Instr
begin

text \<open>
  \<^verbatim>\<open>crates/core/src/decode.rs\<close>, first part: the template machinery, the shapes of the macro
  \<^verbatim>\<open>op!\<close> and the table of the 185 non-parallel opcodes. A template is its 24 characters, most
  significant bit first: \<open>0\<close> and \<open>1\<close> are fixed bits, every other letter marks the bits of a
  field. A decode function returns \<open>None\<close> where the code would panic (an \<^verbatim>\<open>unreachable!()\<close>
  field value); that this never happens is proved in \<open>Decode_Laws\<close>.
\<close>

section \<open>Templates\<close>

definition template_to_mask_match :: "string \<Rightarrow> u32 \<times> u32" where
  "template_to_mask_match tmpl =
    fold (\<lambda>i (mask, match_val).
        let bit = 23 - i in
        if tmpl ! i = CHR ''0'' then (mask OR push_bit bit 1, match_val)
        else if tmpl ! i = CHR ''1'' then (mask OR push_bit bit 1, match_val OR push_bit bit 1)
        else (mask, match_val))
      [0..<24] (0, 0)"

definition tmpl_has_mmmrrr :: "string \<Rightarrow> bool" where
  "tmpl_has_mmmrrr tmpl = list_ex (\<lambda>i. tmpl ! i = CHR ''M'') [0..<24]"

definition match_mmmrrr :: "u32 \<Rightarrow> bool" where
  "match_mmmrrr op =
    (let rrr = drop_bit 8 op AND 0x7;
         mmm = drop_bit 11 op AND 0x7
     in if mmm = 0x6 then rrr = 0x0 \<or> rrr = 0x4 else True)"

text \<open>\<^verbatim>\<open>opcode &= !0x0300\<close> and, for a write, \<^verbatim>\<open>opcode &= !0x0400\<close>.\<close>

definition normalize_mode6_ea :: "u32 \<Rightarrow> u32" where
  "normalize_mode6_ea opcode =
    (let mmm = drop_bit 11 opcode AND 7
     in if mmm \<noteq> 6 then opcode
        else let opcode = opcode AND NOT 0x0300
             in if \<not> bit opcode 15 then opcode AND NOT 0x0400 else opcode)"

section \<open>Field extraction\<close>

definition tmpl_field :: "string \<Rightarrow> char \<Rightarrow> u32 \<Rightarrow> u32" where
  "tmpl_field tmpl letter op =
    fold (\<lambda>i result.
        if tmpl ! i = letter then push_bit 1 result OR (drop_bit (23 - i) op AND 1) else result)
      [0..<24] 0"

definition tmpl_field2 :: "string \<Rightarrow> char \<Rightarrow> char \<Rightarrow> u32 \<Rightarrow> u32" where
  "tmpl_field2 tmpl hi lo op =
    (let lo_val = tmpl_field tmpl lo op;
         lo_width = fold (\<lambda>i w. if tmpl ! i = lo then w + 1 else w) [0..<24] (0::nat)
     in push_bit lo_width (tmpl_field tmpl hi op) OR lo_val)"

definition tmpl_space :: "string \<Rightarrow> char \<Rightarrow> u32 \<Rightarrow> mem_space option" where
  "tmpl_space tmpl letter op = mem_space_xy (tmpl_field tmpl letter op)"

definition tmpl_ea :: "string \<Rightarrow> u32 \<Rightarrow> u8" where
  "tmpl_ea tmpl op = ucast (tmpl_field2 tmpl (CHR ''M'') (CHR ''R'') op)"

definition tmpl_bit :: "string \<Rightarrow> u32 \<Rightarrow> u8" where
  "tmpl_bit tmpl op = ucast (tmpl_field tmpl (CHR ''b'') op)"

definition tmpl_addr :: "string \<Rightarrow> u32 \<Rightarrow> u8" where
  "tmpl_addr tmpl op = ucast (tmpl_field tmpl (CHR ''a'') op)"

definition tmpl_pp :: "string \<Rightarrow> u32 \<Rightarrow> u8" where
  "tmpl_pp tmpl op = ucast (tmpl_field tmpl (CHR ''p'') op)"

definition tmpl_qq :: "string \<Rightarrow> u32 \<Rightarrow> u8" where
  "tmpl_qq tmpl op = ucast (tmpl_field tmpl (CHR ''q'') op)"

definition tmpl_reg :: "string \<Rightarrow> char \<Rightarrow> u32 \<Rightarrow> u8" where
  "tmpl_reg tmpl letter op = ucast (tmpl_field tmpl letter op)"

definition tmpl_acc :: "string \<Rightarrow> char \<Rightarrow> u32 \<Rightarrow> accumulator" where
  "tmpl_acc tmpl letter op = (if tmpl_field tmpl letter op = 0 then Acc_A else Acc_B)"

definition tmpl_cc :: "string \<Rightarrow> u32 \<Rightarrow> cond_code option" where
  "tmpl_cc tmpl op = cond_code_from_bits (tmpl_field tmpl (CHR ''C'') op)"

definition tmpl_w :: "string \<Rightarrow> u32 \<Rightarrow> bool" where
  "tmpl_w tmpl op \<longleftrightarrow> tmpl_field tmpl (CHR ''W'') op \<noteq> 0"

definition tmpl_count :: "string \<Rightarrow> u32 \<Rightarrow> u16" where
  "tmpl_count tmpl op = ucast (tmpl_field2 tmpl (CHR ''h'') (CHR ''i'') op)"

definition tmpl_imm :: "string \<Rightarrow> u32 \<Rightarrow> u8" where
  "tmpl_imm tmpl op = ucast (tmpl_field tmpl (CHR ''i'') op)"

definition tmpl_sext9 :: "string \<Rightarrow> u32 \<Rightarrow> i32" where
  "tmpl_sext9 tmpl op =
    (let val = tmpl_field tmpl (CHR ''a'') op
     in if bit val 8 then val OR 0xFFFFFE00 else val)"

definition dec_tcc :: "u32 \<Rightarrow> instruction option" where
  "dec_tcc op =
    (let bit16 = (drop_bit 16 op AND 1 \<noteq> 0);
         bit11 = (drop_bit 11 op AND 1 \<noteq> 0);
         acc = (if \<not> bit11 then Some (REGISTERS_TCC ! unat (drop_bit 3 op AND 0xF)) else None);
         r = (if bit16 \<or> bit11 then Some (ucast (drop_bit 8 op AND 0x7), ucast (op AND 0x7))
              else None)
     in do {
       cc \<leftarrow> cond_code_from_bits (drop_bit 12 op AND 0xF);
       Some (Tcc cc acc r)
     })"

section \<open>Table entries\<close>

record opcode_entry =
  oe_mask :: u32
  oe_match :: u32
  oe_name :: string
  oe_has_mmmrrr :: bool
  oe_mode6_ok :: bool
  oe_decode :: "(u32 \<Rightarrow> instruction option) option"

text \<open>The lengths of the templates are asserted when the table is built (\<open>Decode_Laws\<close>).\<close>

definition entry :: "string \<Rightarrow> string \<Rightarrow> (u32 \<Rightarrow> instruction option) option \<Rightarrow> opcode_entry" where
  "entry tmpl name decode =
    (let (mask, match_val) = template_to_mask_match tmpl
     in \<lparr>oe_mask = mask, oe_match = match_val, oe_name = name,
         oe_has_mmmrrr = tmpl_has_mmmrrr tmpl, oe_mode6_ok = True, oe_decode = decode\<rparr>)"

definition no_mode6 :: "opcode_entry \<Rightarrow> opcode_entry" where
  "no_mode6 e = e\<lparr>oe_mode6_ok := False\<rparr>"

section \<open>The shapes of the macro \<^verbatim>\<open>op!\<close>\<close>

text \<open>
  A shape takes the wrapper of the variant's group and the variant. \<open>op_fn\<close> is the closure form
  (the closure sees its own template), \<open>op_dec_fn\<close> the \<^verbatim>\<open>fn\<close> form.
\<close>

definition op_dec_fn :: "string \<Rightarrow> string \<Rightarrow> (u32 \<Rightarrow> instruction option) \<Rightarrow> opcode_entry" where
  "op_dec_fn tmpl name f = entry tmpl name (Some f)"

definition op_fn :: "string \<Rightarrow> string \<Rightarrow> (string \<Rightarrow> u32 \<Rightarrow> instruction option) \<Rightarrow> opcode_entry" where
  "op_fn tmpl name f = entry tmpl name (Some (f tmpl))"

definition op_unit :: "string \<Rightarrow> string \<Rightarrow> instruction \<Rightarrow> opcode_entry" where
  "op_unit tmpl name v = entry tmpl name (Some (\<lambda>_. Some v))"

definition op_bit_ea ::
  "string \<Rightarrow> string \<Rightarrow> ('g \<Rightarrow> instruction) \<Rightarrow> (mem_space \<Rightarrow> u8 \<Rightarrow> u8 \<Rightarrow> 'g) \<Rightarrow> opcode_entry" where
  "op_bit_ea tmpl name G V = op_fn tmpl name (\<lambda>T opc. do {
     space \<leftarrow> tmpl_space T (CHR ''S'') opc;
     Some (G (V space (tmpl_ea T opc) (tmpl_bit T opc)))
   })"

definition op_bit_aa ::
  "string \<Rightarrow> string \<Rightarrow> ('g \<Rightarrow> instruction) \<Rightarrow> (mem_space \<Rightarrow> u8 \<Rightarrow> u8 \<Rightarrow> 'g) \<Rightarrow> opcode_entry" where
  "op_bit_aa tmpl name G V = op_fn tmpl name (\<lambda>T opc. do {
     space \<leftarrow> tmpl_space T (CHR ''S'') opc;
     Some (G (V space (tmpl_addr T opc) (tmpl_bit T opc)))
   })"

definition op_bit_pp ::
  "string \<Rightarrow> string \<Rightarrow> ('g \<Rightarrow> instruction) \<Rightarrow> (mem_space \<Rightarrow> u8 \<Rightarrow> u8 \<Rightarrow> 'g) \<Rightarrow> opcode_entry" where
  "op_bit_pp tmpl name G V = op_fn tmpl name (\<lambda>T opc. do {
     space \<leftarrow> tmpl_space T (CHR ''S'') opc;
     Some (G (V space (tmpl_pp T opc) (tmpl_bit T opc)))
   })"

definition op_bit_qq ::
  "string \<Rightarrow> string \<Rightarrow> ('g \<Rightarrow> instruction) \<Rightarrow> (mem_space \<Rightarrow> u8 \<Rightarrow> u8 \<Rightarrow> 'g) \<Rightarrow> opcode_entry" where
  "op_bit_qq tmpl name G V = op_fn tmpl name (\<lambda>T opc. do {
     space \<leftarrow> tmpl_space T (CHR ''S'') opc;
     Some (G (V space (tmpl_qq T opc) (tmpl_bit T opc)))
   })"

definition op_bit_reg ::
  "string \<Rightarrow> string \<Rightarrow> ('g \<Rightarrow> instruction) \<Rightarrow> (u8 \<Rightarrow> u8 \<Rightarrow> 'g) \<Rightarrow> opcode_entry" where
  "op_bit_reg tmpl name G V = op_fn tmpl name (\<lambda>T opc. Some (G (V (tmpl_reg T (CHR ''D'') opc) (tmpl_bit T opc))))"

definition op_loop_ea ::
  "string \<Rightarrow> string \<Rightarrow> ('g \<Rightarrow> instruction) \<Rightarrow> (mem_space \<Rightarrow> u8 \<Rightarrow> 'g) \<Rightarrow> opcode_entry" where
  "op_loop_ea tmpl name G V = op_fn tmpl name (\<lambda>T opc. do {
     space \<leftarrow> tmpl_space T (CHR ''S'') opc;
     Some (G (V space (tmpl_ea T opc)))
   })"

definition op_loop_aa ::
  "string \<Rightarrow> string \<Rightarrow> ('g \<Rightarrow> instruction) \<Rightarrow> (mem_space \<Rightarrow> u8 \<Rightarrow> 'g) \<Rightarrow> opcode_entry" where
  "op_loop_aa tmpl name G V = op_fn tmpl name (\<lambda>T opc. do {
     space \<leftarrow> tmpl_space T (CHR ''S'') opc;
     Some (G (V space (tmpl_addr T opc)))
   })"

definition op_loop_imm ::
  "string \<Rightarrow> string \<Rightarrow> ('g \<Rightarrow> instruction) \<Rightarrow> (u16 \<Rightarrow> 'g) \<Rightarrow> opcode_entry" where
  "op_loop_imm tmpl name G V = op_fn tmpl name (\<lambda>T opc. Some (G (V (tmpl_count T opc))))"

definition op_loop_reg ::
  "string \<Rightarrow> string \<Rightarrow> char \<Rightarrow> ('g \<Rightarrow> instruction) \<Rightarrow> (u8 \<Rightarrow> 'g) \<Rightarrow> opcode_entry" where
  "op_loop_reg tmpl name letter G V = op_fn tmpl name (\<lambda>T opc. Some (G (V (tmpl_reg T letter opc))))"

definition op_alu_imm ::
  "string \<Rightarrow> string \<Rightarrow> ('g \<Rightarrow> instruction) \<Rightarrow> (u8 \<Rightarrow> accumulator \<Rightarrow> 'g) \<Rightarrow> opcode_entry" where
  "op_alu_imm tmpl name G V = op_fn tmpl name (\<lambda>T opc. Some (G (V (tmpl_imm T opc) (tmpl_acc T (CHR ''d'') opc))))"

definition op_alu_long ::
  "string \<Rightarrow> string \<Rightarrow> ('g \<Rightarrow> instruction) \<Rightarrow> (accumulator \<Rightarrow> 'g) \<Rightarrow> opcode_entry" where
  "op_alu_long tmpl name G V = op_fn tmpl name (\<lambda>T opc. Some (G (V (tmpl_acc T (CHR ''d'') opc))))"

definition op_cc ::
  "string \<Rightarrow> string \<Rightarrow> ('g \<Rightarrow> instruction) \<Rightarrow> (cond_code \<Rightarrow> 'g) \<Rightarrow> opcode_entry" where
  "op_cc tmpl name G V = op_fn tmpl name (\<lambda>T opc. do {
     cc \<leftarrow> tmpl_cc T opc;
     Some (G (V cc))
   })"

definition op_cc_rn ::
  "string \<Rightarrow> string \<Rightarrow> ('g \<Rightarrow> instruction) \<Rightarrow> (cond_code \<Rightarrow> u8 \<Rightarrow> 'g) \<Rightarrow> opcode_entry" where
  "op_cc_rn tmpl name G V = op_fn tmpl name (\<lambda>T opc. do {
     cc \<leftarrow> tmpl_cc T opc;
     Some (G (V cc (ucast (tmpl_field T (CHR ''R'') opc))))
   })"

definition op_cc_ea ::
  "string \<Rightarrow> string \<Rightarrow> ('g \<Rightarrow> instruction) \<Rightarrow> (cond_code \<Rightarrow> u8 \<Rightarrow> 'g) \<Rightarrow> opcode_entry" where
  "op_cc_ea tmpl name G V = op_fn tmpl name (\<lambda>T opc. do {
     cc \<leftarrow> tmpl_cc T opc;
     Some (G (V cc (tmpl_ea T opc)))
   })"

definition op_ea ::
  "string \<Rightarrow> string \<Rightarrow> ('g \<Rightarrow> instruction) \<Rightarrow> (u8 \<Rightarrow> 'g) \<Rightarrow> opcode_entry" where
  "op_ea tmpl name G V = op_fn tmpl name (\<lambda>T opc. Some (G (V (tmpl_ea T opc))))"

definition op_acc ::
  "string \<Rightarrow> string \<Rightarrow> ('g \<Rightarrow> instruction) \<Rightarrow> (accumulator \<Rightarrow> 'g) \<Rightarrow> opcode_entry" where
  "op_acc tmpl name G V = op_fn tmpl name (\<lambda>T opc. Some (G (V (tmpl_acc T (CHR ''d'') opc))))"

definition op_rn ::
  "string \<Rightarrow> string \<Rightarrow> ('g \<Rightarrow> instruction) \<Rightarrow> (u8 \<Rightarrow> 'g) \<Rightarrow> opcode_entry" where
  "op_rn tmpl name G V = op_fn tmpl name (\<lambda>T opc. Some (G (V (ucast (tmpl_field T (CHR ''R'') opc)))))"

definition op_shift_imm ::
  "string \<Rightarrow> string \<Rightarrow> ('g \<Rightarrow> instruction) \<Rightarrow> (u8 \<Rightarrow> accumulator \<Rightarrow> 'g) \<Rightarrow> opcode_entry" where
  "op_shift_imm tmpl name G V = op_fn tmpl name (\<lambda>T opc. 
     Some (G (V (tmpl_imm T opc) (tmpl_acc T (CHR ''D'') opc))))"

definition op_shift_reg ::
  "string \<Rightarrow> string \<Rightarrow> ('g \<Rightarrow> instruction) \<Rightarrow> (nat \<Rightarrow> accumulator \<Rightarrow> 'g) \<Rightarrow> opcode_entry" where
  "op_shift_reg tmpl name G V = op_fn tmpl name (\<lambda>T opc. 
     case sss_reg (ucast (tmpl_field T (CHR ''s'') opc)) of
       Some src \<Rightarrow> Some (G (V src (tmpl_acc T (CHR ''D'') opc)))
     | None \<Rightarrow> Some (Unknown opc))"

definition op_mulshift :: "string \<Rightarrow> string \<Rightarrow> mul_shift_op \<Rightarrow> opcode_entry" where
  "op_mulshift tmpl name op = op_fn tmpl name (\<lambda>T opc. do {
     src \<leftarrow> qq_reg_mulshift (ucast (tmpl_field T (CHR ''Q'') opc));
     Some (Mul (MulShift op (ucast (tmpl_field T (CHR ''s'') opc)) src (tmpl_acc T (CHR ''d'') opc)
       (tmpl_field T (CHR ''k'') opc \<noteq> 0)))
   })"

section \<open>The table\<close>

text \<open>The table in two halves, in the order of the source.\<close>

definition OPCODE_TABLE_1 :: "opcode_entry list" where
  "OPCODE_TABLE_1 =
    [op_alu_imm ''0000000101iiiiii1000d000'' ''add #xx, D'' Arith AddImm,
     op_alu_long ''00000001010000001100d000'' ''add #xxxx, D'' Arith AddLong,
     op_alu_imm ''0000000101iiiiii1000d110'' ''and #xx, D'' Arith AndImm,
     op_alu_long ''00000001010000001100d110'' ''and #xxxx, D'' Arith AndLong,
     op_fn ''00000000iiiiiiii101110EE'' ''andi #xx, D'' (\<lambda>T opc.
        Some (Arith (AndI (tmpl_imm T opc) (tmpl_reg T (CHR ''E'') opc)))),
     op_fn ''0000110000011101SiiiiiiD'' ''asl #ii, S2, D'' (\<lambda>T opc.
        Some (Shift (AslImm (tmpl_imm T opc) (tmpl_acc T (CHR ''S'') opc) (tmpl_acc T (CHR ''D'') opc)))),
     op_fn ''0000110000011110010SsssD'' ''asl S1, S2, D'' (\<lambda>T opc.
        case sss_reg (ucast (tmpl_field T (CHR ''s'') opc)) of
          Some src \<Rightarrow> Some (Shift (AslReg src (tmpl_acc T (CHR ''S'') opc) (tmpl_acc T (CHR ''D'') opc)))
        | _ \<Rightarrow> Some (Unknown opc)),
     op_fn ''0000110000011100SiiiiiiD'' ''asr #ii, S2, D'' (\<lambda>T opc.
        Some (Shift (AsrImm (tmpl_imm T opc) (tmpl_acc T (CHR ''S'') opc) (tmpl_acc T (CHR ''D'') opc)))),
     op_fn ''0000110000011110011SsssD'' ''asr S1, S2, D'' (\<lambda>T opc.
        case sss_reg (ucast (tmpl_field T (CHR ''s'') opc)) of
          Some src \<Rightarrow> Some (Shift (AsrReg src (tmpl_acc T (CHR ''S'') opc) (tmpl_acc T (CHR ''D'') opc)))
        | _ \<Rightarrow> Some (Unknown opc)),
     op_cc ''00001101000100000100CCCC'' ''bcc xxxx'' Branch BccLong,
     op_fn ''00000101CCCC01aaaa0aaaaa'' ''bcc xxx'' (\<lambda>T opc.
        do {
          cc \<leftarrow> tmpl_cc T opc;
          Some (Branch (Bcc cc (tmpl_sext9 T opc)))
        }),
     op_cc_rn ''0000110100011RRR0100CCCC'' ''bcc Rn'' Branch BccRn,
     op_bit_ea ''0000101101MMMRRR0S0bbbbb'' ''bchg #n, [X or Y]:ea'' Bitop BchgEa,
     op_bit_aa ''0000101100aaaaaa0S0bbbbb'' ''bchg #n, [X or Y]:aa'' Bitop BchgAa,
     op_bit_pp ''0000101110pppppp0S0bbbbb'' ''bchg #n, [X or Y]:pp'' Bitop BchgPp,
     op_bit_qq ''0000000101qqqqqq0S0bbbbb'' ''bchg #n, [X or Y]:qq'' Bitop BchgQq,
     op_bit_reg ''0000101111DDDDDD010bbbbb'' ''bchg #n, D'' Bitop BchgReg,
     op_bit_ea ''0000101001MMMRRR0S0bbbbb'' ''bclr #n, [X or Y]:ea'' Bitop BclrEa,
     op_bit_aa ''0000101000aaaaaa0S0bbbbb'' ''bclr #n, [X or Y]:aa'' Bitop BclrAa,
     op_bit_pp ''0000101010pppppp0S0bbbbb'' ''bclr #n, [X or Y]:pp'' Bitop BclrPp,
     op_bit_qq ''0000000100qqqqqq0S0bbbbb'' ''bclr #n, [X or Y]:qq'' Bitop BclrQq,
     op_bit_reg ''0000101011DDDDDD010bbbbb'' ''bclr #n, D'' Bitop BclrReg,
     op_unit ''000011010001000011000000'' ''bra xxxx'' (Branch BraLong),
     op_fn ''00000101000011aaaa0aaaaa'' ''bra xxx'' (\<lambda>T opc.
        Some (Branch (Bra (tmpl_sext9 T opc)))),
     op_rn ''0000110100011RRR11000000'' ''bra Rn'' Branch BraRn,
     no_mode6 (op_bit_ea ''0000110010MMMRRR0S0bbbbb'' ''brclr #n, [X or Y]:ea, xxxx'' Bit_branch BrclrEa),
     op_bit_aa ''0000110010aaaaaa1S0bbbbb'' ''brclr #n, [X or Y]:aa, xxxx'' Bit_branch BrclrAa,
     op_bit_pp ''0000110011pppppp0S0bbbbb'' ''brclr #n, [X or Y]:pp, xxxx'' Bit_branch BrclrPp,
     op_bit_qq ''0000010010qqqqqq0S0bbbbb'' ''brclr #n, [X or Y]:qq, xxxx'' Bit_branch BrclrQq,
     op_bit_reg ''0000110011DDDDDD100bbbbb'' ''brclr #n, S, xxxx'' Bit_branch BrclrReg,
     op_cc ''00000000000000100001CCCC'' ''brkcc'' Branch Brkcc,
     no_mode6 (op_bit_ea ''0000110010MMMRRR0S1bbbbb'' ''brset #n, [X or Y]:ea, xxxx'' Bit_branch BrsetEa),
     op_bit_aa ''0000110010aaaaaa1S1bbbbb'' ''brset #n, [X or Y]:aa, xxxx'' Bit_branch BrsetAa,
     op_bit_pp ''0000110011pppppp0S1bbbbb'' ''brset #n, [X or Y]:pp, xxxx'' Bit_branch BrsetPp,
     op_bit_qq ''0000010010qqqqqq0S1bbbbb'' ''brset #n, [X or Y]:qq, xxxx'' Bit_branch BrsetQq,
     op_bit_reg ''0000110011DDDDDD101bbbbb'' ''brset #n, S, xxxx'' Bit_branch BrsetReg,
     op_cc ''00001101000100000000CCCC'' ''bscc xxxx'' Branch BsccLong,
     op_fn ''00000101CCCC00aaaa0aaaaa'' ''bscc xxx'' (\<lambda>T opc.
        do {
          cc \<leftarrow> tmpl_cc T opc;
          Some (Branch (Bscc cc (tmpl_sext9 T opc)))
        }),
     op_cc_rn ''0000110100011RRR0000CCCC'' ''bscc Rn'' Branch BsccRn,
     no_mode6 (op_bit_ea ''0000110110MMMRRR0S0bbbbb'' ''bsclr #n, [X or Y]:ea, xxxx'' Bit_bsr BsclrEa),
     op_bit_aa ''0000110110aaaaaa1S0bbbbb'' ''bsclr #n, [X or Y]:aa, xxxx'' Bit_bsr BsclrAa,
     op_bit_qq ''0000010010qqqqqq1S0bbbbb'' ''bsclr #n, [X or Y]:qq, xxxx'' Bit_bsr BsclrQq,
     op_bit_pp ''0000110111pppppp0S0bbbbb'' ''bsclr #n, [X or Y]:pp, xxxx'' Bit_bsr BsclrPp,
     op_bit_reg ''0000110111DDDDDD100bbbbb'' ''bsclr #n, S, xxxx'' Bit_bsr BsclrReg,
     op_bit_ea ''0000101001MMMRRR0S1bbbbb'' ''bset #n, [X or Y]:ea'' Bitop BsetEa,
     op_bit_aa ''0000101000aaaaaa0S1bbbbb'' ''bset #n, [X or Y]:aa'' Bitop BsetAa,
     op_bit_pp ''0000101010pppppp0S1bbbbb'' ''bset #n, [X or Y]:pp'' Bitop BsetPp,
     op_bit_qq ''0000000100qqqqqq0S1bbbbb'' ''bset #n, [X or Y]:qq'' Bitop BsetQq,
     op_bit_reg ''0000101011DDDDDD011bbbbb'' ''bset #n, D'' Bitop BsetReg,
     op_unit ''000011010001000010000000'' ''bsr xxxx'' (Branch BsrLong),
     op_fn ''00000101000010aaaa0aaaaa'' ''bsr xxx'' (\<lambda>T opc.
        Some (Branch (Bsr (tmpl_sext9 T opc)))),
     op_rn ''0000110100011RRR10000000'' ''bsr Rn'' Branch BsrRn,
     no_mode6 (op_bit_ea ''0000110110MMMRRR0S1bbbbb'' ''bsset #n, [X or Y]:ea, xxxx'' Bit_bsr BssetEa),
     op_bit_aa ''0000110110aaaaaa1S1bbbbb'' ''bsset #n, [X or Y]:aa, xxxx'' Bit_bsr BssetAa,
     op_bit_pp ''0000110111pppppp0S1bbbbb'' ''bsset #n, [X or Y]:pp, xxxx'' Bit_bsr BssetPp,
     op_bit_qq ''0000010010qqqqqq1S1bbbbb'' ''bsset #n, [X or Y]:qq, xxxx'' Bit_bsr BssetQq,
     op_bit_reg ''0000110111DDDDDD101bbbbb'' ''bsset #n, S, xxxx'' Bit_bsr BssetReg,
     op_bit_ea ''0000101101MMMRRR0S1bbbbb'' ''btst #n, [X or Y]:ea'' Bitop BtstEa,
     op_bit_aa ''0000101100aaaaaa0S1bbbbb'' ''btst #n, [X or Y]:aa'' Bitop BtstAa,
     op_bit_pp ''0000101110pppppp0S1bbbbb'' ''btst #n, [X or Y]:pp'' Bitop BtstPp,
     op_bit_qq ''0000000101qqqqqq0S1bbbbb'' ''btst #n, [X or Y]:qq'' Bitop BtstQq,
     op_bit_reg ''0000101111DDDDDD011bbbbb'' ''btst #n, D'' Bitop BtstReg,
     op_fn ''0000110000011110000000SD'' ''clb S, D'' (\<lambda>T opc.
        Some (Special (Clb (tmpl_acc T (CHR ''S'') opc) (tmpl_acc T (CHR ''D'') opc)))),
     op_alu_imm ''0000000101iiiiii1000d101'' ''cmp #xx, S2'' Arith CmpImm,
     op_alu_long ''00000001010000001100d101'' ''cmp #xxxx, S2'' Arith CmpLong,
     op_fn ''00001100000111111111gggd'' ''cmpu S1, S2'' (\<lambda>T opc. let d = tmpl_acc T (CHR ''d'') opc in
        case ggg_reg (ucast (tmpl_field T (CHR ''g'') opc)) d of
          Some src \<Rightarrow> Some (Arith (CmpU src d))
        | _ \<Rightarrow> Some (Unknown opc)),
     op_unit ''000000000000001000000000'' ''debug'' (Special Debug),
     op_cc ''00000000000000110000CCCC'' ''debugcc'' Special Debugcc,
     op_acc ''00000000000000000000101d'' ''dec D'' Misc Dec,
     op_fn ''000000011000000001JJd000'' ''div S, D'' (\<lambda>T opc.
        do {
          src \<leftarrow> qq_reg (ucast (tmpl_field T (CHR ''J'') opc));
          Some (Mul (Div src (tmpl_acc T (CHR ''d'') opc)))
        }),
     op_fn ''000000010010010s1sdkQQQQ'' ''dmac(ss,su,uu) S1, S2, D'' (\<lambda>T opc.
        case qqqq_regs (ucast (tmpl_field T (CHR ''Q'') opc)) of
          Some (s1, s2) \<Rightarrow> Some (Mul (Dmac (ucast (tmpl_field T (CHR ''s'') opc) AND 0x3) (tmpl_field T (CHR ''k'') opc \<noteq> 0) (tmpl_acc T (CHR ''d'') opc) s1 s2))
        | _ \<Rightarrow> Some (Unknown opc)),
     no_mode6 (op_loop_ea ''0000011001MMMRRR0S000000'' ''do [X or Y]:ea, expr'' Loop DoEa),
     op_loop_aa ''0000011000aaaaaa0S000000'' ''do [X or Y]:aa, expr'' Loop DoAa,
     op_loop_imm ''00000110iiiiiiii1000hhhh'' ''do #xxx, expr'' Loop DoImm,
     op_loop_reg ''0000011011DDDDDD00000000'' ''do S, expr'' (CHR ''D'') Loop DoReg,
     op_dec_fn ''000000000000001000000011'' ''do forever, expr'' (\<lambda>_. Some (Loop DoForever)),
     no_mode6 (op_loop_ea ''0000011001MMMRRR0S010000'' ''dor [X or Y]:ea, label'' Loop DorEa),
     op_loop_aa ''0000011000aaaaaa0S010000'' ''dor [X or Y]:aa, label'' Loop DorAa,
     op_loop_imm ''00000110iiiiiiii1001hhhh'' ''dor #xxx, label'' Loop DorImm,
     op_loop_reg ''0000011011DDDDDD00010000'' ''dor S, label'' (CHR ''D'') Loop DorReg,
     op_dec_fn ''000000000000001000000010'' ''dor forever, label'' (\<lambda>_. Some (Loop DorForever)),
     op_unit ''000000000000000010001100'' ''enddo'' (Loop EndDo),
     op_alu_imm ''0000000101iiiiii1000d011'' ''eor #xx, D'' Arith EorImm,
     op_alu_long ''00000001010000001100d011'' ''eor #xxxx, D'' Arith EorLong,
     op_fn ''0000110000011010000sSSSD'' ''extract S1, S2, D'' (\<lambda>T opc.
        case sss_reg (ucast (tmpl_field T (CHR ''S'') opc)) of
          Some s1 \<Rightarrow> Some (Field (ExtractReg s1 (tmpl_acc T (CHR ''s'') opc) (tmpl_acc T (CHR ''D'') opc)))
        | _ \<Rightarrow> Some (Unknown opc)),
     op_fn ''0000110000011000000s000D'' ''extract #CO, S2, D'' (\<lambda>T opc.
        Some (Field (ExtractImm (tmpl_acc T (CHR ''s'') opc) (tmpl_acc T (CHR ''D'') opc)))),
     op_fn ''0000110000011010100sSSSD'' ''extractu S1, S2, D'' (\<lambda>T opc.
        case sss_reg (ucast (tmpl_field T (CHR ''S'') opc)) of
          Some s1 \<Rightarrow> Some (Field (ExtractuReg s1 (tmpl_acc T (CHR ''s'') opc) (tmpl_acc T (CHR ''D'') opc)))
        | _ \<Rightarrow> Some (Unknown opc)),
     op_fn ''0000110000011000100s000D'' ''extractu #CO, S2, D'' (\<lambda>T opc.
        Some (Field (ExtractuImm (tmpl_acc T (CHR ''s'') opc) (tmpl_acc T (CHR ''D'') opc)))),
     op_unit ''000000000000000000000101'' ''illegal'' (Misc Illegal)]"

definition OPCODE_TABLE_2 :: "opcode_entry list" where
  "OPCODE_TABLE_2 =
    [op_acc ''00000000000000000000100d'' ''inc D'' Misc Inc,
     op_fn ''00001100000110110qqqSSSD'' ''insert S1, S2, D'' (\<lambda>T opc.
        case (sss_reg (ucast (tmpl_field T (CHR ''S'') opc)), qqq_reg (ucast (tmpl_field T (CHR ''q'') opc))) of
          (Some s1, Some s2) \<Rightarrow> Some (Field (InsertReg s1 s2 (tmpl_acc T (CHR ''D'') opc)))
        | _ \<Rightarrow> Some (Unknown opc)),
     op_fn ''00001100000110010qqq000D'' ''insert #CO, S2, D'' (\<lambda>T opc.
        case qqq_reg (ucast (tmpl_field T (CHR ''q'') opc)) of
          Some s2 \<Rightarrow> Some (Field (InsertImm s2 (tmpl_acc T (CHR ''D'') opc)))
        | _ \<Rightarrow> Some (Unknown opc)),
     op_fn ''00001110CCCCaaaaaaaaaaaa'' ''jcc xxx'' (\<lambda>T opc.
        do {
          cc \<leftarrow> tmpl_cc T opc;
          Some (Branch (Jcc cc (tmpl_field T (CHR ''a'') opc)))
        }),
     op_cc_ea ''0000101011MMMRRR1010CCCC'' ''jcc ea'' Branch JccEa,
     no_mode6 (op_bit_ea ''0000101001MMMRRR1S0bbbbb'' ''jclr #n, [X or Y]:ea, xxxx'' Bit_jump JclrEa),
     op_bit_aa ''0000101000aaaaaa1S0bbbbb'' ''jclr #n, [X or Y]:aa, xxxx'' Bit_jump JclrAa,
     op_bit_pp ''0000101010pppppp1S0bbbbb'' ''jclr #n, [X or Y]:pp, xxxx'' Bit_jump JclrPp,
     op_bit_qq ''0000000110qqqqqq1S0bbbbb'' ''jclr #n, [X or Y]:qq, xxxx'' Bit_jump JclrQq,
     op_bit_reg ''0000101011DDDDDD000bbbbb'' ''jclr #n, S, xxxx'' Bit_jump JclrReg,
     op_ea ''0000101011MMMRRR10000000'' ''jmp ea'' Branch JmpEa,
     op_fn ''000011000000aaaaaaaaaaaa'' ''jmp xxx'' (\<lambda>T opc.
        Some (Branch (Jmp (tmpl_field T (CHR ''a'') opc)))),
     op_fn ''00001111CCCCaaaaaaaaaaaa'' ''jscc xxx'' (\<lambda>T opc.
        do {
          cc \<leftarrow> tmpl_cc T opc;
          Some (Branch (Jscc cc (tmpl_field T (CHR ''a'') opc)))
        }),
     op_cc_ea ''0000101111MMMRRR1010CCCC'' ''jscc ea'' Branch JsccEa,
     no_mode6 (op_bit_ea ''0000101101MMMRRR1S0bbbbb'' ''jsclr #n, [X or Y]:ea, xxxx'' Bit_jump JsclrEa),
     op_bit_aa ''0000101100aaaaaa1S0bbbbb'' ''jsclr #n, [X or Y]:aa, xxxx'' Bit_jump JsclrAa,
     op_bit_pp ''0000101110pppppp1S0bbbbb'' ''jsclr #n, [X or Y]:pp, xxxx'' Bit_jump JsclrPp,
     op_bit_qq ''0000000111qqqqqq1S0bbbbb'' ''jsclr #n, [X or Y]:qq, xxxx'' Bit_jump JsclrQq,
     op_bit_reg ''0000101111DDDDDD000bbbbb'' ''jsclr #n, S, xxxx'' Bit_jump JsclrReg,
     no_mode6 (op_bit_ea ''0000101001MMMRRR1S1bbbbb'' ''jset #n, [X or Y]:ea, xxxx'' Bit_jump JsetEa),
     op_bit_aa ''0000101000aaaaaa1S1bbbbb'' ''jset #n, [X or Y]:aa, xxxx'' Bit_jump JsetAa,
     op_bit_pp ''0000101010pppppp1S1bbbbb'' ''jset #n, [X or Y]:pp, xxxx'' Bit_jump JsetPp,
     op_bit_qq ''0000000110qqqqqq1S1bbbbb'' ''jset #n, [X or Y]:qq, xxxx'' Bit_jump JsetQq,
     op_bit_reg ''0000101011DDDDDD001bbbbb'' ''jset #n, S, xxxx'' Bit_jump JsetReg,
     op_ea ''0000101111MMMRRR10000000'' ''jsr ea'' Branch JsrEa,
     op_fn ''000011010000aaaaaaaaaaaa'' ''jsr xxx'' (\<lambda>T opc.
        Some (Branch (Jsr (tmpl_field T (CHR ''a'') opc)))),
     no_mode6 (op_bit_ea ''0000101101MMMRRR1S1bbbbb'' ''jsset #n, [X or Y]:ea, xxxx'' Bit_jump JssetEa),
     op_bit_aa ''0000101100aaaaaa1S1bbbbb'' ''jsset #n, [X or Y]:aa, xxxx'' Bit_jump JssetAa,
     op_bit_pp ''0000101110pppppp1S1bbbbb'' ''jsset #n, [X or Y]:pp, xxxx'' Bit_jump JssetPp,
     op_bit_qq ''0000000111qqqqqq1S1bbbbb'' ''jsset #n, [X or Y]:qq, xxxx'' Bit_jump JssetQq,
     op_bit_reg ''0000101111DDDDDD001bbbbb'' ''jsset #n, S, xxxx'' Bit_jump JssetReg,
     op_fn ''0000010011000RRR000ddddd'' ''lra Rn, D'' (\<lambda>T opc.
        Some (Address (LraRn (ucast (tmpl_field T (CHR ''R'') opc)) (tmpl_reg T (CHR ''d'') opc)))),
     op_fn ''0000010001000000010ddddd'' ''lra xxxx, D'' (\<lambda>T opc.
        Some (Address (LraDisp (tmpl_reg T (CHR ''d'') opc)))),
     op_shift_imm ''000011000001111010iiiiiD'' ''lsl #ii, D'' Shift LslImm,
     op_shift_reg ''00001100000111100001sssD'' ''lsl S, D'' Shift LslReg,
     op_shift_imm ''000011000001111011iiiiiD'' ''lsr #ii, D'' Shift LsrImm,
     op_shift_reg ''00001100000111100011sssD'' ''lsr S, D'' Shift LsrReg,
     op_fn ''00000100010MMRRR000ddddd'' ''lua ea, D'' (\<lambda>T opc.
        Some (Address (Lua (tmpl_ea T opc) (tmpl_reg T (CHR ''d'') opc)))),
     op_fn ''0000010000aaaRRRaaaadddd'' ''lua (Rn + aa), D'' (\<lambda>T opc.
        Some (Address (LuaRel (ucast (tmpl_field T (CHR ''a'') opc)) (ucast (tmpl_field T (CHR ''R'') opc)) (ucast (opc AND 0x7)) (drop_bit 3 opc AND 1 \<noteq> 0)))),
     op_mulshift ''00000001000sssss11QQdk10'' ''mac S, #n, D'' MulShift_Mac,
     op_fn ''000000010100000111qqdk10'' ''maci #xxxx, S, D'' (\<lambda>T opc.
        do {
          src \<leftarrow> qq_reg (ucast (tmpl_field T (CHR ''q'') opc));
          Some (Mul (MacI (tmpl_field T (CHR ''k'') opc \<noteq> 0) (tmpl_acc T (CHR ''d'') opc) src))
        }),
     op_fn ''00000001001001101sdkQQQQ'' ''mac(su,uu) S1, S2, D'' (\<lambda>T opc.
        case qqqq_regs (ucast (tmpl_field T (CHR ''Q'') opc)) of
          Some (s1, s2) \<Rightarrow> Some (Mul (MacSU (ucast (tmpl_field T (CHR ''s'') opc)) (tmpl_field T (CHR ''k'') opc \<noteq> 0) (tmpl_acc T (CHR ''d'') opc) s1 s2))
        | _ \<Rightarrow> Some (Unknown opc)),
     op_mulshift ''00000001000sssss11QQdk11'' ''macr S, #n, D'' MulShift_Macr,
     op_fn ''000000010100000111qqdk11'' ''macri #xxxx, S, D'' (\<lambda>T opc.
        do {
          src \<leftarrow> qq_reg (ucast (tmpl_field T (CHR ''q'') opc));
          Some (Mul (MacrI (tmpl_field T (CHR ''k'') opc \<noteq> 0) (tmpl_acc T (CHR ''d'') opc) src))
        }),
     op_fn ''00001100000110111000sssD'' ''merge S, D'' (\<lambda>T opc.
        case sss_reg (ucast (tmpl_field T (CHR ''s'') opc)) of
          Some src \<Rightarrow> Some (Field (Merge src (tmpl_acc T (CHR ''D'') opc)))
        | _ \<Rightarrow> Some (Unknown opc)),
     op_fn ''0000001aaaaaaRRR1asWDDDD'' ''move [X or Y]:(Rn + xxx) <-> R'' (\<lambda>T opc.
        do {
          space \<leftarrow> tmpl_space T (CHR ''s'') opc;
          Some (Move_op (MoveShortDisp space (ucast (tmpl_field T (CHR ''a'') opc)) (tmpl_w T opc) (ucast (tmpl_field T (CHR ''R'') opc)) (tmpl_reg T (CHR ''D'') opc)))
        }),
     op_fn ''0000101s01110RRR1WDDDDDD'' ''move [X or Y]:(Rn + xxxx) <-> R'' (\<lambda>T opc.
        do {
          space \<leftarrow> tmpl_space T (CHR ''s'') opc;
          Some (Move_op (MoveLongDisp space (tmpl_w T opc) (ucast (tmpl_field T (CHR ''R'') opc)) (tmpl_reg T (CHR ''D'') opc)))
        }),
     op_fn ''00000101W1MMMRRR0s1ddddd'' ''movec [X or Y]:ea <-> R'' (\<lambda>T opc.
        do {
          space \<leftarrow> tmpl_space T (CHR ''s'') opc;
          Some (Move_op (MovecEa (tmpl_ea T opc) (ucast (opc AND 0x3F)) (tmpl_w T opc) space))
        }),
     op_fn ''00000101W0aaaaaa0s1ddddd'' ''movec [X or Y]:aa <-> R'' (\<lambda>T opc.
        do {
          space \<leftarrow> tmpl_space T (CHR ''s'') opc;
          Some (Move_op (MovecAa (tmpl_addr T opc) (ucast (opc AND 0x3F)) (tmpl_w T opc) space))
        }),
     op_fn ''00000100W1eeeeee101ddddd'' ''movec R1, R2'' (\<lambda>T opc.
        Some (Move_op (MovecReg (ucast (tmpl_field T (CHR ''e'') opc)) (ucast (opc AND 0x3F)) (tmpl_w T opc)))),
     op_fn ''00000101iiiiiiii101ddddd'' ''movec #xx, D1'' (\<lambda>T opc.
        Some (Move_op (MovecImm (tmpl_imm T opc) (ucast (opc AND 0x3F))))),
     op_fn ''00000111W1MMMRRR10dddddd'' ''movem P:ea <-> R'' (\<lambda>T opc.
        Some (Move_op (MovemEa (tmpl_ea T opc) (tmpl_reg T (CHR ''d'') opc) (tmpl_w T opc)))),
     op_fn ''00000111W0aaaaaa00dddddd'' ''movem P:aa <-> R'' (\<lambda>T opc.
        Some (Move_op (MovemAa (tmpl_addr T opc) (tmpl_reg T (CHR ''d'') opc) (tmpl_w T opc)))),
     op_fn ''0000100sW1MMMRRR1Spppppp'' ''movep [X or Y]:ea <-> [X or Y]:pp'' (\<lambda>T opc.
        do {
          perspace \<leftarrow> tmpl_space T (CHR ''s'') opc;
          easpace \<leftarrow> tmpl_space T (CHR ''S'') opc;
          Some (Move_op (Movep23 (tmpl_pp T opc) (tmpl_ea T opc) (tmpl_w T opc) perspace easpace))
        }),
     op_fn ''00000111W1MMMRRR0Sqqqqqq'' ''movep [X or Y]:ea <-> X:qq'' (\<lambda>T opc.
        do {
          easpace \<leftarrow> tmpl_space T (CHR ''S'') opc;
          Some (Move_op (MovepQq (tmpl_qq T opc) (tmpl_ea T opc) (tmpl_w T opc) Space_X easpace))
        }),
     op_fn ''00000111W0MMMRRR1Sqqqqqq'' ''movep [X or Y]:ea <-> Y:qq'' (\<lambda>T opc.
        do {
          easpace \<leftarrow> tmpl_space T (CHR ''S'') opc;
          Some (Move_op (MovepQq (tmpl_qq T opc) (tmpl_ea T opc) (tmpl_w T opc) Space_Y easpace))
        }),
     op_fn ''0000100sW1MMMRRR01pppppp'' ''movep [X or Y]:pp <-> P:ea'' (\<lambda>T opc.
        do {
          space \<leftarrow> tmpl_space T (CHR ''s'') opc;
          Some (Move_op (Movep1 (tmpl_pp T opc) (tmpl_ea T opc) (tmpl_w T opc) space))
        }),
     op_fn ''000000001WMMMRRR0sqqqqqq'' ''movep [X or Y]:qq <-> P:ea'' (\<lambda>T opc.
        do {
          space \<leftarrow> tmpl_space T (CHR ''s'') opc;
          Some (Move_op (MovepQqPea (tmpl_qq T opc) (tmpl_ea T opc) (tmpl_w T opc) space))
        }),
     op_fn ''0000100sW1dddddd00pppppp'' ''movep [X or Y]:pp <-> R'' (\<lambda>T opc.
        do {
          space \<leftarrow> tmpl_space T (CHR ''s'') opc;
          Some (Move_op (Movep0 (tmpl_pp T opc) (tmpl_reg T (CHR ''d'') opc) (tmpl_w T opc) space))
        }),
     op_fn ''00000100W1dddddd1q0qqqqq'' ''movep X:qq <-> R'' (\<lambda>T opc.
        Some (Move_op (MovepQqR (tmpl_qq T opc) (tmpl_reg T (CHR ''d'') opc) (tmpl_w T opc) Space_X))),
     op_fn ''00000100W1dddddd0q1qqqqq'' ''movep Y:qq <-> R'' (\<lambda>T opc.
        Some (Move_op (MovepQqR (tmpl_qq T opc) (tmpl_reg T (CHR ''d'') opc) (tmpl_w T opc) Space_Y))),
     op_mulshift ''00000001000sssss11QQdk00'' ''mpy S, #n, D'' MulShift_Mpy,
     op_fn ''00000001001001111sdkQQQQ'' ''mpy(su,uu) S1, S2, D'' (\<lambda>T opc.
        case qqqq_regs (ucast (tmpl_field T (CHR ''Q'') opc)) of
          Some (s1, s2) \<Rightarrow> Some (Mul (MpySU (ucast (tmpl_field T (CHR ''s'') opc)) (tmpl_field T (CHR ''k'') opc \<noteq> 0) (tmpl_acc T (CHR ''d'') opc) s1 s2))
        | _ \<Rightarrow> Some (Unknown opc)),
     op_fn ''000000010100000111qqdk00'' ''mpyi #xxxx, S, D'' (\<lambda>T opc.
        do {
          src \<leftarrow> qq_reg (ucast (tmpl_field T (CHR ''q'') opc));
          Some (Mul (MpyI (tmpl_field T (CHR ''k'') opc \<noteq> 0) (tmpl_acc T (CHR ''d'') opc) src))
        }),
     op_mulshift ''00000001000sssss11QQdk01'' ''mpyr S, #n, D'' MulShift_Mpyr,
     op_fn ''000000010100000111qqdk01'' ''mpyri #xxxx, S, D'' (\<lambda>T opc.
        do {
          src \<leftarrow> qq_reg (ucast (tmpl_field T (CHR ''q'') opc));
          Some (Mul (MpyrI (tmpl_field T (CHR ''k'') opc \<noteq> 0) (tmpl_acc T (CHR ''d'') opc) src))
        }),
     op_unit ''000000000000000000000000'' ''nop'' (Misc Nop),
     op_fn ''0000000111011RRR0001d101'' ''norm Rn, D'' (\<lambda>T opc.
        Some (Address (Norm (ucast (tmpl_field T (CHR ''R'') opc)) (tmpl_acc T (CHR ''d'') opc)))),
     op_shift_reg ''00001100000111100010sssD'' ''normf S, D'' Special Normf,
     op_alu_imm ''0000000101iiiiii1000d010'' ''or #xx, D'' Arith OrImm,
     op_alu_long ''00000001010000001100d010'' ''or #xxxx, D'' Arith OrLong,
     op_fn ''00000000iiiiiiii111110EE'' ''ori #xx, D'' (\<lambda>T opc.
        Some (Arith (OrI (tmpl_imm T opc) (tmpl_reg T (CHR ''E'') opc)))),
     op_unit ''000000000000000000000011'' ''pflush'' (Cache Pflush),
     op_unit ''000000000000000000000001'' ''pflushun'' (Cache Pflushun),
     op_unit ''000000000000000000000010'' ''pfree'' (Cache Pfree),
     op_ea ''0000101111MMMRRR10000001'' ''plock ea'' Cache PlockEa,
     op_unit ''000000000000000000001111'' ''plockr xxxx'' (Cache Plockr),
     op_ea ''0000101011MMMRRR10000001'' ''punlock ea'' Cache PunlockEa,
     op_unit ''000000000000000000001110'' ''punlockr xxxx'' (Cache Punlockr),
     no_mode6 (op_loop_ea ''0000011001MMMRRR0S100000'' ''rep [X or Y]:ea'' Loop RepEa),
     op_loop_aa ''0000011000aaaaaa0S100000'' ''rep [X or Y]:aa'' Loop RepAa,
     op_loop_imm ''00000110iiiiiiii1010hhhh'' ''rep #xxx'' Loop RepImm,
     op_loop_reg ''0000011011dddddd00100000'' ''rep S'' (CHR ''d'') Loop RepReg,
     op_unit ''000000000000000010000100'' ''reset'' (Misc Reset),
     op_unit ''000000000000000000000100'' ''rti'' (Misc Rti),
     op_unit ''000000000000000000001100'' ''rts'' (Misc Rts),
     op_unit ''000000000000000010000111'' ''stop'' (Misc Stop),
     op_alu_imm ''0000000101iiiiii1000d100'' ''sub #xx, D'' Arith SubImm,
     op_alu_long ''00000001010000001100d100'' ''sub #xxxx, D'' Arith SubLong,
     op_dec_fn ''00000010CCCC00000JJJd000'' ''tcc S1, D1'' dec_tcc,
     op_dec_fn ''00000011CCCC0ttt0JJJdTTT'' ''tcc S1,D1 S2,D2'' dec_tcc,
     op_dec_fn ''00000010CCCC1ttt00000TTT'' ''tcc S2, D2'' dec_tcc,
     op_unit ''000000000000000000000110'' ''trap'' (Special Trap),
     op_cc ''00000000000000000001CCCC'' ''trapcc'' Special Trapcc,
     op_fn ''0000101S11MMMRRR110i0000'' ''vsl'' (\<lambda>T opc.
        Some (Vsl (tmpl_acc T (CHR ''S'') opc) (tmpl_ea T opc) (ucast (tmpl_field T (CHR ''i'') opc)))),
     op_unit ''000000000000000010000110'' ''wait'' (Misc Wait)]"

definition OPCODE_TABLE :: "opcode_entry list" where
  "OPCODE_TABLE = OPCODE_TABLE_1 @ OPCODE_TABLE_2"

end
