(* ===== verification/Decode.thy ===== *)
theory Decode
  imports Opcode_Table
begin

text \<open>
  \<^verbatim>\<open>crates/core/src/decode.rs\<close>, second part: the prefix dispatch table, the decoder
  \<^verbatim>\<open>decode\<close> with its normalisation and its rejection of reserved registers, the lookup
  \<^verbatim>\<open>decode_entry_name\<close> and \<^verbatim>\<open>instruction_length\<close>. The opcode is the 24-bit word in a
  \<^verbatim>\<open>u32\<close>; \<open>None\<close> is a panic.
\<close>

section \<open>The prefix dispatch table\<close>

abbreviation (input) MAX_PER_BUCKET :: nat where "MAX_PER_BUCKET \<equiv> 34"

record prefix_bucket =
  pb_indices :: "u8 list"
  pb_len :: u8

type_synonym prefix_table = "prefix_bucket list"

definition empty_bucket :: prefix_bucket where
  "empty_bucket = \<lparr>pb_indices = replicate MAX_PER_BUCKET 0, pb_len = 0\<rparr>"

text \<open>The two statements of the inner loop; writing past \<^verbatim>\<open>MAX_PER_BUCKET\<close> panics.\<close>

definition bucket_push :: "u8 \<Rightarrow> prefix_bucket \<Rightarrow> prefix_bucket option" where
  "bucket_push i b =
    (if unat (pb_len b) < MAX_PER_BUCKET
     then Some (b\<lparr>pb_indices := (pb_indices b)[unat (pb_len b) := i], pb_len := pb_len b + 1\<rparr>)
     else None)"

definition prefix_hit :: "nat \<Rightarrow> opcode_entry \<Rightarrow> bool" where
  "prefix_hit prefix e =
    (let top4_mask = drop_bit 16 (oe_mask e) AND 0xF;
         top4_match = drop_bit 16 (oe_match e) AND 0xF
     in (word_of_nat prefix AND top4_mask) = top4_match)"

definition add_to_bucket :: "nat \<Rightarrow> nat \<Rightarrow> prefix_table \<Rightarrow> prefix_table option" where
  "add_to_bucket i prefix table =
    (if prefix_hit prefix (OPCODE_TABLE ! i) then do {
       b \<leftarrow> bucket_push (word_of_nat i) (table ! prefix);
       Some (table[prefix := b])
     } else Some table)"

definition build_prefix_table :: "prefix_table option" where
  "build_prefix_table =
    mfold (\<lambda>i. mfold (add_to_bucket i) [0..<16]) [0..<length OPCODE_TABLE]
      (replicate 16 empty_bucket)"

definition PREFIX_TABLE :: prefix_table where
  "PREFIX_TABLE = the build_prefix_table"

text \<open>The entries of one bucket, in table order.\<close>

definition bucket_of :: "u32 \<Rightarrow> u8 list" where
  "bucket_of opcode =
    (let b = PREFIX_TABLE ! unat (drop_bit 16 opcode AND 0xF)
     in take (unat (pb_len b)) (pb_indices b))"

section \<open>Listing the table\<close>

record opcode_info =
  oi_mask :: u32
  oi_match :: u32
  oi_name :: string
  oi_has_decode :: bool

definition opcode_templates :: "opcode_info list" where
  "opcode_templates = map (\<lambda>e. \<lparr>oi_mask = oe_mask e, oi_match = oe_match e, oi_name = oe_name e,
     oi_has_decode = (oe_decode e \<noteq> None)\<rparr>) OPCODE_TABLE"

definition opcode_table_names :: "string list" where
  "opcode_table_names = map oe_name OPCODE_TABLE"

section \<open>Normalisation and reserved registers\<close>

definition norm_lo :: "u8 \<Rightarrow> u8" where
  "norm_lo ea = (if drop_bit 3 ea AND 7 = 6 then ea AND NOT 0x03 else ea)"

definition norm_all :: "u8 \<Rightarrow> u8" where
  "norm_all ea = (if drop_bit 3 ea AND 7 = 6 then ea AND NOT 0x07 else ea)"

definition normalize_ea_mode :: "instruction \<Rightarrow> instruction" where
  "normalize_ea_mode inst = (case inst of
     Move_op (Movep1 pp ea w s) \<Rightarrow> Move_op (Movep1 pp (norm_all ea) w s)
   | Move_op (MovepQqPea qq ea w s) \<Rightarrow> Move_op (MovepQqPea qq (norm_all ea) w s)
   | Cache (PlockEa ea) \<Rightarrow> Cache (PlockEa (norm_all ea))
   | Cache (PunlockEa ea) \<Rightarrow> Cache (PunlockEa (norm_all ea))
   | Vsl s ea i \<Rightarrow> Vsl s (norm_all ea) i
   | Move_op (MovemEa ea r w) \<Rightarrow> Move_op (MovemEa (norm_all ea) r w)
   | Branch (JmpEa ea) \<Rightarrow> Branch (JmpEa (norm_all ea))
   | Branch (JsrEa ea) \<Rightarrow> Branch (JsrEa (norm_all ea))
   | Branch (JccEa cc ea) \<Rightarrow> Branch (JccEa cc (norm_all ea))
   | Branch (JsccEa cc ea) \<Rightarrow> Branch (JsccEa cc (norm_all ea))
   | Loop (DoEa s ea) \<Rightarrow> Loop (DoEa s (norm_all ea))
   | Loop (DorEa s ea) \<Rightarrow> Loop (DorEa s (norm_all ea))
   | Loop (RepEa s ea) \<Rightarrow> Loop (RepEa s (norm_all ea))
   | Bitop (BchgEa s ea b) \<Rightarrow> Bitop (BchgEa s (norm_all ea) b)
   | Bitop (BclrEa s ea b) \<Rightarrow> Bitop (BclrEa s (norm_all ea) b)
   | Bitop (BsetEa s ea b) \<Rightarrow> Bitop (BsetEa s (norm_all ea) b)
   | Bitop (BtstEa s ea b) \<Rightarrow> Bitop (BtstEa s (norm_all ea) b)
   | Bit_jump (JclrEa s ea b) \<Rightarrow> Bit_jump (JclrEa s (norm_all ea) b)
   | Bit_jump (JsetEa s ea b) \<Rightarrow> Bit_jump (JsetEa s (norm_all ea) b)
   | Bit_jump (JsclrEa s ea b) \<Rightarrow> Bit_jump (JsclrEa s (norm_all ea) b)
   | Bit_jump (JssetEa s ea b) \<Rightarrow> Bit_jump (JssetEa s (norm_all ea) b)
   | Bit_branch (BrclrEa s ea b) \<Rightarrow> Bit_branch (BrclrEa s (norm_all ea) b)
   | Bit_branch (BrsetEa s ea b) \<Rightarrow> Bit_branch (BrsetEa s (norm_all ea) b)
   | Bit_bsr (BsclrEa s ea b) \<Rightarrow> Bit_bsr (BsclrEa s (norm_all ea) b)
   | Bit_bsr (BssetEa s ea b) \<Rightarrow> Bit_bsr (BssetEa s (norm_all ea) b)
   | Move_op (Movep23 pp ea w ps es) \<Rightarrow>
       Move_op (Movep23 pp (if w then norm_lo ea else norm_all ea) w ps es)
   | Move_op (MovepQq qq ea w qs es) \<Rightarrow>
       Move_op (MovepQq qq (if w then norm_lo ea else norm_all ea) w qs es)
   | Move_op (MovecEa ea r w s) \<Rightarrow>
       Move_op (MovecEa (if w then norm_lo ea else norm_all ea) r w s)
   | _ \<Rightarrow> inst)"

definition reg_name_empty :: "nat \<Rightarrow> bool" where
  "reg_name_empty r \<longleftrightarrow> r < length REGISTER_NAMES \<and> REGISTER_NAMES ! r = []"

abbreviation bad_reg :: "u8 \<Rightarrow> bool" where
  "bad_reg r \<equiv> reg_name_empty (unat r)"

definition has_invalid_register :: "instruction \<Rightarrow> bool" where
  "has_invalid_register inst = (case inst of
     Move_op (MovemAa _ r _) \<Rightarrow> bad_reg r
   | Move_op (MovemEa _ r _) \<Rightarrow> bad_reg r
   | Move_op (MovecAa _ r _ _) \<Rightarrow> bad_reg r
   | Move_op (MovecEa _ r _ _) \<Rightarrow> bad_reg r
   | Move_op (MovecImm _ r) \<Rightarrow> bad_reg r
   | Move_op (MovecReg r1 r2 _) \<Rightarrow> bad_reg r1 \<or> bad_reg r2
   | Move_op (MoveLongDisp _ _ _ r) \<Rightarrow> bad_reg r
   | Move_op (MoveShortDisp _ _ _ _ r) \<Rightarrow> bad_reg r
   | Bit_jump (JclrReg r _) \<Rightarrow> bad_reg r
   | Bit_jump (JsetReg r _) \<Rightarrow> bad_reg r
   | Bit_jump (JsclrReg r _) \<Rightarrow> bad_reg r
   | Bit_jump (JssetReg r _) \<Rightarrow> bad_reg r
   | Bit_branch (BrclrReg r _) \<Rightarrow> bad_reg r
   | Bit_branch (BrsetReg r _) \<Rightarrow> bad_reg r
   | Bit_bsr (BsclrReg r _) \<Rightarrow> bad_reg r
   | Bit_bsr (BssetReg r _) \<Rightarrow> bad_reg r
   | Loop (DoReg r) \<Rightarrow> bad_reg r
   | Loop (DorReg r) \<Rightarrow> bad_reg r
   | Loop (RepReg r) \<Rightarrow> bad_reg r
   | Arith (AndI _ d) \<Rightarrow> 3 < d
   | Arith (OrI _ d) \<Rightarrow> 3 < d
   | Tcc _ acc _ \<Rightarrow> (case acc of Some (a, b) \<Rightarrow> a = 0 \<or> b = 0 | None \<Rightarrow> False)
   | Address (Lua _ r) \<Rightarrow> bad_reg r
   | Address (LraRn _ r) \<Rightarrow> bad_reg r
   | Address (LraDisp r) \<Rightarrow> bad_reg r
   | Bitop (BchgReg r _) \<Rightarrow> bad_reg r
   | Bitop (BclrReg r _) \<Rightarrow> bad_reg r
   | Bitop (BsetReg r _) \<Rightarrow> bad_reg r
   | Bitop (BtstReg r _) \<Rightarrow> bad_reg r
   | Move_op (Movep0 _ r _ _) \<Rightarrow> bad_reg r
   | Move_op (MovepQqR _ r _ _) \<Rightarrow> bad_reg r
   | Mul (Dmac ss _ _ _ _) \<Rightarrow> ss = 1
   | _ \<Rightarrow> False)"

section \<open>Table lookup\<close>

text \<open>The condition under which the loops skip an entry whose fixed bits match.\<close>

definition entry_skipped :: "u32 \<Rightarrow> opcode_entry \<Rightarrow> bool" where
  "entry_skipped opcode e \<longleftrightarrow> oe_has_mmmrrr e \<and>
    (let mode6 = (drop_bit 11 opcode AND 0x7 = 0x6)
     in (mode6 \<and> \<not> oe_mode6_ok e) \<or> \<not> match_mmmrrr opcode)"

definition is_pm0 :: "u32 \<Rightarrow> bool" where
  "is_pm0 opcode \<longleftrightarrow> opcode AND 0xFE4000 = 0x080000"

fun entry_name_loop :: "u32 \<Rightarrow> u8 list \<Rightarrow> string option" where
  "entry_name_loop opcode [] = None"
| "entry_name_loop opcode (ix # rest) =
    (let e = OPCODE_TABLE ! unat ix
     in if opcode AND oe_mask e = oe_match e then
          (if entry_skipped opcode e then entry_name_loop opcode rest else Some (oe_name e))
        else entry_name_loop opcode rest)"

text \<open>\<open>None\<close> is the \<^verbatim>\<open>None\<close> of the code.\<close>

definition decode_entry_name :: "u32 \<Rightarrow> string option" where
  "decode_entry_name opcode =
    (if 0x100000 \<le> opcode \<or> is_pm0 opcode then None
     else entry_name_loop opcode (bucket_of opcode))"

text \<open>What \<^verbatim>\<open>decode\<close> returns for the entry it stops at.\<close>

definition decode_with :: "u32 \<Rightarrow> opcode_entry \<Rightarrow> instruction option" where
  "decode_with opcode e = (case oe_decode e of
     Some f \<Rightarrow> do {
       inst \<leftarrow> f opcode;
       Some (if has_invalid_register inst then Unknown opcode else normalize_ea_mode inst)
     }
   | None \<Rightarrow> Some (Unimplemented (oe_name e) opcode))"

fun decode_loop :: "u32 \<Rightarrow> u8 list \<Rightarrow> instruction option" where
  "decode_loop opcode [] = Some (Unknown opcode)"
| "decode_loop opcode (ix # rest) =
    (let e = OPCODE_TABLE ! unat ix
     in if opcode AND oe_mask e = oe_match e then
          (if entry_skipped opcode e then decode_loop opcode rest else decode_with opcode e)
        else decode_loop opcode rest)"

section \<open>Parallel instructions\<close>

definition has_standard_ea :: "u32 \<Rightarrow> u32 \<Rightarrow> bool" where
  "has_standard_ea move_bits opcode =
    (if move_bits = 1 then True
     else if 4 \<le> move_bits \<and> move_bits \<le> 7 then bit opcode 14
     else False)"

definition pm2_reserved :: "u32 \<Rightarrow> bool" where
  "pm2_reserved opcode =
    (let upper = drop_bit 8 opcode AND 0xFFFF;
         is_reg_to_reg = (upper \<noteq> 0x2000
           \<and> upper AND 0xFFF0 \<noteq> 0x2020
           \<and> upper AND 0xFFF0 \<noteq> 0x2030
           \<and> upper AND 0xFFE0 \<noteq> 0x2040
           \<and> upper AND 0xFC00 = 0x2000);
         r1 = unat (drop_bit 13 opcode AND 0x1F);
         r2 = unat (drop_bit 8 opcode AND 0x1F)
     in is_reg_to_reg \<and> (reg_name_empty r1 \<or> reg_name_empty r2))"

definition decode_parallel_instr :: "u32 \<Rightarrow> instruction option" where
  "decode_parallel_instr opcode0 =
    (let move_bits = drop_bit 20 opcode0 AND 0xF;
         std_ea = has_standard_ea move_bits opcode0;
         opcode = (if std_ea then normalize_mode6_ea opcode0 else opcode0);
         xy_ea = (4 \<le> move_bits \<and> move_bits \<le> 7 \<and> std_ea);
         mmm = drop_bit 11 opcode AND 7;
         rrr = drop_bit 8 opcode AND 7;
         value = (drop_bit 16 opcode AND 7) OR (drop_bit 17 opcode AND push_bit 3 3)
     in if xy_ea \<and> drop_bit 2 value = 0 \<and> mmm = 6 \<and> rrr = 4 then Some (Unknown opcode)
        else
          let opcode = (if xy_ea \<and> drop_bit 2 value \<noteq> 0 \<and> mmm = 6 \<and> rrr = 4
                        then opcode AND NOT (push_bit 19 1) else opcode)
          in if (move_bits = 2 \<or> move_bits = 3) \<and> pm2_reserved opcode then Some (Unknown opcode)
             else do {
               alu \<leftarrow> decode_parallel_alu (ucast (opcode AND 0xFF));
               mt \<leftarrow> move_type_from_bits move_bits;
               Some (Parallel alu mt opcode)
             })"

definition decode_pm0 :: "u32 \<Rightarrow> instruction option" where
  "decode_pm0 opcode =
    (let opcode = normalize_mode6_ea opcode;
         opcode = (if drop_bit 11 opcode AND 7 = 6 then opcode AND NOT 0x0400 else opcode)
     in do {
       alu \<leftarrow> decode_parallel_alu (ucast (opcode AND 0xFF));
       Some (Parallel alu Pm0 opcode)
     })"

definition decode :: "u32 \<Rightarrow> instruction option" where
  "decode opcode =
    (if 0x100000 \<le> opcode then decode_parallel_instr opcode
     else if is_pm0 opcode then decode_pm0 opcode
     else decode_loop opcode (bucket_of opcode))"

section \<open>Instruction length\<close>

definition ea_mode6 :: "u32 \<Rightarrow> bool" where
  "ea_mode6 op \<longleftrightarrow> drop_bit 11 op AND 7 = 6"

definition pm5_mode6 :: "u32 \<Rightarrow> bool" where
  "pm5_mode6 op \<longleftrightarrow> drop_bit 14 op AND 1 = 1 \<and> ea_mode6 op"

definition parallel_length :: "parallel_move_type \<Rightarrow> u32 \<Rightarrow> u32" where
  "parallel_length mt op =
    (if (mt = Pm0 \<or> mt = Pm1) \<and> ea_mode6 op then 2
     else if mt = Pm5 \<and> pm5_mode6 op then 2
     else if mt = Pm4 \<and> pm5_mode6 op then 2
     else 1)"

text \<open>The guarded arms of the code fall to the last arm, so they are conditionals here.\<close>

abbreviation ea_length :: "u8 \<Rightarrow> u32" where
  "ea_length ea \<equiv> (if drop_bit 3 ea = 6 then 2 else 1)"

definition instruction_length :: "instruction \<Rightarrow> u32" where
  "instruction_length inst = (case inst of
     Arith i \<Rightarrow> (case i of AddLong _ \<Rightarrow> 2 | SubLong _ \<Rightarrow> 2 | CmpLong _ \<Rightarrow> 2 | AndLong _ \<Rightarrow> 2
       | OrLong _ \<Rightarrow> 2 | EorLong _ \<Rightarrow> 2 | _ \<Rightarrow> 1)
   | Branch i \<Rightarrow> (case i of BccLong _ \<Rightarrow> 2 | BraLong \<Rightarrow> 2 | BsrLong \<Rightarrow> 2 | BsccLong _ \<Rightarrow> 2
       | JmpEa ea \<Rightarrow> ea_length ea | JsrEa ea \<Rightarrow> ea_length ea
       | JccEa _ ea \<Rightarrow> ea_length ea | JsccEa _ ea \<Rightarrow> ea_length ea | _ \<Rightarrow> 1)
   | Move_op i \<Rightarrow> (case i of MoveLongDisp _ _ _ _ \<Rightarrow> 2
       | Movep23 _ ea _ _ _ \<Rightarrow> ea_length ea | Movep1 _ ea _ _ \<Rightarrow> ea_length ea
       | MovepQq _ ea _ _ _ \<Rightarrow> ea_length ea | MovepQqPea _ ea _ _ \<Rightarrow> ea_length ea
       | MovecEa ea _ _ _ \<Rightarrow> ea_length ea | MovemEa ea _ _ \<Rightarrow> ea_length ea | _ \<Rightarrow> 1)
   | Mul i \<Rightarrow> (case i of MpyI _ _ _ \<Rightarrow> 2 | MpyrI _ _ _ \<Rightarrow> 2 | MacI _ _ _ \<Rightarrow> 2
       | MacrI _ _ _ \<Rightarrow> 2 | _ \<Rightarrow> 1)
   | Loop i \<Rightarrow> (case i of EndDo \<Rightarrow> 1 | RepEa _ _ \<Rightarrow> 1 | RepAa _ _ \<Rightarrow> 1 | RepImm _ \<Rightarrow> 1
       | RepReg _ \<Rightarrow> 1 | _ \<Rightarrow> 2)
   | Bit_jump _ \<Rightarrow> 2
   | Bit_branch _ \<Rightarrow> 2
   | Bit_bsr _ \<Rightarrow> 2
   | Bitop i \<Rightarrow> (case i of BclrEa _ ea _ \<Rightarrow> ea_length ea | BsetEa _ ea _ \<Rightarrow> ea_length ea
       | BtstEa _ ea _ \<Rightarrow> ea_length ea | BchgEa _ ea _ \<Rightarrow> ea_length ea | _ \<Rightarrow> 1)
   | Address (LraDisp _) \<Rightarrow> 2
   | Field i \<Rightarrow> (case i of ExtractImm _ _ \<Rightarrow> 2 | ExtractuImm _ _ \<Rightarrow> 2 | InsertImm _ _ \<Rightarrow> 2
       | _ \<Rightarrow> 1)
   | Cache i \<Rightarrow> (case i of Plockr \<Rightarrow> 2 | Punlockr \<Rightarrow> 2
       | PlockEa ea \<Rightarrow> ea_length ea | PunlockEa ea \<Rightarrow> ea_length ea | _ \<Rightarrow> 1)
   | Vsl _ ea _ \<Rightarrow> ea_length ea
   | Parallel _ mt op \<Rightarrow> parallel_length mt op
   | _ \<Rightarrow> 1)"

end
