(* ===== verification/Template_Laws.thy ===== *)
theory Template_Laws
  imports Decode
begin

text \<open>
  What the template machinery computes: the fixed bits of a template, the number a field's
  bits spell and its bound, and the mask, match value and addressing-mode flags of all 185
  table entries, evaluated once.
\<close>

section \<open>Masks and fields\<close>

definition is_fixed :: "char \<Rightarrow> bool" where
  "is_fixed c \<longleftrightarrow> c = CHR ''0'' \<or> c = CHR ''1''"

lemma template_to_mask_match_bits:
  fixes t :: string
  defines "step \<equiv> \<lambda>i (mask :: u32, match_val).
        let bit = 23 - i in
        if t ! i = CHR ''0'' then (mask OR push_bit bit 1, match_val)
        else if t ! i = CHR ''1'' then (mask OR push_bit bit 1, match_val OR push_bit bit 1)
        else (mask, match_val :: u32)"
  assumes "n \<le> 24"
  shows "bit (fst (fold step [0..<n] (0, 0))) k \<longleftrightarrow> k < 24 \<and> 23 - k < n \<and> is_fixed (t ! (23 - k))"
    and "bit (snd (fold step [0..<n] (0, 0))) k \<longleftrightarrow> k < 24 \<and> 23 - k < n \<and> t ! (23 - k) = CHR ''1''"
  using assms(2)
proof (induction n)
  case 0
  { case 1 then show ?case by simp }
  { case 2 then show ?case by simp }
next
  case (Suc n)
  have k: "(k = 23 - n) \<longleftrightarrow> k < 24 \<and> 23 - k = n" if "n < 24" using that by auto
  obtain m v where mv: "fold step [0..<n] (0, 0) = (m, v)" by fastforce
  { case 1
    then show ?case using Suc.IH(1) mv k
      by (auto simp: step_def Let_def is_fixed_def bit_simps less_Suc_eq split: if_splits)
  }
  { case 2
    then show ?case using Suc.IH(2) mv k
      by (auto simp: step_def Let_def bit_simps less_Suc_eq split: if_splits)
  }
qed

text \<open>The same pair by one pass over the characters, which evaluates quickly.\<close>

fun tmm :: "string \<Rightarrow> u32 \<Rightarrow> u32 \<Rightarrow> u32 \<times> u32" where
  "tmm [] m v = (m, v)"
| "tmm (c # cs) m v =
   (if c = CHR ''0'' then tmm cs (2 * m + 1) (2 * v)
    else if c = CHR ''1'' then tmm cs (2 * m + 1) (2 * v + 1) else tmm cs (2 * m) (2 * v))"

lemma tmm_horner:
  "tmm cs m v =
    (horner_sum of_bool 2 (rev (map is_fixed cs)) + 2 ^ length cs * m,
     horner_sum of_bool 2 (rev (map (\<lambda>c. c = CHR ''1'') cs)) + 2 ^ length cs * v)"
  by (induction cs arbitrary: m v) (auto simp: is_fixed_def horner_sum_append algebra_simps)

lemma template_to_mask_match_tmm:
  assumes "length t = 24"
  shows "template_to_mask_match t = tmm t 0 0"
proof (rule prod_eqI; rule bit_word_eqI)
  fix k
  show "bit (fst (template_to_mask_match t)) k = bit (fst (tmm t 0 0)) k" if "k < LENGTH(32)"
    using that assms template_to_mask_match_bits(1) [of 24 t k]
    by (auto simp: template_to_mask_match_def tmm_horner bit_horner_sum_bit_iff rev_nth)
  show "bit (snd (template_to_mask_match t)) k = bit (snd (tmm t 0 0)) k" if "k < LENGTH(32)"
    using that assms template_to_mask_match_bits(2) [of 24 t k]
    by (auto simp: template_to_mask_match_def tmm_horner bit_horner_sum_bit_iff rev_nth)
qed

lemma tmpl_has_mmmrrr_mem: "length t = 24 \<Longrightarrow> tmpl_has_mmmrrr t \<longleftrightarrow> CHR ''M'' \<in> set t"
  by (auto simp: tmpl_has_mmmrrr_def list_ex_iff in_set_conv_nth)

text \<open>A field is the number its bits spell, most significant first.\<close>

definition field_bits :: "string \<Rightarrow> char \<Rightarrow> nat list" where
  "field_bits t l = map (\<lambda>i. 23 - i) (filter (\<lambda>i. t ! i = l) [0..<24])"

lemma double_or_low: "r * 2 OR (drop_bit k op AND 1) = of_bool (bit op k) + 2 * (r :: u32)"
proof -
  have "r * 2 OR (drop_bit k op AND 1) = r * 2 + (drop_bit k op AND 1)"
    by (rule disjunctive_add [symmetric]) (auto simp: bit_simps bit_double_iff mult.commute [of r])
  moreover have "drop_bit k op AND 1 = of_bool (bit op k)"
    by (simp add: and_one_eq bit_iff_odd_drop_bit odd_iff_mod_2_eq_one mod2_eq_if)
  ultimately show ?thesis by simp
qed

lemma tmpl_field_horner:
  "tmpl_field t l op = horner_sum of_bool 2 (rev (map (bit op) (field_bits t l)))"
proof -
  have "fold (\<lambda>i r. if t ! i = l then push_bit 1 r OR (drop_bit (23 - i) op AND 1) else r) [0..<n] 0 =
    horner_sum of_bool 2 (rev (map (bit op) (map (\<lambda>i. 23 - i) (filter (\<lambda>i. t ! i = l) [0..<n]))))"
    for n by (induction n) (simp_all add: double_or_low)
  then show ?thesis by (simp add: tmpl_field_def field_bits_def)
qed

lemma bit_tmpl_field:
  "bit (tmpl_field t l op) k \<longleftrightarrow>
   k < length (field_bits t l) \<and> bit op (rev (field_bits t l) ! k)"
proof -
  have "length (field_bits t l) \<le> 24"
    by (simp add: field_bits_def) (metis length_filter_le length_upt minus_nat.diff_0)
  then show ?thesis
    by (auto simp: tmpl_field_horner bit_horner_sum_bit_iff rev_map [symmetric] rev_nth)
qed

lemma unat_tmpl_field_less: "unat (tmpl_field t l op) < 2 ^ length (field_bits t l)"
proof -
  have "tmpl_field t l op = take_bit (length (field_bits t l)) (tmpl_field t l op)"
    by (rule bit_word_eqI) (auto simp: bit_simps bit_tmpl_field)
  then show ?thesis by (metis take_bit_nat_less_exp unsigned_take_bit_eq)
qed

fun count_char :: "char \<Rightarrow> string \<Rightarrow> nat" where
  "count_char l [] = 0"
| "count_char l (c # cs) = (if c = l then Suc (count_char l cs) else count_char l cs)"

lemma length_field_bits: "length t = 24 \<Longrightarrow> length (field_bits t l) = count_char l t"
proof -
  assume "length t = 24"
  then have "length (field_bits t l) = length (filter (\<lambda>c. c = l) t)"
    by (simp add: field_bits_def length_filter_conv_card cong: conj_cong) 
  also have "\<dots> = count_char l t" by (induction t) auto
  finally show ?thesis .
qed

section \<open>The table, evaluated\<close>

lemma entry_sel [simp]:
  "oe_mask (entry t n d) = fst (template_to_mask_match t)"
  "oe_match (entry t n d) = snd (template_to_mask_match t)"
  "oe_name (entry t n d) = n"
  "oe_has_mmmrrr (entry t n d) = tmpl_has_mmmrrr t"
  "oe_mode6_ok (entry t n d) = True"
  "oe_decode (entry t n d) = d"
  by (simp_all add: entry_def split_beta)

lemma no_mode6_sel [simp]:
  "oe_mask (no_mode6 e) = oe_mask e" "oe_match (no_mode6 e) = oe_match e"
  "oe_name (no_mode6 e) = oe_name e" "oe_has_mmmrrr (no_mode6 e) = oe_has_mmmrrr e"
  "oe_mode6_ok (no_mode6 e) = False" "oe_decode (no_mode6 e) = oe_decode e"
  by (simp_all add: no_mode6_def)

lemmas op_shape_defs =
  op_fn_def op_dec_fn_def op_unit_def op_bit_ea_def op_bit_aa_def op_bit_pp_def op_bit_qq_def
  op_bit_reg_def op_loop_ea_def op_loop_aa_def op_loop_imm_def op_loop_reg_def op_alu_imm_def
  op_alu_long_def op_cc_def op_cc_rn_def op_cc_ea_def op_ea_def op_acc_def op_rn_def
  op_shift_imm_def op_shift_reg_def op_mulshift_def

lemmas OPCODE_TABLE_defs = OPCODE_TABLE_def OPCODE_TABLE_1_def OPCODE_TABLE_2_def

definition entry_info :: "opcode_entry \<Rightarrow> u32 \<times> u32 \<times> bool \<times> bool" where
  "entry_info e = (oe_mask e, oe_match e, oe_has_mmmrrr e, oe_mode6_ok e)"

type_synonym entry_bits = "u32 \<times> u32 \<times> bool \<times> bool"

definition table_chunks :: "entry_bits list list" where
  "table_chunks =
    [[(0xFFC0F7, 0x014080, False, True), (0xFFFFF7, 0x0140C0, False, True),
      (0xFFC0F7, 0x014086, False, True), (0xFFFFF7, 0x0140C6, False, True),
      (0xFF00FC, 0x0000B8, False, True), (0xFFFF00, 0x0C1D00, False, True),
      (0xFFFFE0, 0x0C1E40, False, True), (0xFFFF00, 0x0C1C00, False, True),
      (0xFFFFE0, 0x0C1E60, False, True), (0xFFFFF0, 0x0D1040, False, True),
      (0xFF0C20, 0x050400, False, True), (0xFFF8F0, 0x0D1840, False, True)],
     [(0xFFC0A0, 0x0B4000, True, True), (0xFFC0A0, 0x0B0000, False, True),
      (0xFFC0A0, 0x0B8000, False, True), (0xFFC0A0, 0x014000, False, True),
      (0xFFC0E0, 0x0BC040, False, True), (0xFFC0A0, 0x0A4000, True, True),
      (0xFFC0A0, 0x0A0000, False, True), (0xFFC0A0, 0x0A8000, False, True),
      (0xFFC0A0, 0x010000, False, True), (0xFFC0E0, 0x0AC040, False, True),
      (0xFFFFFF, 0x0D10C0, False, True), (0xFFFC20, 0x050C00, False, True)],
     [(0xFFF8FF, 0x0D18C0, False, True), (0xFFC0A0, 0x0C8000, True, False),
      (0xFFC0A0, 0x0C8080, False, True), (0xFFC0A0, 0x0CC000, False, True),
      (0xFFC0A0, 0x048000, False, True), (0xFFC0E0, 0x0CC080, False, True),
      (0xFFFFF0, 0x000210, False, True), (0xFFC0A0, 0x0C8020, True, False),
      (0xFFC0A0, 0x0C80A0, False, True), (0xFFC0A0, 0x0CC020, False, True),
      (0xFFC0A0, 0x048020, False, True), (0xFFC0E0, 0x0CC0A0, False, True)],
     [(0xFFFFF0, 0x0D1000, False, True), (0xFF0C20, 0x050000, False, True),
      (0xFFF8F0, 0x0D1800, False, True), (0xFFC0A0, 0x0D8000, True, False),
      (0xFFC0A0, 0x0D8080, False, True), (0xFFC0A0, 0x048080, False, True),
      (0xFFC0A0, 0x0DC000, False, True), (0xFFC0E0, 0x0DC080, False, True),
      (0xFFC0A0, 0x0A4020, True, True), (0xFFC0A0, 0x0A0020, False, True),
      (0xFFC0A0, 0x0A8020, False, True), (0xFFC0A0, 0x010020, False, True)],
     [(0xFFC0E0, 0x0AC060, False, True), (0xFFFFFF, 0x0D1080, False, True),
      (0xFFFC20, 0x050800, False, True), (0xFFF8FF, 0x0D1880, False, True),
      (0xFFC0A0, 0x0D8020, True, False), (0xFFC0A0, 0x0D80A0, False, True),
      (0xFFC0A0, 0x0DC020, False, True), (0xFFC0A0, 0x0480A0, False, True),
      (0xFFC0E0, 0x0DC0A0, False, True), (0xFFC0A0, 0x0B4020, True, True),
      (0xFFC0A0, 0x0B0020, False, True), (0xFFC0A0, 0x0B8020, False, True)],
     [(0xFFC0A0, 0x014020, False, True), (0xFFC0E0, 0x0BC060, False, True),
      (0xFFFFFC, 0x0C1E00, False, True), (0xFFC0F7, 0x014085, False, True),
      (0xFFFFF7, 0x0140C5, False, True), (0xFFFFF0, 0x0C1FF0, False, True),
      (0xFFFFFF, 0x000200, False, True), (0xFFFFF0, 0x000300, False, True),
      (0xFFFFFE, 0x00000A, False, True), (0xFFFFC7, 0x018040, False, True),
      (0xFFFE80, 0x012480, False, True), (0xFFC0BF, 0x064000, True, False)],
     [(0xFFC0BF, 0x060000, False, True), (0xFF00F0, 0x060080, False, True),
      (0xFFC0FF, 0x06C000, False, True), (0xFFFFFF, 0x000203, False, True),
      (0xFFC0BF, 0x064010, True, False), (0xFFC0BF, 0x060010, False, True),
      (0xFF00F0, 0x060090, False, True), (0xFFC0FF, 0x06C010, False, True),
      (0xFFFFFF, 0x000202, False, True), (0xFFFFFF, 0x00008C, False, True),
      (0xFFC0F7, 0x014083, False, True), (0xFFFFF7, 0x0140C3, False, True)],
     [(0xFFFFE0, 0x0C1A00, False, True), (0xFFFFEE, 0x0C1800, False, True),
      (0xFFFFE0, 0x0C1A80, False, True), (0xFFFFEE, 0x0C1880, False, True),
      (0xFFFFFF, 0x000005, False, True), (0xFFFFFE, 0x000008, False, True),
      (0xFFFF80, 0x0C1B00, False, True), (0xFFFF8E, 0x0C1900, False, True),
      (0xFF0000, 0x0E0000, False, True), (0xFFC0F0, 0x0AC0A0, True, True),
      (0xFFC0A0, 0x0A4080, True, False), (0xFFC0A0, 0x0A0080, False, True)],
     [(0xFFC0A0, 0x0A8080, False, True), (0xFFC0A0, 0x018080, False, True),
      (0xFFC0E0, 0x0AC000, False, True), (0xFFC0FF, 0x0AC080, True, True),
      (0xFFF000, 0x0C0000, False, True), (0xFF0000, 0x0F0000, False, True),
      (0xFFC0F0, 0x0BC0A0, True, True), (0xFFC0A0, 0x0B4080, True, False),
      (0xFFC0A0, 0x0B0080, False, True), (0xFFC0A0, 0x0B8080, False, True),
      (0xFFC0A0, 0x01C080, False, True), (0xFFC0E0, 0x0BC000, False, True)],
     [(0xFFC0A0, 0x0A40A0, True, False), (0xFFC0A0, 0x0A00A0, False, True),
      (0xFFC0A0, 0x0A80A0, False, True), (0xFFC0A0, 0x0180A0, False, True),
      (0xFFC0E0, 0x0AC020, False, True), (0xFFC0FF, 0x0BC080, True, True),
      (0xFFF000, 0x0D0000, False, True), (0xFFC0A0, 0x0B40A0, True, False),
      (0xFFC0A0, 0x0B00A0, False, True), (0xFFC0A0, 0x0B80A0, False, True),
      (0xFFC0A0, 0x01C0A0, False, True), (0xFFC0E0, 0x0BC020, False, True)],
     [(0xFFF8E0, 0x04C000, False, True), (0xFFFFE0, 0x044040, False, True),
      (0xFFFFC0, 0x0C1E80, False, True), (0xFFFFF0, 0x0C1E10, False, True),
      (0xFFFFC0, 0x0C1EC0, False, True), (0xFFFFF0, 0x0C1E30, False, True),
      (0xFFE0E0, 0x044000, True, True), (0xFFC000, 0x040000, False, True),
      (0xFFE0C3, 0x0100C2, False, True), (0xFFFFC3, 0x0141C2, False, True),
      (0xFFFF80, 0x012680, False, True), (0xFFE0C3, 0x0100C3, False, True)],
     [(0xFFFFC3, 0x0141C3, False, True), (0xFFFFF0, 0x0C1B80, False, True),
      (0xFE0080, 0x020080, False, True), (0xFEF880, 0x0A7080, False, True),
      (0xFF40A0, 0x054020, True, True), (0xFF40A0, 0x050020, False, True),
      (0xFF40E0, 0x0440A0, False, True), (0xFF00E0, 0x0500A0, False, True),
      (0xFF40C0, 0x074080, True, True), (0xFF40C0, 0x070000, False, True),
      (0xFE4080, 0x084080, True, True), (0xFF4080, 0x074000, True, True)],
     [(0xFF4080, 0x070080, True, True), (0xFE40C0, 0x084040, True, True),
      (0xFF8080, 0x008000, True, True), (0xFE40C0, 0x084000, False, True),
      (0xFF40A0, 0x044080, False, True), (0xFF40A0, 0x044020, False, True),
      (0xFFE0C3, 0x0100C0, False, True), (0xFFFF80, 0x012780, False, True),
      (0xFFFFC3, 0x0141C0, False, True), (0xFFE0C3, 0x0100C1, False, True),
      (0xFFFFC3, 0x0141C1, False, True), (0xFFFFFF, 0x000000, False, True)],
     [(0xFFF8F7, 0x01D815, False, True), (0xFFFFF0, 0x0C1E20, False, True),
      (0xFFC0F7, 0x014082, False, True), (0xFFFFF7, 0x0140C2, False, True),
      (0xFF00FC, 0x0000F8, False, True), (0xFFFFFF, 0x000003, False, True),
      (0xFFFFFF, 0x000001, False, True), (0xFFFFFF, 0x000002, False, True),
      (0xFFC0FF, 0x0BC081, True, True), (0xFFFFFF, 0x00000F, False, True),
      (0xFFC0FF, 0x0AC081, True, True), (0xFFFFFF, 0x00000E, False, True)],
     [(0xFFC0BF, 0x064020, True, False), (0xFFC0BF, 0x060020, False, True),
      (0xFF00F0, 0x0600A0, False, True), (0xFFC0FF, 0x06C020, False, True),
      (0xFFFFFF, 0x000084, False, True), (0xFFFFFF, 0x000004, False, True),
      (0xFFFFFF, 0x00000C, False, True), (0xFFFFFF, 0x000087, False, True),
      (0xFFC0F7, 0x014084, False, True), (0xFFFFF7, 0x0140C4, False, True),
      (0xFF0F87, 0x020000, False, True), (0xFF0880, 0x030000, False, True)],
     [(0xFF08F8, 0x020800, False, True), (0xFFFFFF, 0x000006, False, True),
      (0xFFFFF0, 0x000010, False, True), (0xFEC0EF, 0x0AC0C0, True, True),
      (0xFFFFFF, 0x000086, False, True)]]"

definition table_info :: "entry_bits list" where
  "table_info = concat table_chunks"

lemma entry_info_entry:
  "length t = 24 \<Longrightarrow> entry_info (entry t n d) =
    (fst (tmm t 0 0), snd (tmm t 0 0), CHR ''M'' \<in> set t, True)"
  "length t = 24 \<Longrightarrow> entry_info (no_mode6 (entry t n d)) =
    (fst (tmm t 0 0), snd (tmm t 0 0), CHR ''M'' \<in> set t, False)"
  by (simp_all add: entry_info_def template_to_mask_match_tmm tmpl_has_mmmrrr_mem)

lemma table_info: "map entry_info OPCODE_TABLE = table_info"
  unfolding OPCODE_TABLE_defs op_shape_defs table_info_def table_chunks_def
  by (simp add: entry_info_entry del: entry_sel no_mode6_sel)
end
