(* ===== verification/Prefix_Laws.thy ===== *)
theory Prefix_Laws
  imports Template_Laws
begin

text \<open>
  The prefix dispatch table: building it never overflows a bucket, each bucket holds exactly the
  table's entries compatible with the prefix, in table order, and no two entries of a bucket
  accept the same opcode.
\<close>

section \<open>Buckets, evaluated\<close>

definition top4 :: "entry_bits \<Rightarrow> u32 \<times> u32" where
  "top4 = (\<lambda>(m, v, _). (drop_bit 16 m AND 0xF, drop_bit 16 v AND 0xF))"

definition top4_hit :: "nat \<Rightarrow> (u32 \<times> u32) \<times> entry_bits \<Rightarrow> bool" where
  "top4_hit p = (\<lambda>((m, v), _). word_of_nat p AND m = v)"

definition infos_exclusive :: "entry_bits \<Rightarrow> entry_bits \<Rightarrow> bool" where
  "infos_exclusive = (\<lambda>(m1, v1, h1, k1) (m2, v2, h2, k2).
     m1 AND m2 AND (v1 XOR v2) \<noteq> 0 \<or>
     (h1 \<and> \<not> k1 \<and> m2 AND 0x3800 = 0x3800 \<and> v2 AND 0x3800 = 0x3000) \<or>
     (h2 \<and> \<not> k2 \<and> m1 AND 0x3800 = 0x3800 \<and> v1 AND 0x3800 = 0x3000))"

lemma infos_exclusive_mask: "m1 AND m2 AND (v1 XOR v2) \<noteq> 0 \<Longrightarrow> infos_exclusive (m1, v1, i1) (m2, v2, i2)"
  by (simp add: infos_exclusive_def split_beta)

fun all_exclusive :: "entry_bits \<Rightarrow> entry_bits list \<Rightarrow> bool" where
  "all_exclusive x [] = True"
| "all_exclusive x (y # ys) = (infos_exclusive x y \<and> all_exclusive x ys)"

fun pairwise_exclusive :: "entry_bits list \<Rightarrow> bool" where
  "pairwise_exclusive [] = True"
| "pairwise_exclusive (x # xs) = (all_exclusive x xs \<and> pairwise_exclusive xs)"

definition bucket_fine :: "entry_bits list \<Rightarrow> bool" where
  "bucket_fine xs \<longleftrightarrow> length xs \<le> 34 \<and> pairwise_exclusive xs"

fun buckets_fine :: "nat list \<Rightarrow> ((u32 \<times> u32) \<times> entry_bits) list list \<Rightarrow> bool" where
  "buckets_fine [] ks = True"
| "buckets_fine (p # ps) ks =
     (bucket_fine (map snd (concat (map (filter (top4_hit p)) ks))) \<and> buckets_fine ps ks)"

lemma buckets_fine_table:
  "buckets_fine [0, 1, 2, 3, 4, 5, 6, 7, 8, 9, 10, 11, 12, 13, 14, 15]
     (map (map (\<lambda>e. (top4 e, e))) table_chunks)"
  by (simp add: table_chunks_def top4_def top4_hit_def bucket_fine_def infos_exclusive_mask
      cong: conj_cong) (simp add: infos_exclusive_def)

lemma buckets_fine_iff:
  "buckets_fine ps ks \<longleftrightarrow> (\<forall>p\<in>set ps. bucket_fine (map snd (filter (top4_hit p) (concat ks))))"
  by (induction ps) (auto simp: filter_concat)

lemma pairwise_exclusive_nth:
  "pairwise_exclusive xs \<Longrightarrow> i < j \<Longrightarrow> j < length xs \<Longrightarrow> infos_exclusive (xs ! i) (xs ! j)"
proof -
  have "all_exclusive x ys = (\<forall>y\<in>set ys. infos_exclusive x y)" for x ys
    by (induction ys) auto
  then have "pairwise_exclusive xs = sorted_wrt infos_exclusive xs"
    by (induction xs) auto
  then show "pairwise_exclusive xs \<Longrightarrow> i < j \<Longrightarrow> j < length xs \<Longrightarrow> infos_exclusive (xs ! i) (xs ! j)"
    by (simp add: sorted_wrt_iff_nth_less)
qed

lemma bucket_fine_prefix:
  assumes "p < 16"
  shows "bucket_fine (map snd (filter (top4_hit p) (map (\<lambda>e. (top4 e, e)) table_info)))"
proof -
  have "p \<in> set [0, 1, 2, 3, 4, 5, 6, 7, 8, 9, 10, 11, 12, 13, 14, 15]"
    using assms by (auto simp: eval_nat_numeral less_Suc_eq)
  with buckets_fine_table show ?thesis
    by (simp only: buckets_fine_iff table_info_def map_concat)
qed

lemma prefix_hit_top4: "prefix_hit p e \<longleftrightarrow> top4_hit p (top4 (entry_info e), entry_info e)"
  by (simp add: prefix_hit_def top4_def entry_info_def top4_hit_def)

section \<open>Building the table\<close>

lemma length_table_info: "length table_info = 185"
  by (simp add: table_info_def table_chunks_def)

lemma length_OPCODE_TABLE [simp]: "length OPCODE_TABLE = 185"
  using arg_cong [OF table_info, of length] by (simp add: length_table_info)

definition prefix_entries :: "nat \<Rightarrow> nat \<Rightarrow> nat list" where
  "prefix_entries n p = filter (\<lambda>i. prefix_hit p (OPCODE_TABLE ! i)) [0..<n]"

lemma filter_upt_nth: "map ((!) xs) (filter (\<lambda>i. P (xs ! i)) [0..<length xs]) = filter P xs"
proof -
  have "map ((!) xs) (filter (P \<circ> (!) xs) [0..<length xs]) = filter P (map ((!) xs) [0..<length xs])"
    by (simp only: filter_map)
  then show ?thesis by (simp add: map_nth comp_def)
qed

lemma length_prefix_entries: "n \<le> 185 \<Longrightarrow> p < 16 \<Longrightarrow> length (prefix_entries n p) \<le> 34"
proof -
  assume n: "n \<le> 185" and p: "p < 16"
  have "[0..<185] = [0..<n] @ [n..<185]" using n by (metis upt_add_eq_append le0 le_add_diff_inverse)
  then have "length (prefix_entries n p) \<le> length (prefix_entries 185 p)"
    by (simp add: prefix_entries_def)
  also have "\<dots> = length (filter (prefix_hit p) OPCODE_TABLE)"
    using arg_cong [OF filter_upt_nth [of OPCODE_TABLE "prefix_hit p"], of length]
    by (simp add: prefix_entries_def)
  also have "\<dots> = length (map snd (filter (top4_hit p) (map (\<lambda>e. (top4 e, e)) table_info)))"
    unfolding ext [of "prefix_hit p", OF prefix_hit_top4]
    by (simp add: table_info [symmetric] filter_map comp_def)
  also have "\<dots> \<le> 34"
    using bucket_fine_prefix [OF p] by (simp add: bucket_fine_def)
  finally show ?thesis .
qed

text \<open>The entries a bucket holds, and the invariant of the two loops that fill the buckets.\<close>

definition bucket_abs :: "prefix_bucket \<Rightarrow> nat list" where
  "bucket_abs b = map unat (take (unat (pb_len b)) (pb_indices b))"

definition bucket_ok :: "prefix_bucket \<Rightarrow> nat list \<Rightarrow> bool" where
  "bucket_ok b xs \<longleftrightarrow> length (pb_indices b) = 34 \<and> unat (pb_len b) = length xs \<and> length xs \<le> 34 \<and>
     bucket_abs b = xs"

lemma bucket_ok_empty: "bucket_ok empty_bucket []"
  by (simp add: bucket_ok_def empty_bucket_def bucket_abs_def)

lemma bucket_push_ok:
  assumes "bucket_ok b xs" and "length xs < 34" and "i < 256"
  shows "\<exists>b'. bucket_push (word_of_nat i) b = Some b' \<and> bucket_ok b' (xs @ [i])"
proof -
  have len: "unat (pb_len b + 1) = Suc (length xs)"
    using assms by (simp add: bucket_ok_def unat_word_ariths)
  have "take (Suc n) (ys[n := y]) = take n ys @ [y]" if "n < length ys" for n y and ys :: "u8 list"
    using that by (simp add: take_Suc_conv_app_nth)
  then show ?thesis
    using assms len
    by (auto simp: bucket_push_def bucket_ok_def bucket_abs_def unat_of_nat)
qed

definition table_ok :: "nat \<Rightarrow> nat \<Rightarrow> prefix_table \<Rightarrow> bool" where
  "table_ok i k t \<longleftrightarrow> length t = 16 \<and>
     (\<forall>p<16. bucket_ok (t ! p) (prefix_entries (if p < k then Suc i else i) p))"

lemma table_okD: "table_ok i k t \<Longrightarrow> p < 16 \<Longrightarrow>
    bucket_ok (t ! p) (prefix_entries (if p < k then Suc i else i) p)"
  by (simp add: table_ok_def)

lemma add_to_bucket_ok:
  assumes "table_ok i k t" and "k < 16" and "i < 185"
  shows "\<exists>t'. add_to_bucket i k t = Some t' \<and> table_ok i (Suc k) t'"
proof (cases "prefix_hit k (OPCODE_TABLE ! i)")
  case True
  have ok: "bucket_ok (t ! k) (prefix_entries i k)"
    using table_okD [OF assms(1,2)] by simp
  have step: "prefix_entries (Suc i) k = prefix_entries i k @ [i]"
    using True by (simp add: prefix_entries_def)
  have "length (prefix_entries (Suc i) k) \<le> 34"
    using assms by (intro length_prefix_entries) auto
  then have "length (prefix_entries i k) < 34" by (simp add: step)
  from bucket_push_ok [OF ok this, of i] assms(3)
  obtain b where "bucket_push (word_of_nat i) (t ! k) = Some b" "bucket_ok b (prefix_entries (Suc i) k)"
    by (auto simp: step)
  note b = this
  have "bucket_ok (t[k := b] ! p) (prefix_entries (if p < Suc k then Suc i else i) p)"
    if "p < 16" for p
    using that b(2) assms(1,2) by (cases "p = k") (auto simp: table_ok_def less_Suc_eq)
  with True assms b(1) show ?thesis by (simp add: add_to_bucket_def table_ok_def)
next
  case False
  then have "prefix_entries (Suc i) k = prefix_entries i k" by (simp add: prefix_entries_def)
  then have "bucket_ok (t ! p) (prefix_entries (if p < Suc k then Suc i else i) p)"
    if "p < 16" for p
    using that assms(1) by (cases "p = k") (auto simp: table_ok_def less_Suc_eq)
  with False assms(1) show ?thesis by (simp add: add_to_bucket_def table_ok_def)
qed

lemma build_prefix_table_ok:
  "\<exists>t. build_prefix_table = Some t \<and> table_ok 185 0 t"
proof -
  have inner: "\<exists>t'. mfold (add_to_bucket i) [0..<16] t = Some t' \<and> table_ok (Suc i) 0 t'"
    if "i < 185" "table_ok i 0 t" for i t
  proof -
    have "\<exists>t'. mfold (add_to_bucket i) [0..<16] t = Some t' \<and> table_ok i 16 t'"
      by (rule mfold_upt_invar) (use that add_to_bucket_ok in auto)
    then show ?thesis by (auto simp: table_ok_def)
  qed
  have "table_ok 0 0 (replicate 16 empty_bucket)"
    by (simp add: table_ok_def bucket_ok_empty prefix_entries_def)
  from mfold_upt_invar [where I = "\<lambda>i. table_ok i 0", OF this inner, of 185]
  show ?thesis by (simp add: build_prefix_table_def)
qed

lemma bucket_of_entries:
  "map unat (bucket_of opcode) = prefix_entries 185 (unat (drop_bit 16 opcode AND 0xF))"
proof -
  obtain t where t: "build_prefix_table = Some t" "table_ok 185 0 t"
    using build_prefix_table_ok by blast
  have "unat (drop_bit 16 opcode AND mask 4) < 2 ^ 4" by (rule and_mask_le)
  then have "unat (drop_bit 16 opcode AND 0xF) < 16" by (simp add: mask_eq_exp_minus_1)
  from table_okD [OF t(2) this]
  have "bucket_abs (t ! unat (drop_bit 16 opcode AND 0xF)) =
      prefix_entries 185 (unat (drop_bit 16 opcode AND 0xF))"
    by (simp add: bucket_ok_def)
  moreover have "PREFIX_TABLE = t" by (simp add: PREFIX_TABLE_def t(1))
  ultimately show ?thesis
    by (simp add: bucket_of_def Let_def bucket_abs_def)
qed

end
