(* ===== verification/Alu_Laws.thy ===== *)
theory Alu_Laws
  imports Parallel_Alu
begin

text \<open>
  The laws of the parallel ALU byte: decoding is total and panics nowhere, encoding inverts
  it both ways, the printed form parses back, and what the parser accepts beyond the
  decodable operations.
\<close>

section \<open>The operations the decoder produces\<close>

definition other_acc :: "accumulator \<Rightarrow> accumulator" where
  "other_acc d = (case d of Acc_A \<Rightarrow> Acc_B | Acc_B \<Rightarrow> Acc_A)"

definition mpy_pairs :: "(nat \<times> nat) list" where
  "mpy_pairs =
     [(reg_X0, reg_X0), (reg_Y0, reg_Y0), (reg_X1, reg_X0), (reg_Y1, reg_Y0),
      (reg_X0, reg_Y1), (reg_Y0, reg_X0), (reg_X1, reg_Y0), (reg_Y1, reg_X1)]"

definition acc_acc_alus :: "accumulator \<Rightarrow> accumulator \<Rightarrow> parallel_alu list" where
  "acc_acc_alus s d =
     [TfrAcc s d, Addr s d, CmpAcc s d, Subr s d, CmpmAcc s d, AddAcc s d, Addl s d,
      SubAcc s d, Subl s d]"

definition unary_alus :: "accumulator \<Rightarrow> parallel_alu list" where
  "unary_alus d =
     [Tst d, Rnd d, Clr d, Not_alu d, Asr d, Lsr d, Abs d, Ror d, Asl d, Lsl d, Neg d, Rol d]"

definition pair_alus :: "nat \<times> nat \<Rightarrow> accumulator \<Rightarrow> parallel_alu list" where
  "pair_alus p d =
     (case p of (hi, lo) \<Rightarrow> [AddXY hi lo d, Adc hi lo d, SubXY hi lo d, Sbc hi lo d])"

definition reg_alus :: "nat \<Rightarrow> accumulator \<Rightarrow> parallel_alu list" where
  "reg_alus s d =
     [AddReg s d, TfrReg s d, Or s d, Eor s d, SubReg s d, CmpReg s d, And s d, CmpmReg s d]"

definition mpy_alus :: "bool \<Rightarrow> nat \<times> nat \<Rightarrow> accumulator \<Rightarrow> parallel_alu list" where
  "mpy_alus k p d =
     (case p of (s1, s2) \<Rightarrow> [Mpy k s1 s2 d, Mpyr k s1 s2 d, Mac k s1 s2 d, Macr k s1 s2 d])"

definition decodable_alus :: "parallel_alu list" where
  "decodable_alus =
     [Move, Max_alu, Maxm] @
     concat (map (\<lambda>d.
       acc_acc_alus (other_acc d) d @ unary_alus d @
       concat (map (\<lambda>p. pair_alus p d) [(reg_X1, reg_X0), (reg_Y1, reg_Y0)]) @
       concat (map (\<lambda>s. reg_alus s d) JJ_REGS) @
       concat (map (\<lambda>k. concat (map (\<lambda>p. mpy_alus k p d) mpy_pairs)) [False, True]))
     [Acc_A, Acc_B])"

text \<open>The accumulator-to-accumulator forms whose source is their own destination.\<close>

definition same_acc_alus :: "parallel_alu list" where
  "same_acc_alus = acc_acc_alus Acc_A Acc_A @ acc_acc_alus Acc_B Acc_B"

section \<open>Evaluated tables\<close>

text \<open>
  The byte space and the list of operations are finite, so each law is one evaluation; the
  properties in the root theory are read off these.
\<close>

lemma encode_alu_table:
  "list_all (\<lambda>a. case parallel_alu_encode a of
      None \<Rightarrow> False | Some b \<Rightarrow> decode_parallel_alu b = Some a) decodable_alus"
  by code_simp

lemma text_alu_table:
  "list_all (\<lambda>a. case parallel_alu_fmt a of
      None \<Rightarrow> False | Some t \<Rightarrow> from_text t = Some a) decodable_alus"
  by code_simp

section \<open>What the parser accepts\<close>

lemma parse_acc_cases: "parse_acc s = Some d \<Longrightarrow> d = Acc_A \<or> d = Acc_B"
  by (cases d) auto

lemma parse_jj_reg_set: "parse_jj_reg s = Some r \<Longrightarrow> r \<in> set JJ_REGS"
  by (auto simp: parse_jj_reg_def JJ_REGS_def split: if_splits)

lemma parse_xy_pair_set:
  "parse_xy_pair s = Some p \<Longrightarrow> p \<in> set [(reg_X1, reg_X0), (reg_Y1, reg_Y0)]"
  by (auto simp: parse_xy_pair_def split: if_splits)

lemma parse_qqq_pair_set: "parse_qqq_pair s1 s2 = Some p \<Longrightarrow> p \<in> set mpy_pairs"
  by (auto simp: parse_qqq_pair_def mpy_pairs_def split: if_splits Option.bind_splits)

lemma from_text_unary_set:
  "from_text_unary m ops = Some a \<Longrightarrow> \<exists>d. a \<in> set (unary_alus d)"
  by (auto simp: from_text_unary_def unary_alus_def split: Option.bind_splits if_splits)

lemma from_text_binary_set:
  assumes "from_text_binary m ops = Some a"
  shows "(\<exists>s d. a \<in> set (acc_acc_alus s d)) \<or>
    (\<exists>p d. p \<in> set [(reg_X1, reg_X0), (reg_Y1, reg_Y0)] \<and> a \<in> set (pair_alus p d)) \<or>
    (\<exists>s d. s \<in> set JJ_REGS \<and> a \<in> set (reg_alus s d))"
proof -
  from assms obtain d where d: "parse_acc (ops ! 1) = Some d"
    by (auto simp: from_text_binary_def split: Option.bind_splits if_splits)
  show ?thesis
  proof (cases "parse_acc (ops ! 0)")
    case (Some s)
    with assms d have "a \<in> set (acc_acc_alus s d)"
      by (auto simp: from_text_binary_def acc_acc_alus_def split: if_splits)
    then show ?thesis by blast
  next
    case None
    note no_acc = None
    show ?thesis
    proof (cases "parse_xy_pair (ops ! 0)")
      case (Some p)
      with assms d no_acc have "a \<in> set (pair_alus p d)"
        by (cases p) (auto simp: from_text_binary_def pair_alus_def split: if_splits)
      with Some show ?thesis using parse_xy_pair_set by blast
    next
      case None
      with assms d no_acc obtain s where s: "parse_jj_reg (ops ! 0) = Some s"
        by (auto simp: from_text_binary_def split: if_splits option.splits)
      with assms d no_acc None have "a \<in> set (reg_alus s d)"
        by (auto simp: from_text_binary_def reg_alus_def split: if_splits)
      with s show ?thesis using parse_jj_reg_set by blast
    qed
  qed
qed

lemma from_text_mpy_set:
  assumes "from_text_mpy m ops = Some a"
  shows "\<exists>k p d. p \<in> set mpy_pairs \<and> a \<in> set (mpy_alus k p d)"
proof -
  from assms obtain d k t s1 s2 where p: "parse_qqq_pair t (ops ! 1) = Some (s1, s2)"
    and "switch m
         [(''mpy'', Some (Mpy k s1 s2 d)), (''mpyr'', Some (Mpyr k s1 s2 d)),
          (''mac'', Some (Mac k s1 s2 d)), (''macr'', Some (Macr k s1 s2 d))] None = Some a"
    unfolding from_text_mpy_def by (auto simp: bind_eq_Some_conv simp del: switch.simps split: if_splits)
  then have "a \<in> set (mpy_alus k (s1, s2) d)"
    by (auto simp: mpy_alus_def simp del: switch.simps dest!: switch_SomeD)
  with p show ?thesis using parse_qqq_pair_set by blast
qed

section \<open>Range of the decoder\<close>

lemma decodable_misc: "a \<in> {Move, Max_alu, Maxm} \<Longrightarrow> a \<in> set decodable_alus"
  by (auto simp: decodable_alus_def)

lemma decodable_unary: "a \<in> set (unary_alus d) \<Longrightarrow> a \<in> set decodable_alus"
  by (cases d) (auto simp: decodable_alus_def)

lemma decodable_pair:
  "a \<in> set (pair_alus p d) \<Longrightarrow> p \<in> set [(reg_X1, reg_X0), (reg_Y1, reg_Y0)] \<Longrightarrow>
   a \<in> set decodable_alus"
  by (cases d) (auto simp: decodable_alus_def)

lemma decodable_reg:
  "a \<in> set (reg_alus s d) \<Longrightarrow> s \<in> set JJ_REGS \<Longrightarrow> a \<in> set decodable_alus"
  by (cases d) (auto simp: decodable_alus_def)

lemma decodable_mpy:
  "a \<in> set (mpy_alus k p d) \<Longrightarrow> p \<in> set mpy_pairs \<Longrightarrow> a \<in> set decodable_alus"
  by (cases d; cases k) (auto simp: decodable_alus_def)

lemma decodable_acc_acc:
  "a \<in> set (acc_acc_alus s d) \<Longrightarrow> a \<in> set decodable_alus \<or> a \<in> set same_acc_alus"
  by (cases s; cases d) (auto simp: decodable_alus_def same_acc_alus_def other_acc_def)

lemma decodable_acc_acc_other:
  "a \<in> set (acc_acc_alus (other_acc d) d) \<Longrightarrow> a \<in> set decodable_alus"
  by (cases d) (auto simp: decodable_alus_def)

text \<open>The same set as a predicate on one operation.\<close>

fun alu_wf :: "parallel_alu \<Rightarrow> bool" where
  "alu_wf Undefined = False"
| "alu_wf (TfrAcc s d) = (s = other_acc d)"
| "alu_wf (Addr s d) = (s = other_acc d)"
| "alu_wf (CmpAcc s d) = (s = other_acc d)"
| "alu_wf (Subr s d) = (s = other_acc d)"
| "alu_wf (CmpmAcc s d) = (s = other_acc d)"
| "alu_wf (AddAcc s d) = (s = other_acc d)"
| "alu_wf (Addl s d) = (s = other_acc d)"
| "alu_wf (SubAcc s d) = (s = other_acc d)"
| "alu_wf (Subl s d) = (s = other_acc d)"
| "alu_wf (AddXY hi lo d) = ((hi, lo) \<in> set [(reg_X1, reg_X0), (reg_Y1, reg_Y0)])"
| "alu_wf (Adc hi lo d) = ((hi, lo) \<in> set [(reg_X1, reg_X0), (reg_Y1, reg_Y0)])"
| "alu_wf (SubXY hi lo d) = ((hi, lo) \<in> set [(reg_X1, reg_X0), (reg_Y1, reg_Y0)])"
| "alu_wf (Sbc hi lo d) = ((hi, lo) \<in> set [(reg_X1, reg_X0), (reg_Y1, reg_Y0)])"
| "alu_wf (AddReg s d) = (s \<in> set JJ_REGS)"
| "alu_wf (TfrReg s d) = (s \<in> set JJ_REGS)"
| "alu_wf (Or s d) = (s \<in> set JJ_REGS)"
| "alu_wf (Eor s d) = (s \<in> set JJ_REGS)"
| "alu_wf (SubReg s d) = (s \<in> set JJ_REGS)"
| "alu_wf (CmpReg s d) = (s \<in> set JJ_REGS)"
| "alu_wf (And s d) = (s \<in> set JJ_REGS)"
| "alu_wf (CmpmReg s d) = (s \<in> set JJ_REGS)"
| "alu_wf (Mpy k s1 s2 d) = ((s1, s2) \<in> set mpy_pairs)"
| "alu_wf (Mpyr k s1 s2 d) = ((s1, s2) \<in> set mpy_pairs)"
| "alu_wf (Mac k s1 s2 d) = ((s1, s2) \<in> set mpy_pairs)"
| "alu_wf (Macr k s1 s2 d) = ((s1, s2) \<in> set mpy_pairs)"
| "alu_wf _ = True"

lemma alu_wf_decodable:
  assumes "alu_wf a"
  shows "a \<in> set decodable_alus"
proof -
  from assms consider "a \<in> {Move, Max_alu, Maxm}"
    | k p d where "p \<in> set mpy_pairs" "a \<in> set (mpy_alus k p d)"
    | d where "a \<in> set (unary_alus d)" | d where "a \<in> set (acc_acc_alus (other_acc d) d)"
    | p d where "p \<in> set [(reg_X1, reg_X0), (reg_Y1, reg_Y0)]" "a \<in> set (pair_alus p d)"
    | s d where "s \<in> set JJ_REGS" "a \<in> set (reg_alus s d)"
    by (cases a) (force simp: mpy_alus_def unary_alus_def acc_acc_alus_def reg_alus_def
        pair_alus_def)+
  then show ?thesis
    by cases (blast intro: decodable_misc decodable_unary decodable_pair decodable_reg
        decodable_mpy decodable_acc_acc_other)+
qed

text \<open>
  All bytes in one evaluation: decoding is total, undefined on three bytes and otherwise inverted by
  encoding; the operation is one of the above, and bit 3 of the byte is its destination.
\<close>

lemma decode_alu_table:
  "\<forall>b. case decode_parallel_alu b of
      None \<Rightarrow> False
    | Some a \<Rightarrow> ((a = Undefined) = (b \<in> {0x04, 0x08, 0x0C}) \<and>
        (a \<noteq> Undefined \<longrightarrow> parallel_alu_encode a = Some b)) \<and>
        (a = Undefined \<or> alu_wf a) \<and>
        (case dest_accumulator a of None \<Rightarrow> True | Some d \<Rightarrow> b = 0x15 \<or> (d = Acc_B) = bit b 3)"
  unfolding word8_all by code_simp

lemma decode_alu_cases:
  obtains a where "decode_parallel_alu b = Some a" "(a = Undefined) = (b \<in> {0x04, 0x08, 0x0C})"
    "a \<noteq> Undefined \<Longrightarrow> parallel_alu_encode a = Some b" "a = Undefined \<or> alu_wf a"
    "\<And>d. dest_accumulator a = Some d \<Longrightarrow> b = 0x15 \<or> (d = Acc_B) = bit b 3"
proof (cases "decode_parallel_alu b")
  case None
  with spec [OF decode_alu_table, of b] show thesis by simp
next
  case (Some a)
  with spec [OF decode_alu_table, of b] show thesis by (intro that [of a]) auto
qed

lemma decode_alu_range:
  "decode_parallel_alu b = Some a \<Longrightarrow> a = Undefined \<or> a \<in> set decodable_alus"
  by (rule decode_alu_cases [of b]) (auto intro: alu_wf_decodable)

section \<open>Properties\<close>

text \<open>
  C12. Decoding the ALU byte never reaches one of its \<^verbatim>\<open>unreachable!()\<close> arms; the only
  undefined bytes are 0x04, 0x08 and 0x0C, and every other byte is what \<^verbatim>\<open>encode\<close> gives back
  for the decoded operation.
\<close>

theorem alu_decode_total_encode:
  "\<exists>a. decode_parallel_alu b = Some a \<and>
     parallel_alu_encode a = (if b = 0x04 \<or> b = 0x08 \<or> b = 0x0C then None else Some b)"
  by (rule decode_alu_cases [of b]) auto

text \<open>
  C13. Encoding inverts decoding exactly on the decodable operations: an operation has a byte that
  decodes back to it if and only if its source is the other accumulator, a register of its
  field's table or a multiplier pair of the encoding.
\<close>

theorem alu_encode_decode_iff:
  "(\<exists>b. parallel_alu_encode a = Some b \<and> decode_parallel_alu b = Some a) \<longleftrightarrow>
   a \<in> set decodable_alus"
proof
  assume "\<exists>b. parallel_alu_encode a = Some b \<and> decode_parallel_alu b = Some a"
  then show "a \<in> set decodable_alus" by (auto dest: decode_alu_range)
next
  assume "a \<in> set decodable_alus"
  with encode_alu_table
  show "\<exists>b. parallel_alu_encode a = Some b \<and> decode_parallel_alu b = Some a"
    by (auto simp: list_all_iff split: option.splits)
qed

text \<open>
  C14. The printed text of every decodable ALU operation parses back to that operation.
\<close>

theorem alu_text_roundtrip:
  "list_all (\<lambda>a. Option.bind (parallel_alu_fmt a) from_text = Some a) decodable_alus"
  using text_alu_table by (auto simp: list_all_iff split: option.splits)

text \<open>
  The parser accepts, beyond the decodable operations, only the forms whose source is their
  own destination accumulator (\<^verbatim>\<open>add a,a\<close>).
\<close>

theorem alu_from_text_range:
  assumes "from_text t = Some a"
  shows "a \<in> set decodable_alus \<or> a \<in> set same_acc_alus"
proof -
  have chain: "P = Some a \<or> Q = Some a \<or> (R \<and> R' = a) \<or> S = Some a"
    if "(if c1 then P else if c2 then Q else if c3 then (if R then Some R' else None)
         else if c4 then S else None) = Some a" for c1 c2 c3 c4 P Q R R' S
    using that by (auto split: if_split_asm)
  have "a = Move \<or> (\<exists>m ops. from_text_unary m ops = Some a \<or> from_text_binary m ops = Some a \<or>
      (if m = ''max'' then Max_alu else Maxm) = a \<or> from_text_mpy m ops = Some a)"
  proof (cases "t = ''move''")
    case True
    with assms show ?thesis by (simp add: from_text_def)
  next
    case False
    with assms obtain m ops where
      "(let ops = split_char (CHR '','') ops in
        if m \<in> set [''tst'', ''rnd'', ''clr'', ''not'', ''asr'', ''lsr'', ''abs'',
                          ''ror'', ''asl'', ''lsl'', ''neg'', ''rol'']
       then from_text_unary m ops
       else if m \<in> set [''tfr'', ''add'', ''sub'', ''cmp'', ''cmpm'', ''addr'', ''subr'',
                               ''addl'', ''subl'', ''adc'', ''sbc'', ''or'', ''eor'', ''and'']
       then from_text_binary m ops
       else if m \<in> set [''max'', ''maxm'']
       then (if length ops = 2 \<and> ops ! 0 = ''a'' \<and> ops ! 1 = ''b''
             then Some (if m = ''max'' then Max_alu else Maxm) else None)
       else if m \<in> set [''mpy'', ''mpyr'', ''mac'', ''macr'']
       then from_text_mpy m ops
       else None) = Some a"
      unfolding from_text_def by (simp only: if_False bind_eq_Some_conv split_paired_Ex prod.case) blast
    from chain [OF this [unfolded Let_def]] show ?thesis by blast
  qed
  then consider "a = Move" | m ops where "from_text_unary m ops = Some a"
    | m ops where "from_text_binary m ops = Some a" | m ops where "from_text_mpy m ops = Some a"
    | "a = Max_alu" | "a = Maxm"
    by (elim disjE exE) (blast, blast, blast, metis, blast)
  then show ?thesis
  proof cases
    case 2
    then show ?thesis using from_text_unary_set decodable_unary by blast
  next
    case 3
    from from_text_binary_set [OF this] show ?thesis
      by (blast dest: decodable_acc_acc decodable_pair decodable_reg)
  next
    case 4
    then show ?thesis using from_text_mpy_set decodable_mpy by blast
  qed (simp_all add: decodable_alus_def)
qed

theorem alu_from_text_range_witness:
  "AddAcc Acc_A Acc_A \<in> set decodable_alus \<or> AddAcc Acc_A Acc_A \<in> set same_acc_alus"
proof (rule alu_from_text_range)
  show "from_text ''add a,a'' = Some (AddAcc Acc_A Acc_A)" by code_simp
qed

text \<open>
  Such a form is assembled to another instruction: the text \<^verbatim>\<open>add a,a\<close> becomes the byte of
  \<^verbatim>\<open>add b,a\<close>.
\<close>

lemma alu_same_acc_text_unfaithful:
  "do { a \<leftarrow> from_text ''add a,a''; b \<leftarrow> parallel_alu_encode a; a' \<leftarrow> decode_parallel_alu b;
        parallel_alu_fmt a' } = Some ''add b,a''"
  by code_simp

end
