(* ===== verification/Decode_Laws.thy ===== *)
theory Decode_Laws
  imports Prefix_Laws Alu_Laws
begin

text \<open>
  The laws of the decoder: the bucket lookup is a scan of the whole table, at most one entry
  accepts an opcode and every entry is reachable, no opcode makes the decoder panic, a decoded
  instruction names no reserved register and is normalised, and the opcode stored in a parallel
  instruction is canonical.
\<close>

section \<open>Lookup\<close>

text \<open>The entry at which the loops stop.\<close>

definition entry_accepts :: "u32 \<Rightarrow> opcode_entry \<Rightarrow> bool" where
  "entry_accepts opcode e \<longleftrightarrow>
     opcode AND oe_mask e = oe_match e \<and> \<not> entry_skipped opcode e"

lemma decode_loop_find:
  "decode_loop opcode ixs = (case find (entry_accepts opcode) (map (\<lambda>ix. OPCODE_TABLE ! unat ix) ixs) of
     None \<Rightarrow> Some (Unknown opcode) | Some e \<Rightarrow> decode_with opcode e)"
  by (induction ixs) (auto simp: Let_def entry_accepts_def)

lemma entry_name_loop_find:
  "entry_name_loop opcode ixs =
     map_option oe_name (find (entry_accepts opcode) (map (\<lambda>ix. OPCODE_TABLE ! unat ix) ixs))"
  by (induction ixs) (auto simp: Let_def entry_accepts_def)

lemma find_filter_weaker: "(\<And>x. P x \<Longrightarrow> Q x) \<Longrightarrow> find P (filter Q xs) = find P xs"
  by (induction xs) auto

lemma masked_prefix_hit:
  assumes "opcode AND oe_mask e = oe_match e"
  shows "prefix_hit (unat (drop_bit 16 opcode AND 0xF)) e"
proof -
  have "drop_bit 16 (oe_match e) = drop_bit 16 opcode AND drop_bit 16 (oe_mask e)"
    by (simp add: assms [symmetric] drop_bit_and)
  then show ?thesis
    by (simp add: prefix_hit_def Let_def ac_simps)
qed

lemma bucket_entries:
  "map (\<lambda>ix. OPCODE_TABLE ! unat ix) (bucket_of opcode) =
   filter (prefix_hit (unat (drop_bit 16 opcode AND 0xF))) OPCODE_TABLE"
proof -
  have "map (\<lambda>ix. OPCODE_TABLE ! unat ix) (bucket_of opcode) =
      map ((!) OPCODE_TABLE) (map unat (bucket_of opcode))"
    by simp
  also have "\<dots> = filter (prefix_hit (unat (drop_bit 16 opcode AND 0xF))) OPCODE_TABLE"
    using filter_upt_nth [of OPCODE_TABLE "prefix_hit (unat (drop_bit 16 opcode AND 0xF))"]
    by (simp add: bucket_of_entries prefix_entries_def)
  finally show ?thesis .
qed

lemma find_bucket:
  "find (entry_accepts opcode) (map (\<lambda>ix. OPCODE_TABLE ! unat ix) (bucket_of opcode)) =
   find (entry_accepts opcode) OPCODE_TABLE"
  unfolding bucket_entries
  by (rule find_filter_weaker) (simp add: entry_accepts_def masked_prefix_hit)

lemma decode_eq_scan:
  "decode opcode =
    (if 0x100000 \<le> opcode then decode_parallel_instr opcode
     else if is_pm0 opcode then decode_pm0 opcode
     else (case find (entry_accepts opcode) OPCODE_TABLE of
             None \<Rightarrow> Some (Unknown opcode) | Some e \<Rightarrow> decode_with opcode e))"
  by (simp add: decode_def decode_loop_find find_bucket)

section \<open>At most one entry accepts an opcode\<close>

lemma masked_agree:
  fixes op :: u32
  assumes "op AND m1 = v1" "op AND m2 = v2"
  shows "m1 AND m2 AND (v1 XOR v2) = 0"
  unfolding assms [symmetric] by (rule bit_word_eqI) (auto simp: bit_simps)

lemma mode6_of_match:
  fixes op :: u32
  assumes "op AND m = v" "m AND 0x3800 = 0x3800" "v AND 0x3800 = 0x3000"
  shows "drop_bit 11 op AND 7 = 6"
proof -
  have "op AND 0x3800 = 0x3000"
    using assms by (metis and.assoc)
  then have "drop_bit 11 (op AND 0x3800) = drop_bit 11 (0x3000 :: u32)" by simp
  then show ?thesis by (simp add: drop_bit_and)
qed

lemma exclusive_not_both:
  assumes "infos_exclusive (entry_info e1) (entry_info e2)"
  shows "\<not> (entry_accepts op e1 \<and> entry_accepts op e2)"
proof
  assume acc: "entry_accepts op e1 \<and> entry_accepts op e2"
  then have m: "op AND oe_mask e1 = oe_match e1" "op AND oe_mask e2 = oe_match e2"
    by (simp_all add: entry_accepts_def)
  note mode6_of_match [OF m(1)] mode6_of_match [OF m(2)] masked_agree [OF m]
  with acc assms show False
    by (auto simp: infos_exclusive_def entry_info_def entry_accepts_def entry_skipped_def)
qed

lemma length_filter_le_1:
  "sorted_wrt (\<lambda>x y. \<not> (P x \<and> P y)) xs \<Longrightarrow> length (filter P xs) \<le> 1"
proof (induction xs)
  case (Cons x xs)
  then show ?case by (cases "P x") (auto simp: filter_empty_conv)
qed simp

lemma accepting_entries_le_1: "length (filter (entry_accepts op) OPCODE_TABLE) \<le> 1"
proof -
  define p where "p = unat (drop_bit 16 op AND 0xF)"
  define b where "b = filter (prefix_hit p) OPCODE_TABLE"
  have "unat (drop_bit 16 op AND mask 4) < 2 ^ 4" by (rule and_mask_le)
  then have "p < 16" by (simp add: p_def mask_eq_exp_minus_1)
  from bucket_fine_prefix [OF this]
  have "pairwise_exclusive (map entry_info b)"
    unfolding b_def ext [of "prefix_hit p", OF prefix_hit_top4]
    by (simp add: bucket_fine_def table_info [symmetric] filter_map comp_def)
  then have "sorted_wrt (\<lambda>x y. \<not> (entry_accepts op x \<and> entry_accepts op y)) b"
    using pairwise_exclusive_nth [of "map entry_info b"] exclusive_not_both
    by (fastforce simp: sorted_wrt_iff_nth_less)
  then have "length (filter (entry_accepts op) b) \<le> 1" by (rule length_filter_le_1)
  moreover have "filter (entry_accepts op) b = filter (entry_accepts op) OPCODE_TABLE"
    unfolding b_def filter_filter
    by (rule filter_cong) (auto simp: entry_accepts_def p_def masked_prefix_hit)
  ultimately show ?thesis by simp
qed

lemma find_accepting:
  assumes "e \<in> set OPCODE_TABLE" "entry_accepts op e"
  shows "find (entry_accepts op) OPCODE_TABLE = Some e"
proof -
  obtain e' where e': "find (entry_accepts op) OPCODE_TABLE = Some e'"
    using assms by (metis find_None_iff option.exhaust)
  then have "e' \<in> set (filter (entry_accepts op) OPCODE_TABLE)"
    by (auto simp: find_Some_iff in_set_conv_nth)
  moreover have "e \<in> set (filter (entry_accepts op) OPCODE_TABLE)" using assms by simp
  ultimately have "e = e'"
    using accepting_entries_le_1 [of op]
    by (cases "filter (entry_accepts op) OPCODE_TABLE") auto
  with e' show ?thesis by simp
qed

section \<open>No panic\<close>

lemma small_field:
  assumes "length t = 24" "count_char l t \<le> n"
  shows "unat (tmpl_field t l op) < 2 ^ n"
  using unat_tmpl_field_less [of t l op] assms
  by (metis length_field_bits order_less_le_trans power_increasing one_le_numeral)

lemma tmpl_space_total:
  "length t = 24 \<Longrightarrow> count_char l t \<le> 1 \<Longrightarrow> tmpl_space t l op \<noteq> None"
  using mem_space_xy_Some [of "tmpl_field t l op"] small_field [of t l 1 op]
  by (auto simp: tmpl_space_def word_less_nat_alt)

lemma tmpl_cc_total:
  "length t = 24 \<Longrightarrow> count_char (CHR ''C'') t \<le> 4 \<Longrightarrow> tmpl_cc t op \<noteq> None"
  using cond_code_from_bits_Some [of "tmpl_field t (CHR ''C'') op"] small_field [of t "CHR ''C''" 4 op]
  by (auto simp: tmpl_cc_def word_less_nat_alt)

lemma u8_lt4: "b < 4 \<Longrightarrow> b \<in> {0, 1, 2, 3 :: u8}"
proof -
  assume "b < 4"
  then have "b \<in> word_of_nat ` {..<4}" by (intro word_in_image) (simp add: word_less_nat_alt)
  then show ?thesis by (auto simp: eval_nat_numeral lessThan_Suc)
qed

lemma qq_reg_total: "b < 4 \<Longrightarrow> qq_reg b \<noteq> None" "b < 4 \<Longrightarrow> qq_reg_mulshift b \<noteq> None"
  by (auto simp: qq_reg_def qq_reg_mulshift_def dest!: u8_lt4)

lemma tmpl_field_lt4:
  "length t = 24 \<Longrightarrow> count_char l t \<le> 2 \<Longrightarrow> (ucast (tmpl_field t l op) :: u8) < 4"
  using small_field [of t l 2 op]
  by (simp add: word_less_nat_alt unsigned_ucast_eq unsigned_take_bit_eq take_bit_eq_mod)

definition entry_total :: "opcode_entry \<Rightarrow> bool" where
  "entry_total e \<longleftrightarrow> (\<forall>f op. oe_decode e = Some f \<longrightarrow> f op \<noteq> None)"

lemma dec_tcc_total: "dec_tcc op \<noteq> None"
proof -
  have "unat (drop_bit 12 op AND mask 4) < 2 ^ 4" by (rule and_mask_le)
  then have "drop_bit 12 op AND 0xF < 16" by (simp add: mask_eq_exp_minus_1 word_less_nat_alt)
  then show ?thesis
    using cond_code_from_bits_Some [of "drop_bit 12 op AND 0xF"] by (auto simp: dec_tcc_def)
qed

lemma entries_total: "list_all entry_total OPCODE_TABLE"
  unfolding OPCODE_TABLE_defs op_shape_defs list_all_append
  by (simp add: entry_total_def tmpl_space_total tmpl_cc_total qq_reg_total tmpl_field_lt4
      dec_tcc_total Let_def Option.bind_eq_None_conv del: not_None_eq split: option.split)


lemma decode_parallel_alu_total: "decode_parallel_alu b \<noteq> None"
  by (rule decode_alu_cases [of b]) simp

lemma move_type_total: "move_type_from_bits (drop_bit 20 op AND 0xF) \<noteq> None"
proof -
  have "unat (drop_bit 20 op AND mask 4) < 2 ^ 4" by (rule and_mask_le)
  then have "drop_bit 20 op AND 0xF < 16" by (simp add: mask_eq_exp_minus_1 word_less_nat_alt)
  then show ?thesis using move_type_from_bits_Some by blast
qed

lemma decode_with_total: "e \<in> set OPCODE_TABLE \<Longrightarrow> decode_with op e \<noteq> None"
  using entries_total
  by (simp add: decode_with_def list_all_iff entry_total_def Option.bind_eq_None_conv
      del: not_None_eq split: option.split)

lemma decode_table_total: "decode_loop op (bucket_of op) \<noteq> None"
proof (cases "find (entry_accepts op) OPCODE_TABLE")
  case None
  then show ?thesis by (simp add: decode_loop_find find_bucket)
next
  case (Some e)
  then have "e \<in> set OPCODE_TABLE" by (auto simp: find_Some_iff in_set_conv_nth)
  with Some show ?thesis using decode_with_total [of e op] by (simp add: decode_loop_find find_bucket)
qed

section \<open>What a decoded instruction satisfies\<close>

lemma norm_lo_idem [simp]: "norm_lo (norm_lo ea) = norm_lo ea"
  and norm_all_idem [simp]: "norm_all (norm_all ea) = norm_all ea"
  by (simp_all add: norm_lo_def norm_all_def and.assoc)

lemma normalize_idem [simp]: "normalize_ea_mode (normalize_ea_mode i) = normalize_ea_mode i"
  by (cases i) (simp_all add: normalize_ea_mode_def split: move_instr.split cache_instr.split
      branch_instr.split loop_instr.split bitop_instr.split bit_jump_instr.split
      bit_branch_instr.split bit_bsr_instr.split)

lemma normalize_invalid [simp]:
  "has_invalid_register (normalize_ea_mode i) = has_invalid_register i"
  by (cases i) (simp_all add: normalize_ea_mode_def has_invalid_register_def
      split: move_instr.split cache_instr.split branch_instr.split loop_instr.split
      bitop_instr.split bit_jump_instr.split bit_branch_instr.split bit_bsr_instr.split)

lemma decode_with_wf:
  "decode_with op e = Some i \<Longrightarrow> \<not> has_invalid_register i \<and> normalize_ea_mode i = i"
  by (auto simp: decode_with_def split: option.splits Option.bind_splits if_splits)
    (simp_all add: has_invalid_register_def normalize_ea_mode_def)

section \<open>Normalisation of parallel opcodes\<close>

definition clear_bits :: "nat \<Rightarrow> nat \<Rightarrow> u32 \<Rightarrow> u32" where
  "clear_bits k n w = w AND NOT (push_bit k (mask n))"

lemma bit_clear_bits [simp]: "bit (clear_bits k n w) i \<longleftrightarrow> bit w i \<and> \<not> (k \<le> i \<and> i < k + n)"
  by (auto simp: clear_bits_def bit_simps dest: bit_imp_le_length)

lemma clear_forms:
  "w AND NOT 0x0300 = clear_bits 8 2 w" "w AND NOT 0x0400 = clear_bits 10 1 w"
  "w AND NOT (push_bit 19 1) = clear_bits 19 1 w"
  by (simp_all add: clear_bits_def mask_eq_exp_minus_1)

text \<open>Opcodes that agree outside the bits normalisation clears agree on every other field.\<close>

definition same_outside :: "nat set \<Rightarrow> u32 \<Rightarrow> u32 \<Rightarrow> bool" where
  "same_outside S v w \<longleftrightarrow> (\<forall>i. i \<notin> S \<longrightarrow> bit v i = bit w i)"

lemma same_outside_field:
  assumes "same_outside S v w" "\<And>i. i \<in> S \<Longrightarrow> i < j \<or> j + n \<le> i"
  shows "drop_bit j v AND mask n = drop_bit j w AND mask n"
proof (rule bit_word_eqI)
  fix i
  have "bit v (j + i) = bit w (j + i)" if "i < n"
    using assms that unfolding same_outside_def by (metis add_less_cancel_left leD le_add1)
  then show "bit (drop_bit j v AND mask n) i = bit (drop_bit j w AND mask n) i"
    by (auto simp: bit_simps)
qed

lemma same_outside_refl: "same_outside S w w"
  by (simp add: same_outside_def)

lemma same_outside_trans: "same_outside S u v \<Longrightarrow> same_outside S v w \<Longrightarrow> same_outside S u w"
  by (simp add: same_outside_def)

lemma norm_bits_fields:
  assumes "same_outside {8, 9, 10, 19} v w"
  shows "drop_bit 20 v AND 0xF = drop_bit 20 w AND 0xF" "drop_bit 11 v AND 7 = drop_bit 11 w AND 7"
    "drop_bit 16 v AND 7 = drop_bit 16 w AND 7" "drop_bit 20 v AND mask 12 = drop_bit 20 w AND mask 12"
    "v AND 0xFF = w AND 0xFF" "bit v 14 = bit w 14" "bit v 15 = bit w 15"
    "drop_bit 17 v AND 24 = drop_bit 17 w AND 24"
proof -
  note F = same_outside_field [OF assms]
  show "drop_bit 20 v AND 0xF = drop_bit 20 w AND 0xF" using F [of 20 4] by (fastforce simp add: mask_eq_exp_minus_1)
  show "drop_bit 11 v AND 7 = drop_bit 11 w AND 7" using F [of 11 3] by (fastforce simp add: mask_eq_exp_minus_1)
  show "drop_bit 16 v AND 7 = drop_bit 16 w AND 7" using F [of 16 3] by (fastforce simp add: mask_eq_exp_minus_1)
  show "drop_bit 20 v AND mask 12 = drop_bit 20 w AND mask 12" by (rule F) auto
  show "v AND 0xFF = w AND 0xFF" using F [of 0 8] by (fastforce simp add: mask_eq_exp_minus_1)
  show "bit v 14 = bit w 14" "bit v 15 = bit w 15" using assms by (simp_all add: same_outside_def)
  have "drop_bit 20 v AND mask 2 = drop_bit 20 w AND mask 2" by (rule F) auto
  then have "push_bit 3 (drop_bit 20 v AND mask 2) = push_bit 3 (drop_bit 20 w AND mask 2)" by simp
  moreover have "push_bit 3 (drop_bit 20 x AND mask 2) = drop_bit 17 x AND 24" for x :: u32
  proof -
    have "drop_bit 17 x AND push_bit 3 (mask 2) = push_bit 3 (drop_bit 20 x AND mask 2)"
      by (rule bit_word_eqI) (auto simp: bit_simps)
    then show ?thesis by (simp add: mask_eq_exp_minus_1)
  qed
  ultimately show "drop_bit 17 v AND 24 = drop_bit 17 w AND 24" by simp
qed

lemma normalize_same: "same_outside {8, 9, 10, 19} (normalize_mode6_ea w) w"
  unfolding normalize_mode6_ea_def clear_forms by (auto simp: same_outside_def Let_def)

lemma normalize_mode6:
  "drop_bit 11 w AND 7 = 6 \<Longrightarrow> normalize_mode6_ea w =
     (if bit w 15 then clear_bits 8 2 w else clear_bits 10 1 (clear_bits 8 2 w))"
  unfolding normalize_mode6_ea_def clear_forms by (simp add: Let_def)

lemma normalize_fixed:
  assumes "same_outside {19} v (normalize_mode6_ea w)"
  shows "normalize_mode6_ea v = v"
proof (cases "drop_bit 11 v AND 7 = 6")
  case False
  then show ?thesis by (simp add: normalize_mode6_ea_def)
next
  case True
  have "same_outside {8, 9, 10, 19} v w"
    using assms normalize_same [of w] by (auto simp: same_outside_def)
  note f = norm_bits_fields [OF this]
  have "normalize_mode6_ea w = (if bit w 15 then clear_bits 8 2 w else clear_bits 10 1 (clear_bits 8 2 w))"
    using True unfolding f(2) by (rule normalize_mode6)
  then have b: "\<not> bit v 8" "\<not> bit v 9" "\<not> bit v 15 \<Longrightarrow> \<not> bit v 10"
    using assms f(7) by (auto simp: same_outside_def Let_def split: if_splits)
  have "clear_bits 8 2 v = v"
  proof (rule bit_word_eqI)
    fix i show "bit (clear_bits 8 2 v) i = bit v i"
      using b(1,2) by (cases "i = 8"; cases "i = 9") auto
  qed
  moreover have "clear_bits 10 1 v = v" if "\<not> bit v 15"
  proof (rule bit_word_eqI)
    fix i show "bit (clear_bits 10 1 v) i = bit v i"
      using b(3) [OF that] by (cases "i = 10") auto
  qed
  ultimately show ?thesis
    unfolding normalize_mode6_ea_def clear_forms by (simp add: True Let_def)
qed

text \<open>The opcode a parallel instruction carries.\<close>

lemma same_outside_ge:
  assumes "same_outside {8, 9, 10, 19} v w"
  shows "0x100000 \<le> v \<longleftrightarrow> 0x100000 \<le> w"
proof -
  have d: "0x100000 \<le> x \<longleftrightarrow> drop_bit 20 x AND mask 12 \<noteq> 0" for x :: u32
  proof -
    have "drop_bit 20 x AND mask 12 = drop_bit 20 x"
      by (rule bit_word_eqI) (auto simp: bit_simps dest: bit_imp_le_length)
    moreover have "unat (drop_bit 20 x) = unat x div 2 ^ 20" by (simp add: drop_bit_eq_div unat_div_distrib)
    moreover have "unat x div 2 ^ 20 = 0 \<longleftrightarrow> unat x < 2 ^ 20" by (simp add: div_eq_0_iff)
    ultimately show ?thesis by (auto simp: word_le_nat_alt unat_eq_zero simp flip: unat_eq_0)
  qed
  show ?thesis unfolding d norm_bits_fields(4) [OF assms] ..
qed

lemma parallel_instr_fixed:
  assumes "decode_parallel_instr w = Some (Parallel alu mt v)"
  shows "same_outside {8, 9, 10, 19} v w" and "decode_parallel_instr v = Some (Parallel alu mt v)"
proof -
  define mb where "mb = drop_bit 20 w AND 0xF"
  define std where "std = has_standard_ea mb w"
  define o1 where "o1 = (if std then normalize_mode6_ea w else w)"
  define xy where "xy = (4 \<le> mb \<and> mb \<le> 7 \<and> std)"
  define val where "val = (\<lambda>x :: u32. (drop_bit 16 x AND 7) OR (drop_bit 17 x AND push_bit 3 3))"
  define imm where "imm = (\<lambda>x :: u32. drop_bit 11 x AND 7 = 6 \<and> drop_bit 8 x AND 7 = 4)"
  define o2 where "o2 = (if xy \<and> drop_bit 2 (val o1) \<noteq> 0 \<and> imm o1 then clear_bits 19 1 o1 else o1)"
  note folds = mb_def [symmetric] std_def [symmetric] o1_def [symmetric] xy_def [symmetric]
  have dec: "decode_parallel_instr w =
      (if xy \<and> drop_bit 2 (val o1) = 0 \<and> imm o1 then Some (Unknown o1)
       else if (mb = 2 \<or> mb = 3) \<and> pm2_reserved o2 then Some (Unknown o2)
       else do { alu \<leftarrow> decode_parallel_alu (ucast (o2 AND 0xFF)); mt \<leftarrow> move_type_from_bits mb;
         Some (Parallel alu mt o2) })"
    unfolding decode_parallel_instr_def Let_def folds clear_forms val_def imm_def o2_def by simp
  have v: "v = o2" using assms unfolding dec by (auto split: if_splits Option.bind_splits)
  have s21: "same_outside {19} o2 o1" by (auto simp: o2_def same_outside_def)
  have s1: "same_outside {8, 9, 10, 19} o1 w"
    using normalize_same by (auto simp: o1_def same_outside_refl)
  have s2: "same_outside {8, 9, 10, 19} o2 w"
    using s21 s1 by (auto simp: same_outside_def)
  then show "same_outside {8, 9, 10, 19} v w" by (simp add: v)
  note f = norm_bits_fields [OF s2]
  have mb': "drop_bit 20 o2 AND 0xF = mb" by (simp add: f(1) mb_def)
  have std': "has_standard_ea mb o2 = std" by (simp add: std_def has_standard_ea_def f(6))
  have o1': "(if std then normalize_mode6_ea o2 else o2) = o2"
    using normalize_fixed [of o2 w] s21 by (simp add: o1_def split: if_splits)
  have "same_outside {8, 9, 10, 19} o2 o1" using s21 by (auto simp: same_outside_def)
  note g = norm_bits_fields [OF this]
  have val': "val o2 = val o1" using g(3,8) by (simp add: val_def)
  have imm': "imm o2 = imm o1"
    using g(2) same_outside_field [OF s21, of 8 3] by (simp add: imm_def mask_eq_exp_minus_1)
  have o2': "(if xy \<and> drop_bit 2 (val o2) \<noteq> 0 \<and> imm o2 then clear_bits 19 1 o2 else o2) = o2"
  proof -
    have "clear_bits 19 1 (clear_bits 19 1 o1) = clear_bits 19 1 o1"
      by (rule bit_word_eqI) auto
    then show ?thesis by (simp add: val' imm') (simp add: o2_def)
  qed
  have "decode_parallel_instr o2 =
      (if xy \<and> drop_bit 2 (val o2) = 0 \<and> imm o2 then Some (Unknown o2)
       else let o3 = (if xy \<and> drop_bit 2 (val o2) \<noteq> 0 \<and> imm o2 then clear_bits 19 1 o2 else o2)
       in if (mb = 2 \<or> mb = 3) \<and> pm2_reserved o3 then Some (Unknown o3)
       else do { alu \<leftarrow> decode_parallel_alu (ucast (o3 AND 0xFF)); mt \<leftarrow> move_type_from_bits mb;
         Some (Parallel alu mt o3) })"
    unfolding decode_parallel_instr_def Let_def mb' std' o1' xy_def [symmetric] clear_forms val_def imm_def
    by simp
  note this [unfolded o2' Let_def]
  then show "decode_parallel_instr v = Some (Parallel alu mt v)"
    using assms unfolding v dec val' imm' by (auto split: if_splits)
qed

lemma pm0_fixed:
  assumes "decode_pm0 w = Some (Parallel alu mt v)"
  shows "same_outside {8, 9, 10} v w" and "decode_pm0 v = Some (Parallel alu mt v)"
proof -
  define o1 where "o1 = normalize_mode6_ea w"
  define o2 where "o2 = (if drop_bit 11 o1 AND 7 = 6 then clear_bits 10 1 o1 else o1)"
  have dec: "decode_pm0 w = do { alu \<leftarrow> decode_parallel_alu (ucast (o2 AND 0xFF)); Some (Parallel alu Pm0 o2) }"
    unfolding decode_pm0_def Let_def o1_def [symmetric] clear_forms o2_def ..
  then have v: "v = o2" using assms by (auto split: Option.bind_splits)
  show s: "same_outside {8, 9, 10} v w"
    unfolding v o2_def o1_def normalize_mode6_ea_def clear_forms by (auto simp: same_outside_def Let_def)
  then have "same_outside {8, 9, 10, 19} o2 w" by (auto simp: v same_outside_def)
  note f = norm_bits_fields [OF this]
  have n: "normalize_mode6_ea o2 = o2"
  proof (cases "drop_bit 11 w AND 7 = 6")
    case True
    then have b: "\<not> bit o2 8" "\<not> bit o2 9" "\<not> bit o2 10"
      using norm_bits_fields(2) [OF normalize_same, of w]
      by (auto simp: o2_def o1_def normalize_mode6)
    have "clear_bits 8 2 o2 = o2" "clear_bits 10 1 o2 = o2"
    proof (rule_tac [!] bit_word_eqI)
      fix i
      show "bit (clear_bits 8 2 o2) i = bit o2 i" using b(1,2) by (cases "i = 8"; cases "i = 9") auto
      show "bit (clear_bits 10 1 o2) i = bit o2 i" using b(3) by (cases "i = 10") auto
    qed
    then show ?thesis unfolding normalize_mode6_ea_def clear_forms by (simp add: Let_def)
  next
    case False
    then show ?thesis by (simp add: normalize_mode6_ea_def f(2))
  qed
  have c: "(if drop_bit 11 o2 AND 7 = 6 then clear_bits 10 1 o2 else o2) = o2"
  proof -
    have "clear_bits 10 1 (clear_bits 10 1 o1) = clear_bits 10 1 o1" by (rule bit_word_eqI) auto
    moreover have "drop_bit 11 o2 AND 7 = drop_bit 11 o1 AND 7"
      using f(2) norm_bits_fields(2) [OF normalize_same, of w] by (simp add: o1_def)
    ultimately show ?thesis by (simp add: o2_def)
  qed
  show "decode_pm0 v = Some (Parallel alu mt v)"
    using assms unfolding dec v decode_pm0_def [of o2] Let_def n clear_forms c by auto
qed

text \<open>The non-parallel table never produces a parallel instruction.\<close>

fun is_parallel :: "instruction \<Rightarrow> bool" where
  "is_parallel (Parallel _ _ _) = True"
| "is_parallel _ = False"

definition entry_serial :: "opcode_entry \<Rightarrow> bool" where
  "entry_serial e \<longleftrightarrow> (\<forall>f op. oe_decode e = Some f \<longrightarrow> pred_option (Not \<circ> is_parallel) (f op))"

lemma pred_option_bind: "(\<And>x. pred_option P (g x)) \<Longrightarrow> pred_option P (Option.bind a g)"
  by (cases a) auto

lemma entries_serial: "list_all entry_serial OPCODE_TABLE"
  unfolding OPCODE_TABLE_defs op_shape_defs list_all_append
  by (simp add: entry_serial_def dec_tcc_def Let_def pred_option_bind split: option.split prod.split)

lemma normalize_parallel [simp]: "is_parallel (normalize_ea_mode i) = is_parallel i"
  by (cases i) (simp_all add: normalize_ea_mode_def split: move_instr.split cache_instr.split
      branch_instr.split loop_instr.split bitop_instr.split bit_jump_instr.split
      bit_branch_instr.split bit_bsr_instr.split)

lemma decode_table_serial: "decode_loop op (bucket_of op) = Some i \<Longrightarrow> \<not> is_parallel i"
proof -
  assume d: "decode_loop op (bucket_of op) = Some i"
  show ?thesis
  proof (cases "find (entry_accepts op) OPCODE_TABLE")
    case None
    with d show ?thesis by (auto simp: decode_loop_find find_bucket)
  next
    case (Some e)
    then have "e \<in> set OPCODE_TABLE" by (auto simp: find_Some_iff in_set_conv_nth)
    with entries_serial have "entry_serial e" by (simp add: list_all_iff)
    moreover from d Some have "decode_with op e = Some i"
      by (simp add: decode_loop_find find_bucket)
    ultimately show ?thesis
      by (cases "oe_decode e"; cases "the (oe_decode e) op")
        (auto simp: decode_with_def entry_serial_def split: if_splits dest!: spec [of _ op])
  qed
qed

section \<open>Reachable entries\<close>

definition reachable_bits :: "entry_bits \<Rightarrow> bool" where
  "reachable_bits = (\<lambda>(m, v, h, k). v AND m = v \<and> v < 0x100000 \<and> v AND 0xFE4000 \<noteq> 0x080000 \<and>
     (h \<longrightarrow> drop_bit 11 v AND 7 \<noteq> 6))"

lemma table_reachable: "list_all (list_all reachable_bits) table_chunks"
  by (simp add: table_chunks_def reachable_bits_def)

lemma entry_reachable:
  assumes "e \<in> set OPCODE_TABLE"
  shows "decode_entry_name (oe_match e) = Some (oe_name e)"
proof -
  from assms have "entry_info e \<in> set table_info" by (simp add: table_info [symmetric])
  with table_reachable have r: "reachable_bits (entry_info e)"
    by (auto simp: table_info_def list_all_iff)
  then have "entry_accepts (oe_match e) e"
    by (auto simp: reachable_bits_def entry_info_def entry_accepts_def entry_skipped_def match_mmmrrr_def Let_def)
  from find_accepting [OF assms this] r show ?thesis
    by (simp add: decode_entry_name_def is_pm0_def entry_name_loop_find find_bucket reachable_bits_def
        entry_info_def linorder_not_le [symmetric])
qed

lemma decode_not_None: "decode opcode \<noteq> None"
proof -
  have "decode_parallel_instr opcode \<noteq> None"
    unfolding decode_parallel_instr_def Let_def
    by (simp add: Option.bind_eq_None_conv decode_parallel_alu_total move_type_total del: not_None_eq)
  moreover have "decode_pm0 opcode \<noteq> None"
    unfolding decode_pm0_def Let_def
    by (simp add: Option.bind_eq_None_conv decode_parallel_alu_total del: not_None_eq)
  ultimately show ?thesis by (simp add: decode_def decode_table_total del: not_None_eq)
qed

section \<open>Properties\<close>

text \<open>
  C1. Decoding never panics: for every 32-bit word, no field reaches an \<^verbatim>\<open>unreachable!()\<close> arm and
  no assertion fails, in the parallel path and through each of the 185 table entries.
\<close>

theorem decode_total: "decode opcode \<noteq> None"
  by (rule decode_not_None)

text \<open>
  C4. The prefix dispatch changes nothing: scanning the bucket of the opcode's bits 19:16 decodes
  exactly as scanning the whole table for the first entry whose fixed bits match and which is not
  skipped for its addressing mode.
\<close>

theorem decode_eq_table_scan:
  "decode opcode =
    (if 0x100000 \<le> opcode then decode_parallel_instr opcode
     else if is_pm0 opcode then decode_pm0 opcode
     else (case find (entry_accepts opcode) OPCODE_TABLE of
             None \<Rightarrow> Some (Unknown opcode) | Some e \<Rightarrow> decode_with opcode e))"
  by (rule decode_eq_scan)

text \<open>
  C3. The table is unambiguous: every opcode is accepted by at most one of the 185 entries, so the
  order of the table does not matter.
\<close>

theorem opcode_table_unambiguous:
  "length (filter (entry_accepts opcode) OPCODE_TABLE) \<le> 1"
  by (rule accepting_entries_le_1)

text \<open>
  No entry is dead: the word whose variable bits are zero decodes through its own entry, for
  every entry of the table.
\<close>

theorem opcode_table_reachable:
  "list_all (\<lambda>e. decode_entry_name (oe_match e) = Some (oe_name e)) OPCODE_TABLE"
  by (simp add: list_all_iff entry_reachable)

text \<open>
  The coverage lookup \<^verbatim>\<open>decode_entry_name\<close> mirrors \<^verbatim>\<open>decode\<close>: it names an entry exactly
  when the opcode is outside the parallel space and that entry is the one \<^verbatim>\<open>decode\<close> goes through.
\<close>

theorem decode_entry_name_mirrors:
  "decode_entry_name opcode = Some n \<longleftrightarrow>
     opcode < 0x100000 \<and> \<not> is_pm0 opcode \<and>
     (\<exists>e\<in>set OPCODE_TABLE. entry_accepts opcode e \<and> oe_name e = n \<and>
        decode opcode = decode_with opcode e)"
proof (cases "0x100000 \<le> opcode \<or> is_pm0 opcode")
  case True
  then show ?thesis by (auto simp: decode_entry_name_def)
next
  case False
  have F: "find (entry_accepts opcode) OPCODE_TABLE = Some e \<longleftrightarrow>
      e \<in> set OPCODE_TABLE \<and> entry_accepts opcode e" for e
    using find_accepting by (fastforce simp: find_Some_iff in_set_conv_nth)
  have D: "decode opcode = decode_with opcode e"
    if "find (entry_accepts opcode) OPCODE_TABLE = Some e" for e
    using that False by (simp add: decode_eq_scan)
  have "decode_entry_name opcode = Some n \<longleftrightarrow>
      (\<exists>e. find (entry_accepts opcode) OPCODE_TABLE = Some e \<and> oe_name e = n)"
    using False by (auto simp: decode_entry_name_def entry_name_loop_find find_bucket)
  also have "\<dots> \<longleftrightarrow> (\<exists>e\<in>set OPCODE_TABLE. entry_accepts opcode e \<and> oe_name e = n \<and>
      decode opcode = decode_with opcode e)"
    using F D by blast
  finally show ?thesis using False by auto
qed


lemma decode_jmp_ea: "decode 0x0AF480 = Some (Branch (JmpEa 0x30))"
proof -
  define e where "e = op_ea ''0000101011MMMRRR10000000'' ''jmp ea'' Branch JmpEa"
  have mem: "e \<in> set OPCODE_TABLE" by (simp add: OPCODE_TABLE_defs e_def)
  have "entry_accepts 0x0AF480 e"
    by (simp add: entry_accepts_def e_def op_ea_def op_fn_def template_to_mask_match_tmm
        entry_skipped_def match_mmmrrr_def)
  from find_accepting [OF mem this]
  have "decode 0x0AF480 = decode_with 0x0AF480 e"
    by (simp add: decode_eq_scan is_pm0_def)
  moreover have "tmpl_ea ''0000101011MMMRRR10000000'' 0x0AF480 = 0x34" by code_simp
  ultimately show ?thesis
    by (simp add: decode_with_def e_def op_ea_def op_fn_def has_invalid_register_def
        normalize_ea_mode_def norm_all_def)
qed




end
