(* ===== verification/Encode_Prims.thy ===== *)
theory Encode_Prims
  imports Template_Laws
begin

text \<open>
  \<^verbatim>\<open>crates/core/src/encode.rs\<close>: the bit-packing primitives the assembler builds words with, and
  the laws that tie them to the decoder's field extraction.
\<close>

section \<open>Assembled words\<close>

record encoded_instruction =
  word0 :: u32
  word1 :: "u32 option"

definition word_enc :: "u32 \<Rightarrow> encoded_instruction" where
  "word_enc w0 = \<lparr>word0 = w0 AND 0xFFFFFF, word1 = None\<rparr>"

definition words_enc :: "u32 \<Rightarrow> u32 \<Rightarrow> encoded_instruction" where
  "words_enc w0 w1 = \<lparr>word0 = w0 AND 0xFFFFFF, word1 = Some (w1 AND 0xFFFFFF)\<rparr>"

section \<open>Bit packing\<close>

definition space_bit :: "mem_space \<Rightarrow> u32" where
  "space_bit space = (case space of Space_X \<Rightarrow> 0 | Space_Y \<Rightarrow> 1 | Space_P \<Rightarrow> 0)"

definition encode_rel9 :: "u32 \<Rightarrow> u32" where
  "encode_rel9 rel9 = push_bit 1 (rel9 AND 0x1E0) OR (rel9 AND 0x1F)"

definition encode_ea_mode :: "u8 \<Rightarrow> u8 \<Rightarrow> u8" where
  "encode_ea_mode mode reg = push_bit 3 mode OR (reg AND 7)"

definition pack_loop_count :: "u32 \<Rightarrow> u32 \<times> u32" where
  "pack_loop_count count = (count AND 0xFF, drop_bit 8 count AND 0xF)"

definition pm4_reg_split :: "u32 \<Rightarrow> u32 \<times> u32" where
  "pm4_reg_split reg_idx = (let v = reg_idx AND 0x1F in (drop_bit 3 v AND 3, v AND 7))"

definition l_reg_split :: "u32 \<Rightarrow> u32 \<times> u32" where
  "l_reg_split lreg_idx = (drop_bit 2 lreg_idx AND 1, lreg_idx AND 3)"

definition pack_xy_imm_offset :: "u32 \<Rightarrow> u32 \<times> u32" where
  "pack_xy_imm_offset off7 = (drop_bit 1 off7 AND 0x3F, off7 AND 1)"

section \<open>Laws\<close>

text \<open>The positions of a field do not depend on anything but the template.\<close>

lemma rel9_positions:
  "field_bits ''00000101CCCC01aaaa0aaaaa'' (CHR ''a'') = [9, 8, 7, 6, 4, 3, 2, 1, 0]"
  "field_bits ''00000101CCCC00aaaa0aaaaa'' (CHR ''a'') = [9, 8, 7, 6, 4, 3, 2, 1, 0]"
  "field_bits ''00000101000011aaaa0aaaaa'' (CHR ''a'') = [9, 8, 7, 6, 4, 3, 2, 1, 0]"
  "field_bits ''00000101000010aaaa0aaaaa'' (CHR ''a'') = [9, 8, 7, 6, 4, 3, 2, 1, 0]"
  by (simp_all add: field_bits_def upt_rec)

lemma bit_rel9:
  "bit (encode_rel9 r) 0 = bit r 0" "bit (encode_rel9 r) 1 = bit r 1"
  "bit (encode_rel9 r) 2 = bit r 2" "bit (encode_rel9 r) 3 = bit r 3"
  "bit (encode_rel9 r) 4 = bit r 4" "bit (encode_rel9 r) 6 = bit r 5"
  "bit (encode_rel9 r) 7 = bit r 6" "bit (encode_rel9 r) 8 = bit r 7"
  "bit (encode_rel9 r) 9 = bit r 8" "\<not> bit (encode_rel9 r) 5"
  by (simp_all add: encode_rel9_def bit_simps bit_double_iff [of r, unfolded mult.commute [of 2]])

text \<open>A sign extension of nine bits.\<close>

lemma sext9_signed_take_bit:
  fixes v :: u32
  assumes "\<And>k. bit v k \<longleftrightarrow> k < 9 \<and> bit r k"
  shows "(if bit v 8 then v OR 0xFFFFFE00 else v) = signed_take_bit 8 r"
proof -
  have m: "(0xFFFFFE00 :: u32) = NOT (mask 9)" by (simp add: mask_eq_exp_minus_1)
  show ?thesis
    unfolding m
    by (rule bit_word_eqI) (auto simp: assms bit_simps min_def le_less not_less)
qed

lemma tmpl_sext9_positions:
  assumes f: "field_bits t (CHR ''a'') = [9, 8, 7, 6, 4, 3, 2, 1, 0]"
  shows "tmpl_sext9 t ((base AND NOT 0x3FF) OR encode_rel9 r) = signed_take_bit 8 r"
proof -
  define op where "op = (base AND NOT 0x3FF) OR encode_rel9 r"
  have low: "bit op i \<longleftrightarrow> bit (encode_rel9 r) i" if "i < 10" for i
  proof -
    have "(0x3FF :: u32) = mask 10" by (simp add: mask_eq_exp_minus_1)
    then have "op = (base AND NOT (mask 10)) OR encode_rel9 r" by (simp only: op_def)
    then show ?thesis using that by (auto simp: bit_simps)
  qed
  have "bit (tmpl_field t (CHR ''a'') op) k \<longleftrightarrow> k < 9 \<and> bit r k" for k
  proof (cases "k < 9")
    case True
    then have "k \<in> {0, 1, 2, 3, 4, 5, 6, 7, 8}" by auto
    then show ?thesis by (auto simp: bit_tmpl_field f low bit_rel9 bit_rel9(2) [unfolded One_nat_def])
  qed (simp add: bit_tmpl_field f)
  from sext9_signed_take_bit [of "tmpl_field t (CHR ''a'') op", OF this] show ?thesis
    unfolding tmpl_sext9_def Let_def op_def [symmetric] .
qed

lemma loop_count_positions:
  "field_bits ''00000110iiiiiiii1000hhhh'' (CHR ''i'') = [15, 14, 13, 12, 11, 10, 9, 8]"
  "field_bits ''00000110iiiiiiii1000hhhh'' (CHR ''h'') = [3, 2, 1, 0]"
  "field_bits ''00000110iiiiiiii1001hhhh'' (CHR ''i'') = [15, 14, 13, 12, 11, 10, 9, 8]"
  "field_bits ''00000110iiiiiiii1001hhhh'' (CHR ''h'') = [3, 2, 1, 0]"
  "field_bits ''00000110iiiiiiii1010hhhh'' (CHR ''i'') = [15, 14, 13, 12, 11, 10, 9, 8]"
  "field_bits ''00000110iiiiiiii1010hhhh'' (CHR ''h'') = [3, 2, 1, 0]"
  by (simp_all add: field_bits_def upt_rec)

lemma tmpl_field2_bits:
  "tmpl_field2 t hi lo op = push_bit (length (field_bits t lo)) (tmpl_field t hi op) OR tmpl_field t lo op"
proof -
  have "fold (\<lambda>i w. if t ! i = lo then w + 1 else w) xs k = k + length (filter (\<lambda>i. t ! i = lo) xs)"
    for xs k by (induction xs arbitrary: k) auto
  then show ?thesis by (simp add: tmpl_field2_def field_bits_def Let_def)
qed

lemma tmpl_count_positions:
  assumes i: "field_bits t (CHR ''i'') = [15, 14, 13, 12, 11, 10, 9, 8]"
    and h: "field_bits t (CHR ''h'') = [3, 2, 1, 0]"
  shows "tmpl_count t ((base AND NOT 0xFF0F) OR push_bit 8 (fst (pack_loop_count n)) OR
    snd (pack_loop_count n)) = ucast (n AND 0xFFF)"
proof (rule bit_word_eqI)
  fix k assume k: "k < LENGTH(16)"
  define op where "op = (base AND NOT 0xFF0F) OR push_bit 8 (fst (pack_loop_count n)) OR snd (pack_loop_count n)"
  have m: "(0xFF0F :: u32) = push_bit 8 (mask 8) OR mask 4" "(0xFF :: u32) = mask 8"
    "(0xF :: u32) = mask 4" "(0xFFF :: u32) = mask 12"
    by (simp_all add: mask_eq_exp_minus_1)
  have lo: "bit op (8 + j) \<longleftrightarrow> bit n j" if "j < 8" for j
    using that unfolding op_def pack_loop_count_def m by (auto simp: bit_simps)
  have hi: "bit op j \<longleftrightarrow> bit n (8 + j)" if "j < 4" for j
    using that unfolding op_def pack_loop_count_def m by (auto simp: bit_simps)
  have fi: "bit (tmpl_field t (CHR ''i'') op) j \<longleftrightarrow> j < 8 \<and> bit n j" for j
  proof (cases "j < 8")
    case True
    then have "j \<in> {0, 1, 2, 3, 4, 5, 6, 7}" by auto
    then show ?thesis using lo [of j] by (auto simp: bit_tmpl_field i)
  qed (simp add: bit_tmpl_field i)
  have fh: "bit (tmpl_field t (CHR ''h'') op) j \<longleftrightarrow> j < 4 \<and> bit n (8 + j)" for j
  proof (cases "j < 4")
    case True
    then have "j \<in> {0, 1, 2, 3}" by auto
    then show ?thesis using hi [of j] by (auto simp: bit_tmpl_field h)
  qed (simp add: bit_tmpl_field h)
  have "bit (tmpl_field2 t (CHR ''h'') (CHR ''i'') op) k \<longleftrightarrow> k < 12 \<and> bit n k"
  proof -
    have "bit (push_bit 8 (tmpl_field t (CHR ''h'') op)) k \<longleftrightarrow> 8 \<le> k \<and> k < 12 \<and> bit n k"
      using fh [of "k - 8"] k by (auto simp only: bit_push_bit_iff possible_bit_word) auto
    moreover have "length (field_bits t (CHR ''i'')) = 8" by (simp add: i)
    ultimately show ?thesis
      unfolding tmpl_field2_bits bit_or_iff fi by (simp only:) auto
  qed
  then show "bit (tmpl_count t ((base AND NOT 0xFF0F) OR push_bit 8 (fst (pack_loop_count n)) OR
      snd (pack_loop_count n))) k = bit (ucast (n AND 0xFFF) :: u16) k"
    using k unfolding m(4) by (auto simp: tmpl_count_def op_def bit_simps)
qed

section \<open>Properties\<close>

text \<open>
  Relative branches round-trip: in each of the four short branch templates, whatever the other
  bits, the nine-bit displacement packed by \<^verbatim>\<open>encode_rel9\<close> is decoded by \<^verbatim>\<open>tmpl_sext9\<close> as its
  sign extension.
\<close>

theorem rel9_roundtrip:
  "list_all (\<lambda>t. tmpl_sext9 t ((base AND NOT 0x3FF) OR encode_rel9 r) = signed_take_bit 8 r)
    [''00000101CCCC01aaaa0aaaaa'', ''00000101CCCC00aaaa0aaaaa'', ''00000101000011aaaa0aaaaa'',
     ''00000101000010aaaa0aaaaa'']"
  by (simp only: list.pred_inject tmpl_sext9_positions rel9_positions simp_thms)

text \<open>
  Immediate loop counts round-trip: in the templates of \<^verbatim>\<open>do\<close>, \<^verbatim>\<open>dor\<close> and \<^verbatim>\<open>rep\<close> with an
  immediate count, the two halves \<^verbatim>\<open>pack_loop_count\<close> makes are decoded by \<^verbatim>\<open>tmpl_count\<close> as the
  low twelve bits of the count.
\<close>

theorem loop_count_roundtrip:
  "list_all (\<lambda>t. tmpl_count t ((base AND NOT 0xFF0F) OR push_bit 8 (fst (pack_loop_count n)) OR
      snd (pack_loop_count n)) = ucast (n AND 0xFFF))
    [''00000110iiiiiiii1000hhhh'', ''00000110iiiiiiii1001hhhh'', ''00000110iiiiiiii1010hhhh'']"
  by (simp only: list.pred_inject tmpl_count_positions loop_count_positions simp_thms)

end
