(* ===== verification/Memory.thy ===== *)
theory Memory
  imports Isa
begin

text \<open>
  \<^verbatim>\<open>crates/emu/src/core.rs\<close>: memory regions, the memory map and the accesses to it
  (\<^verbatim>\<open>lookup\<close>, \<^verbatim>\<open>read_pram\<close>, \<^verbatim>\<open>p_space_end\<close>, \<^verbatim>\<open>DspState::read_memory\<close>,
  \<^verbatim>\<open>DspState::write_memory\<close>).

  The embedder owns the buffers: a \<^verbatim>\<open>*mut u32\<close> is the number of a buffer and \<open>bufs\<close> gives
  the word at an index of it, so two regions may share a buffer. A callback is a function on
  the whole state, which the embedder supplies; its \<^verbatim>\<open>opaque\<close> pointer is what the function
  closes over. The map is a field of \<^verbatim>\<open>DspState\<close> that no operation of the emulator writes; it is
  an argument of the operations here, because its callbacks act on the state. The index
  computation wraps at 32 bits as the code's does; reading past the end of a buffer, which the
  code leaves to the embedder, is not modelled (\<open>bufs\<close> is total).
\<close>

section \<open>State shared with the embedder\<close>

record 'e host =
  bufs :: "nat \<Rightarrow> nat \<Rightarrow> u32"
  ext :: 'e

section \<open>Regions and maps\<close>

datatype 's region_kind =
    Buffer nat u32
  | Callback "'s \<Rightarrow> u32 \<Rightarrow> u32 \<times> 's" "'s \<Rightarrow> u32 \<Rightarrow> u32 \<Rightarrow> 's"

record 's memory_region =
  mr_start :: u32
  mr_end :: u32
  mr_kind :: "'s region_kind"

record 's memory_map =
  x_regions :: "'s memory_region list"
  y_regions :: "'s memory_region list"
  p_regions :: "'s memory_region list"

definition regions :: "'s memory_map \<Rightarrow> mem_space \<Rightarrow> 's memory_region list" where
  "regions M space = (case space of
     Space_X \<Rightarrow> x_regions M | Space_Y \<Rightarrow> y_regions M | Space_P \<Rightarrow> p_regions M)"

definition in_region :: "u32 \<Rightarrow> 's memory_region \<Rightarrow> bool" where
  "in_region addr r \<longleftrightarrow> mr_start r \<le> addr \<and> addr < mr_end r"

definition lookup :: "'s memory_map \<Rightarrow> mem_space \<Rightarrow> u32 \<Rightarrow> 's memory_region option" where
  "lookup M space addr = find (in_region addr) (regions M space)"

definition buffer_index :: "'s memory_region \<Rightarrow> u32 \<Rightarrow> u32 \<Rightarrow> nat" where
  "buffer_index r offset addr = unat (addr - mr_start r + offset)"

text \<open>The maximum of the ends of the P regions, 0 for none.\<close>

definition p_space_end :: "'s memory_map \<Rightarrow> u32" where
  "p_space_end M = fold (\<lambda>r e. max e (mr_end r)) (p_regions M) 0"

text \<open>\<^verbatim>\<open>MemoryMap::test\<close> on three buffers of the given lengths.\<close>

definition test_map :: "nat \<Rightarrow> u32 \<Rightarrow> nat \<Rightarrow> u32 \<Rightarrow> nat \<Rightarrow> u32 \<Rightarrow> 's memory_map" where
  "test_map xram xlen yram ylen pram plen =
    \<lparr>x_regions = [\<lparr>mr_start = 0, mr_end = xlen, mr_kind = Buffer xram 0\<rparr>],
     y_regions = [\<lparr>mr_start = 0, mr_end = ylen, mr_kind = Buffer yram 0\<rparr>],
     p_regions = [\<lparr>mr_start = 0, mr_end = plen, mr_kind = Buffer pram 0\<rparr>]\<rparr>"

section \<open>Accesses\<close>

text \<open>The loops over the regions return from the first one that holds the address.\<close>

fun read_regions ::
  "('e, 'x) host_scheme memory_region list \<Rightarrow> u32 \<Rightarrow> ('e, 'x) host_scheme \<Rightarrow>
   u32 \<times> ('e, 'x) host_scheme" where
  "read_regions [] addr s = (0, s)"
| "read_regions (r # rs) addr s =
    (if in_region addr r then
       (case mr_kind r of
          Buffer base offset \<Rightarrow> (bufs s base (buffer_index r offset addr) AND 0x00FFFFFF, s)
        | Callback read_fn _ \<Rightarrow>
            (let (raw, s') = read_fn s addr in (raw AND 0x00FFFFFF, s')))
     else read_regions rs addr s)"

definition read_memory ::
  "('e, 'x) host_scheme memory_map \<Rightarrow> mem_space \<Rightarrow> u32 \<Rightarrow> ('e, 'x) host_scheme \<Rightarrow>
   u32 \<times> ('e, 'x) host_scheme" where
  "read_memory M space addr s = read_regions (regions M space) addr s"

fun read_pram_regions ::
  "('e, 'x) host_scheme memory_region list \<Rightarrow> u32 \<Rightarrow> ('e, 'x) host_scheme \<Rightarrow>
   u32 \<times> ('e, 'x) host_scheme" where
  "read_pram_regions [] addr s = (0, s)"
| "read_pram_regions (r # rs) addr s =
    (if mr_start r \<le> addr \<and> addr < mr_end r then
       (let (raw, s') = (case mr_kind r of
          Buffer base offset \<Rightarrow> (bufs s base (unat (addr - mr_start r + offset)), s)
        | Callback read_fn _ \<Rightarrow> read_fn s addr)
        in (raw AND PC_MASK, s'))
     else read_pram_regions rs addr s)"

definition read_pram ::
  "('e, 'x) host_scheme memory_map \<Rightarrow> u32 \<Rightarrow> ('e, 'x) host_scheme \<Rightarrow> u32 \<times> ('e, 'x) host_scheme" where
  "read_pram M addr s = read_pram_regions (p_regions M) addr s"

definition set_buf :: "nat \<Rightarrow> nat \<Rightarrow> u32 \<Rightarrow> ('e, 'x) host_scheme \<Rightarrow> ('e, 'x) host_scheme" where
  "set_buf b i v s = s\<lparr>bufs := (bufs s)(b := (bufs s b)(i := v))\<rparr>"

fun write_regions ::
  "('e, 'x) host_scheme memory_region list \<Rightarrow> u32 \<Rightarrow> u32 \<Rightarrow> ('e, 'x) host_scheme \<Rightarrow>
   ('e, 'x) host_scheme" where
  "write_regions [] addr v s = s"
| "write_regions (r # rs) addr v s =
    (if in_region addr r then
       (case mr_kind r of
          Buffer base offset \<Rightarrow> set_buf base (buffer_index r offset addr) v s
        | Callback _ write_fn \<Rightarrow> write_fn s addr v)
     else write_regions rs addr v s)"

definition write_memory ::
  "('e, 'x) host_scheme memory_map \<Rightarrow> mem_space \<Rightarrow> u32 \<Rightarrow> u32 \<Rightarrow> ('e, 'x) host_scheme \<Rightarrow>
   ('e, 'x) host_scheme" where
  "write_memory M space addr value s =
    (let value = value AND 0x00FFFFFF in write_regions (regions M space) addr value s)"

section \<open>Accesses through the lookup\<close>

lemma read_memory_lookup:
  "read_memory M space addr s = (case lookup M space addr of
     None \<Rightarrow> (0, s)
   | Some r \<Rightarrow> (case mr_kind r of
       Buffer base offset \<Rightarrow> (bufs s base (buffer_index r offset addr) AND 0xFFFFFF, s)
     | Callback read_fn _ \<Rightarrow> (let (raw, s') = read_fn s addr in (raw AND 0xFFFFFF, s'))))"
proof -
  have "read_regions rs addr s = (case find (in_region addr) rs of
     None \<Rightarrow> (0, s)
   | Some r \<Rightarrow> (case mr_kind r of
       Buffer base offset \<Rightarrow> (bufs s base (buffer_index r offset addr) AND 0xFFFFFF, s)
     | Callback read_fn _ \<Rightarrow> (let (raw, s') = read_fn s addr in (raw AND 0xFFFFFF, s'))))" for rs
    by (induction rs) auto
  then show ?thesis by (simp add: read_memory_def lookup_def)
qed

lemma write_memory_lookup:
  "write_memory M space addr v s = (case lookup M space addr of
     None \<Rightarrow> s
   | Some r \<Rightarrow> (case mr_kind r of
       Buffer base offset \<Rightarrow> set_buf base (buffer_index r offset addr) (v AND 0xFFFFFF) s
     | Callback _ write_fn \<Rightarrow> write_fn s addr (v AND 0xFFFFFF)))"
proof -
  have "write_regions rs addr w s = (case find (in_region addr) rs of
     None \<Rightarrow> s
   | Some r \<Rightarrow> (case mr_kind r of
       Buffer base offset \<Rightarrow> set_buf base (buffer_index r offset addr) w s
     | Callback _ write_fn \<Rightarrow> write_fn s addr w))" for rs w
    by (induction rs) auto
  then show ?thesis by (simp add: write_memory_def lookup_def Let_def)
qed

text \<open>The cell of the embedder's buffers an address stands for.\<close>

definition cell :: "'s memory_map \<Rightarrow> mem_space \<Rightarrow> u32 \<Rightarrow> (nat \<times> nat) option" where
  "cell M space addr = (case lookup M space addr of
     Some r \<Rightarrow> (case mr_kind r of
       Buffer base offset \<Rightarrow> Some (base, buffer_index r offset addr) | Callback _ _ \<Rightarrow> None)
   | None \<Rightarrow> None)"

lemma read_cell:
  "cell M space addr = Some (b, i) \<Longrightarrow> read_memory M space addr s = (bufs s b i AND 0xFFFFFF, s)"
  by (auto simp: cell_def read_memory_lookup split: option.splits region_kind.splits)

lemma write_cell:
  "cell M space addr = Some (b, i) \<Longrightarrow>
   write_memory M space addr v s = set_buf b i (v AND 0xFFFFFF) s"
  by (auto simp: cell_def write_memory_lookup split: option.splits region_kind.splits)

lemma bufs_set_buf [simp]:
  "bufs (set_buf b i v s) b' i' = (if b' = b \<and> i' = i then v else bufs s b' i')"
  by (simp add: set_buf_def)

lemma set_buf_simps [simp]: "ext (set_buf b i v s) = ext s"
  "host.more (set_buf b i v s) = host.more s"
  by (simp_all add: set_buf_def)

section \<open>The interface of a word store\<close>

text \<open>
  What the rest of the emulator needs of a memory: a write is read back at every name of the same
  cell, and is invisible everywhere else. \<open>cell_of\<close> names the cell of an address, if it has one.
\<close>

locale word_store =
  fixes cell_of :: "'a \<Rightarrow> 'c option"
    and rd :: "'a \<Rightarrow> 's \<Rightarrow> u32"
    and wr :: "'a \<Rightarrow> u32 \<Rightarrow> 's \<Rightarrow> 's"
  assumes rd_wr_same: "cell_of a = Some c \<Longrightarrow> cell_of a' = Some c \<Longrightarrow>
      rd a' (wr a v s) = v AND 0xFFFFFF"
    and rd_wr_other: "cell_of a = Some c \<Longrightarrow> cell_of a' = Some c' \<Longrightarrow> c \<noteq> c' \<Longrightarrow>
      rd a' (wr a v s) = rd a' s"
    and wr_rd: "cell_of a = Some c \<Longrightarrow> rd a (wr a (rd a s) s) = rd a s"
begin

lemma rd_wr: "cell_of a = Some c \<Longrightarrow> cell_of a' = Some c' \<Longrightarrow>
    rd a' (wr a v s) = (if c = c' then v AND 0xFFFFFF else rd a' s)"
  by (cases "c = c'") (auto simp: rd_wr_same rd_wr_other)

lemma rd_wr_wr: "cell_of a = Some c \<Longrightarrow> cell_of a' = Some c' \<Longrightarrow>
    rd a' (wr a v (wr a u s)) = rd a' (wr a v s)"
  by (simp add: rd_wr)

lemma rd_wr_commute:
  assumes "cell_of a = Some c" "cell_of b = Some d" "c \<noteq> d" "cell_of e = Some f"
  shows "rd e (wr a v (wr b u s)) = rd e (wr b u (wr a v s))"
  using assms by (auto simp: rd_wr)

text \<open>Any sequence of writes is read as its last write to the cell.\<close>

definition wr_list :: "('a \<times> u32) list \<Rightarrow> 's \<Rightarrow> 's" where
  "wr_list ws s = fold (\<lambda>(a, v). wr a v) ws s"

lemma rd_wr_list:
  assumes "\<forall>(a, v) \<in> set ws. cell_of a \<noteq> None" and "cell_of e = Some f"
  shows "rd e (wr_list ws s) =
    (case find (\<lambda>(a, v). cell_of a = Some f) (rev ws) of
       None \<Rightarrow> rd e s | Some (a, v) \<Rightarrow> v AND 0xFFFFFF)"
  using assms(1)
proof (induction ws rule: rev_induct)
  case Nil
  then show ?case by (simp add: wr_list_def)
next
  case (snoc w ws)
  obtain a v where w: "w = (a, v)" by (cases w)
  with snoc.prems obtain c where "cell_of a = Some c" by auto
  with snoc assms(2) w show ?case by (auto simp: wr_list_def rd_wr)
qed

end

interpretation buf: word_store "\<lambda>(space, addr). cell M space addr"
  "\<lambda>(space, addr) s. fst (read_memory M space addr s)"
  "\<lambda>(space, addr) v s. write_memory M space addr v s"
  for M :: "('e, 'x) host_scheme memory_map"
  by unfold_locales (auto simp: read_cell write_cell and.assoc split: if_splits)

section \<open>Properties\<close>

text \<open>
  C9. Memory keeps the last write: after any sequence of writes to buffer-backed addresses of any
  spaces, an address reads as the last value written to its cell, cut to 24 bits, through whatever
  space or region it was written, and as before when no write hit its cell.
\<close>

theorem read_after_writes:
  assumes "\<forall>(a, v) \<in> set ws. cell M (fst a) (snd a) \<noteq> None"
    and "cell M space addr = Some c"
  shows "fst (read_memory M space addr (fold (\<lambda>(a, v). write_memory M (fst a) (snd a) v) ws s)) =
    (case find (\<lambda>(a, v). cell M (fst a) (snd a) = Some c) (rev ws) of
       None \<Rightarrow> fst (read_memory M space addr s) | Some (a, v) \<Rightarrow> v AND 0xFFFFFF)"
  using buf.rd_wr_list [of ws M "(space, addr)" c s, unfolded buf.wr_list_def prod.case] assms
  by (simp add: case_prod_unfold)

theorem read_after_writes_witness:
  "fst (read_memory (test_map 0 16 1 16 0 16) Space_P 3
     (fold (\<lambda>(a, v). write_memory (test_map 0 16 1 16 0 16) (fst a) (snd a) v)
       [((Space_X, 3), 7), ((Space_Y, 3), 9)] \<lparr>bufs = \<lambda>_ _. 0, ext = ()\<rparr>)) = 7"
proof -
  let ?M = "test_map 0 16 1 16 0 16 :: unit host memory_map"
  note test_map_def [simp]
  have c: "cell ?M Space_P 3 = Some (0, 3)" "cell ?M Space_X 3 = Some (0, 3)"
    "cell ?M Space_Y 3 = Some (1, 3)"
    by (simp_all add: cell_def lookup_def regions_def in_region_def buffer_index_def)
  have "\<forall>(a, v) \<in> set [((Space_X, 3), 7), ((Space_Y, 3), 9)]. cell ?M (fst a) (snd a) \<noteq> None"
    using c by simp
  from read_after_writes [OF this c(1), of "\<lparr>bufs = \<lambda>_ _. 0, ext = ()\<rparr>"] show ?thesis
    using c by simp
qed

text \<open>\<^verbatim>\<open>read_pram\<close> is the P-space read of the core.\<close>

lemma read_pram_read_memory: "read_pram M addr s = read_memory M Space_P addr s"
proof -
  have "read_pram_regions rs addr s = read_regions rs addr s" for rs
    by (induction rs) (auto simp: in_region_def buffer_index_def split: region_kind.split)
  then show ?thesis by (simp add: read_pram_def read_memory_def regions_def)
qed

lemma read_memory_24bit: "fst (read_memory M space addr s) AND 0xFFFFFF = fst (read_memory M space addr s)"
  by (simp add: read_memory_lookup and.assoc split: option.split region_kind.split prod.split)

text \<open>A P address with a region lies below \<^verbatim>\<open>p_space_end\<close>, the size the dirty bitmap is given.\<close>

lemma p_space_end_bound:
  fixes M :: "'s memory_map"
  assumes "lookup M Space_P addr = Some r"
  shows "addr < p_space_end M"
proof -
  have "mr_end r \<le> fold (\<lambda>r e. max e (mr_end r)) rs e" if "r \<in> set rs"
    for rs :: "'s memory_region list" and e :: u32
    using that
  proof (induction rs arbitrary: e)
    case (Cons x xs)
    have mono: "e \<le> fold (\<lambda>r e. max e (mr_end r)) ys e"
      for ys :: "'s memory_region list" and e :: u32
      by (induction ys arbitrary: e) (auto intro: order_trans [OF max.cobounded1])
    show ?case
    proof (cases "r = x")
      case True
      then show ?thesis using order_trans [OF max.cobounded2 mono] by simp
    next
      case False
      with Cons show ?thesis by simp
    qed
  qed simp
  moreover from assms have "r \<in> set (p_regions M)" "addr < mr_end r"
    by (auto simp: lookup_def regions_def find_Some_iff in_region_def in_set_conv_nth)
  ultimately show ?thesis by (fastforce simp: p_space_end_def intro: less_le_trans)
qed

end
