(* ===== verification/Pram_Dirty.thy ===== *)
theory Pram_Dirty
  imports Isa
begin

text \<open>
  \<^verbatim>\<open>crates/emu/src/core.rs\<close>: \<^verbatim>\<open>PramDirtyBitmap\<close>, one bit per program word, packed in 64-bit
  words, with the generation counter the run loop compares. Its contract is a set of addresses;
  the operations are proved to be insertion, intersection test and difference on that set.
\<close>

section \<open>The bitmap\<close>

record pram_dirty_bitmap =
  pd_size :: nat
  pd_dirty :: "u64 list"
  pd_generation :: u32

definition pram_dirty_new :: "nat \<Rightarrow> pram_dirty_bitmap" where
  "pram_dirty_new pram_size =
    \<lparr>pd_size = pram_size, pd_dirty = replicate ((pram_size + 63) div 64) 0, pd_generation = 0\<rparr>"

definition mark_dirty :: "u32 \<Rightarrow> pram_dirty_bitmap \<Rightarrow> pram_dirty_bitmap" where
  "mark_dirty addr d =
    (let addr = unat addr
     in if addr < pd_size d
        then d\<lparr>pd_dirty := (pd_dirty d)[addr div 64 := pd_dirty d ! (addr div 64) OR push_bit (addr mod 64) 1],
               pd_generation := pd_generation d + 1\<rparr>
        else d)"

definition range_mask :: "nat \<Rightarrow> nat \<Rightarrow> u64" where
  "range_mask lo_bit hi_bit =
    (let top = (if 64 \<le> hi_bit then NOT 0 else push_bit hi_bit 1 - 1)
     in top AND NOT (push_bit lo_bit 1 - 1))"

text \<open>The masks of the first and the last word of a range, in both operations on ranges.\<close>

definition first_word_mask :: "nat \<Rightarrow> u64" where
  "first_word_mask lo_bit = push_bit lo_bit (NOT 0)"

definition last_word_mask :: "nat \<Rightarrow> u64" where
  "last_word_mask last_bits = (if 64 \<le> last_bits then NOT 0 else push_bit last_bits 1 - 1)"

definition is_range_dirty :: "u32 \<Rightarrow> u32 \<Rightarrow> pram_dirty_bitmap \<Rightarrow> bool" where
  "is_range_dirty start_pc end_pc d =
    (let lo = unat start_pc;
         hi = min (unat end_pc) (pd_size d)
     in if hi \<le> lo then False
        else let first_word = lo div 64;
                 last_word = (hi - 1) div 64
             in if first_word = last_word then
                  (let m = range_mask (lo mod 64) (min (hi - first_word * 64) 64)
                   in pd_dirty d ! first_word AND m \<noteq> 0)
                else if pd_dirty d ! first_word AND first_word_mask (lo mod 64) \<noteq> 0 then True
                else if list_ex (\<lambda>w. w \<noteq> 0)
                     (take (last_word - (first_word + 1)) (drop (first_word + 1) (pd_dirty d)))
                then True
                else pd_dirty d ! last_word AND last_word_mask (hi - last_word * 64) \<noteq> 0)"

text \<open>\<open>fill_zero a b\<close> is \<^verbatim>\<open>[a..b].fill(0)\<close>.\<close>

definition fill_zero :: "nat \<Rightarrow> nat \<Rightarrow> u64 list \<Rightarrow> u64 list" where
  "fill_zero a b ws = take a ws @ replicate (b - a) 0 @ drop b ws"

definition clear_dirty_range :: "u32 \<Rightarrow> u32 \<Rightarrow> pram_dirty_bitmap \<Rightarrow> pram_dirty_bitmap" where
  "clear_dirty_range start_pc end_pc d =
    (let lo = unat start_pc;
         hi = min (unat end_pc) (pd_size d)
     in if hi \<le> lo then d
        else let first_word = lo div 64;
                 last_word = (hi - 1) div 64;
                 ws = pd_dirty d
             in if first_word = last_word then
                  (let m = range_mask (lo mod 64) (min (hi - first_word * 64) 64)
                   in d\<lparr>pd_dirty := ws[first_word := ws ! first_word AND NOT m]\<rparr>)
                else
                  (let ws = ws[first_word := ws ! first_word AND NOT (first_word_mask (lo mod 64))];
                       ws = fill_zero (first_word + 1) last_word ws;
                       ws = ws[last_word := ws ! last_word AND NOT (last_word_mask (hi - last_word * 64))]
                   in d\<lparr>pd_dirty := ws\<rparr>))"

section \<open>The set of dirty addresses\<close>

definition pd_wf :: "pram_dirty_bitmap \<Rightarrow> bool" where
  "pd_wf d \<longleftrightarrow> length (pd_dirty d) = (pd_size d + 63) div 64"

definition dirty_at :: "pram_dirty_bitmap \<Rightarrow> nat \<Rightarrow> bool" where
  "dirty_at d a \<longleftrightarrow> a < pd_size d \<and> bit (pd_dirty d ! (a div 64)) (a mod 64)"

definition dirty_set :: "pram_dirty_bitmap \<Rightarrow> nat set" where
  "dirty_set d = {a. dirty_at d a}"

lemma bit_range_mask:
  "hi \<le> 64 \<Longrightarrow> bit (range_mask lo hi) k \<longleftrightarrow> k < 64 \<and> lo \<le> k \<and> k < hi"
  by (auto simp: range_mask_def Let_def bit_simps bit_minus_1_iff simp flip: mask_eq_exp_minus_1
      dest: bit_imp_le_length)

lemma bit_last_word_mask: "bit (last_word_mask n) k \<longleftrightarrow> k < 64 \<and> k < n"
  by (auto simp: last_word_mask_def bit_simps bit_minus_1_iff simp flip: mask_eq_exp_minus_1
      dest: bit_imp_le_length)

lemma bit_high_mask: "bit (first_word_mask n) k \<longleftrightarrow> k < 64 \<and> n \<le> k"
  by (auto simp: first_word_mask_def bit_simps dest: bit_imp_le_length)

lemma nonzero_iff_bit: "(w :: u64) \<noteq> 0 \<longleftrightarrow> (\<exists>k<64. bit w k)"
proof
  assume "w \<noteq> 0"
  then obtain k where "bit w k" by (metis bit_0_eq bit_eqI bot_apply bot_bool_def)
  moreover from this have "k < 64" using bit_imp_le_length by fastforce
  ultimately show "\<exists>k<64. bit w k" by blast
qed auto

lemma and_nonzero_iff_bit: "(v AND m :: u64) \<noteq> 0 \<longleftrightarrow> (\<exists>k<64. bit v k \<and> bit m k)"
  by (simp add: nonzero_iff_bit bit_and_iff)

text \<open>An address is a word index and a bit; ranges split accordingly.\<close>

lemma ex_addr_split: "(\<exists>a::nat. P a) \<longleftrightarrow> (\<exists>w k. k < 64 \<and> P (64 * w + k))"
proof
  assume "\<exists>a. P a"
  then obtain a where "P a" ..
  then have "a mod 64 < 64 \<and> P (64 * (a div 64) + a mod 64)" by simp
  then show "\<exists>w k. k < 64 \<and> P (64 * w + k)" by blast
qed blast

lemma addr_div_mod [simp]: "k < 64 \<Longrightarrow> (64 * w + k) div 64 = (w::nat)" "k < 64 \<Longrightarrow> (64 * w + k) mod 64 = (k::nat)"
  by (simp_all add: div_mult2_eq)

lemma dirty_at_split: "k < 64 \<Longrightarrow>
    dirty_at d (64 * w + k) \<longleftrightarrow> 64 * w + k < pd_size d \<and> bit (pd_dirty d ! w) k"
  by (simp add: dirty_at_def)

lemma is_range_dirty_iff:
  assumes wf: "pd_wf d"
  shows "is_range_dirty s e d \<longleftrightarrow> (\<exists>a. unat s \<le> a \<and> a < unat e \<and> dirty_at d a)"
proof -
  define lo where "lo = unat s"
  define hi where "hi = min (unat e) (pd_size d)"
  define fw where "fw = lo div 64"
  define lw where "lw = (hi - 1) div 64"
  define ws where "ws = pd_dirty d"
  note folds = lo_def [symmetric] hi_def [symmetric] fw_def [symmetric] lw_def [symmetric]
    ws_def [symmetric]
  have R: "(\<exists>a. unat s \<le> a \<and> a < unat e \<and> dirty_at d a) \<longleftrightarrow>
      (\<exists>w k. k < 64 \<and> lo \<le> 64 * w + k \<and> 64 * w + k < hi \<and> bit (ws ! w) k)"
    unfolding ex_addr_split [of "\<lambda>a. unat s \<le> a \<and> a < unat e \<and> dirty_at d a"]
    by (auto simp: dirty_at_split lo_def hi_def ws_def cong: conj_cong)
  show ?thesis
  proof (cases "hi \<le> lo")
    case True
    then have "\<not> is_range_dirty s e d" by (simp add: is_range_dirty_def lo_def hi_def)
    moreover from True have "\<not> (\<exists>w k. k < 64 \<and> lo \<le> 64 * w + k \<and> 64 * w + k < hi \<and> bit (ws ! w) k)"
      by auto
    ultimately show ?thesis by (simp add: R)
  next
    case False
    then have lohi: "lo < hi" by simp
    have fl: "fw \<le> lw" using lohi by (simp add: fw_def lw_def div_le_mono)
    have lw_len: "lw < length ws"
      using lohi wf by (simp add: lw_def hi_def pd_wf_def ws_def) linarith
    have W: "fw \<le> w" "w \<le> lw" if "k < 64" "lo \<le> 64 * w + k" "64 * w + k < hi" for w k
      using that by (simp_all add: fw_def lw_def)
    show ?thesis
    proof (cases "fw = lw")
      case True
      have "is_range_dirty s e d \<longleftrightarrow> ws ! fw AND range_mask (lo mod 64) (min (hi - fw * 64) 64) \<noteq> 0"
        unfolding is_range_dirty_def Let_def folds using False True
        by simp
      also have "\<dots> \<longleftrightarrow> (\<exists>k<64. bit (ws ! fw) k \<and> lo \<le> 64 * fw + k \<and> 64 * fw + k < hi)"
      proof -
        have "lo \<le> 64 * fw + k \<and> 64 * fw + k < hi \<longleftrightarrow>
            lo mod 64 \<le> k \<and> k < min (hi - fw * 64) 64" if "k < 64" for k
          using that mult_div_mod_eq [of 64 lo] unfolding fw_def by linarith
        then show ?thesis unfolding and_nonzero_iff_bit by (auto simp: bit_range_mask)
      qed
      also have "\<dots> \<longleftrightarrow> (\<exists>w k. k < 64 \<and> lo \<le> 64 * w + k \<and> 64 * w + k < hi \<and> bit (ws ! w) k)"
        using W True by (metis le_antisym)
      finally show ?thesis by (simp add: R)
    next
      case neq: False
      then have fl: "fw < lw" using fl by simp
      have mid: "list_ex (\<lambda>w. w \<noteq> 0) (take (lw - (fw + 1)) (drop (fw + 1) ws)) \<longleftrightarrow>
          (\<exists>w k. fw < w \<and> w < lw \<and> k < 64 \<and> bit (ws ! w) k)"
      proof -
        have "list_ex (\<lambda>w. w \<noteq> 0) (take (lw - (fw + 1)) (drop (fw + 1) ws)) \<longleftrightarrow>
            (\<exists>i. i < lw - (fw + 1) \<and> ws ! (fw + 1 + i) \<noteq> 0)"
          using fl lw_len by (simp add: list_ex_length min_def cong: conj_cong)
        also have "\<dots> \<longleftrightarrow> (\<exists>w. fw < w \<and> w < lw \<and> ws ! w \<noteq> 0)"
        proof safe
          fix w assume "fw < w" "w < lw" "ws ! w \<noteq> 0"
          then show "\<exists>i. i < lw - (fw + 1) \<and> ws ! (fw + 1 + i) \<noteq> 0"
            by (intro exI [of _ "w - (fw + 1)"]) auto
        qed (metis add.commute add_lessD1 less_add_Suc2 less_diff_conv plus_1_eq_Suc add_Suc)
        finally show ?thesis by (auto simp: nonzero_iff_bit)
      qed
      have hi_lw: "64 * lw < hi" "hi \<le> 64 * lw + 64" using lohi by (simp_all add: lw_def)
      have "is_range_dirty s e d \<longleftrightarrow>
          ws ! fw AND first_word_mask (lo mod 64) \<noteq> 0 \<or>
          list_ex (\<lambda>w. w \<noteq> 0) (take (lw - (fw + 1)) (drop (fw + 1) ws)) \<or>
          ws ! lw AND last_word_mask (hi - lw * 64) \<noteq> 0"
        unfolding is_range_dirty_def Let_def folds using False neq
        by simp
      also have "\<dots> \<longleftrightarrow>
          (\<exists>k<64. bit (ws ! fw) k \<and> lo mod 64 \<le> k) \<or>
          (\<exists>w k. fw < w \<and> w < lw \<and> k < 64 \<and> bit (ws ! w) k) \<or>
          (\<exists>k<64. bit (ws ! lw) k \<and> 64 * lw + k < hi)"
        unfolding and_nonzero_iff_bit mid by (auto simp: bit_high_mask bit_last_word_mask)
      also have "\<dots> \<longleftrightarrow> (\<exists>w k. k < 64 \<and> lo \<le> 64 * w + k \<and> 64 * w + k < hi \<and> bit (ws ! w) k)"
      proof -
        have a: "lo \<le> 64 * fw + k \<longleftrightarrow> lo mod 64 \<le> k" for k
          by (auto simp: fw_def) (metis add_le_cancel_left mult_div_mod_eq)+
        have b: "64 * fw + k < hi" if "k < 64" for k using that fl hi_lw by simp
        have c: "lo \<le> 64 * w + k" if "fw < w" for w k using that by (simp add: fw_def)
        have e: "64 * w + k < hi" if "w < lw" "k < 64" for w k using that hi_lw by simp
        show ?thesis
        proof (safe, goal_cases)
          case (1 k)
          then show ?case using a b by blast
        next
          case (2 w k)
          then show ?case using c e by blast
        next
          case (3 k)
          then show ?case using c fl by blast
        next
          case (4 w k)
          then consider "w = fw" | "fw < w" "w < lw" | "w = lw" using W by fastforce
          then show ?case using 4 a by cases blast+
        qed
      qed
      finally show ?thesis by (simp add: R)
    qed
  qed
qed

lemma length_mark_dirty [simp]: "length (pd_dirty (mark_dirty a d)) = length (pd_dirty d)"
  and size_mark_dirty [simp]: "pd_size (mark_dirty a d) = pd_size d"
  by (simp_all add: mark_dirty_def Let_def)

lemma mark_dirty_wf: "pd_wf d \<Longrightarrow> pd_wf (mark_dirty a d)"
  by (simp add: pd_wf_def)

lemma mark_dirty_set:
  assumes "pd_wf d"
  shows "dirty_set (mark_dirty a d) = dirty_set d \<union> ({unat a} \<inter> {..<pd_size d})"
proof (cases "unat a < pd_size d")
  case True
  then have "unat a div 64 < length (pd_dirty d)"
    using assms by (simp add: pd_wf_def)
  then have "dirty_at (mark_dirty a d) x \<longleftrightarrow> dirty_at d x \<or> x = unat a" for x
  proof (cases "x div 64 = unat a div 64")
    case same: True
    then have "x mod 64 = unat a mod 64 \<longleftrightarrow> x = unat a" by (metis mult_div_mod_eq)
    moreover have "bit (push_bit (unat a mod 64) 1 :: u64) (x mod 64) \<longleftrightarrow> x mod 64 = unat a mod 64"
      by (auto simp: bit_exp_iff)
    ultimately show ?thesis
      using True same \<open>unat a div 64 < length (pd_dirty d)\<close>
      unfolding dirty_at_def mark_dirty_def Let_def by (auto simp: bit_or_iff)
  next
    case False
    then show ?thesis using True by (auto simp: dirty_at_def mark_dirty_def Let_def)
  qed
  then show ?thesis using True by (auto simp: dirty_set_def)
qed (auto simp: mark_dirty_def)

lemma fill_zero_length [simp]: "a \<le> b \<Longrightarrow> b \<le> length ws \<Longrightarrow> length (fill_zero a b ws) = length ws"
  by (simp add: fill_zero_def)

lemma nth_fill_zero:
  "a \<le> b \<Longrightarrow> b \<le> length ws \<Longrightarrow> w < length ws \<Longrightarrow>
   fill_zero a b ws ! w = (if a \<le> w \<and> w < b then 0 else ws ! w)"
  by (auto simp: fill_zero_def nth_append)

lemma clear_dirty_range_set:
  assumes wf: "pd_wf d"
  shows "dirty_set (clear_dirty_range s e d) = dirty_set d - {unat s..<unat e}"
    and "pd_wf (clear_dirty_range s e d)" and "pd_size (clear_dirty_range s e d) = pd_size d"
proof -
  define lo where "lo = unat s"
  define hi where "hi = min (unat e) (pd_size d)"
  define fw where "fw = lo div 64"
  define lw where "lw = (hi - 1) div 64"
  define ws where "ws = pd_dirty d"
  note folds = lo_def [symmetric] hi_def [symmetric] fw_def [symmetric] lw_def [symmetric]
    ws_def [symmetric]
  have goal: "dirty_set (clear_dirty_range s e d) = dirty_set d - {unat s..<unat e} \<and>
      pd_wf (clear_dirty_range s e d) \<and> pd_size (clear_dirty_range s e d) = pd_size d"
    if c: "clear_dirty_range s e d = d\<lparr>pd_dirty := ws'\<rparr>" and len: "length ws' = length ws"
      and bits: "\<And>w k. w < length ws \<Longrightarrow> k < 64 \<Longrightarrow>
        bit (ws' ! w) k \<longleftrightarrow> bit (ws ! w) k \<and> \<not> (lo \<le> 64 * w + k \<and> 64 * w + k < hi)" for ws'
  proof -
    have "dirty_at (clear_dirty_range s e d) a \<longleftrightarrow> dirty_at d a \<and> \<not> (unat s \<le> a \<and> a < unat e)" for a
    proof (cases "a < pd_size d")
      case True
      then have "a div 64 < length ws" using wf by (simp add: pd_wf_def ws_def)
      with bits [of "a div 64" "a mod 64"]
      have "bit (ws' ! (a div 64)) (a mod 64) \<longleftrightarrow>
          bit (ws ! (a div 64)) (a mod 64) \<and> \<not> (lo \<le> a \<and> a < hi)"
        by (simp only: mult_div_mod_eq pos_mod_bound mod_less_divisor zero_less_numeral)
      then show ?thesis
        using True by (auto simp: dirty_at_def c lo_def hi_def ws_def [symmetric])
    qed (simp add: dirty_at_def c)
    then have "dirty_set (clear_dirty_range s e d) = dirty_set d - {unat s..<unat e}"
      unfolding dirty_set_def set_eq_iff mem_Collect_eq Diff_iff atLeastLessThan_iff by blast
    moreover have "pd_wf (clear_dirty_range s e d)" using wf len by (simp add: pd_wf_def ws_def c)
    ultimately show ?thesis by (simp add: c)
  qed
  have all: "dirty_set (clear_dirty_range s e d) = dirty_set d - {unat s..<unat e} \<and>
      pd_wf (clear_dirty_range s e d) \<and> pd_size (clear_dirty_range s e d) = pd_size d"
  proof (cases "hi \<le> lo")
    case True
    have "clear_dirty_range s e d = d"
      unfolding clear_dirty_range_def Let_def folds using True by simp
    moreover have "\<not> (lo \<le> 64 * w + k \<and> 64 * w + k < hi)" for w k using True by auto
    ultimately show ?thesis using goal [of ws] by (simp add: ws_def)
  next
    case False
    then have lohi: "lo < hi" by simp
    have fl: "fw \<le> lw" using lohi by (simp add: fw_def lw_def div_le_mono)
    have lw_len: "lw < length ws"
      using lohi wf by (simp add: lw_def hi_def pd_wf_def ws_def) linarith
    have W: "fw \<le> w" "w \<le> lw" if "k < 64" "lo \<le> 64 * w + k" "64 * w + k < hi" for w k
      using that by (simp_all add: fw_def lw_def)
    have a: "lo \<le> 64 * fw + k \<longleftrightarrow> lo mod 64 \<le> k" for k
      by (auto simp: fw_def) (metis add_le_cancel_left mult_div_mod_eq)+
    show ?thesis
    proof (cases "fw = lw")
      case True
      let ?ws = "ws[fw := ws ! fw AND NOT (range_mask (lo mod 64) (min (hi - fw * 64) 64))]"
      have c: "clear_dirty_range s e d = d\<lparr>pd_dirty := ?ws\<rparr>"
        unfolding clear_dirty_range_def Let_def folds using False True by simp
      have "bit (?ws ! w) k \<longleftrightarrow> bit (ws ! w) k \<and> \<not> (lo \<le> 64 * w + k \<and> 64 * w + k < hi)"
        if "w < length ws" "k < 64" for w k
        using that W [of k w] a [of k] True
        by (cases "w = fw") (auto simp: bit_simps bit_range_mask)
      then show ?thesis using goal [OF c] by simp
    next
      case neq: False
      then have fl: "fw < lw" using fl by simp
      have hi_lw: "64 * lw < hi" "hi \<le> 64 * lw + 64" using lohi by (simp_all add: lw_def)
      let ?ws1 = "ws[fw := ws ! fw AND NOT (first_word_mask (lo mod 64))]"
      let ?ws2 = "fill_zero (Suc fw) lw ?ws1"
      let ?ws = "?ws2[lw := ?ws2 ! lw AND NOT (last_word_mask (hi - lw * 64))]"
      have c: "clear_dirty_range s e d = d\<lparr>pd_dirty := ?ws\<rparr>"
        unfolding clear_dirty_range_def Let_def folds using False neq by simp
      have len: "length ?ws2 = length ws" using fl lw_len by simp
      have n2: "?ws2 ! w = (if fw < w \<and> w < lw then 0 else ?ws1 ! w)" if "w < length ws" for w
        using that fl lw_len nth_fill_zero [of "Suc fw" lw ?ws1 w] by auto
      have "bit (?ws ! w) k \<longleftrightarrow> bit (ws ! w) k \<and> \<not> (lo \<le> 64 * w + k \<and> 64 * w + k < hi)"
        if w: "w < length ws" and k: "k < 64" for w k
      proof -
        consider "w < fw" | "w = fw" | "fw < w \<and> w < lw" | "w = lw" | "lw < w" by linarith
        then show ?thesis
        proof cases
          case 1
          then show ?thesis using w fl W(1) [OF k, of w] by (auto simp: n2 len)
        next
          case 2
          then have "64 * w + k < hi" using k fl hi_lw by simp
          with 2 show ?thesis
            using w k fl a [of k] by (auto simp: n2 len bit_and_iff bit_not_iff bit_high_mask)
        next
          case 3
          moreover from this have "lo < 64 * w"
            by (simp add: fw_def div_less_iff_less_mult mult.commute)
          ultimately have "lo \<le> 64 * w + k" "64 * w + k < hi" using k hi_lw by simp_all
          with 3 show ?thesis using w by (auto simp: n2 len)
        next
          case 4
          moreover from this fl have "lo < 64 * w"
            by (simp add: fw_def div_less_iff_less_mult mult.commute)
          ultimately have "lo \<le> 64 * w + k" by simp
          with 4 show ?thesis
            using w k fl by (auto simp: n2 len bit_and_iff bit_not_iff bit_last_word_mask)
        next
          case 5
          then show ?thesis using w fl W(2) [OF k, of w] by (auto simp: n2 len)
        qed
      qed
      then show ?thesis using goal [OF c] len by simp
    qed
  qed
  then show "dirty_set (clear_dirty_range s e d) = dirty_set d - {unat s..<unat e}"
    "pd_wf (clear_dirty_range s e d)" "pd_size (clear_dirty_range s e d) = pd_size d"
    by blast+
qed

lemma pram_dirty_new_wf: "pd_wf (pram_dirty_new n)"
  by (simp add: pd_wf_def pram_dirty_new_def)

lemma pram_dirty_new_set: "dirty_set (pram_dirty_new n) = {}"
proof -
  have "\<not> dirty_at (pram_dirty_new n) a" for a
  proof (cases "a < n")
    case True
    then have "a div 64 < (n + 63) div 64" by simp
    then show ?thesis by (simp add: dirty_at_def pram_dirty_new_def)
  qed (simp add: dirty_at_def pram_dirty_new_def)
  then show ?thesis by (simp add: dirty_set_def)
qed

section \<open>The interface of a dirty tracker\<close>

text \<open>
  What the run loop relies on: marks, range clears and range tests act on a set of addresses below
  a bound.
\<close>

locale dirty_tracker =
  fixes inv :: "'d \<Rightarrow> bool"
    and addrs :: "'d \<Rightarrow> nat set"
    and bound :: "'d \<Rightarrow> nat"
    and mark :: "u32 \<Rightarrow> 'd \<Rightarrow> 'd"
    and clear :: "u32 \<Rightarrow> u32 \<Rightarrow> 'd \<Rightarrow> 'd"
    and test :: "u32 \<Rightarrow> u32 \<Rightarrow> 'd \<Rightarrow> bool"
  assumes inv_mark: "inv d \<Longrightarrow> inv (mark a d)"
    and inv_clear: "inv d \<Longrightarrow> inv (clear lo hi d)"
    and bound_mark: "bound (mark a d) = bound d"
    and bound_clear: "inv d \<Longrightarrow> bound (clear lo hi d) = bound d"
    and addrs_mark: "inv d \<Longrightarrow> addrs (mark a d) = addrs d \<union> ({unat a} \<inter> {..<bound d})"
    and addrs_clear: "inv d \<Longrightarrow> addrs (clear lo hi d) = addrs d - {unat lo..<unat hi}"
    and test_addrs: "inv d \<Longrightarrow> test lo hi d \<longleftrightarrow> addrs d \<inter> {unat lo..<unat hi} \<noteq> {}"
begin

definition marks :: "u32 list \<Rightarrow> 'd \<Rightarrow> 'd" where
  "marks xs d = fold mark xs d"

lemma marks_inv: "inv d \<Longrightarrow> inv (marks xs d) \<and> bound (marks xs d) = bound d"
  by (induction xs arbitrary: d) (simp_all add: marks_def inv_mark bound_mark)

lemma addrs_marks: "inv d \<Longrightarrow> addrs (marks xs d) = addrs d \<union> (unat ` set xs \<inter> {..<bound d})"
  by (induction xs arbitrary: d) (auto simp: marks_def inv_mark bound_mark addrs_mark)

text \<open>After a clear, a range is dirty exactly when an address of it has been marked since.\<close>

lemma test_marks_clear:
  assumes "inv d"
  shows "test lo hi (marks xs (clear lo hi d)) \<longleftrightarrow>
    (\<exists>x\<in>set xs. lo \<le> x \<and> x < hi \<and> unat x < bound d)"
proof -
  have "addrs (marks xs (clear lo hi d)) =
      (addrs d - {unat lo..<unat hi}) \<union> (unat ` set xs \<inter> {..<bound d})"
    using assms by (simp add: addrs_marks inv_clear addrs_clear bound_clear)
  then show ?thesis
    using assms marks_inv [OF inv_clear, of d xs lo hi]
    by (auto simp: test_addrs word_le_nat_alt word_less_nat_alt)
qed

text \<open>A clear of one range does not hide marks in another.\<close>

lemma test_clear_disjoint:
  assumes "inv d" "{unat lo..<unat hi} \<inter> {unat lo'..<unat hi'} = {}"
  shows "test lo hi (clear lo' hi' d) = test lo hi d"
  using assms by (auto simp: test_addrs inv_clear addrs_clear)

end

lemma test_dirty_set: "pd_wf d \<Longrightarrow> is_range_dirty lo hi d \<longleftrightarrow> dirty_set d \<inter> {unat lo..<unat hi} \<noteq> {}"
  by (auto simp: is_range_dirty_iff dirty_set_def)

interpretation pd: dirty_tracker pd_wf dirty_set pd_size mark_dirty clear_dirty_range is_range_dirty
  by unfold_locales
    (simp_all add: mark_dirty_wf clear_dirty_range_set mark_dirty_set test_dirty_set)

section \<open>The generation counter\<close>

lemma generation_marks:
  "pd_generation (fold mark_dirty xs d) =
   pd_generation d + word_of_nat (length (filter (\<lambda>x. unat x < pd_size d) xs))"
  by (induction xs arbitrary: d) (auto simp: mark_dirty_def Let_def)

section \<open>Properties\<close>

text \<open>
  C7. The bitmap is a set of addresses: marking inserts the address if it is tracked, clearing a
  range removes exactly the range, the range test is non-empty intersection, and the invariant and
  the tracked size are kept.
\<close>

theorem pram_dirty_refines_set:
  assumes "pd_wf d"
  shows "dirty_set (mark_dirty a d) = dirty_set d \<union> ({unat a} \<inter> {..<pd_size d})
    \<and> dirty_set (clear_dirty_range lo hi d) = dirty_set d - {unat lo..<unat hi}
    \<and> is_range_dirty lo hi d = (dirty_set d \<inter> {unat lo..<unat hi} \<noteq> {})
    \<and> pd_wf (mark_dirty a d) \<and> pd_wf (clear_dirty_range lo hi d)"
  using assms by (simp add: pd.addrs_mark pd.addrs_clear pd.test_addrs pd.inv_mark pd.inv_clear)

theorem pram_dirty_refines_set_witness:
  "dirty_set (mark_dirty 3 (pram_dirty_new 130)) = {3} \<and>
   is_range_dirty 2 129 (pram_dirty_new 130) = False"
  using pram_dirty_refines_set [OF pram_dirty_new_wf [of 130], of 3 2 129]
  by (auto simp: pram_dirty_new_set) (simp_all add: pram_dirty_new_def)

text \<open>
  C8. A block's range that was cleared when the block was compiled is reported dirty exactly when
  one of the addresses marked since then lies in it, whatever was dirty before.
\<close>

theorem range_dirty_since_clear:
  assumes "pd_wf d"
  shows "is_range_dirty lo hi (fold mark_dirty xs (clear_dirty_range lo hi d)) \<longleftrightarrow>
    list_ex (\<lambda>x. lo \<le> x \<and> x < hi \<and> unat x < pd_size d) xs"
  using pd.test_marks_clear [OF assms, of lo hi xs]
  by (simp add: pd.marks_def list_ex_iff)

theorem range_dirty_since_clear_witness:
  "is_range_dirty 60 130 (fold mark_dirty [5, 64] (clear_dirty_range 60 130 (pram_dirty_new 200)))"
  unfolding range_dirty_since_clear [OF pram_dirty_new_wf]
  by (simp add: pram_dirty_new_def)

text \<open>
  Comparing generations is sound for fewer than 2^32 writes: when the counter is what it was,
  none of the writes in between hit a tracked address, so the dirty set is what it was.
\<close>

theorem generation_sound:
  assumes "pd_wf d" and "length xs < 2 ^ 32"
    and "pd_generation (fold mark_dirty xs d) = pd_generation d"
  shows "dirty_set (fold mark_dirty xs d) = dirty_set d"
proof -
  let ?n = "length (filter (\<lambda>x. unat x < pd_size d) xs)"
  have "?n < 2 ^ 32" using assms(2) length_filter_le le_less_trans by blast
  moreover have "(word_of_nat ?n :: u32) = 0" using assms(3) by (simp add: generation_marks)
  ultimately have "?n = 0" by (simp add: word_of_nat_eq_0_iff) (metis dvd_imp_le not_le neq0_conv length_0_conv)
  then have "unat ` set xs \<inter> {..<pd_size d} = {}" by (auto simp: filter_empty_conv)
  then show ?thesis using pd.addrs_marks [OF assms(1), of xs] by (simp add: pd.marks_def)
qed

theorem generation_sound_witness:
  "dirty_set (fold mark_dirty [200, 300] (pram_dirty_new 130)) = dirty_set (pram_dirty_new 130)"
  by (rule generation_sound [OF pram_dirty_new_wf]) (simp_all add: mark_dirty_def pram_dirty_new_def)

end
