(* ===== verification/Interrupts.thy ===== *)
theory Interrupts
  imports Isa
begin

text \<open>
  \<^verbatim>\<open>crates/emu/src/core.rs\<close>: the interrupt pipeline (\<^verbatim>\<open>InterruptPipeline\<close>), its pending
  bits and the arbitration loop of \<^verbatim>\<open>process_pending_interrupts\<close>. The two pending words and the
  128 priority levels are functions of the index (all accesses are below 128); a priority level
  is the \<^verbatim>\<open>i8\<close> as an integer.
\<close>

section \<open>States\<close>

datatype power_state = PS_Normal | PS_Wait | PS_Stop

definition power_state_from :: "u8 \<Rightarrow> power_state" where
  "power_state_from v = switch v [(1, PS_Wait), (2, PS_Stop)] PS_Normal"

datatype interrupt_state = IS_None | IS_Fast | IS_Long | IS_Armed | IS_Parked

definition interrupt_state_from :: "u8 \<Rightarrow> interrupt_state" where
  "interrupt_state_from v =
    switch v [(1, IS_Fast), (2, IS_Long), (3, IS_Armed), (4, IS_Parked)] IS_None"

definition interrupt_state_fmt :: "interrupt_state \<Rightarrow> string" where
  "interrupt_state_fmt st = (case st of
     IS_None \<Rightarrow> ''none'' | IS_Fast \<Rightarrow> ''fast'' | IS_Long \<Rightarrow> ''long''
   | IS_Armed \<Rightarrow> ''armed'' | IS_Parked \<Rightarrow> ''parked'')"

abbreviation (input) INVALID_FAULT_BUDGET :: u32 where "INVALID_FAULT_BUDGET \<equiv> 0xFFFFFFFF"

abbreviation (input) INT_COUNT :: nat where "INT_COUNT \<equiv> 128"
abbreviation (input) INT_RESET :: nat where "INT_RESET \<equiv> 0"
abbreviation (input) INT_STACK_ERROR :: nat where "INT_STACK_ERROR \<equiv> 1"
abbreviation (input) INT_ILLEGAL :: nat where "INT_ILLEGAL \<equiv> 2"
abbreviation (input) INT_DEBUG :: nat where "INT_DEBUG \<equiv> 3"
abbreviation (input) INT_TRAP :: nat where "INT_TRAP \<equiv> 4"
abbreviation (input) INT_NMI :: nat where "INT_NMI \<equiv> 5"

text \<open>\<^verbatim>\<open>interrupt::vector_addr\<close>.\<close>

definition int_vector_addr :: "nat \<Rightarrow> u16" where
  "int_vector_addr i = word_of_nat i * 2"

section \<open>The pipeline\<close>

record interrupt_pipeline =
  ip_state :: interrupt_state
  ip_pending_bits :: "nat \<Rightarrow> u64"
  ip_pipeline_stage :: u8
  ip_vector_addr :: u32
  ip_saved_pc :: u32
  ip_ipl :: "nat \<Rightarrow> int"
  ip_ipl_to_raise :: u8
  ip_fault_budget :: u32
  ip_parked_countdown :: u32
  ip_parked_sp_write :: bool

definition interrupt_pipeline_new :: interrupt_pipeline where
  "interrupt_pipeline_new =
    (let ipl = (\<lambda>_. -1)(INT_RESET := 3, INT_ILLEGAL := 3, INT_STACK_ERROR := 3, INT_TRAP := 3)
     in \<lparr>ip_state = IS_None, ip_pending_bits = (\<lambda>_. 0), ip_pipeline_stage = 0,
         ip_vector_addr = 0xFFFF, ip_saved_pc = 0xFFFF, ip_ipl = ipl, ip_ipl_to_raise = 0,
         ip_fault_budget = INVALID_FAULT_BUDGET, ip_parked_countdown = 0,
         ip_parked_sp_write = False\<rparr>)"

definition has_pending :: "interrupt_pipeline \<Rightarrow> bool" where
  "has_pending ip \<longleftrightarrow> ip_pending_bits ip 0 \<noteq> 0 \<or> ip_pending_bits ip 1 \<noteq> 0"

definition pending :: "interrupt_pipeline \<Rightarrow> nat \<Rightarrow> bool" where
  "pending ip i \<longleftrightarrow> bit (ip_pending_bits ip (i div 64)) (i mod 64)"

definition set_pending :: "nat \<Rightarrow> interrupt_pipeline \<Rightarrow> interrupt_pipeline" where
  "set_pending i ip = ip\<lparr>ip_pending_bits := (ip_pending_bits ip)
     (i div 64 := ip_pending_bits ip (i div 64) OR push_bit (i mod 64) 1)\<rparr>"

definition clear_pending :: "nat \<Rightarrow> interrupt_pipeline \<Rightarrow> interrupt_pipeline" where
  "clear_pending i ip = ip\<lparr>ip_pending_bits := (ip_pending_bits ip)
     (i div 64 := ip_pending_bits ip (i div 64) AND NOT (push_bit (i mod 64) 1))\<rparr>"

text \<open>\<^verbatim>\<open>InterruptPipeline::add\<close>: out-of-range and disabled sources are ignored.\<close>

definition ip_add :: "nat \<Rightarrow> interrupt_pipeline \<Rightarrow> interrupt_pipeline" where
  "ip_add i ip = (if INT_COUNT \<le> i \<or> ip_ipl ip i = -1 then ip else set_pending i ip)"

section \<open>Arbitration\<close>

text \<open>
  The loop over the sources: a pending level-3 source ends it, a masked one is skipped, and a
  strictly higher level replaces the candidate.
\<close>

fun arbitrate_loop :: "interrupt_pipeline \<Rightarrow> int \<Rightarrow> nat list \<Rightarrow> nat option \<Rightarrow> int \<Rightarrow> nat option" where
  "arbitrate_loop ip ipl_sr [] index ipl_to_raise = index"
| "arbitrate_loop ip ipl_sr (i # is) index ipl_to_raise =
    (if \<not> pending ip i then arbitrate_loop ip ipl_sr is index ipl_to_raise
     else if ip_ipl ip i = 3 then Some i
     else if ip_ipl ip i < ipl_sr then arbitrate_loop ip ipl_sr is index ipl_to_raise
     else if ipl_to_raise < ip_ipl ip i then arbitrate_loop ip ipl_sr is (Some i) (ip_ipl ip i)
     else arbitrate_loop ip ipl_sr is index ipl_to_raise)"

definition arbitrate :: "interrupt_pipeline \<Rightarrow> int \<Rightarrow> nat option" where
  "arbitrate ip ipl_sr = arbitrate_loop ip ipl_sr [0..<INT_COUNT] None (-1)"

section \<open>The set of pending sources\<close>

definition pending_set :: "interrupt_pipeline \<Rightarrow> nat set" where
  "pending_set ip = {i. i < 128 \<and> pending ip i}"

lemma bit_2_exp_u64: "n < 64 \<Longrightarrow> bit (2 ^ n :: u64) m \<longleftrightarrow> m = n"
  by (auto simp: bit_exp_iff)

lemma div_mod_64_eq: "i div 64 = j div 64 \<Longrightarrow> i mod 64 = j mod 64 \<longleftrightarrow> i = (j::nat)"
  by (metis mult_div_mod_eq)

lemma pending_set_pending: "pending (set_pending i ip) j \<longleftrightarrow> pending ip j \<or> j = i"
proof (cases "j div 64 = i div 64")
  case True
  with div_mod_64_eq [OF True] show ?thesis
    by (auto simp: pending_def set_pending_def bit_or_iff bit_2_exp_u64)
qed (auto simp: pending_def set_pending_def)

lemma pending_clear_pending: "pending (clear_pending i ip) j \<longleftrightarrow> pending ip j \<and> j \<noteq> i"
proof (cases "j div 64 = i div 64")
  case True
  with div_mod_64_eq [OF True] show ?thesis
    by (auto simp: pending_def clear_pending_def bit_and_iff bit_not_iff bit_2_exp_u64)
qed (auto simp: pending_def clear_pending_def)

lemma set_pending_frame [simp]:
  "ip_ipl (set_pending i ip) = ip_ipl ip" "ip_state (set_pending i ip) = ip_state ip"
  "ip_ipl_to_raise (set_pending i ip) = ip_ipl_to_raise ip"
  "ip_vector_addr (set_pending i ip) = ip_vector_addr ip"
  "ip_saved_pc (set_pending i ip) = ip_saved_pc ip"
  "ip_pipeline_stage (set_pending i ip) = ip_pipeline_stage ip"
  "ip_fault_budget (set_pending i ip) = ip_fault_budget ip"
  by (simp_all add: set_pending_def)

lemma clear_pending_frame [simp]:
  "ip_ipl (clear_pending i ip) = ip_ipl ip" "ip_state (clear_pending i ip) = ip_state ip"
  "ip_ipl_to_raise (clear_pending i ip) = ip_ipl_to_raise ip"
  "ip_vector_addr (clear_pending i ip) = ip_vector_addr ip"
  "ip_saved_pc (clear_pending i ip) = ip_saved_pc ip"
  "ip_pipeline_stage (clear_pending i ip) = ip_pipeline_stage ip"
  "ip_fault_budget (clear_pending i ip) = ip_fault_budget ip"
  by (simp_all add: clear_pending_def)

lemma ip_add_frame [simp]:
  "ip_ipl (ip_add i ip) = ip_ipl ip" "ip_state (ip_add i ip) = ip_state ip"
  "ip_ipl_to_raise (ip_add i ip) = ip_ipl_to_raise ip"
  "ip_vector_addr (ip_add i ip) = ip_vector_addr ip"
  "ip_saved_pc (ip_add i ip) = ip_saved_pc ip"
  "ip_pipeline_stage (ip_add i ip) = ip_pipeline_stage ip"
  "ip_fault_budget (ip_add i ip) = ip_fault_budget ip"
  by (simp_all add: ip_add_def)

lemma pending_add:
  "pending (ip_add i ip) j \<longleftrightarrow> pending ip j \<or> (j = i \<and> i < 128 \<and> ip_ipl ip i \<noteq> -1)"
  by (auto simp: ip_add_def pending_set_pending)

lemma has_pending_iff: "has_pending ip \<longleftrightarrow> pending_set ip \<noteq> {}"
proof -
  have nz: "(w :: u64) \<noteq> 0 \<longleftrightarrow> (\<exists>k<64. bit w k)" for w
  proof
    assume "w \<noteq> 0"
    then obtain k where "bit w k" by (metis bit_0_eq bit_eqI bot_apply bot_bool_def)
    moreover from this have "k < 64" using bit_imp_le_length by fastforce
    ultimately show "\<exists>k<64. bit w k" by blast
  qed auto
  have "(\<exists>k<64. bit (ip_pending_bits ip 0) k) \<longleftrightarrow> (\<exists>i<64. pending ip i)"
    by (auto simp: pending_def)
  moreover have "(\<exists>k<64. bit (ip_pending_bits ip 1) k) \<longleftrightarrow> (\<exists>i. 64 \<le> i \<and> i < 128 \<and> pending ip i)"
  proof
    assume "\<exists>k<64. bit (ip_pending_bits ip 1) k"
    then obtain k where "k < 64" "bit (ip_pending_bits ip 1) k" by blast
    then have "pending ip (64 + k)"
      unfolding pending_def by (simp only: div_add_self1 mod_add_self1 zero_neq_numeral div_less
          mod_less not_False_eq_True add_0)
    with \<open>k < 64\<close> show "\<exists>i. 64 \<le> i \<and> i < 128 \<and> pending ip i"
      by (intro exI [of _ "64 + k"]) simp
  next
    assume "\<exists>i. 64 \<le> i \<and> i < 128 \<and> pending ip i"
    then obtain i where i: "64 \<le> i" "i < 128" "pending ip i" by blast
    then have "i div 64 = 1" by simp
    with i show "\<exists>k<64. bit (ip_pending_bits ip 1) k"
      by (intro exI [of _ "i mod 64"]) (simp add: pending_def)
  qed
  moreover have "i < 128 \<longleftrightarrow> i < 64 \<or> 64 \<le> i \<and> i < 128" for i :: nat by linarith
  then have "(\<exists>i<64. pending ip i) \<or> (\<exists>i. 64 \<le> i \<and> i < 128 \<and> pending ip i) \<longleftrightarrow>
      (\<exists>i<128. pending ip i)"
    by blast
  ultimately show ?thesis unfolding has_pending_def nz by (auto simp: pending_set_def)
qed

section \<open>The interface of a source set\<close>

text \<open>What the core relies on: requests are a set, posted and withdrawn one by one.\<close>

locale request_set =
  fixes requests :: "'p \<Rightarrow> nat set"
    and enabled :: "'p \<Rightarrow> nat \<Rightarrow> bool"
    and post :: "nat \<Rightarrow> 'p \<Rightarrow> 'p"
    and withdraw :: "nat \<Rightarrow> 'p \<Rightarrow> 'p"
    and any_request :: "'p \<Rightarrow> bool"
  assumes requests_post: "requests (post i p) = requests p \<union> (if enabled p i then {i} else {})"
    and requests_withdraw: "requests (withdraw i p) = requests p - {i}"
    and enabled_post: "enabled (post i p) = enabled p"
    and enabled_withdraw: "enabled (withdraw i p) = enabled p"
    and any_request_iff: "any_request p \<longleftrightarrow> requests p \<noteq> {}"
begin

lemma requests_posts:
  "requests (fold post is p) = requests p \<union> {i \<in> set is. enabled p i}"
  by (induction "is" arbitrary: p) (auto simp: requests_post enabled_post)

lemma post_twice: "requests (post i (post i p)) = requests (post i p)"
  by (simp add: requests_post enabled_post)

lemma withdraw_post: "i \<notin> requests p \<Longrightarrow> requests (withdraw i (post i p)) = requests p"
  by (simp add: requests_post requests_withdraw)

lemma any_request_posts:
  "any_request (fold post is p) \<longleftrightarrow> any_request p \<or> (\<exists>i\<in>set is. enabled p i)"
  by (auto simp: any_request_iff requests_posts)

end

interpretation irq: request_set pending_set "\<lambda>ip i. i < 128 \<and> ip_ipl ip i \<noteq> -1" ip_add
  clear_pending has_pending
  by unfold_locales
    (auto simp: pending_set_def pending_add pending_clear_pending has_pending_iff)

section \<open>What arbitration picks\<close>

definition irq_candidate :: "interrupt_pipeline \<Rightarrow> int \<Rightarrow> nat \<Rightarrow> bool" where
  "irq_candidate ip m i \<longleftrightarrow> pending ip i \<and> m \<le> ip_ipl ip i"

text \<open>
  \<open>arb_spec ip m is k\<close>: \<open>k\<close> is the first pending level-3 source of the list, or, when there is
  none, the first of the unmasked sources of the highest level.
\<close>

definition arb_spec :: "interrupt_pipeline \<Rightarrow> int \<Rightarrow> nat \<Rightarrow> nat \<Rightarrow> bool" where
  "arb_spec ip m n k \<longleftrightarrow> k < n \<and> pending ip k \<and>
     (if \<exists>j<n. pending ip j \<and> ip_ipl ip j = 3
      then ip_ipl ip k = 3 \<and> (\<forall>j<k. \<not> (pending ip j \<and> ip_ipl ip j = 3))
      else irq_candidate ip m k \<and> (\<forall>j<n. irq_candidate ip m j \<longrightarrow> ip_ipl ip j \<le> ip_ipl ip k) \<and>
        (\<forall>j<k. irq_candidate ip m j \<longrightarrow> ip_ipl ip j < ip_ipl ip k))"

text \<open>The loop invariant: the candidate so far is the pick among the sources passed.\<close>

definition arb_invar :: "interrupt_pipeline \<Rightarrow> int \<Rightarrow> nat \<Rightarrow> nat option \<Rightarrow> int \<Rightarrow> bool" where
  "arb_invar ip m n index r \<longleftrightarrow> (\<forall>j<n. \<not> (pending ip j \<and> ip_ipl ip j = 3)) \<and>
     (case index of
        None \<Rightarrow> r = -1 \<and> (\<forall>j<n. \<not> irq_candidate ip m j)
      | Some k \<Rightarrow> r = ip_ipl ip k \<and> arb_spec ip m n k)"

lemma arbitrate_loop_spec:
  assumes "0 \<le> m" and "arb_invar ip m n index r" and "n \<le> N"
  shows "case arbitrate_loop ip m [n..<N] index r of
      None \<Rightarrow> (\<forall>j<N. \<not> irq_candidate ip m j \<and> \<not> (pending ip j \<and> ip_ipl ip j = 3))
    | Some k \<Rightarrow> arb_spec ip m N k"
  using assms(2,3)
proof (induction "N - n" arbitrary: n index r)
  case 0
  then show ?case by (auto simp: arb_invar_def split: option.splits)
next
  case (Suc x)
  then have n: "n < N" "x = N - Suc n" "Suc n \<le> N" by auto
  have upt: "[n..<N] = n # [Suc n..<N]" using n(1) by (rule upt_conv_Cons)
  have old: "\<not> (pending ip j \<and> ip_ipl ip j = 3)" if "j < n" for j
    using Suc.prems that by (simp add: arb_invar_def)
  show ?case
  proof (cases "pending ip n \<and> ip_ipl ip n = 3")
    case True
    then show ?thesis using n(1) old by (auto simp: upt arb_spec_def)
  next
    case not3: False
    show ?thesis
    proof (cases "irq_candidate ip m n \<and> r < ip_ipl ip n")
      case True
      have "arb_spec ip m (Suc n) n"
      proof -
        have lt: "ip_ipl ip j < ip_ipl ip n" if "j < n" "irq_candidate ip m j" for j
          using Suc.prems(1) that True
          by (auto simp: arb_invar_def arb_spec_def split: option.splits if_splits)
        moreover from this have "ip_ipl ip j \<le> ip_ipl ip n" if "j < Suc n" "irq_candidate ip m j" for j
          using that by (cases "j = n") (auto simp: less_Suc_eq intro: less_imp_le)
        moreover have "\<not> (\<exists>j<Suc n. pending ip j \<and> ip_ipl ip j = 3)"
          using old not3 by (auto simp: less_Suc_eq)
        ultimately show ?thesis using True by (auto simp: arb_spec_def irq_candidate_def)
      qed
      then have "arb_invar ip m (Suc n) (Some n) (ip_ipl ip n)"
        using old not3 by (auto simp: arb_invar_def less_Suc_eq)
      from Suc.hyps(1) [OF n(2) this n(3)] True not3 show ?thesis
        by (simp add: upt irq_candidate_def)
    next
      case skip: False
      have "arb_invar ip m (Suc n) index r"
      proof (cases index)
        case None
        then have r: "r = -1" "\<And>j. j < n \<Longrightarrow> \<not> irq_candidate ip m j"
          using Suc.prems(1) by (auto simp: arb_invar_def)
        with skip assms(1) have "\<not> irq_candidate ip m n" by (auto simp: irq_candidate_def)
        with r old not3 None show ?thesis by (auto simp: arb_invar_def less_Suc_eq)
      next
        case (Some k)
        then have s: "r = ip_ipl ip k" "arb_spec ip m n k"
          using Suc.prems(1) by (auto simp: arb_invar_def)
        have no3: "\<not> (\<exists>j<n. pending ip j \<and> ip_ipl ip j = 3)" using old by blast
        have "\<not> (\<exists>j<Suc n. pending ip j \<and> ip_ipl ip j = 3)"
          using old not3 by (auto simp: less_Suc_eq)
        with s no3 skip have "arb_spec ip m (Suc n) k"
          by (auto simp: arb_spec_def less_Suc_eq not_less)
        with s old not3 Some show ?thesis by (auto simp: arb_invar_def less_Suc_eq)
      qed
      from Suc.hyps(1) [OF n(2) this n(3)] skip not3 show ?thesis
        by (auto simp: upt irq_candidate_def)
    qed
  qed
qed

lemma arb_spec_unique: "arb_spec ip m n k \<Longrightarrow> arb_spec ip m n l \<Longrightarrow> k = l"
  unfolding arb_spec_def
  by (auto split: if_splits) (metis linorder_neqE_nat, metis linorder_neqE_nat not_less)

lemma arbitrate_spec:
  assumes "0 \<le> m"
  shows "case arbitrate ip m of
      None \<Rightarrow> (\<forall>j<128. \<not> (pending ip j \<and> (m \<le> ip_ipl ip j \<or> ip_ipl ip j = 3)))
    | Some k \<Rightarrow> arb_spec ip m 128 k"
proof -
  have "arb_invar ip m 0 None (-1)" by (simp add: arb_invar_def)
  from arbitrate_loop_spec [OF assms this, of 128] show ?thesis
    by (auto simp: arbitrate_def irq_candidate_def split: option.splits)
qed

section \<open>Properties\<close>

text \<open>
  The two pending words are a set of requests: posting adds a source that is in range and
  enabled, withdrawing removes it, and the fast check \<^verbatim>\<open>has_pending\<close> is non-emptiness.
\<close>

theorem pending_refines_set:
  "pending_set (ip_add i ip) = pending_set ip \<union> (if i < 128 \<and> ip_ipl ip i \<noteq> -1 then {i} else {})
   \<and> pending_set (clear_pending i ip) = pending_set ip - {i}
   \<and> has_pending ip = (pending_set ip \<noteq> {})"
  using irq.requests_post irq.requests_withdraw irq.any_request_iff by blast

text \<open>
  C15. Arbitration picks the first pending level-3 source if there is one, else the lowest-numbered
  of the highest-priority sources that are not masked; it picks nothing exactly when no pending
  source is unmasked.
\<close>

theorem arbitrate_picks_highest:
  assumes "0 \<le> m"
  shows "case arbitrate ip m of
      None \<Rightarrow> (\<forall>j<128. \<not> (pending ip j \<and> (m \<le> ip_ipl ip j \<or> ip_ipl ip j = 3)))
    | Some k \<Rightarrow> arb_spec ip m 128 k"
  using assms by (rule arbitrate_spec)

theorem arbitrate_picks_highest_witness:
  "case arbitrate (ip_add 9 (ip_add 40 (interrupt_pipeline_new
      \<lparr>ip_ipl := (\<lambda>_. -1)(9 := 1, 40 := 2)\<rparr>))) 1 of
     None \<Rightarrow> False
   | Some k \<Rightarrow> arb_spec (ip_add 9 (ip_add 40 (interrupt_pipeline_new
      \<lparr>ip_ipl := (\<lambda>_. -1)(9 := 1, 40 := 2)\<rparr>))) 1 128 k"
proof -
  let ?ip = "ip_add 9 (ip_add 40 (interrupt_pipeline_new\<lparr>ip_ipl := (\<lambda>_. -1)(9 := 1, 40 := 2)\<rparr>))"
  have c: "pending ?ip 9" "ip_ipl ?ip 9 = 1" by (simp_all add: pending_add)
  note t = arbitrate_picks_highest [of 1 ?ip, OF zero_le_one]
  show ?thesis
  proof (cases "arbitrate ?ip 1")
    case None
    with t have "\<forall>j<128. \<not> (pending ?ip j \<and> (1 \<le> ip_ipl ?ip j \<or> ip_ipl ?ip j = 3))" by simp
    then have "\<not> (pending ?ip 9 \<and> 1 \<le> ip_ipl ?ip 9)" by (auto dest: spec [of _ 9])
    with c show ?thesis by simp
  next
    case (Some k)
    with t show ?thesis by simp
  qed
qed

end
