(* ===== verification/Dsp_State.thy ===== *)
theory Dsp_State
  imports Memory Pram_Dirty Interrupts
begin

text \<open>
  \<^verbatim>\<open>crates/emu/src/core.rs\<close>: the state of the core (\<^verbatim>\<open>DspState\<close>), its reset values, the
  hardware stack and the helpers the emitted code calls to access the stack registers and memory.
  The state extends the embedder's part (\<open>host\<close>), on which the callbacks of the memory map act.
  The register file and the stack are functions of the index (the code's indices are constants
  below 64 and four-bit values); additions that the code writes with \<^verbatim>\<open>+\<close> are word additions.
\<close>

section \<open>The state\<close>

record 'e dsp_state = "'e host" +
  pc :: u32
  pc_advance :: u32
  mem_write_sink :: u32
  cycle_count :: u32
  registers :: "nat \<Rightarrow> u32"
  stack :: "nat \<Rightarrow> nat \<Rightarrow> u32"
  loop_rep :: bool
  pc_on_rep :: bool
  interrupts :: interrupt_pipeline
  cycle_budget :: i32
  halt_requested :: bool
  exit_requested :: bool
  fault_budget_hint :: u32
  power_state_of :: power_state
  pram_dirty :: pram_dirty_bitmap
  warned_bits :: u32
  unimpl_reported :: u32

definition set_reg :: "nat \<Rightarrow> u32 \<Rightarrow> 'e dsp_state \<Rightarrow> 'e dsp_state" where
  "set_reg r v s = s\<lparr>registers := (registers s)(r := v)\<rparr>"

definition set_stack :: "nat \<Rightarrow> nat \<Rightarrow> u32 \<Rightarrow> 'e dsp_state \<Rightarrow> 'e dsp_state" where
  "set_stack half i v s = s\<lparr>stack := (stack s)(half := (stack s half)(i := v))\<rparr>"

definition upd_interrupts ::
  "(interrupt_pipeline \<Rightarrow> interrupt_pipeline) \<Rightarrow> 'e dsp_state \<Rightarrow> 'e dsp_state" where
  "upd_interrupts f s = s\<lparr>interrupts := f (interrupts s)\<rparr>"

text \<open>The registers after reset, and the state: the embedder's part comes with the map.\<close>

definition reset_registers :: "nat \<Rightarrow> u32" where
  "reset_registers =
    (let r = (\<lambda>_. 0);
         r = fold (\<lambda>i r. r(reg_M0 + i := REG_MASKS ! reg_M0)) [0..<8] r
     in r(reg_SR := 0xC00300, reg_OMR := 0x0300))"

definition dsp_new :: "'e dsp_state memory_map \<Rightarrow> (nat \<Rightarrow> nat \<Rightarrow> u32) \<Rightarrow> 'e \<Rightarrow> 'e dsp_state" where
  "dsp_new M buffers e =
    \<lparr>bufs = buffers, ext = e, pc = 0, pc_advance = 0, mem_write_sink = 0, cycle_count = 0,
     registers = reset_registers, stack = (\<lambda>_ _. 0), loop_rep = False, pc_on_rep = False,
     interrupts = interrupt_pipeline_new, cycle_budget = 0, halt_requested = False,
     exit_requested = False, fault_budget_hint = INVALID_FAULT_BUDGET,
     power_state_of = PS_Normal, pram_dirty = pram_dirty_new (unat (p_space_end M)),
     warned_bits = 0, unimpl_reported = 0\<rparr>"

section \<open>The hardware stack\<close>

text \<open>
  The body of the three branches that raise a stack error: the request is posted, and the shadow
  budget of the instruction moves from the hint to the pipeline.
\<close>

definition post_stack_error :: "'e dsp_state \<Rightarrow> 'e dsp_state" where
  "post_stack_error s =
    s\<lparr>interrupts := (ip_add INT_STACK_ERROR (interrupts s))\<lparr>ip_fault_budget := fault_budget_hint s\<rparr>,
      fault_budget_hint := INVALID_FAULT_BUDGET\<rparr>"

definition stack_push :: "u32 \<Rightarrow> u32 \<Rightarrow> 'e dsp_state \<Rightarrow> 'e dsp_state" where
  "stack_push ssh_val ssl_val s =
    (let stack_error = registers s reg_SP AND push_bit 4 1;
         underflow = registers s reg_SP AND push_bit 5 1;
         st = (registers s reg_SP AND 0xF) + 1;
         s = (if stack_error = 0 \<and> st AND push_bit 4 1 \<noteq> 0 then post_stack_error s else s);
         s = set_reg reg_SP ((underflow OR stack_error OR st) AND 0x3F) s;
         s = set_reg reg_SC ((registers s reg_SC + 1) AND REG_MASKS ! reg_SC) s;
         idx = unat (st AND 0xF);
         s = (if st \<noteq> 0
              then set_stack 1 idx (ssl_val AND REG_MASKS ! reg_SSL)
                     (set_stack 0 idx (ssh_val AND REG_MASKS ! reg_SSH) s)
              else s);
         s = set_reg reg_SSH (stack s 0 idx) s
     in set_reg reg_SSL (stack s 1 idx) s)"

definition stack_pop :: "'e dsp_state \<Rightarrow> (u32 \<times> u32) \<times> 'e dsp_state" where
  "stack_pop s =
    (let stack_error = registers s reg_SP AND push_bit 4 1;
         underflow = registers s reg_SP AND push_bit 5 1;
         st = (registers s reg_SP AND 0xF) - 1;
         s = (if stack_error = 0 \<and> st AND push_bit 4 1 \<noteq> 0 then post_stack_error s else s);
         s = set_reg reg_SP ((underflow OR stack_error OR st) AND 0x3F) s;
         s = set_reg reg_SC ((registers s reg_SC - 1) AND REG_MASKS ! reg_SC) s;
         ssh = registers s reg_SSH;
         ssl = registers s reg_SSL;
         idx = unat (st AND 0xF);
         s = set_reg reg_SSH (stack s 0 idx) s
     in ((ssh, ssl), set_reg reg_SSL (stack s 1 idx) s))"

text \<open>The helpers for the stack registers, called from compiled code.\<close>

definition jit_write_ssh :: "u32 \<Rightarrow> 'e dsp_state \<Rightarrow> 'e dsp_state" where
  "jit_write_ssh v s =
    (let stack_error = registers s reg_SP AND push_bit 4 1;
         underflow = registers s reg_SP AND push_bit 5 1;
         st = (registers s reg_SP AND 0xF) + 1;
         s = (if stack_error = 0 \<and> st AND push_bit 4 1 \<noteq> 0 then post_stack_error s else s);
         s = set_reg reg_SP ((underflow OR stack_error OR st) AND 0x3F) s;
         s = set_reg reg_SC ((registers s reg_SC + 1) AND REG_MASKS ! reg_SC) s;
         idx = unat (st AND 0xF);
         s = (if st \<noteq> 0 then set_stack 0 idx (v AND REG_MASKS ! reg_SSH) s else s);
         s = set_reg reg_SSH (stack s 0 idx) s
     in set_reg reg_SSL (stack s 1 idx) s)"

definition jit_read_ssh :: "'e dsp_state \<Rightarrow> u32 \<times> 'e dsp_state" where
  "jit_read_ssh s = (let ((ssh, _), s) = stack_pop s in (ssh, s))"

definition jit_write_ssh_tos :: "u32 \<Rightarrow> 'e dsp_state \<Rightarrow> 'e dsp_state" where
  "jit_write_ssh_tos v s =
    (let sp = registers s reg_SP;
         idx = unat (sp AND 0xF);
         s = (if idx \<noteq> 0 then set_stack 0 idx (v AND REG_MASKS ! reg_SSH) s
              else
                let s = (if sp AND push_bit 4 1 = 0
                         then s\<lparr>interrupts := (ip_add INT_STACK_ERROR (interrupts s))
                                  \<lparr>ip_fault_budget := fault_budget_hint s\<rparr>\<rparr>
                         else s)
                in set_reg reg_SP ((sp OR push_bit 5 1 OR push_bit 4 1) AND 0x3F) s)
     in set_reg reg_SSH (stack s 0 idx) s)"

definition jit_write_ssl :: "u32 \<Rightarrow> 'e dsp_state \<Rightarrow> 'e dsp_state" where
  "jit_write_ssl v s =
    (let idx = unat (registers s reg_SP AND 0xF);
         v = v AND REG_MASKS ! reg_SSL
     in set_reg reg_SSL v (set_stack 1 idx v s))"

definition jit_write_sp :: "u32 \<Rightarrow> 'e dsp_state \<Rightarrow> 'e dsp_state" where
  "jit_write_sp v s =
    (let m = REG_MASKS ! reg_SP;
         s = (if ip_state (interrupts s) = IS_Parked
              then upd_interrupts (\<lambda>ip. ip\<lparr>ip_parked_sp_write := True\<rparr>) s else s);
         stack_error = registers s reg_SP AND push_bit 4 3;
         s = (if stack_error = 0 \<and> v AND push_bit 4 1 \<noteq> 0 then post_stack_error s else s);
         s = set_reg reg_SP (v AND m) s;
         idx = unat (registers s reg_SP AND 0xF);
         s = set_reg reg_SSH (stack s 0 idx) s
     in set_reg reg_SSL (stack s 1 idx) s)"

section \<open>Memory helpers\<close>

definition jit_read_mem ::
  "'e dsp_state memory_map \<Rightarrow> mem_space \<Rightarrow> u32 \<Rightarrow> 'e dsp_state \<Rightarrow> u32 \<times> 'e dsp_state" where
  "jit_read_mem M space address s = read_memory M space address s"

definition jit_write_mem ::
  "'e dsp_state memory_map \<Rightarrow> mem_space \<Rightarrow> u32 \<Rightarrow> u32 \<Rightarrow> 'e dsp_state \<Rightarrow> 'e dsp_state" where
  "jit_write_mem M space address v s =
    (if space = Space_P then
       let masked = v AND 0x00FFFFFF;
           (old, s) = read_memory M Space_P address s
       in if old \<noteq> masked
          then let s = write_memory M Space_P address masked s
               in s\<lparr>pram_dirty := mark_dirty address (pram_dirty s)\<rparr>
          else s
     else write_memory M space address v s)"

section \<open>Unimplemented modes\<close>

text \<open>
  The warnings are printed once per feature; only the record of what was printed is state. Printing
  is not modelled.
\<close>

definition SR_UNIMPL :: u32 where
  "SR_UNIMPL = push_bit sr_SC 1 OR push_bit sr_SA 1 OR push_bit sr_DM 1"

definition OMR_UNIMPL :: u32 where
  "OMR_UNIMPL = push_bit 20 1 OR push_bit 7 1"

definition check_unimplemented_modes_slow :: "'e dsp_state \<Rightarrow> 'e dsp_state" where
  "check_unimplemented_modes_slow s =
    (let sr = registers s reg_SR;
         omr = registers s reg_OMR;
         warn = (\<lambda>flag w new. if flag \<noteq> 0 \<and> warned_bits s AND w = 0 then new OR w else new);
         new_warnings = (0 :: u32);
         new_warnings = warn (sr AND push_bit sr_SC 1) (push_bit 0 1) new_warnings;
         new_warnings = warn (sr AND push_bit sr_SA 1) (push_bit 1 1) new_warnings;
         new_warnings = warn (sr AND push_bit sr_DM 1) (push_bit 2 1) new_warnings;
         new_warnings = warn (omr AND push_bit 20 1) (push_bit 3 1) new_warnings;
         new_warnings = warn (omr AND push_bit 7 1) (push_bit 4 1) new_warnings
     in s\<lparr>warned_bits := warned_bits s OR new_warnings\<rparr>)"

definition check_unimplemented_modes :: "'e dsp_state \<Rightarrow> 'e dsp_state" where
  "check_unimplemented_modes s =
    (let sr = registers s reg_SR;
         omr = registers s reg_OMR;
         bits = (sr AND SR_UNIMPL) OR (omr AND OMR_UNIMPL)
     in if bits = 0 \<or> bits = unimpl_reported s then s
        else check_unimplemented_modes_slow (s\<lparr>unimpl_reported := bits\<rparr>))"

section \<open>Lemmas\<close>

lemma set_reg_simps [simp]: "registers (set_reg r v s) = (registers s)(r := v)"
  "set_reg r v (set_reg r w s) = set_reg r v s" "set_reg r (registers s r) s = s"
  by (simp_all add: set_reg_def)

end
