(* ===== verification/Agu.thy ===== *)
theory Agu
  imports Dsp_State "HOL-Library.While_Combinator"
begin

text \<open>
  \<^verbatim>\<open>crates/emu/src/core.rs\<close>: the address generation unit (\<^verbatim>\<open>bitrev24\<close>,
  \<^verbatim>\<open>update_rn\<close>, \<^verbatim>\<open>update_rn_modulo\<close>, \<^verbatim>\<open>jit_update_rn\<close>). \<^verbatim>\<open>i32\<close> values are
  32-bit words, compared as signed with \<open><s\<close>. Each \<^verbatim>\<open>while\<close> of the code is a \<open>while_option\<close>,
  so that a loop which does not end is \<open>None\<close>.
\<close>

section \<open>Definitions\<close>

text \<open>\<^verbatim>\<open>u32::reverse_bits\<close> of the standard library.\<close>

definition reverse_bits :: "u32 \<Rightarrow> u32" where
  "reverse_bits v = word_reverse v"

definition bitrev24 :: "u32 \<Rightarrow> u32" where
  "bitrev24 v = drop_bit 8 (reverse_bits v)"

text \<open>\<^verbatim>\<open>i32::unsigned_abs\<close>.\<close>

definition unsigned_abs :: "i32 \<Rightarrow> u32" where
  "unsigned_abs m = (if m <s 0 then - m else m)"

text \<open>The loop that finds the power of two above the modulus, and its mask.\<close>

definition buf_loop :: "u32 \<Rightarrow> (u32 \<times> u32) option" where
  "buf_loop modulus =
    while_option (\<lambda>(bufsize, bufmask). bufsize < modulus)
      (\<lambda>(bufsize, bufmask). (push_bit 1 bufsize, push_bit 1 bufmask)) (1, REG_MASKS ! reg_R0)"

text \<open>The two loops that take whole buffers off a long modifier.\<close>

definition wrap_up_loop :: "i32 \<Rightarrow> i32 \<times> i32 \<Rightarrow> (i32 \<times> i32) option" where
  "wrap_up_loop bs =
    while_option (\<lambda>(r_reg, modifier). bs <s modifier) (\<lambda>(r_reg, modifier). (r_reg + bs, modifier - bs))"

definition wrap_down_loop :: "i32 \<Rightarrow> i32 \<times> i32 \<Rightarrow> (i32 \<times> i32) option" where
  "wrap_down_loop bs =
    while_option (\<lambda>(r_reg, modifier). modifier <s - bs) (\<lambda>(r_reg, modifier). (r_reg - bs, modifier + bs))"

definition update_rn_modulo :: "nat \<Rightarrow> i32 \<Rightarrow> 'e dsp_state \<Rightarrow> 'e dsp_state option" where
  "update_rn_modulo numreg modifier s =
    (let r_mask = REG_MASKS ! reg_R0;
         modulus = (registers s (reg_M0 + numreg) AND REG_MASKS ! reg_M0) + 1;
         orig_modifier = modifier
     in do {
       (bufsize, bufmask) \<leftarrow> buf_loop modulus;
       let bufmask = bufmask AND r_mask;
       let lobound = registers s (reg_R0 + numreg) AND bufmask;
       let hibound = (lobound + modulus - 1) AND r_mask;
       let r_reg = registers s (reg_R0 + numreg);
       (r_reg, modifier) \<leftarrow>
         (if modulus <s orig_modifier
          then Option.bind (wrap_up_loop bufsize (r_reg, modifier)) (wrap_down_loop bufsize)
          else Some (r_reg, modifier));
       let r_reg = r_reg + modifier;
       let r_reg =
         (if orig_modifier \<noteq> modulus then
            if 0 <s modifier \<and> hibound <s r_reg then r_reg - modulus
            else if modifier <s 0 \<and> r_reg <s lobound then r_reg + modulus
            else r_reg
          else r_reg);
       Some (set_reg (reg_R0 + numreg) (r_reg AND r_mask) s)
     })"

definition update_rn :: "nat \<Rightarrow> i32 \<Rightarrow> 'e dsp_state \<Rightarrow> 'e dsp_state option" where
  "update_rn numreg modifier s =
    (let r_mask = REG_MASKS ! reg_R0;
         m_reg = registers s (reg_M0 + numreg) AND REG_MASKS ! reg_M0
     in if m_reg = REG_MASKS ! reg_M0 then
          (let v = registers s (reg_R0 + numreg) + modifier
           in Some (set_reg (reg_R0 + numreg) (v AND r_mask) s))
        else if m_reg = 0 then
          (let r_val = registers s (reg_R0 + numreg) AND r_mask;
               rev_r = bitrev24 r_val;
               rev_n = bitrev24 (unsigned_abs modifier AND r_mask);
               rev_new = (if 0 \<le>s modifier then rev_r + rev_n else rev_r - rev_n) AND r_mask
           in Some (set_reg (reg_R0 + numreg) (bitrev24 rev_new) s))
        else if m_reg AND 0xC000 = 0x8000 then
          (let modulus = (m_reg AND 0x3FFF) + 1;
               r_val = registers s (reg_R0 + numreg);
               base = r_val AND NOT (modulus - 1);
               offset = r_val AND (modulus - 1);
               new_offset = (offset + modifier) AND (modulus - 1)
           in Some (set_reg (reg_R0 + numreg) ((base OR new_offset) AND r_mask) s))
        else if m_reg \<le> 0x7FFFFF then update_rn_modulo numreg modifier s
        else Some s)"

text \<open>The entry from compiled code; \<^verbatim>\<open>numreg\<close> is a \<^verbatim>\<open>u32\<close> there.\<close>

definition jit_update_rn :: "u32 \<Rightarrow> i32 \<Rightarrow> 'e dsp_state \<Rightarrow> 'e dsp_state option" where
  "jit_update_rn numreg modifier s = update_rn (unat numreg) modifier s"

section \<open>Signed arithmetic without overflow\<close>

lemma sint_add_32: "- (2 ^ 31) \<le> sint a + sint b \<Longrightarrow> sint a + sint b < 2 ^ 31 \<Longrightarrow>
    sint (a + b) = sint a + sint b" for a b :: i32
  by (simp add: sint_word_ariths signed_take_bit_int_eq_self)

lemma sint_sub_32: "- (2 ^ 31) \<le> sint a - sint b \<Longrightarrow> sint a - sint b < 2 ^ 31 \<Longrightarrow>
    sint (a - b) = sint a - sint b" for a b :: i32
  by (simp add: sint_word_ariths signed_take_bit_int_eq_self)

lemma sint_uint_32: "uint a < 2 ^ 31 \<Longrightarrow> sint a = uint a" for a :: i32
proof -
  assume "uint a < 2 ^ 31"
  moreover have "- (2 ^ 31) \<le> uint a" by (rule order_trans [of _ 0]) simp_all
  ultimately show ?thesis by (simp add: sint_uint signed_take_bit_int_eq_self)
qed

lemma uint_and_24_sint: "uint (a AND 0xFFFFFF) = sint a mod 2 ^ 24" for a :: i32
proof -
  have "uint (a AND 0xFFFFFF) = take_bit 24 (uint a)"
    using take_bit_eq_mask [of 24 "uint a"] by (simp add: uint_and mask_eq_exp_minus_1)
  also have "uint a = take_bit 32 (sint a)" by (simp add: uint_sint)
  finally show ?thesis by (simp add: take_bit_take_bit) (simp add: take_bit_eq_mod)
qed

section \<open>The loops terminate\<close>

lemma uint_exp_32: "k < 32 \<Longrightarrow> uint (2 ^ k :: u32) = 2 ^ k"
  by (rule uint_2p) (simp add: word_gt_0)

lemma buf_loop_total:
  assumes "uint modulus \<le> 2 ^ 24"
  shows "\<exists>k. buf_loop modulus = Some (2 ^ k, push_bit k 0xFFFFFF) \<and> k \<le> 24 \<and>
    uint modulus \<le> 2 ^ k \<and> (\<forall>j<k. 2 ^ j < uint modulus)"
proof -
  let ?b = "\<lambda>(bufsize, bufmask :: u32). bufsize < modulus"
  let ?c = "\<lambda>(bufsize, bufmask :: u32). (push_bit 1 bufsize, push_bit 1 bufmask)"
  let ?P = "\<lambda>x. \<exists>k\<le>24. x = (2 ^ k, push_bit k 0xFFFFFF) \<and> (\<forall>j<k. 2 ^ j < uint modulus)"
  let ?f = "\<lambda>x. nat (2 ^ 25 - uint (fst x))"
  have step: "?P (?c x) \<and> ?f (?c x) < ?f x" if "?P x" "?b x" for x
  proof -
    from that obtain k where k: "k \<le> 24" "x = (2 ^ k, push_bit k 0xFFFFFF)"
      "\<forall>j<k. 2 ^ j < uint modulus" by blast
    with that(2) have lt: "2 ^ k < uint modulus" by (simp add: word_less_alt uint_exp_32)
    with assms have "(2::int) ^ k < 2 ^ 24" by linarith
    then have k24: "k < 24" by (rule power_less_imp_less_exp [rotated]) simp
    have c: "?c x = (2 ^ Suc k, push_bit (Suc k) 0xFFFFFF)"
      using k(2) by (simp only: prod.case push_bit_push_bit plus_1_eq_Suc)
        (simp add: push_bit_eq_mult)
    have "\<forall>j<Suc k. 2 ^ j < uint modulus" using k(3) lt by (auto simp: less_Suc_eq)
    then have "?P (?c x)" unfolding c using k24 by (intro exI [of _ "Suc k"]) simp
    moreover have "uint (2 ^ Suc k :: u32) = 2 * 2 ^ k" "uint (2 ^ k :: u32) = 2 ^ k"
      using uint_exp_32 [of "Suc k"] uint_exp_32 [of k] k24 by simp_all
    then have "?f (?c x) < ?f x" unfolding c unfolding k(2) using \<open>(2::int) ^ k < 2 ^ 24\<close> by simp
    ultimately show ?thesis by blast
  qed
  have init: "?P (1, 0xFFFFFF)" by (intro exI [of _ 0]) simp
  have "\<exists>t. while_option ?b ?c (1, 0xFFFFFF) = Some t"
    by (rule measure_while_option_Some [where P = ?P and f = ?f, OF step init])
  then obtain t where t: "while_option ?b ?c (1, 0xFFFFFF) = Some t" by blast
  have "?P t" by (rule while_option_rule [where P = ?P, OF _ t init]) (use step in blast)
  then obtain k where k: "k \<le> 24" "t = (2 ^ k, push_bit k 0xFFFFFF)" "\<forall>j<k. 2 ^ j < uint modulus"
    by blast
  have "\<not> ?b t" by (rule while_option_stop [OF t])
  then have "uint modulus \<le> 2 ^ k" using k by (simp add: word_less_alt uint_exp_32 not_less)
  then show ?thesis using t k by (auto simp: buf_loop_def)
qed

lemma wrap_up_loop_total:
  assumes "0 < sint bs" "sint bs \<le> 2 ^ 24" "0 < sint m" "sint m \<le> 2 ^ 24" "0 \<le> sint r" "sint r < 2 ^ 24"
  shows "\<exists>r' m'. wrap_up_loop bs (r, m) = Some (r', m') \<and> sint r' + sint m' = sint r + sint m \<and>
    0 < sint m' \<and> sint m' \<le> sint bs"
proof -
  let ?b = "\<lambda>(r :: i32, m :: i32). bs <s m"
  let ?c = "\<lambda>(r :: i32, m :: i32). (r + bs, m - bs)"
  let ?P = "\<lambda>x. sint (fst x) + sint (snd x) = sint r + sint m \<and> 0 < sint (snd x) \<and>
    0 \<le> sint (fst x)"
  let ?f = "\<lambda>x :: i32 \<times> i32. nat (sint (snd x))"
  have step: "?P (?c x) \<and> ?f (?c x) < ?f x" if "?P x" "?b x" for x
  proof -
    obtain r1 m1 where x: "x = (r1, m1)" by (cases x)
    with that have h: "sint r1 + sint m1 = sint r + sint m" "0 < sint m1" "0 \<le> sint r1"
      "sint bs < sint m1" by (simp_all add: word_sless_alt)
    have "sint (r1 + bs) = sint r1 + sint bs" using h assms by (intro sint_add_32) auto
    moreover have "sint (m1 - bs) = sint m1 - sint bs" using h assms by (intro sint_sub_32) auto
    ultimately show ?thesis using x h assms by simp
  qed
  have init: "?P (r, m)" using assms by simp
  have "\<exists>t. while_option ?b ?c (r, m) = Some t"
    by (rule measure_while_option_Some [where P = ?P and f = ?f, OF step init])
  then obtain t where t: "while_option ?b ?c (r, m) = Some t" by blast
  have "?P t" by (rule while_option_rule [where P = ?P, OF _ t init]) (use step in blast)
  moreover have "\<not> ?b t" by (rule while_option_stop [OF t])
  ultimately show ?thesis using t
    by (cases t) (auto simp: wrap_up_loop_def word_sless_alt not_less)
qed

text \<open>The second loop is only reached with a positive modifier, on which it does nothing.\<close>

lemma wrap_down_loop_positive:
  assumes "0 < sint bs" "sint bs \<le> 2 ^ 24" "0 < sint m"
  shows "wrap_down_loop bs (r, m) = Some (r, m)"
proof -
  have "sint (- bs) = - sint bs"
    using sint_sub_32 [of 0 bs] assms by simp
  then have "\<not> m <s - bs" using assms by (simp add: word_sless_alt)
  then show ?thesis by (simp add: wrap_down_loop_def while_option_unfold)
qed

end
