(* ===== verification/Agu_Laws.thy ===== *)
theory Agu_Laws
  imports Agu
begin

text \<open>
  The laws of the address generation unit: every update returns, modulo addressing is one
  correction in the direction of travel and keeps a pointer inside its buffer, bit-reverse
  addressing counts in the reversed domain, and the updates that can be undone are.
\<close>

section \<open>Modulo addressing\<close>

text \<open>
  The update without the loops, on integers: \<open>B\<close> is the size of the block the buffer sits at the
  base of, \<open>N\<close> the modulus, \<open>r\<close> the pointer and \<open>n\<close> the modifier.
\<close>

definition modulo_ref :: "int \<Rightarrow> int \<Rightarrow> int \<Rightarrow> int \<Rightarrow> int" where
  "modulo_ref B N r n =
    (let lo = r - r mod B; x = r + n
     in (if n = N then x
         else if 0 < n \<and> lo + N - 1 < x then x - N
         else if n < 0 \<and> x < lo then x + N
         else x) mod 2 ^ 24)"

definition reg_int :: "'e dsp_state \<Rightarrow> nat \<Rightarrow> int" where
  "reg_int s r = uint (registers s r AND 0xFFFFFF)"

lemma and_mask_24_bounds: "uint (w AND 0xFFFFFF) < 2 ^ 24" for w :: u32
  using uint_and_24_sint [of w] by simp

lemma lobound_eq:
  fixes r :: u32
  assumes "r AND 0xFFFFFF = r" "k \<le> 24"
  shows "uint (r AND (push_bit k 0xFFFFFF AND 0xFFFFFF)) = uint r - uint r mod 2 ^ k"
proof -
  have "r AND (push_bit k 0xFFFFFF AND 0xFFFFFF) = push_bit k (drop_bit k r)"
  proof (rule bit_word_eqI)
    fix n assume n: "n < LENGTH(32)"
    have m: "(0xFFFFFF :: u32) = mask 24" by (simp add: mask_eq_exp_minus_1)
    have "n < 24" if "bit r n" using that assms(1) unfolding m by (metis bit_and_iff bit_mask_iff)
    then show "bit (r AND (push_bit k 0xFFFFFF AND 0xFFFFFF)) n = bit (push_bit k (drop_bit k r)) n"
      unfolding m using n by (auto simp: bit_simps)
  qed
  moreover have "uint (push_bit k (drop_bit k r)) = push_bit k (drop_bit k (uint r))"
  proof -
    have "push_bit k (drop_bit k (uint r)) \<le> uint r"
      by (simp add: push_bit_eq_mult drop_bit_eq_div flip: minus_mod_eq_div_mult)
    moreover have "uint r < 2 ^ 32" using uint_bounded [of r] by simp
    ultimately show ?thesis
      unfolding unsigned_push_bit_eq unsigned_drop_bit_eq
      using take_bit_int_eq_self [of "push_bit k (drop_bit k (uint r))" 32]
      by (simp add: take_bit_int_eq_self)
  qed
  ultimately show ?thesis
    by (simp add: push_bit_eq_mult drop_bit_eq_div minus_mod_eq_div_mult)
qed

lemma lo_bounds:
  assumes "0 \<le> r" "r < 2 ^ 24" "k \<le> 24" "N \<le> 2 ^ k" "0 < (N :: int)"
  shows "0 \<le> r - r mod 2 ^ k" and "r - r mod 2 ^ k + N - 1 < 2 ^ 24" and "r - r mod 2 ^ k \<le> r"
proof -
  let ?q = "r div 2 ^ k"
  have e: "(2::int) ^ 24 = 2 ^ (24 - k) * 2 ^ k" using assms(3) by (simp flip: power_add)
  have "?q < 2 ^ (24 - k)"
  proof (rule ccontr)
    assume "\<not> ?q < 2 ^ (24 - k)"
    then have "2 ^ (24 - k) * 2 ^ k \<le> ?q * 2 ^ k" by (intro mult_right_mono) auto
    moreover have "?q * 2 ^ k \<le> r" using pos_mod_sign [of "2 ^ k" r] by (simp flip: minus_mod_eq_div_mult)
    ultimately show False using assms(2) unfolding e by linarith
  qed
  then have "(?q + 1) * 2 ^ k \<le> 2 ^ (24 - k) * 2 ^ k" by (intro mult_right_mono) auto
  moreover have lo: "r - r mod 2 ^ k = ?q * 2 ^ k" by (simp add: minus_mod_eq_div_mult)
  ultimately show "r - r mod 2 ^ k + N - 1 < 2 ^ 24"
    using assms(4) unfolding e lo by (simp add: algebra_simps)
  show "0 \<le> r - r mod 2 ^ k" unfolding lo using assms(1)
    by (intro mult_nonneg_nonneg) (simp_all add: pos_imp_zdiv_nonneg_iff)
  show "r - r mod 2 ^ k \<le> r" by simp
qed

lemma update_rn_modulo_ref:
  fixes s :: "'e dsp_state" and n :: i32 and i :: nat
  defines "r \<equiv> registers s (reg_R0 + i)" and "N \<equiv> reg_int s (reg_M0 + i) + 1"
  assumes r24: "r AND 0xFFFFFF = r" and n24: "\<bar>sint n\<bar> \<le> 2 ^ 24"
    and k: "N \<le> 2 ^ k" "\<forall>j<k. 2 ^ j < N"
  shows "update_rn_modulo i n s =
    Some (set_reg (reg_R0 + i) (word_of_int (modulo_ref (2 ^ k) N (uint r) (sint n))) s)"
proof -
  define w where "w = (registers s (reg_M0 + i) AND 0xFFFFFF) + 1"
  define lo where "lo = r AND (push_bit k 0xFFFFFF AND 0xFFFFFF)"
  define hi where "hi = (lo + w - 1) AND 0xFFFFFF"
  note folds = w_def [symmetric] r_def [symmetric]
  have m: "uint (registers s (reg_M0 + i) AND 0xFFFFFF) < 2 ^ 24" by (rule and_mask_24_bounds)
  have N: "uint w = N" "0 < N" "N \<le> 2 ^ 24"
    using m by (simp_all add: w_def N_def reg_int_def uint_word_ariths)
  obtain k' where k': "buf_loop w = Some (2 ^ k', push_bit k' 0xFFFFFF)" "k' \<le> 24" "N \<le> 2 ^ k'"
    "\<forall>j<k'. 2 ^ j < N" using buf_loop_total [of w] N by auto
  have kk: "k' = k"
    using k'(3,4) k by (metis linorder_neqE_nat not_less)
  have r: "0 \<le> uint r" "uint r < 2 ^ 24" using and_mask_24_bounds [of r] r24 by simp_all
  define L where "L = uint r - uint r mod 2 ^ k"
  have L: "uint lo = L" "0 \<le> L" "L + N - 1 < 2 ^ 24" "L \<le> uint r"
    using lobound_eq [OF r24, of k] lo_bounds [OF r, of k N] k' k(1) N(2)
    by (simp_all add: lo_def L_def kk)
  have slo: "sint lo = L" using L N by (simp add: sint_uint_32)
  have sw: "sint w = N" using N by (simp add: sint_uint_32)
  define R where "R = uint r"
  have sr: "sint r = R" using r by (simp add: sint_uint_32 R_def)
  have r: "0 \<le> R" "R < 2 ^ 24" using r by (simp_all add: R_def)
  have "sint (lo + w) = L + N" using slo sw L N by (subst sint_add_32) auto
  then have "sint (lo + w - 1) = L + N - 1" using L N by (subst sint_sub_32) auto
  then have hi: "uint hi = L + N - 1"
    unfolding hi_def uint_and_24_sint using L N by simp
  then have shi: "sint hi = L + N - 1" using L by (simp add: sint_uint_32)
  have sb: "sint (2 ^ k :: i32) = 2 ^ k" "(2::int) ^ k \<le> 2 ^ 24"
  proof -
    show "(2::int) ^ k \<le> 2 ^ 24" using k'(2) kk by (intro power_increasing) auto
    then show "sint (2 ^ k :: i32) = 2 ^ k"
      using k'(2) kk uint_exp_32 [of k] by (subst sint_uint_32) auto
  qed
  text \<open>The loops keep the sum of pointer and modifier, and the sign of the modifier.\<close>
  obtain r' m' where loops: "(if w <s n
      then Option.bind (wrap_up_loop (2 ^ k) (r, n)) (wrap_down_loop (2 ^ k))
      else Some (r, n)) = Some (r', m')"
    and sum: "sint r' + sint m' = R + sint n" and sgn: "0 < sint m' \<longleftrightarrow> 0 < sint n"
      "sint m' < 0 \<longleftrightarrow> sint n < 0"
  proof (cases "w <s n")
    case True
    then have n: "N < sint n" by (simp add: word_sless_alt sw)
    then obtain r' m' where "wrap_up_loop (2 ^ k) (r, n) = Some (r', m')"
      "sint r' + sint m' = sint r + sint n" "0 < sint m'"
      using wrap_up_loop_total [of "2 ^ k" n r] sb n24 N r sr by auto
    moreover from this have "wrap_down_loop (2 ^ k) (r', m') = Some (r', m')"
      using sb by (intro wrap_down_loop_positive) auto
    ultimately show ?thesis using that [of r' m'] True n N sr by simp
  next
    case False
    then show ?thesis using that [of r n] sr by simp
  qed
  define x where "x = r' + m'"
  have sx: "sint x = R + sint n"
    unfolding x_def using sum r n24 by (subst sint_add_32; auto simp: abs_le_iff)
  have eqN: "n = w \<longleftrightarrow> sint n = N" using sw by (metis signed_word_eqI)
  define y where "y = (if n \<noteq> w then if 0 <s m' \<and> hi <s x then x - w
      else if m' <s 0 \<and> x <s lo then x + w else x else x)"
  have "update_rn_modulo i n s = Some (set_reg (reg_R0 + i) (y AND 0xFFFFFF) s)"
    using k'(1) kk loops unfolding update_rn_modulo_def y_def x_def hi_def lo_def
    by (simp add: folds Let_def)
  moreover have "sint (x - w) = R + sint n - N" if "0 < sint n"
    using sx sw N r n24 that by (subst sint_sub_32; auto simp: abs_le_iff)
  moreover have "sint (x + w) = R + sint n + N" if "sint n < 0"
    using sx sw N r n24 that by (subst sint_add_32; auto simp: abs_le_iff)
  ultimately have "uint (y AND 0xFFFFFF) = modulo_ref (2 ^ k) N (uint r) (sint n)"
    unfolding uint_and_24_sint y_def modulo_ref_def Let_def L_def [symmetric]
    by (simp add: eqN word_sless_alt sgn shi slo sx R_def)
  then have "y AND 0xFFFFFF = word_of_int (modulo_ref (2 ^ k) N (uint r) (sint n))"
    by (metis word_of_int_uint)
  then show ?thesis using \<open>update_rn_modulo i n s = _\<close> by simp
qed

lemma modulo_ref_in_buffer:
  fixes r n N B :: int
  assumes "0 \<le> r" "r - r mod B + N - 1 < 2 ^ 24" "0 \<le> r - r mod B" "0 < B"
    and "r mod B < N" "\<bar>n\<bar> < N"
  shows "modulo_ref B N r n = r - r mod B + (r mod B + n) mod N"
proof -
  define L where "L = r - r mod B"
  define u where "u = r mod B"
  have r: "r = L + u" and u: "0 \<le> u" "u < N" using assms by (simp_all add: L_def u_def)
  have L: "0 \<le> L" "L + N - 1 < 2 ^ 24" using assms by (simp_all add: L_def)
  have n: "- N < n" "n < N" using assms(6) by auto
  have x: "modulo_ref B N r n = (if 0 < n \<and> N - 1 < u + n then L + (u + n - N)
      else if n < 0 \<and> u + n < 0 then L + (u + n + N) else L + (u + n)) mod 2 ^ 24"
    unfolding modulo_ref_def Let_def L_def [symmetric] using n by (auto simp: r algebra_simps)
  consider "N \<le> u + n" | "u + n < 0" | "0 \<le> u + n" "u + n < N" by linarith
  then have "modulo_ref B N r n = (L + (u + n) mod N) mod 2 ^ 24"
  proof cases
    case 1
    then have "(u + n) mod N = u + n - N"
      using u n minus_mod_self2 [of "u + n" N] mod_pos_pos_trivial [of "u + n - N" N] by simp
    then show ?thesis using 1 u by (simp add: x)
  next
    case 2
    then have "(u + n) mod N = u + n + N"
      using u n mod_add_self2 [of "u + n" N] mod_pos_pos_trivial [of "u + n + N" N] by simp
    then show ?thesis using 2 u n by (simp add: x)
  next
    case 3
    then show ?thesis using u by (simp add: x)
  qed
  moreover have "0 \<le> (u + n) mod N" "(u + n) mod N < N" using u by (simp_all add: pos_mod_bound)
  ultimately show ?thesis unfolding u_def [symmetric] using L r by simp
qed

section \<open>Every update returns\<close>

lemma wrap_up_loop_returns:
  assumes "0 < sint bs" "0 < sint m"
  shows "\<exists>r' m'. wrap_up_loop bs (r, m) = Some (r', m') \<and> 0 < sint m'"
proof -
  let ?b = "\<lambda>(r :: i32, m :: i32). bs <s m"
  let ?c = "\<lambda>(r :: i32, m :: i32). (r + bs, m - bs)"
  let ?P = "\<lambda>x :: i32 \<times> i32. 0 < sint (snd x)"
  have step: "?P (?c x) \<and> nat (sint (snd (?c x))) < nat (sint (snd x))" if "?P x" "?b x" for x
  proof -
    obtain r1 m1 where x: "x = (r1, m1)" by (cases x)
    with that have h: "0 < sint m1" "sint bs < sint m1" by (simp_all add: word_sless_alt)
    have "sint m1 < 2 ^ 31" using sint_lt [of m1] by simp
    then have "sint (m1 - bs) = sint m1 - sint bs" using h assms by (intro sint_sub_32) auto
    then show ?thesis using x h assms by simp
  qed
  have init: "?P (r, m)" using assms by simp
  obtain t where t: "while_option ?b ?c (r, m) = Some t"
    using measure_while_option_Some [where P = ?P and f = "\<lambda>x. nat (sint (snd x))", OF step init]
    by blast
  have "?P t" by (rule while_option_rule [where P = ?P, OF _ t init]) (use step in blast)
  then show ?thesis using t by (cases t) (auto simp: wrap_up_loop_def)
qed

lemma update_rn_modulo_returns: "\<exists>v. update_rn_modulo i n s = Some (set_reg (reg_R0 + i) v s)"
proof -
  define w where "w = (registers s (reg_M0 + i) AND 0xFFFFFF) + 1"
  have "uint w \<le> 2 ^ 24"
    using and_mask_24_bounds [of "registers s (reg_M0 + i)"] by (simp add: w_def uint_word_ariths)
  moreover have "0 < uint w"
    using and_mask_24_bounds [of "registers s (reg_M0 + i)"]
      uint_ge_0 [of "registers s (reg_M0 + i) AND 0xFFFFFF"]
    unfolding w_def by (simp add: uint_word_ariths)
  ultimately obtain k where k: "buf_loop w = Some (2 ^ k, push_bit k 0xFFFFFF)" "k \<le> 24"
    and w: "0 < sint w" "uint w \<le> 2 ^ 24"
    using buf_loop_total [of w] by (auto simp: sint_uint_32)
  have le: "(2::int) ^ k \<le> 2 ^ 24" using k(2) by (intro power_increasing) auto
  then have b: "0 < sint (2 ^ k :: i32)" "sint (2 ^ k :: i32) \<le> 2 ^ 24"
    using k(2) uint_exp_32 [of k] by (simp_all add: sint_uint_32)
  obtain r' m' where loops: "(if w <s n
      then Option.bind (wrap_up_loop (2 ^ k) (registers s (reg_R0 + i), n)) (wrap_down_loop (2 ^ k))
      else Some (registers s (reg_R0 + i), n)) = Some (r', m')"
  proof (cases "w <s n")
    case True
    then have "0 < sint n" using w(1) by (simp add: word_sless_alt)
    from wrap_up_loop_returns [OF b(1) this] obtain r' m' where
      "wrap_up_loop (2 ^ k) (registers s (reg_R0 + i), n) = Some (r', m')" "0 < sint m'" by blast
    with True wrap_down_loop_positive [OF b] show ?thesis using that by auto
  qed (use that in auto)
  show ?thesis unfolding update_rn_modulo_def Let_def REG_MASKS_eval w_def [symmetric] k(1)
      Option.bind.simps prod.case loops by blast
qed

lemma update_rn_returns: "\<exists>v. update_rn i n s = Some (set_reg (reg_R0 + i) v s)"
proof -
  have "\<exists>v. s = set_reg (reg_R0 + i) v s"
    by (rule exI [of _ "registers s (reg_R0 + i)"]) simp
  then show ?thesis
    unfolding update_rn_def Let_def using update_rn_modulo_returns [of i n s]
    by (auto split: if_splits)
qed

section \<open>Bit-reverse addressing\<close>

lemma bit_bitrev24: "bit (bitrev24 v) k \<longleftrightarrow> k < 24 \<and> bit v (23 - k)"
  by (cases "k < 24") (auto simp: bitrev24_def reverse_bits_def bit_simps dest: bit_imp_le_length)

lemma bitrev24_bitrev24: "bitrev24 (bitrev24 v) = v AND 0xFFFFFF"
proof -
  have m: "(0xFFFFFF :: u32) = mask 24" by (simp add: mask_eq_exp_minus_1)
  show ?thesis unfolding m by (rule bit_word_eqI) (auto simp: bit_bitrev24 bit_simps)
qed

lemma bitrev24_mask: "bitrev24 v AND 0xFFFFFF = bitrev24 v" "bitrev24 (v AND 0xFFFFFF) = bitrev24 v"
proof -
  have m: "(0xFFFFFF :: u32) = mask 24" by (simp add: mask_eq_exp_minus_1)
  show "bitrev24 v AND 0xFFFFFF = bitrev24 v" "bitrev24 (v AND 0xFFFFFF) = bitrev24 v"
    unfolding m by (rule bit_word_eqI; auto simp: bit_bitrev24 bit_simps)+
qed

text \<open>The update in bit-reverse mode, and the value it leaves in the reversed domain.\<close>

definition bitrev_add :: "i32 \<Rightarrow> u32 \<Rightarrow> u32" where
  "bitrev_add n r =
    (let m = bitrev24 (unsigned_abs n) in if 0 \<le>s n then bitrev24 r + m else bitrev24 r - m)"

lemma update_rn_bitrev:
  assumes "registers s (reg_M0 + i) AND 0xFFFFFF = 0"
  shows "update_rn i n s =
    Some (set_reg (reg_R0 + i) (bitrev24 (bitrev_add n (registers s (reg_R0 + i)))) s)"
  using assms by (simp add: update_rn_def Let_def bitrev_add_def bitrev24_mask)

lemma update_rn_linear:
  assumes "registers s (reg_M0 + i) AND 0xFFFFFF = 0xFFFFFF"
  shows "update_rn i n s =
    Some (set_reg (reg_R0 + i) ((registers s (reg_R0 + i) + n) AND 0xFFFFFF) s)"
  using assms by (simp add: update_rn_def Let_def)

lemma update_rn_modulo_mode:
  assumes "registers s (reg_M0 + i) AND 0xFFFFFF = m" "m \<noteq> 0" "m \<le> 0x7FFFFF" "m AND 0xC000 \<noteq> 0x8000"
  shows "update_rn i n s = update_rn_modulo i n s"
  using assms by (auto simp: update_rn_def Let_def)

lemma update_rn_multi_wrap:
  assumes "registers s (reg_M0 + i) AND 0xFFFFFF = m" "m AND 0xC000 = 0x8000"
  shows "update_rn i n s = Some (set_reg (reg_R0 + i)
    ((registers s (reg_R0 + i) AND NOT (m AND 0x3FFF) OR
      (registers s (reg_R0 + i) AND (m AND 0x3FFF)) + n AND (m AND 0x3FFF)) AND 0xFFFFFF) s)"
  using assms by (auto simp: update_rn_def Let_def)

lemma add_and_24: "((x AND 0xFFFFFF) + y) AND 0xFFFFFF = (x + y) AND 0xFFFFFF" for x y :: u32
proof -
  have m: "(0xFFFFFF :: u32) = mask 24" by (simp add: mask_eq_exp_minus_1)
  show ?thesis by (simp only: m mask_eqs)
qed

lemma sub_and_24: "((x AND 0xFFFFFF) - y) AND 0xFFFFFF = (x - y) AND 0xFFFFFF" for x y :: u32
  using add_and_24 [of x "- y"] by simp

text \<open>Only the least 32-bit number is its own negation.\<close>

lemma sint_uminus_32: "n \<noteq> 0x80000000 \<Longrightarrow> sint (- n) = - sint n" for n :: i32
proof -
  assume "n \<noteq> 0x80000000"
  moreover have "sint (0x80000000 :: i32) = - (2 ^ 31)" by simp
  ultimately have "sint n \<noteq> - (2 ^ 31)" by (metis signed_word_eqI)
  moreover have "- (2 ^ 31) \<le> sint n" "sint n < 2 ^ 31" using sint_ge [of n] sint_lt [of n] by simp_all
  ultimately show ?thesis using sint_sub_32 [of 0 n] by simp
qed

lemma unsigned_abs_uminus: "unsigned_abs (- n) = unsigned_abs n"
  and bitrev_add_uminus: "bitrev24 (bitrev_add (- n) (bitrev24 (bitrev_add n r))) = r AND 0xFFFFFF"
proof -
  have "unsigned_abs (- n) = unsigned_abs n \<and> (n = 0 \<or> bitrev24 (unsigned_abs n) = 0 \<or> (0 \<le>s - n) = (\<not> 0 \<le>s n))"
  proof (cases "n = 0x80000000")
    case True
    have "bitrev24 (unsigned_abs 0x80000000) = 0 \<and>
        unsigned_abs (- 0x80000000) = unsigned_abs 0x80000000" by code_simp
    then show ?thesis unfolding True by blast
  next
    case False
    have "n = 0 \<longleftrightarrow> sint n = 0" by (metis signed_0 signed_word_eqI)
    with sint_uminus_32 [OF False] show ?thesis
      by (auto simp: unsigned_abs_def word_sless_alt word_sle_eq)
  qed
  then have abs: "unsigned_abs (- n) = unsigned_abs n"
    and sign: "n = 0 \<or> bitrev24 (unsigned_abs n) = 0 \<or> (0 \<le>s - n) = (\<not> 0 \<le>s n)" by auto
  show "unsigned_abs (- n) = unsigned_abs n" by (rule abs)
  define a where "a = bitrev24 (unsigned_abs n)"
  have undo: "bitrev24 ((x AND 0xFFFFFF) + y) = bitrev24 (x + y)"
    "bitrev24 ((x AND 0xFFFFFF) - y) = bitrev24 (x - y)" for x y
    using add_and_24 [of x y] sub_and_24 [of x y] by (metis bitrev24_mask(2))+
  have "bitrev24 0 = 0" by code_simp
  then have "a = 0 \<or> (0 \<le>s - n) = (\<not> 0 \<le>s n)" using sign by (auto simp: a_def unsigned_abs_def)
  then show "bitrev24 (bitrev_add (- n) (bitrev24 (bitrev_add n r))) = r AND 0xFFFFFF"
    unfolding bitrev_add_def Let_def abs a_def [symmetric] bitrev24_bitrev24
    by (auto simp: undo bitrev24_bitrev24)
qed

text \<open>The low bits of a multiple-wrap pointer and the rest of it.\<close>

lemma multi_wrap_parts:
  fixes r A M F :: u32
  assumes "M AND F = M" "r AND F = r"
  shows "((r AND NOT M OR A AND M) AND F) AND M = A AND M"
    and "((r AND NOT M OR A AND M) AND F) AND NOT M = r AND NOT M"
proof -
  have f: "bit M k \<Longrightarrow> bit F k" "bit r k \<Longrightarrow> bit F k" for k using assms by (metis bit_and_iff)+
  show "((r AND NOT M OR A AND M) AND F) AND M = A AND M"
    "((r AND NOT M OR A AND M) AND F) AND NOT M = r AND NOT M"
    by (rule bit_word_eqI; auto simp: bit_simps dest: f)+
qed

section \<open>Properties\<close>

text \<open>
  C18. Address updates return for every mode, pointer and modifier (the three loops of the modulo
  update end), and they change nothing but the pointer.
\<close>

theorem update_rn_terminates:
  "\<exists>v. update_rn i n s = Some (s\<lparr>registers := (registers s)(reg_R0 + i := v)\<rparr>)"
  using update_rn_returns [of i n s] by (simp add: set_reg_def)

text \<open>
  C19. The modulo update, loops included, is a single correction of the pointer in the direction of
  travel: the stepping by whole blocks for modifiers above the modulus never changes the result.
\<close>

theorem modulo_update_eq_reference:
  assumes "registers s (reg_R0 + i) AND 0xFFFFFF = registers s (reg_R0 + i)" "\<bar>sint n\<bar> \<le> 2 ^ 24"
    and "reg_int s (reg_M0 + i) + 1 \<le> 2 ^ k" "\<forall>j<k. 2 ^ j < reg_int s (reg_M0 + i) + 1"
  shows "update_rn_modulo i n s = Some (set_reg (reg_R0 + i)
    (word_of_int (modulo_ref (2 ^ k) (reg_int s (reg_M0 + i) + 1)
      (uint (registers s (reg_R0 + i))) (sint n))) s)"
  using assms by (rule update_rn_modulo_ref)

text \<open>The documented silicon probe: modulus 6, pointer \<open>$242\<close>, modifier 20 gives \<open>$250\<close>.\<close>

definition agu_state :: "u32 \<Rightarrow> u32 \<Rightarrow> unit dsp_state" where
  "agu_state r m = set_reg reg_R0 r (set_reg reg_M0 m
    (dsp_new (test_map 0 16 1 16 2 16) (\<lambda>_ _. 0) ()))"

theorem modulo_update_eq_reference_witness:
  "update_rn_modulo 0 20 (agu_state 0x242 5) =
    Some (set_reg reg_R0 0x250 (agu_state 0x242 5))"
  using modulo_update_eq_reference [of "agu_state 0x242 5" 0 20 3]
  by (simp add: agu_state_def reg_int_def less_Suc_eq numeral_3_eq_3 modulo_ref_def)

text \<open>The registers that make a pointer walk a ring buffer: its block, its modulus, its offset.\<close>

definition ring_pointer :: "'e dsp_state \<Rightarrow> nat \<Rightarrow> nat \<Rightarrow> bool" where
  "ring_pointer s i k \<longleftrightarrow>
     (let r = registers s (reg_R0 + i); m = registers s (reg_M0 + i) AND 0xFFFFFF; N = uint m + 1
      in r AND 0xFFFFFF = r \<and> m \<noteq> 0 \<and> m \<le> 0x7FFFFF \<and> m AND 0xC000 \<noteq> 0x8000 \<and>
         N \<le> 2 ^ k \<and> (\<forall>j<k. 2 ^ j < N) \<and> uint r mod 2 ^ k < N)"

lemma ring_step:
  assumes "ring_pointer s i k" and "\<bar>sint n\<bar> \<le> reg_int s (reg_M0 + i)"
  defines "r \<equiv> uint (registers s (reg_R0 + i))" and "N \<equiv> reg_int s (reg_M0 + i) + 1"
  shows "\<exists>v. update_rn i n s = Some (set_reg (reg_R0 + i) v s) \<and>
    ring_pointer (set_reg (reg_R0 + i) v s) i k \<and>
    uint v - uint v mod 2 ^ k = r - r mod 2 ^ k \<and> uint v mod 2 ^ k = (r mod 2 ^ k + sint n) mod N"
proof -
  let ?m = "registers s (reg_M0 + i) AND 0xFFFFFF"
  have h: "registers s (reg_R0 + i) AND 0xFFFFFF = registers s (reg_R0 + i)" "?m \<noteq> 0" "?m \<le> 0x7FFFFF"
    "?m AND 0xC000 \<noteq> 0x8000" "N \<le> 2 ^ k" "\<forall>j<k. 2 ^ j < N" "r mod 2 ^ k < N"
    using assms(1) by (simp_all add: ring_pointer_def Let_def N_def reg_int_def r_def)
  have r: "0 \<le> r" "r < 2 ^ 24"
    using and_mask_24_bounds [of "registers s (reg_R0 + i)"] h(1) by (simp_all add: r_def)
  have m24: "uint ?m \<le> 0x7FFFFF" using h(3) by (simp add: word_le_def)
  then have N: "0 < N" "N \<le> 2 ^ 23" by (simp_all add: N_def reg_int_def add_strict_increasing2)
  have k: "k \<le> 24"
  proof (rule ccontr)
    assume "\<not> k \<le> 24"
    then have "2 ^ 24 < N" using spec [OF h(6), of 24] by simp
    then show False using N by simp
  qed
  define v where "v = (word_of_int (modulo_ref (2 ^ k) N r (sint n)) :: u32)"
  have n: "\<bar>sint n\<bar> < N" "\<bar>sint n\<bar> \<le> 2 ^ 24" using assms(2) m24 by (simp_all add: N_def reg_int_def)
  have upd: "update_rn i n s = Some (set_reg (reg_R0 + i) v s)"
    using update_rn_modulo_ref [OF h(1) n(2) h(5,6) [unfolded N_def]]
      update_rn_modulo_mode [OF refl h(2-4)]
    by (simp add: v_def N_def r_def)
  define L where "L = r - r mod 2 ^ k"
  define o' where "o' = (r mod 2 ^ k + sint n) mod N"
  have L: "0 \<le> L" "L + N - 1 < 2 ^ 24"
    using lo_bounds [OF r k h(5) N(1)] by (simp_all add: L_def)
  have o': "0 \<le> o'" "o' < N" using N by (simp_all add: o'_def)
  have "modulo_ref (2 ^ k) N r (sint n) = L + o'"
    unfolding L_def o'_def using r L n h(7) by (intro modulo_ref_in_buffer) (simp_all add: L_def)
  moreover have "take_bit 32 (L + o') = L + o'" using L o' by (intro take_bit_int_eq_self) auto
  ultimately have v: "uint v = L + o'" unfolding v_def uint_word_of_int_eq by simp
  have "L mod 2 ^ k = 0" by (simp add: L_def mod_diff_right_eq [symmetric] minus_mod_eq_div_mult)
  then have mod: "uint v mod 2 ^ k = o'"
    unfolding v using o' h(5) by (simp add: mod_add_left_eq [symmetric, of L])
  moreover have "v AND 0xFFFFFF = v"
  proof -
    have "uint (v AND 0xFFFFFF) = uint v mod 2 ^ 24"
      unfolding uint_and_24_sint using v L o' by (subst sint_uint_32) auto
    then have "uint (v AND 0xFFFFFF) = uint v" unfolding v using L o' by simp
    then show ?thesis by (rule word_uint_eq_iff [THEN iffD2])
  qed
  ultimately have "ring_pointer (set_reg (reg_R0 + i) v s) i k"
    using h o' unfolding ring_pointer_def by (simp add: Let_def N_def reg_int_def)
  then show ?thesis using upd mod v by (intro exI [of _ v]) (simp add: L_def o'_def)
qed

text \<open>
  C20. A ring-buffer pointer never leaves its buffer: any sequence of updates by at most the
  modifier register's value, forward or backward, returns, leaves the pointer in the block it
  started in, and its offset is the start offset plus the sum of the modifiers, modulo the buffer
  length.
\<close>

theorem ring_walk:
  assumes "ring_pointer s i k" and "list_all (\<lambda>n. \<bar>sint n\<bar> \<le> reg_int s (reg_M0 + i)) ns"
  shows "\<exists>s'. mfold (update_rn i) ns s = Some s' \<and> ring_pointer s' i k \<and>
    (let r = uint (registers s (reg_R0 + i)); r' = uint (registers s' (reg_R0 + i))
     in r' - r' mod 2 ^ k = r - r mod 2 ^ k \<and>
        r' mod 2 ^ k = (r mod 2 ^ k + sum_list (map sint ns)) mod (reg_int s (reg_M0 + i) + 1))"
  using assms
proof (induction ns arbitrary: s)
  case Nil
  then show ?case by (auto simp: ring_pointer_def Let_def reg_int_def)
next
  case (Cons n ns)
  from Cons.prems(2) have n: "\<bar>sint n\<bar> \<le> reg_int s (reg_M0 + i)" by simp
  from ring_step [OF Cons.prems(1) n] obtain v where v:
    "update_rn i n s = Some (set_reg (reg_R0 + i) v s)" "ring_pointer (set_reg (reg_R0 + i) v s) i k"
    "uint v - uint v mod 2 ^ k =
      uint (registers s (reg_R0 + i)) - uint (registers s (reg_R0 + i)) mod 2 ^ k"
    "uint v mod 2 ^ k = (uint (registers s (reg_R0 + i)) mod 2 ^ k + sint n) mod
      (reg_int s (reg_M0 + i) + 1)" by blast
  have m: "reg_int (set_reg (reg_R0 + i) v s) (reg_M0 + i) = reg_int s (reg_M0 + i)"
    by (simp add: reg_int_def)
  define N where "N = reg_int s (reg_M0 + i) + 1"
  define r where "r = uint (registers s (reg_R0 + i))"
  obtain s' where s': "mfold (update_rn i) ns (set_reg (reg_R0 + i) v s) = Some s'"
    "ring_pointer s' i k"
    "uint (registers s' (reg_R0 + i)) - uint (registers s' (reg_R0 + i)) mod 2 ^ k =
      uint v - uint v mod 2 ^ k"
    "uint (registers s' (reg_R0 + i)) mod 2 ^ k = (uint v mod 2 ^ k + sum_list (map sint ns)) mod N"
    using Cons.IH [OF v(2)] Cons.prems(2) by (auto simp: m Let_def N_def)
  have "(uint v mod 2 ^ k + sum_list (map sint ns)) mod N =
      (r mod 2 ^ k + sum_list (map sint (n # ns))) mod N"
    by (simp add: v(4) r_def [symmetric] N_def [symmetric] mod_add_left_eq add.assoc)
  with s' v(1,3) show ?case
    unfolding r_def [symmetric] N_def [symmetric] by (simp add: Let_def r_def)
qed

theorem ring_walk_witness:
  "\<exists>s'. mfold (update_rn 0) [3, 3, -1] (agu_state 0x242 5) = Some s' \<and>
     ring_pointer s' 0 3 \<and> uint (registers s' reg_R0) mod 8 = 1"
proof -
  have "ring_pointer (agu_state 0x242 5) 0 3"
    by (simp add: agu_state_def ring_pointer_def less_Suc_eq numeral_3_eq_3)
  from ring_walk [OF this, of "[3, 3, -1]"] show ?thesis
    by (auto simp: agu_state_def reg_int_def Let_def)
qed



text \<open>
  In linear, bit-reverse and multiple-wrap mode (with a power-of-two modulus) an update by a
  modifier is undone by the update with its negation, for every modifier.
\<close>

theorem update_rn_undo:
  assumes "registers s (reg_R0 + i) AND 0xFFFFFF = registers s (reg_R0 + i)"
    and "registers s (reg_M0 + i) AND 0xFFFFFF = m"
    and "m = 0xFFFFFF \<or> m = 0 \<or> m AND 0xC000 = 0x8000 \<and> (\<exists>k. m AND 0x3FFF = mask k)"
  shows "Option.bind (update_rn i n s) (update_rn i (- n)) = Some s"
proof -
  let ?r = "registers s (reg_R0 + i)"
  have m': "registers (set_reg (reg_R0 + i) v s) (reg_M0 + i) AND 0xFFFFFF = m" for v
    using assms(2) by simp
  consider "m = 0xFFFFFF" | "m = 0" | k where "m AND 0xC000 = 0x8000" "m AND 0x3FFF = mask k"
    using assms(3) by blast
  then show ?thesis
  proof cases
    case 1
    then show ?thesis
      using assms(1) update_rn_linear [OF m' [unfolded 1]] update_rn_linear [OF assms(2) [unfolded 1]]
        add_and_24 [of "?r + n" "- n"] by simp
  next
    case 2
    show ?thesis
      using assms(1) update_rn_bitrev [OF m' [unfolded 2]] update_rn_bitrev [OF assms(2) [unfolded 2]]
      by (simp add: bitrev_add_uminus)
  next
    case 3
    let ?M = "m AND 0x3FFF"
    let ?v = "(?r AND NOT ?M OR (?r AND ?M) + n AND ?M) AND 0xFFFFFF"
    have "?M AND 0xFFFFFF = ?M" by (simp add: and.assoc)
    note p = multi_wrap_parts [OF this assms(1), of "(?r AND ?M) + n"]
    have "(?r AND NOT ?M OR (?v AND ?M) + - n AND ?M) = ?r AND NOT ?M OR ?r AND ?M"
      unfolding p unfolding 3(2) by (simp add: mask_eqs)
    also have "\<dots> = ?r" by (rule bit_word_eqI) (auto simp: bit_simps)
    finally show ?thesis
      using assms(1) update_rn_multi_wrap [OF m' 3(1)] update_rn_multi_wrap [OF assms(2) 3(1)] p(2)
      by simp
  qed
qed

theorem update_rn_undo_witness:
  "Option.bind (update_rn 0 5 (agu_state 0x103 0x8007)) (update_rn 0 (- 5)) =
    Some (agu_state 0x103 0x8007)"
proof (rule update_rn_undo)
  have "(0x8007 :: u32) AND 0x3FFF = mask 3" by (simp add: mask_eq_exp_minus_1)
  then show "(0x8007 :: u32) = 0xFFFFFF \<or> (0x8007 :: u32) = 0 \<or>
      (0x8007 :: u32) AND 0xC000 = 0x8000 \<and> (\<exists>k. (0x8007 :: u32) AND 0x3FFF = mask k)"
    by auto
qed (simp_all add: agu_state_def)

end
