(* ===== verification/Arith56.thy ===== *)
theory Arith56
  imports Dsp_State
begin

text \<open>
  \<^verbatim>\<open>crates/emu/src/core.rs\<close>: the helpers on 56-bit accumulators (\<^verbatim>\<open>jit_rnd56\<close>,
  \<^verbatim>\<open>jit_update_nz\<close>, \<^verbatim>\<open>eu_scaled\<close>, \<^verbatim>\<open>jit_saturate_sm\<close>,
  \<^verbatim>\<open>jit_read_accu24\<close>). A packed accumulator is an \<^verbatim>\<open>i64\<close>, here a 64-bit word whose
  right shift is the arithmetic one; every shifted value is masked to at most 24 bits that lie
  below bit 56. \<open>ucast\<close> is \<^verbatim>\<open>as u32\<close> or \<^verbatim>\<open>as i64\<close>.
\<close>

section \<open>Rounding\<close>

definition jit_rnd56 :: "'e dsp_state \<Rightarrow> i64 \<Rightarrow> i64" where
  "jit_rnd56 s val =
    (let sr = registers s reg_SR;
         convergent = (sr AND push_bit sr_RM 1 = 0);
         (r2, r1, r0) =
           (if sr AND push_bit sr_S0 1 \<noteq> 0 then
              let sum = val + push_bit 24 1;
                  s0 = ucast (sum AND 0xFFFFFF) :: u32;
                  s1 = ucast (signed_drop_bit 24 sum AND 0xFFFFFF) :: u32;
                  s2 = ucast (signed_drop_bit 48 sum AND 0xFF) :: u32;
                  s1 = (if convergent \<and> s0 = 0 \<and> s1 AND 1 = 0 then s1 AND (0xFFFFFF - 0x3) else s1);
                  s1 = s1 AND 0xFFFFFE
              in (s2, s1, 0 :: u32)
            else if sr AND push_bit sr_S1 1 \<noteq> 0 then
              let sum = val + push_bit 22 1;
                  s0 = ucast (sum AND 0xFFFFFF) :: u32;
                  s1 = ucast (signed_drop_bit 24 sum AND 0xFFFFFF) :: u32;
                  s2 = ucast (signed_drop_bit 48 sum AND 0xFF) :: u32;
                  s0 = (if convergent \<and> s0 AND 0x7FFFFF = 0 then 0 else s0);
                  s0 = s0 AND 0x800000
              in (s2, s1, s0)
            else
              let sum = val + push_bit 23 1;
                  s0 = ucast (sum AND 0xFFFFFF) :: u32;
                  s1 = ucast (signed_drop_bit 24 sum AND 0xFFFFFF) :: u32;
                  s2 = ucast (signed_drop_bit 48 sum AND 0xFF) :: u32;
                  s1 = (if convergent \<and> s0 = 0 then s1 AND 0xFFFFFE else s1)
              in (s2, s1, 0))
     in push_bit 48 (ucast r2) OR push_bit 24 (ucast r1) OR ucast r0)"

section \<open>Flags\<close>

definition eu_scaled :: "u32 \<Rightarrow> i64 \<Rightarrow> bool \<times> bool" where
  "eu_scaled sr acc_val =
    (let reg0 = ucast (signed_drop_bit 48 acc_val AND 0xFF) :: u32;
         reg1 = ucast (signed_drop_bit 24 acc_val AND 0xFFFFFF) :: u32
     in switch (drop_bit sr_S0 sr AND 3)
       [(1, let v = (push_bit 1 reg0 OR drop_bit 23 reg1) AND 3
            in (reg0 \<noteq> 0 \<and> reg0 \<noteq> 0xFF, v = 0 \<or> v = 3)),
        (2, let val_e = (push_bit 2 reg0 OR drop_bit 22 reg1) AND 0x3FF;
                bits = reg1 AND 0x600000
            in (val_e \<noteq> 0 \<and> val_e \<noteq> 0x3FF, bits = 0 \<or> bits = 0x600000))]
       (False, False))"

definition jit_update_nz :: "u32 \<Rightarrow> i64 \<Rightarrow> u32" where
  "jit_update_nz sr acc_val =
    (let reg1 = ucast (signed_drop_bit 24 acc_val AND 0xFFFFFF) :: u32;
         (e, u) =
           (if sr AND (push_bit sr_S0 1 OR push_bit sr_S1 1) = 0 then
              let reg0 = ucast (signed_drop_bit 48 acc_val AND 0xFF) :: u32;
                  val_e = (push_bit 1 reg0 OR drop_bit 23 reg1) AND 0x1FF;
                  bits = reg1 AND 0xC00000
              in (val_e \<noteq> 0 \<and> val_e \<noteq> 0x1FF, bits = 0 \<or> bits = 0xC00000)
            else eu_scaled sr acc_val);
         n = (signed_drop_bit 55 acc_val AND 1 \<noteq> 0);
         z = (acc_val AND 0x00FFFFFFFFFFFFFF = 0);
         clear_mask = NOT (push_bit sr_E 1 OR push_bit sr_U 1 OR push_bit sr_N 1 OR push_bit sr_Z 1);
         new_sr = sr AND clear_mask;
         new_sr = (if e then new_sr OR push_bit sr_E 1 else new_sr);
         new_sr = (if u then new_sr OR push_bit sr_U 1 else new_sr);
         new_sr = (if n then new_sr OR push_bit sr_N 1 else new_sr)
     in if z then new_sr OR push_bit sr_Z 1 else new_sr)"

section \<open>Saturation and limiting\<close>

definition jit_saturate_sm :: "'e dsp_state \<Rightarrow> i64 \<Rightarrow> i64" where
  "jit_saturate_sm s val =
    (let sr = registers s reg_SR
     in if sr AND push_bit sr_SM 1 = 0 then val
        else
          let b55 = signed_drop_bit 55 val AND 1;
              b48 = signed_drop_bit 48 val AND 1;
              b47 = signed_drop_bit 47 val AND 1;
              mismatch = (b55 XOR b48) OR (b48 XOR b47)
          in if mismatch = 0 then val
             else
               let saturated = (if b55 \<noteq> 0 then 0x00FF800000000000 else 0x00007FFFFFFFFFFF)
               in saturated OR push_bit 56 1)"

definition jit_read_accu24 :: "u32 \<Rightarrow> 'e dsp_state \<Rightarrow> u32 \<times> 'e dsp_state" where
  "jit_read_accu24 acc_idx s =
    (let (a2, a1, a0) =
           (if acc_idx = 0 then (registers s reg_A2, registers s reg_A1, registers s reg_A0)
            else (registers s reg_B2, registers s reg_B1, registers s reg_B0));
         sr = registers s reg_SR;
         scaling = drop_bit sr_S0 sr AND 3;
         combined = push_bit 24 a2 OR a1;
         v = (if scaling = 1 then drop_bit 1 combined
              else if scaling = 2 then push_bit 1 combined OR (drop_bit 23 a0 AND 1)
              else combined) AND 0x00FFFFFF;
         ok_pos = (a2 = 0 \<and> v \<le> 0x7FFFFF);
         ok_neg = (a2 = 0xFF \<and> v \<ge> 0x800000);
         no_limit = (ok_pos \<or> ok_neg);
         no_limit =
           (if scaling = 2 then
              let a1_bit23 = drop_bit 23 a1 AND 1;
                  ok_pos_s2 = (a2 = 0 \<and> v \<le> 0x7FFFFF \<and> a1_bit23 = 0);
                  ok_neg_s2 = (a2 = 0xFF \<and> v \<ge> 0x800000 \<and> a1_bit23 \<noteq> 0)
              in ok_pos_s2 \<or> ok_neg_s2
            else no_limit);
         result = (if no_limit then v else if a2 AND 0x80 \<noteq> 0 then 0x800000 else 0x7FFFFF);
         new_sr = (if \<not> no_limit then sr OR push_bit sr_L 1 else sr);
         acc_packed = push_bit 48 (ucast a2 AND 0xFF) OR push_bit 24 (ucast a1 AND 0xFFFFFF) OR
           (ucast a0 AND 0xFFFFFF) :: u64;
         s_bit =
           (if scaling = 1 then (drop_bit 47 acc_packed XOR drop_bit 46 acc_packed) AND 1
            else if scaling = 2 then (drop_bit 45 acc_packed XOR drop_bit 44 acc_packed) AND 1
            else (drop_bit 46 acc_packed XOR drop_bit 45 acc_packed) AND 1);
         new_sr = (if s_bit \<noteq> 0 then new_sr OR push_bit sr_S 1 else new_sr)
     in (result OR (if no_limit then push_bit 24 1 else 0), set_reg reg_SR new_sr s))"

end
