(* ===== verification/Arith56_Laws.thy ===== *)
theory Arith56_Laws
  imports Arith56
begin

text \<open>
  What the accumulator helpers compute: rounding is to the nearest multiple, ties to even or up;
  the flags are comparisons of the signed 56-bit value; saturation and limiting clamp it.
\<close>

section \<open>Bit patterns\<close>

lemma bit_sr_test: "(sr AND push_bit n 1 \<noteq> 0) = bit sr n" "(sr AND push_bit n 1 = 0) = (\<not> bit sr n)"
  for sr :: u32
  using bit_test_code [of sr n] by auto

text \<open>A field of ones, kept opaque so that it is not evaluated to a numeral.\<close>

definition ones :: "nat \<Rightarrow> nat \<Rightarrow> 'a::len word" where
  "ones a b = push_bit a (mask b)"

lemma bit_ones: "bit (ones a b :: 'a::len word) n \<longleftrightarrow> n < LENGTH('a) \<and> a \<le> n \<and> n < a + b"
  by (auto simp: ones_def bit_simps)

lemma mask_words:
  "(0xFFFFFF :: 'a::len word) = ones 0 24" "(0xFF :: 'a word) = ones 0 8"
  "(0x7FFFFF :: 'a word) = ones 0 23" "(0x00FFFFFFFFFFFFFF :: 'a word) = ones 0 56"
  by (simp_all add: mask_eq_exp_minus_1 ones_def)

lemma pattern_words:
  "(0xFFFFFE :: u32) = ones 1 23" "(ones 0 24 - 0x3 :: u32) = ones 2 22"
  "(0x800000 :: u32) = ones 23 1" "(1 :: u32) = ones 0 1"
  by (simp_all add: mask_eq_exp_minus_1 ones_def)

lemma word_eq_0_bits: "w = 0 \<longleftrightarrow> (\<forall>n. \<not> bit w n)" for w :: "'a::len word"
proof
  assume "\<forall>n. \<not> bit w n"
  then show "w = 0" by (intro bit_word_eqI) simp
qed simp

lemma take_bit_eq_0_bits: "take_bit k w = 0 \<longleftrightarrow> (\<forall>n<k. \<not> bit w n)" for w :: "'a::len word"
  unfolding word_eq_0_bits bit_take_bit_iff by blast

text \<open>A field of a packed accumulator, and an accumulator put together from its fields.\<close>

definition field :: "nat \<Rightarrow> nat \<Rightarrow> i64 \<Rightarrow> u32" where
  "field a b x = ucast (signed_drop_bit a x AND ones 0 b)"

lemma field_0: "ucast (x AND ones 0 b) = field 0 b x"
  by (simp add: field_def)

lemma bit_field: "a + b \<le> 63 \<Longrightarrow> b \<le> 32 \<Longrightarrow> bit (field a b x) n \<longleftrightarrow> n < b \<and> bit x (a + n)"
  by (auto simp: field_def bit_simps bit_ones)

definition pack :: "u32 \<Rightarrow> u32 \<Rightarrow> u32 \<Rightarrow> i64" where
  "pack r2 r1 r0 = push_bit 48 (ucast r2) OR push_bit 24 (ucast r1) OR ucast r0"

lemma bit_pack:
  assumes "\<And>k. bit r0 k \<Longrightarrow> k < 24" "\<And>k. bit r1 k \<Longrightarrow> k < 24" "\<And>k. bit r2 k \<Longrightarrow> k < 8"
  shows "bit (pack r2 r1 r0) n \<longleftrightarrow>
    (if n < 24 then bit r0 n else if n < 48 then bit r1 (n - 24) else bit r2 (n - 48))"
  using assms
  by (auto simp: pack_def bit_simps; force)

section \<open>Rounding\<close>

text \<open>The position of the rounding constant in the three scaling modes.\<close>

definition rnd_pos :: "u32 \<Rightarrow> nat" where
  "rnd_pos sr = (if bit sr sr_S0 then 24 else if bit sr sr_S1 then 22 else 23)"

definition rnd_bits :: "nat \<Rightarrow> bool \<Rightarrow> i64 \<Rightarrow> i64" where
  "rnd_bits p conv x =
    (let w = take_bit 56 x AND NOT (mask (Suc p))
     in if conv \<and> take_bit (Suc p) x = 0 then w AND NOT (push_bit (Suc p) 1) else w)"

lemma bit_rnd_bits: "bit (rnd_bits p conv x) n \<longleftrightarrow>
    p < n \<and> n < 56 \<and> bit x n \<and> \<not> (conv \<and> take_bit (Suc p) x = 0 \<and> n = Suc p)"
  by (auto simp: rnd_bits_def Let_def bit_simps dest: bit_imp_le_length)

lemma field_eq_0: "b \<le> 32 \<Longrightarrow> field 0 b x = 0 \<longleftrightarrow> take_bit b x = 0"
  unfolding word_eq_0_bits [of "field 0 b x"] take_bit_eq_0_bits by (simp add: bit_field)

lemma ones_and_eq_0: "(w AND ones a b = 0) = (\<forall>n. a \<le> n \<and> n < a + b \<longrightarrow> \<not> bit w n)"
  for w :: "'a::len word"
  unfolding word_eq_0_bits by (auto simp: bit_simps bit_ones dest: bit_imp_le_length)

lemma bit_if: "bit (if c then a else b) n = (if c then bit a n else bit b n)"
  by simp

lemma rnd_bits_S0:
  assumes "c \<longleftrightarrow> conv \<and> field 0 24 x = 0 \<and> field 24 24 x AND ones 0 1 = 0"
  shows "pack (field 48 8 x) ((if c then field 24 24 x AND ones 2 22 else field 24 24 x) AND ones 1 23) 0 =
    rnd_bits 24 conv x"
proof (rule bit_word_eqI)
  fix n
  have "c \<longleftrightarrow> conv \<and> take_bit (Suc 24) x = 0"
    unfolding take_bit_eq_0_bits All_less_Suc
    using assms by (auto simp: field_eq_0 take_bit_eq_0_bits ones_and_eq_0 bit_field)
  then show "bit (pack (field 48 8 x)
      ((if c then field 24 24 x AND ones 2 22 else field 24 24 x) AND ones 1 23) 0) n =
      bit (rnd_bits 24 conv x) n"
    unfolding bit_rnd_bits by (subst bit_pack; cases c; auto simp: bit_and_iff bit_field bit_ones)
qed

lemma rnd_bits_S1:
  assumes "c \<longleftrightarrow> conv \<and> field 0 24 x AND ones 0 23 = 0"
  shows "pack (field 48 8 x) (field 24 24 x) ((if c then 0 else field 0 24 x) AND ones 23 1) =
    rnd_bits 22 conv x"
proof (rule bit_word_eqI)
  fix n
  have "c \<longleftrightarrow> conv \<and> take_bit (Suc 22) x = 0"
    using assms by (auto simp: take_bit_eq_0_bits ones_and_eq_0 bit_field)
  then show "bit (pack (field 48 8 x) (field 24 24 x) ((if c then 0 else field 0 24 x) AND ones 23 1)) n =
      bit (rnd_bits 22 conv x) n"
    unfolding bit_rnd_bits by (subst bit_pack; cases c; auto simp: bit_and_iff bit_field bit_ones)
qed

lemma rnd_bits_none:
  assumes "c \<longleftrightarrow> conv \<and> field 0 24 x = 0"
  shows "pack (field 48 8 x) (if c then field 24 24 x AND ones 1 23 else field 24 24 x) 0 =
    rnd_bits 23 conv x"
proof (rule bit_word_eqI)
  fix n
  have "c \<longleftrightarrow> conv \<and> take_bit (Suc 23) x = 0" using assms by (simp add: field_eq_0)
  then show "bit (pack (field 48 8 x) (if c then field 24 24 x AND ones 1 23 else field 24 24 x) 0) n =
      bit (rnd_bits 23 conv x) n"
    unfolding bit_rnd_bits by (subst bit_pack; cases c; auto simp: bit_and_iff bit_field bit_ones)
qed

lemma jit_rnd56_bits:
  "jit_rnd56 s val = rnd_bits (rnd_pos (registers s reg_SR)) (\<not> bit (registers s reg_SR) sr_RM)
    (val + push_bit (rnd_pos (registers s reg_SR)) 1)"
proof -
  let ?sr = "registers s reg_SR"
  consider "bit ?sr sr_S0" | "\<not> bit ?sr sr_S0" "bit ?sr sr_S1" | "\<not> bit ?sr sr_S0" "\<not> bit ?sr sr_S1"
    by blast
  then show ?thesis
  proof cases
    case 1
    show ?thesis
      unfolding jit_rnd56_def Let_def bit_sr_test rnd_pos_def
      unfolding mask_words
      unfolding pattern_words field_def [symmetric]
      unfolding field_0 pack_def [symmetric]
      by (simp only: 1 if_True if_False prod.case simp_thms rnd_bits_S0 [OF refl])
  next
    case 2
    show ?thesis
      unfolding jit_rnd56_def Let_def bit_sr_test rnd_pos_def
      unfolding mask_words
      unfolding pattern_words field_def [symmetric]
      unfolding field_0 pack_def [symmetric]
      by (simp only: 2 if_True if_False prod.case simp_thms rnd_bits_S1 [OF refl])
  next
    case 3
    show ?thesis
      unfolding jit_rnd56_def Let_def bit_sr_test rnd_pos_def
      unfolding mask_words
      unfolding pattern_words field_def [symmetric]
      unfolding field_0 pack_def [symmetric]
      by (simp only: 3 if_True if_False prod.case simp_thms rnd_bits_none [OF refl])
  qed
qed

text \<open>The integer the bits stand for.\<close>

definition round_quot :: "bool \<Rightarrow> int \<Rightarrow> int \<Rightarrow> int" where
  "round_quot conv u x =
    (let q = (x + u div 2) div u in if conv \<and> (x + u div 2) mod u = 0 \<and> odd q then q - 1 else q)"

definition rounds_to :: "bool \<Rightarrow> int \<Rightarrow> int \<Rightarrow> int \<Rightarrow> bool" where
  "rounds_to conv u x q \<longleftrightarrow> 2 * \<bar>q * u - x\<bar> \<le> u \<and>
     (2 * \<bar>q * u - x\<bar> = u \<longrightarrow> (if conv then even q else x < q * u))"

lemma round_quot_rounds:
  assumes "even u" "0 < u"
  shows "rounds_to conv u x (round_quot conv u x)"
proof -
  define h where "h = u div 2"
  have u: "u = 2 * h" "0 < h" using assms by (auto simp: h_def)
  define q where "q = (x + h) div u"
  define r where "r = (x + h) mod u"
  have x: "x = q * u + r - h" using mult_div_mod_eq [of u "x + h"] by (simp add: q_def r_def mult.commute)
  have r: "0 \<le> r" "r < 2 * h" using assms(2) u by (simp_all add: r_def)
  have Q: "round_quot conv u x = (if conv \<and> r = 0 \<and> odd q then q - 1 else q)"
    by (simp add: round_quot_def Let_def q_def r_def h_def)
  show ?thesis unfolding rounds_to_def Q using r u(2)
    by (auto simp: x u(1) algebra_simps abs_if)
qed

lemma and_not_mask_int: "k AND NOT (mask a) = push_bit a (drop_bit a k)" for k :: int
  by (rule bit_eqI) (auto simp: bit_simps)

definition drop_odd :: "int \<Rightarrow> int" where
  "drop_odd k = k AND NOT (mask 1)"

lemma bit_drop_odd: "bit (drop_odd k) n \<longleftrightarrow> bit k n \<and> n \<noteq> 0"
  by (auto simp: drop_odd_def bit_and_iff bit_not_iff bit_mask_iff)

lemma drop_odd_eq: "drop_odd k = (if odd k then k - 1 else k)"
  unfolding drop_odd_def and_not_mask_int
  by (auto simp: push_bit_eq_mult drop_bit_eq_div elim: oddE)

lemma uint_rnd_bits:
  fixes y :: int
  assumes K: "Suc p = K" "K < 50"
  shows "uint (rnd_bits p conv (word_of_int y)) =
    (let q = y div 2 ^ K
     in (if conv \<and> y mod 2 ^ K = 0 \<and> odd q then q - 1 else q) * 2 ^ K) mod 2 ^ 56"
proof -
  let ?q = "drop_bit K y"
  let ?tie = "conv \<and> take_bit K y = 0"
  have b: "bit (word_of_int y :: i64) n \<longleftrightarrow> n < 64 \<and> bit y n" for n
    by (simp add: bit_word_of_int_iff)
  have tie: "take_bit K (word_of_int y :: i64) = 0 \<longleftrightarrow> take_bit K y = 0"
  proof -
    have "take_bit K y = 0 \<longleftrightarrow> (\<forall>n<K. \<not> bit y n)"
      by (auto simp: bit_eq_iff [of _ "0 :: int"] bit_take_bit_iff)
    then show ?thesis
      using assms unfolding take_bit_eq_0_bits b by auto
  qed
  have p: "p < n \<longleftrightarrow> K \<le> n" for n using K by auto
  define w where "w = rnd_bits p conv (word_of_int y)"
  have r: "bit w n \<longleftrightarrow>
      K \<le> n \<and> n < 56 \<and> bit y n \<and> \<not> (?tie \<and> n = K)" for n
    unfolding w_def bit_rnd_bits K tie b p by auto
  have "uint w =
      take_bit 56 (push_bit K (if ?tie then drop_odd ?q else ?q))"
    by (rule bit_eqI, cases ?tie)
      (auto simp: bit_uint_iff r bit_take_bit_iff bit_push_bit_iff bit_drop_odd bit_drop_bit_eq)
  then show ?thesis
    by (simp add: w_def drop_odd_eq take_bit_eq_mod push_bit_eq_mult drop_bit_eq_div Let_def)
qed

lemma jit_rnd56_quot:
  fixes s :: "'e dsp_state" and val :: i64
  defines "p \<equiv> rnd_pos (registers s reg_SR)"
  shows "uint (jit_rnd56 s val) =
    round_quot (\<not> bit (registers s reg_SR) sr_RM) (2 ^ Suc p) (uint val) * 2 ^ Suc p mod 2 ^ 56"
proof -
  have p: "Suc p < 50" by (simp add: p_def rnd_pos_def)
  have v: "val + push_bit p 1 = word_of_int (uint val + 2 ^ p)" by (simp add: push_bit_eq_mult)
  have h: "2 ^ Suc p div 2 = (2 ^ p :: int)" by simp
  show ?thesis
    unfolding jit_rnd56_bits p_def [symmetric] v uint_rnd_bits [OF refl p] round_quot_def h Let_def ..
qed


section \<open>Flags\<close>

text \<open>The signed value of a packed accumulator, and its range in terms of its sign bits.\<close>

definition acc_int :: "i64 \<Rightarrow> int" where
  "acc_int x = signed_take_bit 55 (uint x)"

definition same_bits :: "nat \<Rightarrow> nat \<Rightarrow> i64 \<Rightarrow> bool" where
  "same_bits a b x \<longleftrightarrow> (\<forall>n. a \<le> n \<and> n < a + b \<longrightarrow> bit x n = bit x a)"

lemma acc_int_range:
  assumes "p \<le> 55"
  shows "same_bits p (56 - p) x \<longleftrightarrow> - (2 ^ p) \<le> acc_int x \<and> acc_int x < 2 ^ p"
proof -
  have "- (2 ^ p) \<le> acc_int x \<and> acc_int x < 2 ^ p \<longleftrightarrow> signed_take_bit p (acc_int x) = acc_int x"
    by (rule signed_take_bit_int_eq_self_iff [symmetric])
  also have "\<dots> \<longleftrightarrow> signed_take_bit p (uint x) = signed_take_bit 55 (uint x)"
    using assms by (simp add: acc_int_def min_def)
  also have "\<dots> \<longleftrightarrow> (\<forall>n. bit x (min p n) = bit x (min 55 n))"
  proof -
    have "bit (uint x) n = bit x n" for n by (auto simp: bit_uint_iff dest: bit_imp_le_length)
    then show ?thesis by (simp add: bit_eq_iff bit_signed_take_bit_iff)
  qed
  also have "\<dots> \<longleftrightarrow> same_bits p (56 - p) x"
  proof
    assume a: "\<forall>n. bit x (min p n) = bit x (min 55 n)"
    have "bit x n = bit x p" if "p \<le> n" "n < 56" for n
    proof -
      have "min p n = p" "min 55 n = n" using that by simp_all
      then show ?thesis using a [rule_format, of n] by simp
    qed
    moreover have "p + (56 - p) = 56" using assms by simp
    ultimately show "same_bits p (56 - p) x" unfolding same_bits_def by metis
  next
    assume b: "same_bits p (56 - p) x"
    show "\<forall>n. bit x (min p n) = bit x (min 55 n)"
    proof
      fix n
      show "bit x (min p n) = bit x (min 55 n)"
      proof (cases "p \<le> n")
        case True
        then have "bit x (min 55 n) = bit x p"
          using b [unfolded same_bits_def, rule_format, of "min 55 n"] assms by simp
        then show ?thesis using True by simp
      next
        case False
        then show ?thesis using assms by simp
      qed
    qed
  qed
  finally show ?thesis ..
qed

lemma acc_int_neg: "acc_int x < 0 \<longleftrightarrow> bit x 55"
  by (simp add: acc_int_def bit_uint_iff)

lemma acc_int_zero: "acc_int x = 0 \<longleftrightarrow> take_bit 56 x = 0"
proof -
  have "acc_int x = 0 \<longleftrightarrow> take_bit 56 (uint x) = 0"
    unfolding acc_int_def by (metis Suc_numeral semiring_norm(5,8,2,26) signed_take_bit_eq_iff_take_bit_eq
        signed_take_bit_of_0 take_bit_of_0 numeral_nat(1))
  then show ?thesis by (metis uint_0_iff unsigned_take_bit_eq)
qed

lemma field_same:
  assumes "a + b \<le> 63" "b \<le> 32" "0 < b"
  shows "(field a b x \<noteq> 0 \<and> field a b x \<noteq> ones 0 b) = (\<not> same_bits a b x)"
proof -
  have 1: "field a b x = 0 \<longleftrightarrow> (\<forall>n<b. \<not> bit x (a + n))"
    unfolding word_eq_0_bits using assms by (auto simp: bit_field)
  have 2: "field a b x = ones 0 b \<longleftrightarrow> (\<forall>n<b. bit x (a + n))"
  proof
    assume e: "field a b x = ones 0 b"
    have "bit (ones 0 b :: u32) n" if "n < b" for n using that assms by (simp add: bit_ones)
    then show "\<forall>n<b. bit x (a + n)" using e assms bit_field by metis
  next
    assume "\<forall>n<b. bit x (a + n)"
    then show "field a b x = ones 0 b"
      using assms by (intro bit_word_eqI) (auto simp: bit_field bit_ones)
  qed
  have 3: "same_bits a b x \<longleftrightarrow> (\<forall>n<b. bit x (a + n) = bit x a)"
    unfolding same_bits_def using assms by (metis add.commute add_less_cancel_right le_Suc_ex le_add1)
  show ?thesis unfolding 1 2 3 using assms(3) by (metis add.right_neutral)
qed

text \<open>The lowest extension bit of the scaling mode: above it all bits are copies of the sign.\<close>

definition ext_pos :: "u32 \<Rightarrow> nat" where
  "ext_pos sr = (if bit sr sr_S0 then 48 else if bit sr sr_S1 then 46 else 47)"

lemma pattern_words_flags:
  "(0x1FF :: u32) = ones 0 9" "(0x3FF :: u32) = ones 0 10" "(3 :: u32) = ones 0 2"
  "(0xC00000 :: u32) = ones 22 2" "(0x600000 :: u32) = ones 21 2"
  by (simp_all add: mask_eq_exp_minus_1 ones_def)

lemma fields_joined:
  assumes "0 < k" "k \<le> 24" "w \<le> 8 + k" "w \<le> 32"
  shows "(push_bit k (field 48 8 x) OR drop_bit (24 - k) (field 24 24 x)) AND ones 0 w =
    field (48 - k) w x"
proof (rule bit_word_eqI)
  fix n
  show "bit ((push_bit k (field 48 8 x) OR drop_bit (24 - k) (field 24 24 x)) AND ones 0 w) n =
      bit (field (48 - k) w x) n"
    using assms by (cases "k \<le> n")
      (auto simp: bit_and_iff bit_or_iff bit_push_bit_iff bit_drop_bit_eq bit_field bit_ones)
qed

lemma all_pair: "(\<forall>n. k \<le> n \<and> n < k + 2 \<longrightarrow> P n) \<longleftrightarrow> P k \<and> P (Suc k)"
proof -
  have "k \<le> n \<and> n < k + 2 \<longleftrightarrow> n = k \<or> n = Suc k" for n by arith
  then show ?thesis by auto
qed

lemma field_pair:
  assumes "k \<le> 22"
  shows "(field 24 24 x AND ones k 2 = 0 \<or> field 24 24 x AND ones k 2 = ones k 2) =
    (bit x (25 + k) = bit x (24 + k))"
proof -
  have 1: "field 24 24 x AND ones k 2 = 0 \<longleftrightarrow> \<not> bit x (24 + k) \<and> \<not> bit x (25 + k)"
    unfolding ones_and_eq_0 all_pair using assms by (simp add: bit_field)
  have 2: "field 24 24 x AND ones k 2 = ones k 2 \<longleftrightarrow> bit x (24 + k) \<and> bit x (25 + k)"
  proof
    assume e: "field 24 24 x AND ones k 2 = ones k 2"
    have "bit (ones k 2 :: u32) k" "bit (ones k 2 :: u32) (Suc k)" using assms by (simp_all add: bit_ones)
    then have "bit (field 24 24 x) k" "bit (field 24 24 x) (Suc k)" using e by (metis bit_and_iff)+
    then show "bit x (24 + k) \<and> bit x (25 + k)" by (simp add: bit_field)
  next
    assume "bit x (24 + k) \<and> bit x (25 + k)"
    then show "field 24 24 x AND ones k 2 = ones k 2" using assms
      by (intro bit_word_eqI)
        (auto simp: bit_and_iff bit_field bit_ones numeral_2_eq_2 less_Suc_eq le_Suc_eq)
  qed
  show ?thesis unfolding 1 2 by blast
qed

lemma same_bits_2: "same_bits a 2 x \<longleftrightarrow> bit x (Suc a) = bit x a"
  unfolding same_bits_def all_pair by simp

text \<open>E and U in the three defined modes; both are off in the reserved one.\<close>

definition both_scaling :: "u32 \<Rightarrow> bool" where
  "both_scaling sr \<longleftrightarrow> bit sr sr_S0 \<and> bit sr sr_S1"

definition flag_E :: "u32 \<Rightarrow> i64 \<Rightarrow> bool" where
  "flag_E sr x \<longleftrightarrow> \<not> both_scaling sr \<and> \<not> same_bits (ext_pos sr) (56 - ext_pos sr) x"

definition flag_U :: "u32 \<Rightarrow> i64 \<Rightarrow> bool" where
  "flag_U sr x \<longleftrightarrow> \<not> both_scaling sr \<and> bit x (ext_pos sr) = bit x (ext_pos sr - 1)"

lemma scaling_field: "drop_bit sr_S0 sr AND 3 = of_bool (bit sr sr_S0) + 2 * of_bool (bit sr sr_S1)"
  for sr :: u32
proof -
  have "(3 :: u32) = mask 2" by (simp add: mask_eq_exp_minus_1)
  then have "drop_bit sr_S0 sr AND 3 = of_bool (bit sr sr_S0) OR push_bit 1 (of_bool (bit sr sr_S1))"
    by (intro bit_word_eqI) (auto simp: bit_simps less_Suc_eq numeral_2_eq_2 bit_of_bool_iff)
  then show ?thesis by (auto simp: of_bool_def)
qed

lemma eu_none:
  assumes "\<not> bit sr sr_S0" "\<not> bit sr sr_S1"
  shows "(field 47 9 x \<noteq> 0 \<and> field 47 9 x \<noteq> ones 0 9) = flag_E sr x"
    and "(field 24 24 x AND ones 22 2 = 0 \<or> field 24 24 x AND ones 22 2 = ones 22 2) = flag_U sr x"
  using assms field_same [of 47 9 x] field_pair [of 22 x]
  by (simp_all add: flag_E_def flag_U_def both_scaling_def ext_pos_def)

lemma eu_scaled_flags:
  assumes "bit sr sr_S0 \<or> bit sr sr_S1"
  shows "eu_scaled sr x = (flag_E sr x, flag_U sr x)"
proof -
  consider "bit sr sr_S0" "\<not> bit sr sr_S1" | "\<not> bit sr sr_S0" "bit sr sr_S1"
    | "bit sr sr_S0" "bit sr sr_S1" using assms by blast
  then show ?thesis
  proof cases
    case 1
    have "eu_scaled sr x = (field 48 8 x \<noteq> 0 \<and> field 48 8 x \<noteq> ones 0 8,
        field 47 2 x = 0 \<or> field 47 2 x = ones 0 2)"
      unfolding eu_scaled_def Let_def scaling_field mask_words field_def [symmetric]
      using 1 fields_joined [of 1 2 x] by (simp add: pattern_words_flags)
    then show ?thesis using 1 field_same [of 48 8 x] field_same [of 47 2 x] same_bits_2 [of 47 x]
      by (auto simp: flag_E_def flag_U_def both_scaling_def ext_pos_def)
  next
    case 2
    have "eu_scaled sr x = (field 46 10 x \<noteq> 0 \<and> field 46 10 x \<noteq> ones 0 10,
        field 24 24 x AND ones 21 2 = 0 \<or> field 24 24 x AND ones 21 2 = ones 21 2)"
      unfolding eu_scaled_def Let_def scaling_field mask_words field_def [symmetric]
      using 2 fields_joined [of 2 10 x] by (simp add: pattern_words_flags)
    then show ?thesis using 2 field_same [of 46 10 x] field_pair [of 21 x]
      by (simp add: flag_E_def flag_U_def both_scaling_def ext_pos_def)
  next
    case 3
    then show ?thesis
      unfolding eu_scaled_def Let_def scaling_field
      by (simp add: flag_E_def flag_U_def both_scaling_def)
  qed
qed

lemma and_1_bit: "(w AND 1 \<noteq> 0) = bit w 0" "(w AND 1 = 0) = (\<not> bit w 0)" for w :: "'a::len word"
  using bit_test_code [of w 0] by auto

lemma bit_sdb: "bit (signed_drop_bit a x) 0 = bit x a" if "a < 64" for x :: i64
  using that by (auto simp: bit_signed_drop_bit_iff)

definition set_flags :: "u32 \<Rightarrow> bool \<Rightarrow> bool \<Rightarrow> bool \<Rightarrow> bool \<Rightarrow> u32" where
  "set_flags sr e u n z =
    (let new_sr = sr AND NOT (push_bit sr_E 1 OR push_bit sr_U 1 OR push_bit sr_N 1 OR push_bit sr_Z 1);
         new_sr = (if e then new_sr OR push_bit sr_E 1 else new_sr);
         new_sr = (if u then new_sr OR push_bit sr_U 1 else new_sr);
         new_sr = (if n then new_sr OR push_bit sr_N 1 else new_sr)
     in if z then new_sr OR push_bit sr_Z 1 else new_sr)"

lemma bit_push_1: "bit (push_bit a 1 :: u32) k \<longleftrightarrow> k = a \<and> a < 32"
  by (auto simp: bit_simps)

lemma bit_set_flags:
  assumes "k < 32"
  shows "bit (set_flags sr e u n z) k \<longleftrightarrow>
    (if k = sr_E then e else if k = sr_U then u else if k = sr_N then n
     else if k = sr_Z then z else bit sr k)"
proof -
  have "bit (set_flags sr e u n z) k \<longleftrightarrow> (bit sr k \<and> k \<noteq> sr_E \<and> k \<noteq> sr_U \<and> k \<noteq> sr_N \<and> k \<noteq> sr_Z) \<or>
      (e \<and> k = sr_E) \<or> (u \<and> k = sr_U) \<or> (n \<and> k = sr_N) \<or> (z \<and> k = sr_Z)"
    using assms unfolding set_flags_def Let_def
    by (cases e; cases u; cases n; cases z)
      (simp_all only: if_True if_False bit_or_iff bit_and_iff bit_not_iff bit_push_1, auto)
  then show ?thesis by auto
qed

lemma jit_update_nz_flags:
  "jit_update_nz sr x = set_flags sr (flag_E sr x) (flag_U sr x) (bit x 55) (take_bit 56 x = 0)"
proof -
  have t: "(sr AND (push_bit sr_S0 1 OR push_bit sr_S1 1) = 0) = (\<not> bit sr sr_S0 \<and> \<not> bit sr sr_S1)"
    unfolding word_eq_0_bits bit_and_iff bit_or_iff bit_push_1 by auto
  have z: "(x AND ones 0 56 = 0) = (take_bit 56 x = 0)"
    unfolding ones_and_eq_0 take_bit_eq_0_bits by simp
  have e: "(if \<not> bit sr sr_S0 \<and> \<not> bit sr sr_S1
      then (field 47 9 x \<noteq> 0 \<and> field 47 9 x \<noteq> ones 0 9,
            field 24 24 x AND ones 22 2 = 0 \<or> field 24 24 x AND ones 22 2 = ones 22 2)
      else eu_scaled sr x) = (flag_E sr x, flag_U sr x)"
    using eu_none eu_scaled_flags by auto
  have f: "(push_bit 1 (field 48 8 x) OR drop_bit 23 (field 24 24 x)) AND ones 0 9 = field 47 9 x"
    using fields_joined [of 1 9 x] by simp
  have n: "(signed_drop_bit 55 x AND 1 \<noteq> 0) = bit x 55"
    unfolding and_1_bit by (simp add: bit_sdb)
  show ?thesis
    unfolding jit_update_nz_def Let_def mask_words field_def [symmetric] pattern_words_flags(1,4)
      t z n f e prod.case set_flags_def ..
qed

section \<open>Saturation\<close>

lemma jit_saturate_sm_cases:
  "jit_saturate_sm s x =
    (if bit (registers s reg_SR) sr_SM \<and> \<not> (bit x 55 = bit x 48 \<and> bit x 48 = bit x 47)
     then (if bit x 55 then 0x01FF800000000000 else 0x01007FFFFFFFFFFF) else x)"
proof -
  have b: "(signed_drop_bit 55 x AND 1 XOR signed_drop_bit 48 x AND 1) OR
      (signed_drop_bit 48 x AND 1 XOR signed_drop_bit 47 x AND 1) = 0 \<longleftrightarrow>
      bit x 55 = bit x 48 \<and> bit x 48 = bit x 47"
  proof -
    have o: "w AND 1 = of_bool (bit w 0)" for w :: i64
      using and_exp_eq [of w 0] by simp
    show ?thesis unfolding o by (simp add: bit_sdb of_bool_def)
  qed
  show ?thesis
    unfolding jit_saturate_sm_def Let_def bit_sr_test and_1_bit b
    by (simp add: bit_sdb)
qed

end
