(* ===== verification/Limit_Laws.thy ===== *)
theory Limit_Laws
  imports Arith56_Laws
begin

text \<open>
  Limited reads of an accumulator (\<^verbatim>\<open>jit_read_accu24\<close>) as a clamp of the scaled value, and
  the properties of the accumulator helpers.
\<close>

section \<open>Limiting\<close>

text \<open>The position of the sign of the word a limited read yields.\<close>

definition limit_pos :: "u32 \<Rightarrow> nat" where
  "limit_pos sr = (if both_scaling sr then 47 else ext_pos sr)"

lemma limit_pos_cases: "limit_pos sr = 46 \<or> limit_pos sr = 47 \<or> limit_pos sr = 48"
  by (simp add: limit_pos_def ext_pos_def)

lemma limit_pos_scaling:
  "(drop_bit sr_S0 sr AND 3 = 1) = (limit_pos sr = 48)"
  "(drop_bit sr_S0 sr AND 3 = 2) = (limit_pos sr = 46)"
  unfolding scaling_field limit_pos_def ext_pos_def both_scaling_def by auto

lemma field_half:
  assumes "a + 24 \<le> 63"
  shows "(field a 24 x \<le> 0x7FFFFF) = (\<not> bit x (a + 23))"
    and "(0x800000 \<le> field a 24 x) = bit x (a + 23)"
proof -
  let ?w = "field a 24 x"
  have "?w = ?w AND 0xFFFFFF"
    unfolding mask_words by (rule bit_word_eqI) (use assms in \<open>auto simp: bit_and_iff bit_field bit_ones\<close>)
  then have "unat ?w < 2 ^ 24" using and_mask_le [of ?w 24] by (simp add: mask_eq_exp_minus_1)
  then have "unat ?w div 2 ^ 23 < 2" by (simp add: less_mult_imp_div_less)
  moreover have "bit ?w 23 \<longleftrightarrow> odd (unat ?w div 2 ^ 23)"
  proof -
    have "bit (unat ?w) 23 = bit ?w 23" by (simp add: bit_unsigned_iff)
    then show ?thesis using bit_iff_odd [of "unat ?w" 23] by simp
  qed
  ultimately have "bit ?w 23 \<longleftrightarrow> \<not> unat ?w < 2 ^ 23"
    by (auto simp: div_less odd_iff_mod_2_eq_one)
  moreover have "bit ?w 23 = bit x (a + 23)" using assms by (simp add: bit_field)
  ultimately show "(?w \<le> 0x7FFFFF) = (\<not> bit x (a + 23))" "(0x800000 \<le> ?w) = bit x (a + 23)"
    by (auto simp: word_le_nat_alt)
qed

lemma ext_bits:
  "(field 48 8 x = 0) = (\<forall>n. 48 \<le> n \<and> n < 56 \<longrightarrow> \<not> bit x n)"
  "(field 48 8 x = 0xFF) = (\<forall>n. 48 \<le> n \<and> n < 56 \<longrightarrow> bit x n)"
proof -
  have r: "(\<forall>n. 48 \<le> n \<and> n < 56 \<longrightarrow> P n) = (\<forall>n<8. P (48 + n))" for P :: "nat \<Rightarrow> bool"
  proof (intro iffI allI impI)
    fix n :: nat assume "\<forall>n<8. P (48 + n)" "48 \<le> n \<and> n < 56"
    then show "P n" by (auto dest!: spec [of _ "n - 48"])
  qed simp
  show "(field 48 8 x = 0) = (\<forall>n. 48 \<le> n \<and> n < 56 \<longrightarrow> \<not> bit x n)"
    unfolding r word_eq_0_bits by (auto simp: bit_field)
  show "(field 48 8 x = 0xFF) = (\<forall>n. 48 \<le> n \<and> n < 56 \<longrightarrow> bit x n)"
  proof -
    have "field 48 8 x = ones 0 8 \<longleftrightarrow> (\<forall>n<8. bit (field 48 8 x) n)"
    proof
      assume "field 48 8 x = ones 0 8"
      then show "\<forall>n<8. bit (field 48 8 x) n" by (simp add: bit_ones)
    next
      assume "\<forall>n<8. bit (field 48 8 x) n"
      then show "field 48 8 x = ones 0 8"
        by (intro bit_word_eqI) (auto simp: bit_field bit_ones)
    qed
    then show ?thesis unfolding r mask_words by (simp add: bit_field)
  qed
qed

lemma limit_test:
  assumes "field 48 8 x = a2"
  shows "((a2 = 0 \<and> \<not> bit x 47) \<or> (a2 = 0xFF \<and> bit x 47)) = same_bits 47 9 x"
    and "((a2 = 0 \<and> \<not> bit x 48) \<or> (a2 = 0xFF \<and> bit x 48)) = same_bits 48 8 x"
    and "((a2 = 0 \<and> \<not> bit x 46 \<and> \<not> bit x 47) \<or> (a2 = 0xFF \<and> bit x 46 \<and> bit x 47)) = same_bits 46 10 x"
proof -
  have s: "47 \<le> n \<and> n < 56 \<longleftrightarrow> n = 47 \<or> (48 \<le> n \<and> n < 56)"
    "46 \<le> n \<and> n < 56 \<longleftrightarrow> n = 46 \<or> n = 47 \<or> (48 \<le> n \<and> n < 56)" for n :: nat by arith+
  have h: "(48::nat) \<le> 48 \<and> (48::nat) < 56" by simp
  show "((a2 = 0 \<and> \<not> bit x 47) \<or> (a2 = 0xFF \<and> bit x 47)) = same_bits 47 9 x"
    unfolding assms [symmetric] ext_bits same_bits_def using s(1) by simp blast
  show "((a2 = 0 \<and> \<not> bit x 48) \<or> (a2 = 0xFF \<and> bit x 48)) = same_bits 48 8 x"
    unfolding assms [symmetric] ext_bits same_bits_def using h by simp blast
  show "((a2 = 0 \<and> \<not> bit x 46 \<and> \<not> bit x 47) \<or> (a2 = 0xFF \<and> bit x 46 \<and> bit x 47)) = same_bits 46 10 x"
    unfolding assms [symmetric] ext_bits same_bits_def using s(2) by simp blast
qed

text \<open>The register triple of an accumulator, each within its width.\<close>

definition acc_regs :: "u32 \<Rightarrow> 'e dsp_state \<Rightarrow> u32 \<times> u32 \<times> u32" where
  "acc_regs acc_idx s =
    (if acc_idx = 0 then (registers s reg_A2, registers s reg_A1, registers s reg_A0)
     else (registers s reg_B2, registers s reg_B1, registers s reg_B0))"

definition acc_word :: "u32 \<Rightarrow> 'e dsp_state \<Rightarrow> i64" where
  "acc_word acc_idx s = (case acc_regs acc_idx s of (a2, a1, a0) \<Rightarrow> pack a2 a1 a0)"

definition acc_regs_wf :: "u32 \<Rightarrow> 'e dsp_state \<Rightarrow> bool" where
  "acc_regs_wf acc_idx s = (case acc_regs acc_idx s of (a2, a1, a0) \<Rightarrow>
     a2 AND 0xFF = a2 \<and> a1 AND 0xFFFFFF = a1 \<and> a0 AND 0xFFFFFF = a0)"

lemma fields_pack:
  assumes "a2 AND 0xFF = a2" "a1 AND 0xFFFFFF = a1" "a0 AND 0xFFFFFF = a0"
  shows "a2 = field 48 8 (pack a2 a1 a0)" "a1 = field 24 24 (pack a2 a1 a0)"
    "a0 = field 0 24 (pack a2 a1 a0)"
proof -
  have w: "bit a2 k \<Longrightarrow> k < 8" "bit a1 k \<Longrightarrow> k < 24" "bit a0 k \<Longrightarrow> k < 24" for k
    using assms unfolding mask_words by (metis bit_and_iff bit_ones add_0)+
  note b = bit_pack [OF w(3) w(2) w(1)]
  show "a2 = field 48 8 (pack a2 a1 a0)" "a1 = field 24 24 (pack a2 a1 a0)"
    "a0 = field 0 24 (pack a2 a1 a0)"
    by (rule bit_word_eqI; auto simp: bit_field b dest: w)+
qed

lemma limited_fields:
  "(push_bit 24 (field 48 8 x) OR field 24 24 x) AND ones 0 24 = field 24 24 x"
  "drop_bit 1 (push_bit 24 (field 48 8 x) OR field 24 24 x) AND ones 0 24 = field 25 24 x"
  "(push_bit 1 (push_bit 24 (field 48 8 x) OR field 24 24 x) OR
    (drop_bit 23 (field 0 24 x) AND ones 0 1)) AND ones 0 24 = field 23 24 x"
proof -
  have p: "bit (push_bit a w) n = (a \<le> n \<and> n < 32 \<and> bit w (n - a))" for a n and w :: u32
    by (auto simp: bit_push_bit_iff)
  note bits = bit_and_iff bit_or_iff bit_drop_bit_eq p bit_field bit_ones
  show "(push_bit 24 (field 48 8 x) OR field 24 24 x) AND ones 0 24 = field 24 24 x"
    by (rule bit_word_eqI) (auto simp: bits)
  show "drop_bit 1 (push_bit 24 (field 48 8 x) OR field 24 24 x) AND ones 0 24 = field 25 24 x"
  proof (rule bit_word_eqI)
    fix n :: nat
    have "n = 23 \<or> n < 23 \<or> 24 \<le> n" by arith
    then show "bit (drop_bit 1 (push_bit 24 (field 48 8 x) OR field 24 24 x) AND ones 0 24) n =
        bit (field 25 24 x) n" by (auto simp: bits)
  qed
  show "(push_bit 1 (push_bit 24 (field 48 8 x) OR field 24 24 x) OR
    (drop_bit 23 (field 0 24 x) AND ones 0 1)) AND ones 0 24 = field 23 24 x"
  proof (rule bit_word_eqI)
    fix n :: nat
    have "n = 0 \<or> 1 \<le> n" by arith
    then show "bit ((push_bit 1 (push_bit 24 (field 48 8 x) OR field 24 24 x) OR
      (drop_bit 23 (field 0 24 x) AND ones 0 1)) AND ones 0 24) n = bit (field 23 24 x) n"
      by (auto simp only: bits) (auto simp: bit_field)
  qed
qed

lemma acc_packed_eq:
  "push_bit 48 (ucast (field 48 8 x) AND ones 0 8) OR push_bit 24 (ucast (field 24 24 x) AND ones 0 24) OR
    (ucast (field 0 24 x) AND ones 0 24) = take_bit 56 x"
proof (rule bit_word_eqI)
  fix n :: nat assume n: "n < LENGTH(64)"
  have b: "bit (ucast (w :: u32) :: i64) k = bit w k" for w k
    by (auto simp: bit_ucast_iff dest: bit_imp_le_length)
  have "n < 24 \<or> 24 \<le> n \<and> n < 48 \<or> 48 \<le> n" by arith
  then show "bit (push_bit 48 ((ucast (field 48 8 x) :: i64) AND ones 0 8) OR
      push_bit 24 (ucast (field 24 24 x) AND ones 0 24) OR
      (ucast (field 0 24 x) AND ones 0 24)) n = bit (take_bit 56 x) n"
    using n by (elim disjE; simp add: bit_and_iff bit_or_iff bit_push_bit_iff b bit_field bit_ones
        bit_take_bit_iff; auto)
qed

lemma adjacent_test: "((drop_bit a w XOR drop_bit b w) AND 1 \<noteq> 0) = (bit w a \<noteq> bit w b)"
  for w :: i64
  unfolding and_1_bit by (simp add: bit_xor_iff bit_drop_bit_eq)

text \<open>A limited read in closed form.\<close>

lemma jit_read_accu24_closed:
  fixes s :: "'e dsp_state"
  assumes "acc_regs_wf a s"
  defines "sr \<equiv> registers s reg_SR" and "x \<equiv> acc_word a s"
  defines "p \<equiv> limit_pos sr"
  shows "jit_read_accu24 a s =
    ((if same_bits p (56 - p) x then field (p - 23) 24 x OR push_bit 24 1
      else if bit x 55 then 0x800000 else 0x7FFFFF),
     set_reg reg_SR
       (let new_sr = (if same_bits p (56 - p) x then sr else sr OR push_bit sr_L 1)
        in if bit x (p - 1) \<noteq> bit x (p - 2) then new_sr OR push_bit sr_S 1 else new_sr) s)"
proof -
  obtain a2 a1 a0 where regs: "acc_regs a s = (a2, a1, a0)" by (cases "acc_regs a s") auto
  have x: "x = pack a2 a1 a0" by (simp add: x_def acc_word_def regs)
  have f: "a2 = field 48 8 x" "a1 = field 24 24 x" "a0 = field 0 24 x"
    using fields_pack assms(1) regs by (simp_all add: acc_regs_wf_def x)
  have c: "push_bit 48 (ucast a2 AND 0xFF) OR push_bit 24 (ucast a1 AND 0xFFFFFF) OR
      (ucast a0 AND 0xFFFFFF) = take_bit 56 x"
    unfolding f mask_words by (rule acc_packed_eq)
  have v: "(push_bit 24 a2 OR a1) AND 0x00FFFFFF = field 24 24 x"
    "drop_bit 1 (push_bit 24 a2 OR a1) AND 0x00FFFFFF = field 25 24 x"
    "(push_bit 1 (push_bit 24 a2 OR a1) OR (drop_bit 23 a0 AND 1)) AND 0x00FFFFFF = field 23 24 x"
    using limited_fields [of x] unfolding f mask_words pattern_words(4) by simp_all
  have neg: "(a2 AND 0x80 \<noteq> 0) = bit x 55"
    using bit_test_code [of a2 7] by (simp add: f(1) bit_field)
  have a1: "(drop_bit 23 a1 AND 1 = 0) = (\<not> bit x 47)"
    unfolding and_1_bit by (simp add: f(2) bit_drop_bit_eq bit_field)
  have half: "(field 24 24 x \<le> 0x7FFFFF) = (\<not> bit x 47)" "(0x800000 \<le> field 24 24 x) = bit x 47"
    "(field 25 24 x \<le> 0x7FFFFF) = (\<not> bit x 48)" "(0x800000 \<le> field 25 24 x) = bit x 48"
    "(field 23 24 x \<le> 0x7FFFFF) = (\<not> bit x 46)" "(0x800000 \<le> field 23 24 x) = bit x 46"
    using field_half [of 24 x] field_half [of 25 x] field_half [of 23 x] by simp_all
  note lim = limit_test [OF f(1) [symmetric]]
  have tb: "bit (take_bit 56 x) n = bit x n" if "n < 56" for n using that by (simp add: bit_take_bit_iff)
  have adj: "((drop_bit 47 (take_bit 56 x) XOR drop_bit 46 (take_bit 56 x)) AND 1 \<noteq> 0) = (bit x 47 \<noteq> bit x 46)"
    "((drop_bit 45 (take_bit 56 x) XOR drop_bit 44 (take_bit 56 x)) AND 1 \<noteq> 0) = (bit x 45 \<noteq> bit x 44)"
    "((drop_bit 46 (take_bit 56 x) XOR drop_bit 45 (take_bit 56 x)) AND 1 \<noteq> 0) = (bit x 46 \<noteq> bit x 45)"
    unfolding adjacent_test by (simp_all add: tb)
  note unf = jit_read_accu24_def acc_regs_def [symmetric] regs prod.case sr_def [symmetric]
    limit_pos_scaling p_def [symmetric] Let_def c neg a1
  consider "p = 48" | "p = 46" | "p = 47" using limit_pos_cases [of sr] by (auto simp: p_def)
  then show ?thesis
  proof cases
    case 1
    then have e: "(p = 48) = True" "(p = 46) = False" "p - 23 = 25" "56 - p = 8" "p - 1 = 47" "p - 2 = 46"
      by simp_all
    show ?thesis unfolding unf e if_True if_False v half adj lim unfolding 1
      by (cases "same_bits 48 8 x") simp_all
  next
    case 2
    then have e: "(p = 48) = False" "(p = 46) = True" "p - 23 = 23" "56 - p = 10" "p - 1 = 45" "p - 2 = 44"
      by simp_all
    have l: "((a2 = 0 \<and> \<not> bit x 46 \<and> \<not> bit x 47) \<or> (a2 = 0xFF \<and> bit x 46 \<and> \<not> \<not> bit x 47)) =
        same_bits 46 10 x" using lim(3) by simp
    show ?thesis unfolding unf e if_True if_False v half adj l unfolding 2
      by (cases "same_bits 46 10 x") simp_all
  next
    case 3
    then have e: "(p = 48) = False" "(p = 46) = False" "p - 23 = 24" "56 - p = 9" "p - 1 = 46" "p - 2 = 45"
      by simp_all
    show ?thesis unfolding unf e if_True if_False v half adj lim unfolding 3
      by (cases "same_bits 47 9 x") simp_all
  qed
qed

section \<open>Properties\<close>

text \<open>
  C22. Rounding is to nearest: for every accumulator value the result is, modulo 2^56, a multiple
  \<open>q u\<close> of the rounding unit of the scaling mode at distance at most half a unit; when two
  multiples are equally near, convergent rounding takes the even one and two's-complement rounding
  the upper one.
\<close>

theorem rnd56_nearest:
  "\<exists>q. uint (jit_rnd56 s val) = q * 2 ^ Suc (rnd_pos (registers s reg_SR)) mod 2 ^ 56 \<and>
    rounds_to (\<not> bit (registers s reg_SR) sr_RM) (2 ^ Suc (rnd_pos (registers s reg_SR)))
      (uint val) q"
proof -
  have "even (2 ^ Suc p :: int)" "0 < (2 ^ Suc p :: int)" for p by simp_all
  then show ?thesis using jit_rnd56_quot [of s val] round_quot_rounds by metis
qed


text \<open>
  C24. In saturation mode a result that fits 49 bits is clamped to the 48-bit range, with bit 56
  telling that it was; outside the mode it is returned as it is.
\<close>

theorem saturate_clamps:
  assumes "- (2 ^ 48) \<le> acc_int x" and "acc_int x < 2 ^ 48" and "take_bit 56 x = x"
  shows "acc_int (jit_saturate_sm s x) = (if bit (registers s reg_SR) sr_SM
      then max (- (2 ^ 47)) (min (2 ^ 47 - 1) (acc_int x)) else acc_int x)
    \<and> bit (jit_saturate_sm s x) 56 =
      (bit (registers s reg_SR) sr_SM \<and> (acc_int x < - (2 ^ 47) \<or> 2 ^ 47 \<le> acc_int x))"
proof -
  have "same_bits 48 8 x" using acc_int_range [of 48 x] assms(1,2) by simp
  then have "bit x 55 = bit x 48"
    using \<open>same_bits 48 8 x\<close> [unfolded same_bits_def, rule_format, of 55] by simp
  moreover from \<open>same_bits 48 8 x\<close> have "same_bits 47 9 x = (bit x 48 = bit x 47)"
  proof -
    have "47 \<le> n \<and> n < 56 \<longleftrightarrow> n = 47 \<or> (48 \<le> n \<and> n < 56)" for n :: nat by arith
    moreover have "47 + 9 = (56 :: nat)" "48 + 8 = (56 :: nat)" "(48::nat) \<le> 48 \<and> (48::nat) < 56"
      by simp_all
    ultimately show ?thesis using \<open>same_bits 48 8 x\<close> unfolding same_bits_def by metis
  qed
  ultimately have test: "(bit x 55 = bit x 48 \<and> bit x 48 = bit x 47) =
      (- (2 ^ 47) \<le> acc_int x \<and> acc_int x < 2 ^ 47)"
    using acc_int_range [of 47 x] by simp
  have b56: "\<not> bit x 56" using assms(3) by (metis bit_take_bit_iff less_irrefl)
  have "acc_int 0x01FF800000000000 = - (2 ^ 47) \<and> acc_int 0x01007FFFFFFFFFFF = 2 ^ 47 - 1
      \<and> bit (0x01FF800000000000 :: i64) 56 \<and> bit (0x01007FFFFFFFFFFF :: i64) 56"
    by (simp add: acc_int_def)
  then show ?thesis
    using b56 acc_int_neg [of x] by (auto simp: jit_saturate_sm_cases test)
qed

definition sr_state :: "u32 \<Rightarrow> unit dsp_state" where
  "sr_state sr = set_reg reg_SR sr (dsp_new (test_map 0 16 1 16 2 16) (\<lambda>_ _. 0) ())"

theorem saturate_clamps_witness:
  "acc_int (jit_saturate_sm (sr_state (push_bit sr_SM 1)) 0x00C00000000000) = 2 ^ 47 - 1"
proof -
  have x: "acc_int 0x00C00000000000 = 0xC00000000000 \<and>
      take_bit 56 (0x00C00000000000 :: i64) = 0x00C00000000000" by code_simp
  have "bit (registers (sr_state (push_bit sr_SM 1)) reg_SR) sr_SM"
    by (simp add: sr_state_def bit_simps)
  then show ?thesis
    using saturate_clamps [of "0x00C00000000000" "sr_state (push_bit sr_SM 1)"] x by simp
qed

lemma signed_field:
  assumes "same_bits p (56 - p) x" "23 \<le> p" "p \<le> 48" "\<And>n. n < 24 \<Longrightarrow> bit r n = bit (field (p - 23) 24 x) n"
  shows "signed_take_bit 23 (uint r) = acc_int x div 2 ^ (p - 23)"
proof -
  have v: "acc_int x = signed_take_bit p (uint x)"
    using acc_int_range [of p x] assms(1,3) signed_take_bit_int_eq_self_iff [of p "acc_int x"]
    by (simp add: acc_int_def min_def)
  have u: "bit (uint w) n = bit w n" for w :: "'z::len word" and n
    by (auto simp: bit_uint_iff dest: bit_imp_le_length)
  have "signed_take_bit 23 (uint r) = drop_bit (p - 23) (signed_take_bit p (uint x))"
  proof (rule bit_eqI)
    fix n :: nat
    have "min 23 n < 24" by simp
    then have "bit r (min 23 n) = bit x (p - 23 + min 23 n)"
      using assms(2,3) unfolding assms(4) [OF \<open>min 23 n < 24\<close>] by (subst bit_field) auto
    moreover have "p - 23 + min 23 n = min p (p - 23 + n)" unfolding min_def using assms(2) by arith
    ultimately show "bit (signed_take_bit 23 (uint r)) n = bit (drop_bit (p - 23) (signed_take_bit p (uint x))) n"
      by (simp add: bit_signed_take_bit_iff u bit_drop_bit_eq)
  qed
  then show ?thesis by (simp add: v drop_bit_eq_div)
qed

lemma int_div_less_iff: "0 < d \<Longrightarrow> x div d < q \<longleftrightarrow> x < q * d" for x d q :: int
proof -
  assume d: "0 < d"
  have "x div d * d = x - x mod d" by (simp add: minus_mod_eq_div_mult)
  moreover have "(x div d + 1) * d = x div d * d + d" by (simp add: distrib_right)
  ultimately have x: "x div d * d \<le> x" "x < (x div d + 1) * d"
    using pos_mod_sign [OF d, of x] pos_mod_bound [OF d, of x] by linarith+
  show "x div d < q \<longleftrightarrow> x < q * d"
  proof
    assume "x div d < q"
    then have "(x div d + 1) * d \<le> q * d" using d by (intro mult_right_mono) auto
    then show "x < q * d" using x by linarith
  next
    assume "x < q * d"
    then have "x div d * d < q * d" using x by linarith
    then show "x div d < q" using d by simp
  qed
qed

lemma int_le_div_iff: "0 < d \<Longrightarrow> q \<le> x div d \<longleftrightarrow> q * d \<le> x" for x d q :: int
  using int_div_less_iff [of d x q] by auto

text \<open>
  C25. A limited read of an accumulator returns its value scaled to 24 bits and clamped to the
  signed 24-bit range; bit 24 of the result tells that nothing was clamped, L is set when something
  was, and S when the two bits below the sign position differ; nothing else of the state changes.
\<close>

theorem limited_read_clamps:
  assumes "acc_regs_wf a s"
  shows "let sr = registers s reg_SR; v = acc_int (acc_word a s); p = limit_pos sr;
      (r, s') = jit_read_accu24 a s; sr' = registers s' reg_SR
    in signed_take_bit 23 (uint r) = max (- (2 ^ 23)) (min (2 ^ 23 - 1) (v div 2 ^ (p - 23)))
     \<and> bit r 24 = (- (2 ^ p) \<le> v \<and> v < 2 ^ p)
     \<and> bit sr' sr_L = (bit sr sr_L \<or> \<not> (- (2 ^ p) \<le> v \<and> v < 2 ^ p))
     \<and> bit sr' sr_S = (bit sr sr_S \<or> bit (acc_word a s) (p - 1) \<noteq> bit (acc_word a s) (p - 2))
     \<and> sr' AND NOT 0xC0 = sr AND NOT 0xC0
     \<and> s' = set_reg reg_SR sr' s"
proof -
  define sr where "sr = registers s reg_SR"
  define x where "x = acc_word a s"
  define p where "p = limit_pos sr"
  define inr where "inr = same_bits p (56 - p) x"
  define r where "r = (if inr then field (p - 23) 24 x OR push_bit 24 1
      else if bit x 55 then 0x800000 else 0x7FFFFF)"
  define sr' where "sr' = (let new_sr = (if inr then sr else sr OR push_bit sr_L 1)
        in if bit x (p - 1) \<noteq> bit x (p - 2) then new_sr OR push_bit sr_S 1 else new_sr)"
  note folds = sr_def [symmetric] x_def [symmetric] p_def [symmetric]
  have p: "p = 46 \<or> p = 47 \<or> p = 48" using limit_pos_cases [of sr] by (auto simp: p_def)
  then have p2: "23 \<le> p" "p \<le> 48" "p \<le> 55" by auto
  have closed: "jit_read_accu24 a s = (r, set_reg reg_SR sr' s)"
    using jit_read_accu24_closed [OF assms] unfolding folds r_def sr'_def inr_def .
  have inr: "inr \<longleftrightarrow> - (2 ^ p) \<le> acc_int x \<and> acc_int x < 2 ^ p"
    unfolding inr_def by (rule acc_int_range [OF p2(3)])
  have pw: "(2 :: int) ^ p = 2 ^ 23 * 2 ^ (p - 23)" using p2 by (metis le_add_diff_inverse power_add)
  have val: "signed_take_bit 23 (uint r) = max (- (2 ^ 23)) (min (2 ^ 23 - 1) (acc_int x div 2 ^ (p - 23)))"
  proof (cases inr)
    case True
    have "bit (w OR push_bit 24 1) n = bit w n" if "n < 24" for w :: u32 and n
      unfolding bit_or_iff bit_push_1 using that by simp
    then have "signed_take_bit 23 (uint r) = acc_int x div 2 ^ (p - 23)"
      using p2 True by (intro signed_field) (simp_all add: inr_def r_def)
    moreover have "- (2 ^ 23) \<le> acc_int x div 2 ^ (p - 23)" "acc_int x div 2 ^ (p - 23) < 2 ^ 23"
      using True unfolding inr pw
      by (simp_all add: int_div_less_iff int_le_div_iff)
    ultimately show ?thesis by simp
  next
    case False
    have c: "signed_take_bit 23 (uint (0x800000 :: u32)) = - (2 ^ 23)"
      "signed_take_bit 23 (uint (0x7FFFFF :: u32)) = 2 ^ 23 - 1" by code_simp+
    show ?thesis
    proof (cases "bit x 55")
      case True
      then have "acc_int x < - (2 ^ 23) * 2 ^ (p - 23)"
        using False acc_int_neg [of x] zero_le_power [of "2::int" p] unfolding inr pw by auto
      then have "acc_int x div 2 ^ (p - 23) < - (2 ^ 23)" by (simp add: int_div_less_iff)
      then show ?thesis using True False c by (simp add: r_def)
    next
      case neg: False
      then have "2 ^ 23 * 2 ^ (p - 23) \<le> acc_int x"
        using False acc_int_neg [of x] zero_le_power [of "2::int" p] unfolding inr pw by auto
      then have "2 ^ 23 \<le> acc_int x div 2 ^ (p - 23)" by (simp add: int_le_div_iff)
      then show ?thesis using neg False c by (simp add: r_def)
    qed
  qed
  have sr': "bit sr' n \<longleftrightarrow> bit sr n \<or> (\<not> inr \<and> n = sr_L) \<or>
      (bit x (p - 1) \<noteq> bit x (p - 2) \<and> n = sr_S)" for n
    unfolding sr'_def Let_def by (auto simp only: bit_or_iff bit_push_1 if_True if_False split: if_splits)
  have "sr' AND NOT (ones 6 2) = sr AND NOT (ones 6 2)"
    by (rule bit_word_eqI) (auto simp: bit_and_iff bit_not_iff bit_ones sr')
  moreover have "(0xC0 :: u32) = ones 6 2" by (simp add: ones_def mask_eq_exp_minus_1)
  ultimately have keep: "sr' AND NOT 0xC0 = sr AND NOT 0xC0" by simp
  have b24: "bit r 24 = inr"
    using p2 by (auto simp: r_def bit_or_iff bit_push_1 bit_field)
  show ?thesis
    unfolding closed folds Let_def prod.case using val sr' keep b24 inr by simp
qed

theorem limited_read_clamps_witness:
  "signed_take_bit 23 (uint (fst (jit_read_accu24 0 (set_reg reg_A2 1 (sr_state 0))))) = 2 ^ 23 - 1"
proof -
  let ?s = "set_reg reg_A2 1 (sr_state 0)"
  have r: "acc_regs 0 ?s = (1, 0, 0)" "registers ?s reg_SR = 0"
    by (simp_all add: acc_regs_def sr_state_def dsp_new_def reset_registers_def upt_rec)
  have "acc_int (pack 1 0 0) = 2 ^ 48" by (simp add: acc_int_def pack_def)
  then have v: "acc_int (acc_word 0 ?s) = 2 ^ 48" by (simp add: acc_word_def r)
  have p: "limit_pos 0 = 47" by (simp add: limit_pos_def both_scaling_def ext_pos_def)
  have "acc_regs_wf 0 ?s" by (simp add: acc_regs_wf_def r)
  from limited_read_clamps [OF this] show ?thesis
    unfolding Let_def r(2) v p by (cases "jit_read_accu24 0 ?s") simp
qed

end
