(* ===== verification/Control.thy ===== *)
theory Control
  imports Dsp_State Decode
begin

text \<open>
  \<^verbatim>\<open>crates/emu/src/core.rs\<close>: the control steps between instructions: the PC update with REP and
  DO loops (\<^verbatim>\<open>advance_pc\<close>) and the interrupt pipeline (\<^verbatim>\<open>process_pending_interrupts\<close>,
  \<^verbatim>\<open>deliver_armed_fault\<close>, \<^verbatim>\<open>deliver_parked_fault\<close>, \<^verbatim>\<open>detect_long_interrupt\<close>).
  A step that decodes returns an option, \<open>None\<close> for a panic of the decoder.
\<close>

section \<open>The program counter\<close>

definition rep_truncate_armed_window :: "'e dsp_state \<Rightarrow> 'e dsp_state" where
  "rep_truncate_armed_window s =
    (if ip_state (interrupts s) = IS_Armed
     then upd_interrupts (\<lambda>ip. ip\<lparr>ip_fault_budget := min (ip_fault_budget ip) 1\<rparr>) s
     else s)"

text \<open>The branch under \<^verbatim>\<open>if self.loop_rep\<close>.\<close>

definition rep_step :: "'e dsp_state \<Rightarrow> 'e dsp_state" where
  "rep_step s =
    (if \<not> pc_on_rep s then
       let s = set_reg reg_LC ((registers s reg_LC - 1) AND REG_MASKS ! reg_LC) s
       in if 0 < registers s reg_LC then s\<lparr>pc_advance := 0\<rparr>
          else
            let s = s\<lparr>loop_rep := False\<rparr>;
                s = set_reg reg_LC (registers s reg_TEMP) s
            in rep_truncate_armed_window s
     else
       let s = (if registers s reg_LC = 0 then
                  let s = s\<lparr>loop_rep := False\<rparr>;
                      s = set_reg reg_LC (registers s reg_TEMP) s;
                      s = s\<lparr>pc_advance := pc_advance s + 1\<rparr>
                  in rep_truncate_armed_window s
                else s)
       in s\<lparr>pc_on_rep := False\<rparr>)"

text \<open>The branch at the end of a DO loop's body.\<close>

definition do_loop_step :: "'e dsp_state \<Rightarrow> 'e dsp_state" where
  "do_loop_step s =
    (let s = set_reg reg_LC ((registers s reg_LC - 1) AND REG_MASKS ! reg_LC) s
     in if registers s reg_LC = 0 \<and> registers s reg_SR AND push_bit sr_FV 1 = 0 then
          let ((_, saved_sr), s) = stack_pop s;
              lf_fv_mask = push_bit sr_LF 1 OR push_bit sr_FV 1;
              s = set_reg reg_SR ((registers s reg_SR AND NOT lf_fv_mask) OR
                    (saved_sr AND lf_fv_mask)) s;
              ((la, lc), s) = stack_pop s;
              s = set_reg reg_LA la s
          in set_reg reg_LC lc s
        else s\<lparr>pc := registers s reg_SSH\<rparr>)"

definition at_loop_end :: "'e dsp_state \<Rightarrow> bool" where
  "at_loop_end s \<longleftrightarrow> registers s reg_SR AND push_bit sr_LF 1 \<noteq> 0 \<and> pc_advance s \<noteq> 0 \<and>
     pc s = mask_pc (registers s reg_LA + 1)"

definition advance_pc :: "'e dsp_state \<Rightarrow> 'e dsp_state" where
  "advance_pc s =
    (let s = check_unimplemented_modes s;
         s = (if loop_rep s then rep_step s else s);
         s = s\<lparr>pc := mask_pc (pc s + pc_advance s)\<rparr>
     in if at_loop_end s then do_loop_step s else s)"

section \<open>Interrupts\<close>

text \<open>The \<^verbatim>\<open>matches!\<close> of \<^verbatim>\<open>detect_long_interrupt\<close>; the group \<open>Bit_bsr\<close> is BSCLR and BSSET.\<close>

definition is_long_instr :: "instruction \<Rightarrow> bool" where
  "is_long_instr i = (case i of
     Branch b \<Rightarrow> (case b of
       Jsr _ \<Rightarrow> True | JsrEa _ \<Rightarrow> True | Jscc _ _ \<Rightarrow> True | JsccEa _ _ \<Rightarrow> True
     | Bsr _ \<Rightarrow> True | BsrLong \<Rightarrow> True | BsrRn _ \<Rightarrow> True
     | Bscc _ _ \<Rightarrow> True | BsccLong _ \<Rightarrow> True | BsccRn _ _ \<Rightarrow> True
     | _ \<Rightarrow> False)
   | Bit_jump b \<Rightarrow> (case b of
       JsclrEa _ _ _ \<Rightarrow> True | JsclrAa _ _ _ \<Rightarrow> True | JsclrPp _ _ _ \<Rightarrow> True
     | JsclrQq _ _ _ \<Rightarrow> True | JsclrReg _ _ \<Rightarrow> True
     | JssetEa _ _ _ \<Rightarrow> True | JssetAa _ _ _ \<Rightarrow> True | JssetPp _ _ _ \<Rightarrow> True
     | JssetQq _ _ _ \<Rightarrow> True | JssetReg _ _ \<Rightarrow> True
     | _ \<Rightarrow> False)
   | Bit_bsr _ \<Rightarrow> True
   | _ \<Rightarrow> False)"

text \<open>The body of the long branch: the frame, the cleared mode bits and the raised level.\<close>

definition enter_long :: "'e dsp_state \<Rightarrow> 'e dsp_state" where
  "enter_long s =
    (let s = upd_interrupts (\<lambda>ip. ip\<lparr>ip_state := IS_Long\<rparr>) s;
         s = stack_push (ip_saved_pc (interrupts s)) (registers s reg_SR) s;
         clear_mask = push_bit sr_LF 1 OR push_bit sr_S1 1 OR push_bit sr_S0 1 OR
           push_bit sr_I0 1 OR push_bit sr_I1 1 OR push_bit sr_SA 1;
         s = set_reg reg_SR (registers s reg_SR AND NOT clear_mask) s
     in set_reg reg_SR
          (registers s reg_SR OR push_bit sr_I0 (ucast (ip_ipl_to_raise (interrupts s)))) s)"

definition detect_long_interrupt :: "u32 \<Rightarrow> 'e dsp_state \<Rightarrow> 'e dsp_state option" where
  "detect_long_interrupt instr s =
    Option.bind (decode instr) (\<lambda>i.
      let is_long = is_long_instr i
      in Some (if is_long \<and> ip_state (interrupts s) \<noteq> IS_Long then enter_long s else s))"

definition deliver_armed_fault ::
  "'e dsp_state memory_map \<Rightarrow> 'e dsp_state \<Rightarrow> 'e dsp_state option" where
  "deliver_armed_fault M s =
    (let s = upd_interrupts (\<lambda>ip. ip\<lparr>ip_saved_pc := pc s\<rparr>) s;
         s = s\<lparr>pc := ip_vector_addr (interrupts s)\<rparr>;
         s = upd_interrupts (\<lambda>ip. ip\<lparr>ip_state := IS_Fast, ip_fault_budget := INVALID_FAULT_BUDGET\<rparr>) s;
         (instr, s) = read_memory M Space_P (pc s) s
     in map_option (upd_interrupts (\<lambda>ip. ip\<lparr>ip_pipeline_stage := 3\<rparr>))
          (detect_long_interrupt instr s))"

definition deliver_parked_fault ::
  "'e dsp_state memory_map \<Rightarrow> 'e dsp_state \<Rightarrow> 'e dsp_state option" where
  "deliver_parked_fault M s =
    (case find (\<lambda>i. pending (interrupts s) i \<and> ip_ipl (interrupts s) i = 3) [0..<INT_COUNT] of
       None \<Rightarrow> Some (upd_interrupts (\<lambda>ip. ip\<lparr>ip_state := IS_None\<rparr>) s)
     | Some idx \<Rightarrow>
         let s = upd_interrupts (clear_pending idx) s;
             vba = registers s reg_VBA AND 0xFFFF00;
             s = upd_interrupts (\<lambda>ip. ip\<lparr>ip_vector_addr := vba OR ucast (int_vector_addr idx),
                   ip_ipl_to_raise := 3\<rparr>) s
         in deliver_armed_fault M s)"

text \<open>
  The \<^verbatim>\<open>match\<close> on the stage while a fast interrupt is in flight; the flag tells whether the arm
  returns from the whole step.
\<close>

definition next_stage :: "'e dsp_state \<Rightarrow> 'e dsp_state" where
  "next_stage s = upd_interrupts (\<lambda>ip. ip\<lparr>ip_pipeline_stage := ip_pipeline_stage ip - 1\<rparr>) s"

definition fast_pipeline ::
  "'e dsp_state memory_map \<Rightarrow> 'e dsp_state \<Rightarrow> (bool \<times> 'e dsp_state) option" where
  "fast_pipeline M s =
    switch (ip_pipeline_stage (interrupts s))
      [(5, Some (True, next_stage s)),
       (4, let s = upd_interrupts (\<lambda>ip. ip\<lparr>ip_saved_pc := pc s\<rparr>) s;
               s = s\<lparr>pc := ip_vector_addr (interrupts s)\<rparr>;
               (instr, s) = read_memory M Space_P (pc s) s
           in map_option (\<lambda>s. (True, next_stage s)) (detect_long_interrupt instr s)),
       (3, map_option (\<lambda>s. (True, next_stage s))
             (if pc s = mask_pc (ip_vector_addr (interrupts s) + 1) then
                let (instr, s) = read_memory M Space_P (pc s) s in detect_long_interrupt instr s
              else Some s)),
       (2, let s = (if ip_state (interrupts s) \<noteq> IS_Long \<and>
                       pc s = mask_pc (ip_vector_addr (interrupts s) + 2)
                    then s\<lparr>pc := ip_saved_pc (interrupts s)\<rparr> else s)
           in Some (True, next_stage s)),
       (1, Some (True, next_stage s)),
       (0, let s = upd_interrupts (\<lambda>ip. ip\<lparr>ip_saved_pc := 0xFFFF, ip_vector_addr := 0xFFFF\<rparr>) s
           in if pending (interrupts s) INT_ILLEGAL \<or> pending (interrupts s) INT_STACK_ERROR \<or>
                 pending (interrupts s) INT_TRAP
              then Some (True, upd_interrupts (\<lambda>ip. ip\<lparr>ip_state := IS_Parked,
                     ip_parked_countdown := 3, ip_parked_sp_write := False\<rparr>) s)
              else Some (False, upd_interrupts (\<lambda>ip. ip\<lparr>ip_state := IS_None\<rparr>) s))]
      (Some (True, s))"

text \<open>The tick of a parked fault.\<close>

definition parked_tick :: "'e dsp_state memory_map \<Rightarrow> 'e dsp_state \<Rightarrow> 'e dsp_state option" where
  "parked_tick M s =
    (let s = (if 0 < ip_parked_countdown (interrupts s)
              then upd_interrupts (\<lambda>ip. ip\<lparr>ip_parked_countdown := ip_parked_countdown ip - 1\<rparr>) s
              else s);
         s = (if ip_parked_sp_write (interrupts s)
              then upd_interrupts (\<lambda>ip. ip\<lparr>ip_parked_sp_write := False,
                     ip_parked_countdown := max (ip_parked_countdown ip) 3\<rparr>) s
              else s)
     in if ip_parked_countdown (interrupts s) = 0 then deliver_parked_fault M s else Some s)"

text \<open>The dispatch of the source arbitration picked.\<close>

definition dispatch_interrupt :: "nat \<Rightarrow> 'e dsp_state \<Rightarrow> 'e dsp_state" where
  "dispatch_interrupt idx s =
    (let s = upd_interrupts (clear_pending idx) s;
         new_ipl = min (ip_ipl (interrupts s) idx + 1) 3;
         vba = registers s reg_VBA AND 0xFFFF00;
         s = upd_interrupts (\<lambda>ip. ip\<lparr>ip_vector_addr := vba OR ucast (int_vector_addr idx),
               ip_ipl_to_raise := word_of_int new_ipl\<rparr>) s
     in if (idx = INT_STACK_ERROR \<or> idx = INT_ILLEGAL \<or> idx = INT_TRAP) \<and>
           ip_fault_budget (interrupts s) \<noteq> INVALID_FAULT_BUDGET
        then upd_interrupts (\<lambda>ip. ip\<lparr>ip_state := IS_Armed\<rparr>) s
        else upd_interrupts (\<lambda>ip. ip\<lparr>ip_pipeline_stage := 5, ip_state := IS_Fast\<rparr>) s)"

definition sr_level :: "'e dsp_state \<Rightarrow> int" where
  "sr_level s = uint (drop_bit sr_I0 (registers s reg_SR) AND 0x3)"

definition process_pending_interrupts ::
  "'e dsp_state memory_map \<Rightarrow> 'e dsp_state \<Rightarrow> 'e dsp_state option" where
  "process_pending_interrupts M s =
    (if loop_rep s then Some s
     else
       Option.bind
         (if ip_state (interrupts s) = IS_Fast then fast_pipeline M s else Some (False, s))
         (\<lambda>(done, s).
           if done then Some s
           else if ip_state (interrupts s) = IS_Parked then parked_tick M s
           else if ip_state (interrupts s) = IS_Armed then Some s
           else if \<not> has_pending (interrupts s) then Some s
           else (case arbitrate (interrupts s) (sr_level s) of
                   None \<Rightarrow> Some s
                 | Some idx \<Rightarrow> Some (dispatch_interrupt idx s))))"

end
