(* ===== verification/Stack_Laws.thy ===== *)
theory Stack_Laws
  imports Dsp_State
begin

text \<open>
  The hardware stack of \<^verbatim>\<open>Dsp_State\<close> as a list: below the capacity of fifteen entries it is
  last-in first-out, a sixteenth push and a pop of nothing raise a stack error exactly once, and
  the error bits stay.
\<close>

section \<open>The abstract stack\<close>

definition depth :: "'e dsp_state \<Rightarrow> nat" where
  "depth s = unat (registers s reg_SP AND 0xF)"

definition se_flag :: "'e dsp_state \<Rightarrow> bool" where
  "se_flag s = bit (registers s reg_SP) 4"

definition uf_flag :: "'e dsp_state \<Rightarrow> bool" where
  "uf_flag s = bit (registers s reg_SP) 5"

text \<open>The entries in use, the top first; slot 0 is the entry of the empty stack.\<close>

definition stack_items :: "'e dsp_state \<Rightarrow> (u32 \<times> u32) list" where
  "stack_items s = map (\<lambda>i. (stack s 0 i, stack s 1 i)) (rev [1..<Suc (depth s)])"

text \<open>The registers SSH and SSL show the slot SP points at, and SP has six bits.\<close>

definition stack_wf :: "'e dsp_state \<Rightarrow> bool" where
  "stack_wf s \<longleftrightarrow> registers s reg_SP AND 0x3F = registers s reg_SP \<and>
     registers s reg_SSH = stack s 0 (depth s) \<and> registers s reg_SSL = stack s 1 (depth s)"

section \<open>The stack pointer\<close>

definition sp_up :: "u32 \<Rightarrow> u32" where
  "sp_up sp = (sp AND push_bit 5 1 OR sp AND push_bit 4 1 OR ((sp AND 0xF) + 1)) AND 0x3F"

definition sp_down :: "u32 \<Rightarrow> u32" where
  "sp_down sp = (sp AND push_bit 5 1 OR sp AND push_bit 4 1 OR ((sp AND 0xF) - 1)) AND 0x3F"

definition sp_up_ok :: "u32 \<Rightarrow> bool" where
  "sp_up_ok sp \<longleftrightarrow>
     unat (sp_up sp AND 0xF) = (unat (sp AND 0xF) + 1) mod 16 \<and>
     unat (((sp AND 0xF) + 1) AND 0xF) = (unat (sp AND 0xF) + 1) mod 16 \<and>
     (bit (sp_up sp) 4 \<longleftrightarrow> bit sp 4 \<or> unat (sp AND 0xF) = 15) \<and>
     (bit (sp_up sp) 5 \<longleftrightarrow> bit sp 5) \<and> (sp AND 0xF) + 1 \<noteq> 0 \<and>
     (((sp AND 0xF) + 1) AND push_bit 4 1 \<noteq> 0 \<longleftrightarrow> unat (sp AND 0xF) = 15)"

definition sp_down_ok :: "u32 \<Rightarrow> bool" where
  "sp_down_ok sp \<longleftrightarrow>
     unat (sp_down sp AND 0xF) = (unat (sp AND 0xF) + 15) mod 16 \<and>
     unat (((sp AND 0xF) - 1) AND 0xF) = (unat (sp AND 0xF) + 15) mod 16 \<and>
     (bit (sp_down sp) 4 \<longleftrightarrow> bit sp 4 \<or> unat (sp AND 0xF) = 0) \<and>
     (bit (sp_down sp) 5 \<longleftrightarrow> bit sp 5 \<or> unat (sp AND 0xF) = 0) \<and>
     (((sp AND 0xF) - 1) AND push_bit 4 1 \<noteq> 0 \<longleftrightarrow> unat (sp AND 0xF) = 0)"

text \<open>A six-bit pointer is one of sixty-four, so its laws are one evaluation.\<close>

lemma sp_ok_all: "list_all (\<lambda>n. sp_up_ok (word_of_nat n) \<and> sp_down_ok (word_of_nat n)) [0..<64]"
  by code_simp

lemma sp_ok:
  assumes "sp AND 0x3F = sp"
  shows "sp_up_ok sp" and "sp_down_ok sp"
proof -
  have "unat sp < 64"
    using and_mask_le [of sp 6] assms by (simp add: mask_eq_exp_minus_1)
  then have "sp \<in> word_of_nat ` set [0..<64]"
    using word_in_image [of sp 64] by (auto simp: lessThan_atLeast0)
  then show "sp_up_ok sp" "sp_down_ok sp" using sp_ok_all by (auto simp: list_all_iff)
qed

section \<open>The operations in closed form\<close>

lemmas state_upd_defs = set_reg_def set_stack_def post_stack_error_def upd_interrupts_def

lemma depth_le: "depth s \<le> 15"
  using and_mask_le [of "registers s reg_SP" 4] by (simp add: depth_def mask_eq_exp_minus_1)

lemma ssh_masks: "REG_MASKS ! reg_SSH = 0xFFFFFF" "REG_MASKS ! reg_SSL = 0xFFFFFF" by simp_all

text \<open>What a push does to the slot it moves to, and to the interrupts.\<close>

definition fault_at :: "bool \<Rightarrow> 'e dsp_state \<Rightarrow> 'e dsp_state" where
  "fault_at b s = (if \<not> se_flag s \<and> b then post_stack_error s else s)"

lemma fault_at_frame [simp]:
  "registers (fault_at b s) = registers s" "stack (fault_at b s) = stack s"
  "pc (fault_at b s) = pc s" "depth (fault_at b s) = depth s"
  by (simp_all add: fault_at_def post_stack_error_def depth_def)

lemma se_test: "(registers s reg_SP AND push_bit 4 1 = 0) = (\<not> se_flag s)"
  using bit_test_code [of "registers s reg_SP" 4] unfolding se_flag_def by blast

lemma sp_up_facts:
  assumes "stack_wf s"
  shows "(registers s reg_SP AND 0xF) + 1 \<noteq> 0"
    and "(((registers s reg_SP AND 0xF) + 1) AND push_bit 4 1 \<noteq> 0) = (depth s = 15)"
    and "unat (((registers s reg_SP AND 0xF) + 1) AND 0xF) = (depth s + 1) mod 16"
  using sp_ok(1) [of "registers s reg_SP"] assms
  unfolding sp_up_ok_def stack_wf_def depth_def by blast+

lemma sp_down_facts:
  assumes "stack_wf s"
  shows "(((registers s reg_SP AND 0xF) - 1) AND push_bit 4 1 \<noteq> 0) = (depth s = 0)"
    and "unat (((registers s reg_SP AND 0xF) - 1) AND 0xF) = (depth s + 15) mod 16"
  using sp_ok(2) [of "registers s reg_SP"] assms
  unfolding sp_down_ok_def stack_wf_def depth_def by blast+

lemma stack_push_closed:
  assumes "stack_wf s"
  shows "stack_push a b s = (fault_at (depth s = 15) s)
    \<lparr>registers := (registers s)(reg_SP := sp_up (registers s reg_SP),
        reg_SC := (registers s reg_SC + 1) AND 0x1F,
        reg_SSH := a AND 0xFFFFFF, reg_SSL := b AND 0xFFFFFF),
     stack := (stack s)
       (0 := (stack s 0)((depth s + 1) mod 16 := a AND 0xFFFFFF),
        1 := (stack s 1)((depth s + 1) mod 16 := b AND 0xFFFFFF))\<rparr>"
  unfolding stack_push_def Let_def sp_up_facts [OF assms] se_test fault_at_def [symmetric]
    sp_up_def [symmetric]
  using sp_up_facts(1) [OF assms] by (simp add: set_reg_def set_stack_def)

lemma stack_pop_closed:
  assumes "stack_wf s"
  shows "stack_pop s = ((stack s 0 (depth s), stack s 1 (depth s)), (fault_at (depth s = 0) s)
    \<lparr>registers := (registers s)(reg_SP := sp_down (registers s reg_SP),
        reg_SC := (registers s reg_SC - 1) AND 0x1F,
        reg_SSH := stack s 0 ((depth s + 15) mod 16),
        reg_SSL := stack s 1 ((depth s + 15) mod 16))\<rparr>)"
  unfolding stack_pop_def Let_def sp_down_facts [OF assms] se_test fault_at_def [symmetric]
    sp_down_def [symmetric]
  using assms by (simp add: set_reg_def stack_wf_def)

lemma jit_write_ssh_closed:
  assumes "stack_wf s"
  shows "jit_write_ssh a s = (fault_at (depth s = 15) s)
    \<lparr>registers := (registers s)(reg_SP := sp_up (registers s reg_SP),
        reg_SC := (registers s reg_SC + 1) AND 0x1F,
        reg_SSH := a AND 0xFFFFFF, reg_SSL := stack s 1 ((depth s + 1) mod 16)),
     stack := (stack s)(0 := (stack s 0)((depth s + 1) mod 16 := a AND 0xFFFFFF))\<rparr>"
  unfolding jit_write_ssh_def Let_def sp_up_facts [OF assms] se_test fault_at_def [symmetric]
    sp_up_def [symmetric]
  using sp_up_facts(1) [OF assms] by (simp add: set_reg_def set_stack_def)

text \<open>A write of SSH is a push that keeps whatever the slot holds in its low half.\<close>

lemma jit_write_ssh_push:
  assumes "stack_wf s" "stack s 1 ((depth s + 1) mod 16) AND 0xFFFFFF = stack s 1 ((depth s + 1) mod 16)"
  shows "jit_write_ssh a s = stack_push a (stack s 1 ((depth s + 1) mod 16)) s"
  using assms by (simp add: jit_write_ssh_closed stack_push_closed fun_upd_idem)

section \<open>Depth, flags and items\<close>

lemma depth_push: "stack_wf s \<Longrightarrow> depth (stack_push a b s) = (depth s + 1) mod 16"
  using sp_ok(1) [of "registers s reg_SP"]
  by (simp add: stack_push_closed stack_wf_def depth_def sp_up_ok_def)

lemma depth_pop: "stack_wf s \<Longrightarrow> depth (snd (stack_pop s)) = (depth s + 15) mod 16"
  using sp_ok(2) [of "registers s reg_SP"]
  by (simp add: stack_pop_closed stack_wf_def depth_def sp_down_ok_def)

lemma flags_push:
  assumes "stack_wf s"
  shows "se_flag (stack_push a b s) \<longleftrightarrow> se_flag s \<or> depth s = 15"
    and "uf_flag (stack_push a b s) \<longleftrightarrow> uf_flag s"
  using sp_ok(1) [of "registers s reg_SP"] assms
  by (simp_all add: stack_push_closed, simp_all add: stack_wf_def depth_def sp_up_ok_def se_flag_def uf_flag_def)

lemma flags_pop:
  assumes "stack_wf s"
  shows "se_flag (snd (stack_pop s)) \<longleftrightarrow> se_flag s \<or> depth s = 0"
    and "uf_flag (snd (stack_pop s)) \<longleftrightarrow> uf_flag s \<or> depth s = 0"
  using sp_ok(2) [of "registers s reg_SP"] assms
  by (simp_all add: stack_pop_closed, simp_all add: stack_wf_def depth_def sp_down_ok_def se_flag_def uf_flag_def)

lemma sp_six_bits [simp]: "sp_up sp AND 0x3F = sp_up sp" "sp_down sp AND 0x3F = sp_down sp"
  by (simp_all add: sp_up_def sp_down_def and.assoc)

lemma stack_wf_push: "stack_wf s \<Longrightarrow> stack_wf (stack_push a b s)"
  unfolding stack_wf_def [of "stack_push a b s"] depth_push by (simp add: stack_push_closed)

lemma stack_wf_pop: "stack_wf s \<Longrightarrow> stack_wf (snd (stack_pop s))"
  unfolding stack_wf_def [of "snd (stack_pop s)"] depth_pop by (simp add: stack_pop_closed)

lemma stack_items_push:
  assumes "stack_wf s" "depth s < 15"
  shows "stack_items (stack_push a b s) = (a AND 0xFFFFFF, b AND 0xFFFFFF) # stack_items s"
  using assms unfolding stack_items_def depth_push [OF assms(1)]
  by (simp add: stack_push_closed)

lemma stack_items_pop:
  assumes "stack_wf s" "0 < depth s"
  shows "stack_items s = fst (stack_pop s) # stack_items (snd (stack_pop s))"
proof -
  obtain d where d: "depth s = Suc d" using assms(2) by (cases "depth s") auto
  then have "(depth s + 15) mod 16 = d" using depth_le [of s] by simp
  then show ?thesis
    using assms(1) d unfolding stack_items_def depth_pop [OF assms(1)]
    by (simp add: stack_pop_closed)
qed

lemma length_stack_items [simp]: "length (stack_items s) = depth s"
  by (simp add: stack_items_def)

section \<open>The interface of a bounded stack\<close>

text \<open>Popping \<open>n\<close> entries, the values in the order they come off.\<close>

fun pops :: "('s \<Rightarrow> 'v \<times> 's) \<Rightarrow> nat \<Rightarrow> 's \<Rightarrow> 'v list \<times> 's" where
  "pops pop 0 s = ([], s)"
| "pops pop (Suc n) s = (let (v, s) = pop s; (vs, s) = pops pop n s in (v # vs, s))"

text \<open>
  What subroutine calls and loops rely on: within the capacity the store is last-in first-out and
  leaves the quiet part of the state alone. \<open>norm\<close> is the width a slot keeps.
\<close>

locale bounded_stack =
  fixes ok :: "'s \<Rightarrow> bool"
    and items :: "'s \<Rightarrow> 'v list"
    and cap :: nat
    and norm :: "'v \<Rightarrow> 'v"
    and push :: "'v \<Rightarrow> 's \<Rightarrow> 's"
    and pop :: "'s \<Rightarrow> 'v \<times> 's"
    and quiet :: "'s \<Rightarrow> 'q"
  assumes ok_push: "ok s \<Longrightarrow> ok (push v s)"
    and ok_pop: "ok s \<Longrightarrow> ok (snd (pop s))"
    and items_push: "ok s \<Longrightarrow> length (items s) < cap \<Longrightarrow> items (push v s) = norm v # items s"
    and items_pop: "ok s \<Longrightarrow> items s \<noteq> [] \<Longrightarrow> items s = fst (pop s) # items (snd (pop s))"
    and quiet_push: "ok s \<Longrightarrow> length (items s) < cap \<Longrightarrow> quiet (push v s) = quiet s"
    and quiet_pop: "ok s \<Longrightarrow> items s \<noteq> [] \<Longrightarrow> quiet (snd (pop s)) = quiet s"
begin

lemma pushes:
  assumes "ok s" and "length (items s) + length vs \<le> cap"
  shows "ok (fold push vs s) \<and> items (fold push vs s) = rev (map norm vs) @ items s \<and>
    quiet (fold push vs s) = quiet s"
  using assms by (induction vs arbitrary: s) (simp_all add: ok_push items_push quiet_push)

lemma pops:
  assumes "ok s" and "n \<le> length (items s)"
  shows "ok (snd (pops pop n s)) \<and> fst (pops pop n s) = take n (items s) \<and>
    items (snd (pops pop n s)) = drop n (items s) \<and> quiet (snd (pops pop n s)) = quiet s"
  using assms
proof (induction n arbitrary: s)
  case (Suc n)
  then have "items s \<noteq> []" by auto
  with Suc.prems(1) have c: "items s = fst (pop s) # items (snd (pop s))" "ok (snd (pop s))"
    "quiet (snd (pop s)) = quiet s"
    using items_pop ok_pop quiet_pop by blast+
  with Suc.prems(2) have "n \<le> length (items (snd (pop s)))" by (metis Suc_le_mono length_Cons)
  from Suc.IH [OF c(2) this] c show ?case
    by (simp add: Let_def split: prod.split) (metis drop_Suc_Cons fst_conv snd_conv take_Suc_Cons)
qed simp

text \<open>Entries come back in reverse order and what was below them is untouched.\<close>

lemma pops_pushes:
  assumes "ok s" and "length (items s) + length vs \<le> cap"
  shows "fst (pops pop (length vs) (fold push vs s)) = rev (map norm vs) \<and>
    items (snd (pops pop (length vs) (fold push vs s))) = items s \<and>
    quiet (snd (pops pop (length vs) (fold push vs s))) = quiet s"
  using pushes [OF assms] pops [of "fold push vs s" "length vs"] by simp

end

definition mask_pair :: "u32 \<times> u32 \<Rightarrow> u32 \<times> u32" where
  "mask_pair v = (fst v AND 0xFFFFFF, snd v AND 0xFFFFFF)"

lemma interrupts_fault_at [simp]: "\<not> b \<Longrightarrow> fault_at b s = s"
  by (simp add: fault_at_def)

lemma interrupts_push: "stack_wf s \<Longrightarrow> interrupts (stack_push a b s) = interrupts (fault_at (depth s = 15) s)"
  and pc_push: "stack_wf s \<Longrightarrow> pc (stack_push a b s) = pc s"
  by (simp_all add: stack_push_closed)

lemma interrupts_pop: "stack_wf s \<Longrightarrow> interrupts (snd (stack_pop s)) = interrupts (fault_at (depth s = 0) s)"
  and pc_pop: "stack_wf s \<Longrightarrow> pc (snd (stack_pop s)) = pc s"
  by (simp_all add: stack_pop_closed)

lemmas hw_frame = interrupts_push pc_push interrupts_pop pc_pop flags_push flags_pop

interpretation hw: bounded_stack stack_wf stack_items 15 mask_pair "\<lambda>(a, b). stack_push a b"
  stack_pop "\<lambda>s. (interrupts s, se_flag s, pc s)"
proof unfold_locales
  fix s :: "'e dsp_state" and v :: "u32 \<times> u32"
  assume s: "stack_wf s"
  show "stack_wf ((case v of (a, b) \<Rightarrow> stack_push a b) s)" "stack_wf (snd (stack_pop s))"
    using s by (simp_all add: stack_wf_push stack_wf_pop split: prod.split)
  show "stack_items s = fst (stack_pop s) # stack_items (snd (stack_pop s))" if "stack_items s \<noteq> []"
    using stack_items_pop [OF s] that by (simp add: length_greater_0_conv [symmetric] del: length_greater_0_conv)
  show "(interrupts (snd (stack_pop s)), se_flag (snd (stack_pop s)), pc (snd (stack_pop s))) =
      (interrupts s, se_flag s, pc s)" if "stack_items s \<noteq> []"
    using that s by (simp add: length_greater_0_conv [symmetric] hw_frame
        del: length_greater_0_conv)
  assume "length (stack_items s) < 15"
  then show "stack_items ((case v of (a, b) \<Rightarrow> stack_push a b) s) = mask_pair v # stack_items s"
    "(interrupts ((case v of (a, b) \<Rightarrow> stack_push a b) s),
      se_flag ((case v of (a, b) \<Rightarrow> stack_push a b) s), pc ((case v of (a, b) \<Rightarrow> stack_push a b) s)) =
     (interrupts s, se_flag s, pc s)"
    using s by (simp_all add: stack_items_push mask_pair_def hw_frame
        split: prod.split)
qed

section \<open>Runs of pushes and pops\<close>

datatype stack_op = Op_push u32 u32 | Op_pop

fun run_op :: "stack_op \<Rightarrow> 'e dsp_state \<Rightarrow> 'e dsp_state" where
  "run_op (Op_push a b) s = stack_push a b s"
| "run_op Op_pop s = snd (stack_pop s)"

text \<open>The run never pushes a sixteenth entry and never pops an empty stack.\<close>

fun within :: "nat \<Rightarrow> stack_op list \<Rightarrow> bool" where
  "within d [] = True"
| "within d (Op_push a b # ops) = (d < 15 \<and> within (Suc d) ops)"
| "within d (Op_pop # ops) = (0 < d \<and> within (d - 1) ops)"

lemma run_op_wf: "stack_wf s \<Longrightarrow> stack_wf (run_op x s)"
  by (cases x) (simp_all add: stack_wf_push stack_wf_pop)

lemma run_op_sticky: "stack_wf s \<Longrightarrow> se_flag s \<Longrightarrow>
    se_flag (run_op x s) \<and> interrupts (run_op x s) = interrupts s"
  by (cases x) (simp_all add: hw_frame fault_at_def)

lemma run_ops_sticky: "stack_wf s \<Longrightarrow> se_flag s \<Longrightarrow>
    se_flag (fold run_op ops s) \<and> interrupts (fold run_op ops s) = interrupts s"
  by (induction ops arbitrary: s) (simp_all add: run_op_wf run_op_sticky)

definition op_fits :: "nat \<Rightarrow> stack_op \<Rightarrow> bool" where
  "op_fits d x = within d [x]"

definition op_depth :: "nat \<Rightarrow> stack_op \<Rightarrow> nat" where
  "op_depth d x = (case x of Op_push _ _ \<Rightarrow> Suc d | Op_pop \<Rightarrow> d - 1)"

lemma within_Cons: "within d (x # ops) \<longleftrightarrow> op_fits d x \<and> within (op_depth d x) ops"
  by (cases x) (simp_all add: op_fits_def op_depth_def)

lemma run_op_step:
  assumes "stack_wf s" "\<not> se_flag s"
  shows "if op_fits (depth s) x
    then depth (run_op x s) = op_depth (depth s) x \<and> \<not> se_flag (run_op x s) \<and>
      interrupts (run_op x s) = interrupts s
    else se_flag (run_op x s) \<and> interrupts (run_op x s) =
      (ip_add INT_STACK_ERROR (interrupts s))\<lparr>ip_fault_budget := fault_budget_hint s\<rparr>"
proof (cases x)
  case (Op_push a b)
  then show ?thesis
    using assms depth_le [of s] by (simp add: op_fits_def op_depth_def depth_push hw_frame
        fault_at_def post_stack_error_def)
next
  case Op_pop
  have "(depth s + 15) mod 16 = depth s - 1" if "0 < depth s"
    using depth_le [of s] that by (simp add: mod_if)
  then show ?thesis
    using Op_pop assms by (simp add: op_fits_def op_depth_def depth_pop hw_frame
        fault_at_def post_stack_error_def)
qed

section \<open>Properties\<close>

text \<open>
  C16. The hardware stack is last-in first-out: while at most fifteen entries are in use, entries
  pushed come back in reverse order cut to 24 bits, the entries below them are untouched, and
  neither the interrupts nor the stack-error bit nor the PC change.
\<close>

theorem stack_lifo:
  assumes "stack_wf s" and "depth s + length vs \<le> 15"
  shows "fst (pops stack_pop (length vs) (fold (\<lambda>(a, b). stack_push a b) vs s)) =
      rev (map (\<lambda>(a, b). (a AND 0xFFFFFF, b AND 0xFFFFFF)) vs)
    \<and> (let s' = snd (pops stack_pop (length vs) (fold (\<lambda>(a, b). stack_push a b) vs s))
       in stack_items s' = stack_items s \<and> interrupts s' = interrupts s \<and> se_flag s' = se_flag s
          \<and> pc s' = pc s)"
proof -
  have "map mask_pair vs = map (\<lambda>(a, b). (a AND 0xFFFFFF, b AND 0xFFFFFF)) vs"
    by (simp add: mask_pair_def case_prod_unfold)
  then show ?thesis
    using hw.pops_pushes [of s vs] assms by (simp add: Let_def)
qed

definition blank_state :: "unit dsp_state" where
  "blank_state = dsp_new (test_map 0 16 1 16 2 16) (\<lambda>_ _. 0) ()"

lemma blank_state_stack: "stack_wf blank_state" "depth blank_state = 0" "\<not> se_flag blank_state"
  by (simp_all add: stack_wf_def depth_def se_flag_def blank_state_def dsp_new_def
      reset_registers_def upt_rec)

theorem stack_lifo_witness:
  "fst (pops stack_pop 2 (fold (\<lambda>(a, b). stack_push a b) [(1, 2), (0x1000003, 4)] blank_state)) =
    [(3, 4), (1, 2)]"
  using stack_lifo [OF blank_state_stack(1), of "[(1, 2), (0x1000003, 4)]"]
  by (simp add: blank_state_stack numeral_2_eq_2)

text \<open>
  C17. A stack error is raised exactly when it must be: after any run of pushes and pops, the error
  bit is set if and only if it was set before or some push found fifteen entries or some pop found
  none; in that case, and if the source is enabled, the stack-error interrupt is requested, once:
  with the error bit already set no further request is posted.
\<close>

theorem stack_error_exact:
  assumes "stack_wf s"
  shows "(se_flag (fold run_op ops s) \<longleftrightarrow> se_flag s \<or> \<not> within (depth s) ops) \<and>
    (if se_flag s \<or> within (depth s) ops then interrupts (fold run_op ops s) = interrupts s
     else \<exists>budget. interrupts (fold run_op ops s) =
       (ip_add INT_STACK_ERROR (interrupts s))\<lparr>ip_fault_budget := budget\<rparr>)"
  using assms
proof (induction ops arbitrary: s)
  case (Cons x ops)
  show ?case
  proof (cases "se_flag s")
    case True
    then show ?thesis using run_ops_sticky [OF Cons.prems, of "x # ops"] by simp
  next
    case False
    note step = run_op_step [OF Cons.prems False, of x]
    note wf = run_op_wf [OF Cons.prems, of x]
    show ?thesis
    proof (cases "op_fits (depth s) x")
      case True
      then show ?thesis using step Cons.IH [OF wf] False by (auto simp: within_Cons)
    next
      case False
      then have "se_flag (run_op x s)" using step by simp
      from run_ops_sticky [OF wf this, of ops] show ?thesis
        using step False \<open>\<not> se_flag s\<close> by (auto simp: within_Cons)
    qed
  qed
qed simp

theorem stack_error_exact_witness:
  "se_flag (fold run_op [Op_push 1 2, Op_pop, Op_pop] blank_state) \<and>
   \<not> se_flag (fold run_op [Op_push 1 2, Op_pop] blank_state)"
  using stack_error_exact [OF blank_state_stack(1), of "[Op_push 1 2, Op_pop, Op_pop]"]
    stack_error_exact [OF blank_state_stack(1), of "[Op_push 1 2, Op_pop]"]
  by (simp add: blank_state_stack)

end
