(* ===== verification/Loop_Laws.thy ===== *)
theory Loop_Laws
  imports Control Stack_Laws
begin

text \<open>
  The hardware loops: a REP runs its instruction as often as LC says and restores LC, a DO loop
  runs its body as often as LC says, then restores the enclosing loop from the stack.
\<close>

section \<open>The bookkeeping steps\<close>

lemma check_unimplemented_frame [simp]:
  "registers (check_unimplemented_modes s) = registers s" "stack (check_unimplemented_modes s) = stack s"
  "pc (check_unimplemented_modes s) = pc s" "pc_advance (check_unimplemented_modes s) = pc_advance s"
  "loop_rep (check_unimplemented_modes s) = loop_rep s" "pc_on_rep (check_unimplemented_modes s) = pc_on_rep s"
  "interrupts (check_unimplemented_modes s) = interrupts s"
  "fault_budget_hint (check_unimplemented_modes s) = fault_budget_hint s"
  by (simp_all add: check_unimplemented_modes_def check_unimplemented_modes_slow_def Let_def)

lemma rep_truncate_frame [simp]:
  "registers (rep_truncate_armed_window s) = registers s" "stack (rep_truncate_armed_window s) = stack s"
  "pc (rep_truncate_armed_window s) = pc s" "pc_advance (rep_truncate_armed_window s) = pc_advance s"
  "loop_rep (rep_truncate_armed_window s) = loop_rep s" "pc_on_rep (rep_truncate_armed_window s) = pc_on_rep s"
  by (simp_all add: rep_truncate_armed_window_def upd_interrupts_def)

lemma set_reg_frame [simp]:
  "pc (set_reg r v s) = pc s" "pc_advance (set_reg r v s) = pc_advance s" "stack (set_reg r v s) = stack s"
  "loop_rep (set_reg r v s) = loop_rep s" "pc_on_rep (set_reg r v s) = pc_on_rep s"
  "interrupts (set_reg r v s) = interrupts s"
  by (simp_all add: set_reg_def)

lemma LF_test: "(registers s reg_SR AND push_bit sr_LF 1 \<noteq> 0) = bit (registers s reg_SR) sr_LF"
  by (rule bit_test_code)

lemma at_loop_end_iff: "at_loop_end s \<longleftrightarrow> bit (registers s reg_SR) sr_LF \<and> pc_advance s \<noteq> 0 \<and>
    pc s = mask_pc (registers s reg_LA + 1)"
  unfolding at_loop_end_def LF_test ..

lemma rep_step_SR [simp]: "registers (rep_step s) reg_SR = registers s reg_SR"
  by (simp add: rep_step_def Let_def)

text \<open>Outside a DO loop the PC advance is REP's.\<close>

lemma advance_pc_no_loop:
  assumes "\<not> bit (registers s reg_SR) sr_LF"
  shows "advance_pc s = (let s = check_unimplemented_modes s; s = (if loop_rep s then rep_step s else s)
    in s\<lparr>pc := mask_pc (pc s + pc_advance s)\<rparr>)"
  using assms by (simp add: advance_pc_def Let_def at_loop_end_iff)

lemma dec_24: "(w - 1) AND 0xFFFFFF = w - 1" if "w AND 0xFFFFFF = w" "w \<noteq> 0" for w :: u32
proof -
  have "unat w < 2 ^ 24" using that(1) and_mask_le [of w 24] by (simp add: mask_eq_exp_minus_1)
  moreover have "unat (w - 1) = unat w - 1" using that(2) by (simp add: unat_minus_one)
  ultimately have "unat (w - 1) < 2 ^ 24" by simp
  then have "unat ((w - 1) AND mask 24) = unat (w - 1)" by (simp add: unat_and_mask)
  then show ?thesis by (simp add: mask_eq_exp_minus_1 word_unat_eq_iff)
qed

lemma mask_pc_add: "mask_pc (mask_pc x + y) = mask_pc (x + y)"
  by (simp only: mask_pc_mask mask_eqs)

section \<open>REP\<close>

text \<open>
  One execution of the repeated instruction: its effect on the rest of the state, then the PC
  advance of a one-word instruction.
\<close>

definition rep_body :: "('e dsp_state \<Rightarrow> 'e dsp_state) \<Rightarrow> 'e dsp_state \<Rightarrow> 'e dsp_state" where
  "rep_body body s = advance_pc ((body s)\<lparr>pc_advance := 1\<rparr>)"

text \<open>What the repeated instruction leaves alone: the loop state and the PC.\<close>

definition keeps_rep :: "('e dsp_state \<Rightarrow> 'e dsp_state) \<Rightarrow> bool" where
  "keeps_rep body \<longleftrightarrow> (\<forall>s. pc (body s) = pc s \<and> loop_rep (body s) = loop_rep s \<and>
     pc_on_rep (body s) = pc_on_rep s \<and>
     (\<forall>r\<in>{reg_LC, reg_TEMP, reg_SR}. registers (body s) r = registers s r))"

lemma rep_body_step:
  assumes "keeps_rep body" "loop_rep s" "\<not> pc_on_rep s" "\<not> bit (registers s reg_SR) sr_LF"
    and "registers s reg_LC AND 0xFFFFFF = registers s reg_LC" "registers s reg_LC \<noteq> 0"
  shows "if registers s reg_LC = 1
    then \<not> loop_rep (rep_body body s) \<and> registers (rep_body body s) reg_LC = registers s reg_TEMP \<and>
      pc (rep_body body s) = mask_pc (pc s + 1)
    else loop_rep (rep_body body s) \<and> \<not> pc_on_rep (rep_body body s) \<and>
      registers (rep_body body s) reg_LC = registers s reg_LC - 1 \<and>
      registers (rep_body body s) reg_TEMP = registers s reg_TEMP \<and>
      registers (rep_body body s) reg_SR = registers s reg_SR \<and> pc (rep_body body s) = mask_pc (pc s)"
proof -
  let ?b = "(body s)\<lparr>pc_advance := 1\<rparr>"
  have k: "pc ?b = pc s" "loop_rep ?b" "\<not> pc_on_rep ?b" "registers ?b reg_LC = registers s reg_LC"
    "registers ?b reg_TEMP = registers s reg_TEMP" "registers ?b reg_SR = registers s reg_SR"
    using assms(1-3) by (simp_all add: keeps_rep_def)
  have nl: "\<not> bit (registers ?b reg_SR) sr_LF" by (subst k(6)) (rule assms(4))
  have z: "registers s reg_LC - 1 = 0 \<longleftrightarrow> registers s reg_LC = 1" by simp
  show ?thesis
    unfolding rep_body_def advance_pc_no_loop [OF nl]
    using k dec_24 [OF assms(5,6)] by (simp add: Let_def rep_step_def word_gt_0)
qed

lemma rep_loop:
  assumes "keeps_rep body"
  shows "loop_rep s \<Longrightarrow> \<not> pc_on_rep s \<Longrightarrow> \<not> bit (registers s reg_SR) sr_LF \<Longrightarrow>
    registers s reg_LC AND 0xFFFFFF = registers s reg_LC \<Longrightarrow> unat (registers s reg_LC) = Suc n \<Longrightarrow>
    mask_pc (pc s) = pc s \<Longrightarrow>
    (\<forall>k\<le>n. loop_rep ((rep_body body ^^ k) s) \<and> pc ((rep_body body ^^ k) s) = pc s) \<and>
    \<not> loop_rep ((rep_body body ^^ Suc n) s) \<and>
    registers ((rep_body body ^^ Suc n) s) reg_LC = registers s reg_TEMP \<and>
    pc ((rep_body body ^^ Suc n) s) = mask_pc (pc s + 1)"
proof (induction n arbitrary: s)
  case 0
  then have "registers s reg_LC = 1" by (metis unat_1 word_unat_eq_iff One_nat_def)
  then show ?case using rep_body_step [OF assms 0(1-4)] 0 by simp
next
  case (Suc n)
  let ?s = "rep_body body s"
  have ne: "registers s reg_LC \<noteq> 0" "registers s reg_LC \<noteq> 1" using Suc.prems(5) by auto
  then have st: "loop_rep ?s" "\<not> pc_on_rep ?s" "registers ?s reg_LC = registers s reg_LC - 1"
    "registers ?s reg_TEMP = registers s reg_TEMP" "registers ?s reg_SR = registers s reg_SR"
    "pc ?s = pc s"
    using rep_body_step [OF assms Suc.prems(1-4)] Suc.prems(6) by simp_all
  have lc: "registers ?s reg_LC AND 0xFFFFFF = registers ?s reg_LC"
    "unat (registers ?s reg_LC) = Suc n"
    using dec_24 [OF Suc.prems(4) ne(1)] Suc.prems(5) ne(1) by (simp_all add: st(3) unat_minus_one)
  have ih: "(\<forall>k\<le>n. loop_rep ((rep_body body ^^ k) ?s) \<and> pc ((rep_body body ^^ k) ?s) = pc ?s) \<and>
    \<not> loop_rep ((rep_body body ^^ Suc n) ?s) \<and>
    registers ((rep_body body ^^ Suc n) ?s) reg_LC = registers ?s reg_TEMP \<and>
    pc ((rep_body body ^^ Suc n) ?s) = mask_pc (pc ?s + 1)"
    using Suc.IH [of ?s] st lc Suc.prems(3,6) by simp
  have "loop_rep ((rep_body body ^^ k) s) \<and> pc ((rep_body body ^^ k) s) = pc s" if "k \<le> Suc n" for k
    using that ih st(6) Suc.prems(1) by (cases k) (simp_all add: funpow_swap1 del: funpow.simps(2) add: funpow_Suc_right)
  then show ?case using ih st by (simp add: funpow_Suc_right del: funpow.simps(2))
qed

section \<open>DO\<close>

text \<open>One pass of a DO loop: the body, then the PC advance of the instruction at LA.\<close>

definition do_pass :: "('e dsp_state \<Rightarrow> 'e dsp_state) \<Rightarrow> 'e dsp_state \<Rightarrow> 'e dsp_state" where
  "do_pass body s = (let s = body s in advance_pc (s\<lparr>pc := registers s reg_LA, pc_advance := 1\<rparr>))"

text \<open>What the body of a loop leaves as it found it: the loop registers and the stack.\<close>

definition keeps_loop :: "('e dsp_state \<Rightarrow> 'e dsp_state) \<Rightarrow> bool" where
  "keeps_loop body \<longleftrightarrow> (\<forall>s. stack (body s) = stack s \<and> loop_rep (body s) = loop_rep s \<and>
     (\<forall>r\<in>{reg_LC, reg_LA, reg_SR, reg_SP, reg_SSH, reg_SSL}. registers (body s) r = registers s r))"

text \<open>A live loop: its two stack entries on top, its address registers within 24 bits.\<close>

definition live_loop :: "u32 \<Rightarrow> u32 \<Rightarrow> u32 \<Rightarrow> u32 \<Rightarrow> (u32 \<times> u32) list \<Rightarrow> 'e dsp_state \<Rightarrow> bool" where
  "live_loop start sr0 la0 lc0 rest s \<longleftrightarrow> stack_wf s \<and> \<not> loop_rep s \<and>
     bit (registers s reg_SR) sr_LF \<and> \<not> bit (registers s reg_SR) sr_FV \<and>
     registers s reg_LC AND 0xFFFFFF = registers s reg_LC \<and>
     stack_items s = (start, sr0) # (la0, lc0) # rest"

lemma keeps_loop_live:
  assumes "keeps_loop body" "live_loop start sr0 la0 lc0 rest s"
  shows "live_loop start sr0 la0 lc0 rest (body s)"
    and "live_loop start sr0 la0 lc0 rest ((body s)\<lparr>pc := a, pc_advance := n\<rparr>)"
  using assms by (simp_all add: keeps_loop_def live_loop_def stack_wf_def stack_items_def depth_def)

lemma FV_test: "(registers s reg_SR AND push_bit sr_FV 1 = 0) = (\<not> bit (registers s reg_SR) sr_FV)"
  using bit_test_code [of "registers s reg_SR" sr_FV] by blast

lemma hw_top:
  assumes "stack_wf s" "stack_items s = x # xs"
  shows "fst (stack_pop s) = x" "stack_items (snd (stack_pop s)) = xs" "stack_wf (snd (stack_pop s))"
    "registers s reg_SSH = fst x"
proof -
  have "0 < depth s" using assms(2) by (metis length_greater_0_conv length_stack_items list.distinct(1))
  from stack_items_pop [OF assms(1) this] assms show "fst (stack_pop s) = x"
    "stack_items (snd (stack_pop s)) = xs" by simp_all
  show "stack_wf (snd (stack_pop s))" using assms(1) by (rule stack_wf_pop)
  show "registers s reg_SSH = fst x"
    using \<open>fst (stack_pop s) = x\<close> assms(1) by (auto simp: stack_pop_closed stack_wf_def)
qed

lemma stack_wf_regs [simp]:
  "r \<notin> {reg_SP, reg_SSH, reg_SSL} \<Longrightarrow> stack_wf (set_reg r v s) = stack_wf s"
  "r \<notin> {reg_SP, reg_SSH, reg_SSL} \<Longrightarrow> stack_items (set_reg r v s) = stack_items s"
  "r \<noteq> reg_SP \<Longrightarrow> depth (set_reg r v s) = depth s"
  by (auto simp: stack_wf_def stack_items_def depth_def)

lemma pop_regs:
  assumes "stack_wf s" "r \<notin> {reg_SP, reg_SC, reg_SSH, reg_SSL}"
  shows "registers (snd (stack_pop s)) r = registers s r"
  using assms by (simp add: stack_pop_closed)

lemma stack_wf_pc [simp]: "stack_wf (s\<lparr>pc := a\<rparr>) = stack_wf s"
  "stack_items (s\<lparr>pc := a\<rparr>) = stack_items s" "depth (s\<lparr>pc := a\<rparr>) = depth s"
  by (simp_all add: stack_wf_def stack_items_def depth_def)

lemma live_dec:
  assumes "live_loop start sr0 la0 lc0 rest s" "registers s reg_LC \<noteq> 0"
  shows "set_reg reg_LC ((registers s reg_LC - 1) AND REG_MASKS ! reg_LC) s =
      set_reg reg_LC (registers s reg_LC - 1) s"
    and "live_loop start sr0 la0 lc0 rest (set_reg reg_LC (registers s reg_LC - 1) s)"
    and "registers s reg_SSH = start"
  using assms dec_24 [of "registers s reg_LC"] hw_top [of s "(start, sr0)"]
  by (simp_all add: live_loop_def)

lemma do_loop_again:
  assumes "live_loop start sr0 la0 lc0 rest s" "registers s reg_LC \<noteq> 0" "registers s reg_LC \<noteq> 1"
  shows "do_loop_step s = (set_reg reg_LC (registers s reg_LC - 1) s)\<lparr>pc := start\<rparr>"
  using assms(3) unfolding do_loop_step_def Let_def live_dec(1) [OF assms(1,2)]
  by (simp add: live_dec(3) [OF assms(1,2)])

lemma bit_merge:
  "bit ((w AND NOT (push_bit a 1 OR push_bit b 1)) OR (v AND (push_bit a 1 OR push_bit b 1))) k \<longleftrightarrow>
    (if k = a \<or> k = b then bit v k else bit w k)" for w v :: u32
  by (auto simp: bit_simps dest: bit_imp_le_length)

lemma do_loop_exit:
  assumes live: "live_loop start sr0 la0 lc0 rest s" and lc: "registers s reg_LC = 1"
  shows "pc (do_loop_step s) = pc s" "registers (do_loop_step s) reg_LA = la0"
    "registers (do_loop_step s) reg_LC = lc0" "stack_items (do_loop_step s) = rest"
    "bit (registers (do_loop_step s) reg_SR) k =
      bit (if k = sr_LF \<or> k = sr_FV then sr0 else registers s reg_SR) k"
proof -
  let ?d = "set_reg reg_LC 0 s"
  have d: "stack_wf ?d" "stack_items ?d = (start, sr0) # (la0, lc0) # rest"
    using live by (simp_all add: live_loop_def)
  obtain s1 where p1: "stack_pop ?d = ((start, sr0), s1)"
    using hw_top(1) [OF d] by (metis prod.collapse)
  have s1: "stack_items s1 = (la0, lc0) # rest" "stack_wf s1" "pc s1 = pc s"
    "registers s1 reg_SR = registers s reg_SR"
    using hw_top(2,3) [OF d] pc_pop [OF d(1)] pop_regs [OF d(1), of reg_SR] by (simp_all add: p1)
  define m :: u32 where "m = push_bit sr_LF 1 OR push_bit sr_FV 1"
  define s2 where "s2 = set_reg reg_SR ((registers s1 reg_SR AND NOT m) OR (sr0 AND m)) s1"
  have s2: "stack_wf s2" "stack_items s2 = (la0, lc0) # rest" "pc s2 = pc s"
    using s1 by (simp_all add: s2_def)
  obtain s3 where p2: "stack_pop s2 = ((la0, lc0), s3)"
    using hw_top(1) [OF s2(1,2)] by (metis prod.collapse)
  have s3: "stack_items s3 = rest" "pc s3 = pc s" "registers s3 reg_SR = registers s2 reg_SR"
    using hw_top(2) [OF s2(1,2)] pc_pop [OF s2(1)] pop_regs [OF s2(1), of reg_SR] s2(3)
    by (simp_all add: p2)
  have fv: "(registers s reg_SR AND push_bit sr_FV 1 = 0)"
    using live unfolding FV_test by (simp add: live_loop_def)
  have e: "do_loop_step s = set_reg reg_LC lc0 (set_reg reg_LA la0 s3)"
    unfolding do_loop_step_def Let_def live_dec(1) [OF live, unfolded lc, OF one_neq_zero] lc
    using fv p1 p2 by (simp add: s2_def m_def)
  show "pc (do_loop_step s) = pc s" "registers (do_loop_step s) reg_LA = la0"
    "registers (do_loop_step s) reg_LC = lc0" "stack_items (do_loop_step s) = rest"
    "bit (registers (do_loop_step s) reg_SR) k =
      bit (if k = sr_LF \<or> k = sr_FV then sr0 else registers s reg_SR) k"
    unfolding e using s3 bit_merge [of "registers s reg_SR" sr_LF sr_FV sr0 k]
    by (simp_all add: s2_def m_def s1(4) if_distrib)
qed

lemma do_pass_end:
  assumes "keeps_loop body" "live_loop start sr0 la0 lc0 rest s"
  shows "\<exists>e. do_pass body s = do_loop_step e \<and> live_loop start sr0 la0 lc0 rest e \<and>
    pc e = mask_pc (registers s reg_LA + 1) \<and>
    (\<forall>r\<in>{reg_LC, reg_LA, reg_SR}. registers e r = registers s r)"
proof -
  let ?b = "(body s)\<lparr>pc := registers (body s) reg_LA, pc_advance := 1\<rparr>"
  let ?e = "(check_unimplemented_modes ?b)\<lparr>pc := mask_pc (registers (body s) reg_LA + 1)\<rparr>"
  have lb: "live_loop start sr0 la0 lc0 rest ?b" by (rule keeps_loop_live [OF assms])
  then have "live_loop start sr0 la0 lc0 rest ?e"
    by (simp add: live_loop_def stack_wf_def stack_items_def depth_def)
  moreover have "do_pass body s = do_loop_step ?e"
    using lb by (simp add: do_pass_def Let_def advance_pc_def at_loop_end_iff live_loop_def)
  ultimately show ?thesis using assms(1)
    by (intro exI [of _ ?e]) (simp add: keeps_loop_def)
qed

section \<open>Properties\<close>


definition loop_state :: "u32 \<Rightarrow> unit dsp_state" where
  "loop_state n = (set_reg reg_TEMP 7 (set_reg reg_LC n
    (dsp_new (test_map 0 16 1 16 2 16) (\<lambda>_ _. 0) ())))\<lparr>loop_rep := True, pc_on_rep := True, pc_advance := 1\<rparr>"



definition do_state :: "unit dsp_state" where
  "do_state = (set_reg reg_LA 9 (set_reg reg_LC 2 (set_reg reg_SR 0x8000
     (stack_push 5 0 (stack_push 0x20 3 blank_state)))))"


end
