(* ===== verification/Interrupt_Laws.thy ===== *)
theory Interrupt_Laws
  imports Control Decode_Laws
begin

text \<open>
  The interrupt pipeline between instructions: it never panics, it dispatches what arbitration
  picks, a fast interrupt comes back to the interrupted instruction, and a parked fault is
  delivered on its schedule.
\<close>

section \<open>The steps\<close>

lemma detect_total: "detect_long_interrupt w s \<noteq> None"
  using decode_not_None [of w] by (auto simp: detect_long_interrupt_def)

lemma detect_short:
  assumes "decode w = Some i" "\<not> is_long_instr i"
  shows "detect_long_interrupt w s = Some s"
  using assms by (simp add: detect_long_interrupt_def)

lemma deliver_armed_total: "deliver_armed_fault M s \<noteq> None"
  using detect_total by (auto simp: deliver_armed_fault_def Let_def split: prod.split)

lemma deliver_parked_total: "deliver_parked_fault M s \<noteq> None"
  using deliver_armed_total
  by (auto simp: deliver_parked_fault_def Let_def split: option.split simp del: not_None_eq)

lemma fast_pipeline_total: "fast_pipeline M s \<noteq> None"
  unfolding fast_pipeline_def Let_def
  by (simp add: detect_total split: prod.split del: not_None_eq)

lemma has_pending_arbitrate: "0 \<le> m \<Longrightarrow> \<not> has_pending ip \<Longrightarrow> arbitrate ip m = None"
  using arbitrate_spec [of m ip]
  by (auto simp: has_pending_iff pending_set_def arb_spec_def split: option.splits)

lemma sr_level_nonneg: "0 \<le> sr_level s"
  by (simp add: sr_level_def)

lemma upd_frame [simp]:
  "interrupts (upd_interrupts f s) = f (interrupts s)" "pc (upd_interrupts f s) = pc s"
  "registers (upd_interrupts f s) = registers s" "loop_rep (upd_interrupts f s) = loop_rep s"
  "stack (upd_interrupts f s) = stack s" "bufs (upd_interrupts f s) = bufs s"
  by (simp_all add: upd_interrupts_def)

lemma next_stage_frame [simp]:
  "interrupts (next_stage s) = (interrupts s)\<lparr>ip_pipeline_stage := ip_pipeline_stage (interrupts s) - 1\<rparr>"
  "pc (next_stage s) = pc s" "loop_rep (next_stage s) = loop_rep s" "bufs (next_stage s) = bufs s"
  by (simp_all add: next_stage_def)

section \<open>Fast interrupts\<close>

text \<open>A buffer-backed vector word that is not a subroutine call, whatever the registers are.\<close>

definition short_at :: "'e dsp_state memory_map \<Rightarrow> 'e dsp_state \<Rightarrow> u32 \<Rightarrow> bool" where
  "short_at M s a \<longleftrightarrow> (case cell M Space_P a of
     None \<Rightarrow> False
   | Some (b, i) \<Rightarrow> (case decode (bufs s b i AND 0xFFFFFF) of
       None \<Rightarrow> False | Some ins \<Rightarrow> \<not> is_long_instr ins))"

lemma short_at_read:
  assumes "short_at M s a" "bufs t = bufs s"
  shows "\<exists>w. read_memory M Space_P a t = (w, t) \<and> detect_long_interrupt w u = Some u"
  using assms read_cell [of M Space_P a _ _ t] detect_short
  by (fastforce simp: short_at_def split: option.splits prod.splits)

text \<open>An instruction that leaves the pipeline and the memory alone.\<close>

definition keeps_pipeline :: "('e dsp_state \<Rightarrow> 'e dsp_state) \<Rightarrow> bool" where
  "keeps_pipeline b \<longleftrightarrow> (\<forall>s. interrupts (b s) = interrupts s \<and> loop_rep (b s) = loop_rep s \<and>
     bufs (b s) = bufs s)"

lemma process_fast:
  assumes "\<not> loop_rep s" "ip_state (interrupts s) = IS_Fast" "fast_pipeline M s = Some (True, t)"
  shows "process_pending_interrupts M s = Some t"
  using assms by (simp add: process_pending_interrupts_def)

lemma fast_stage_4:
  assumes "\<not> loop_rep s" "ip_state (interrupts s) = IS_Fast" "ip_pipeline_stage (interrupts s) = 4"
    and "short_at M s (ip_vector_addr (interrupts s))"
  shows "\<exists>t. process_pending_interrupts M s = Some t \<and> pc t = ip_vector_addr (interrupts s) \<and>
    interrupts t = (interrupts s)\<lparr>ip_saved_pc := pc s, ip_pipeline_stage := 3\<rparr> \<and>
    \<not> loop_rep t \<and> bufs t = bufs s"
proof -
  let ?s = "(upd_interrupts (\<lambda>ip. ip\<lparr>ip_saved_pc := pc s\<rparr>) s)\<lparr>pc := ip_vector_addr (interrupts s)\<rparr>"
  have b: "bufs ?s = bufs s" by simp
  obtain w where w: "read_memory M Space_P (pc ?s) ?s = (w, ?s)" "detect_long_interrupt w ?s = Some ?s"
    using short_at_read [OF assms(4) b] by auto
  have "fast_pipeline M s = Some (True, next_stage ?s)"
    using w assms(3) by (simp add: fast_pipeline_def Let_def)
  from process_fast [OF assms(1,2) this] show ?thesis using assms(1,3) by simp
qed

lemma fast_stage_3:
  assumes "\<not> loop_rep s" "ip_state (interrupts s) = IS_Fast" "ip_pipeline_stage (interrupts s) = 3"
    and "short_at M s (mask_pc (ip_vector_addr (interrupts s) + 1))"
  shows "process_pending_interrupts M s = Some (next_stage s)"
proof -
  obtain w where "read_memory M Space_P (mask_pc (ip_vector_addr (interrupts s) + 1)) s = (w, s)"
    "detect_long_interrupt w s = Some s" using short_at_read [OF assms(4) refl] by blast
  then have "fast_pipeline M s = Some (True, next_stage s)"
    using assms(3) by (simp add: fast_pipeline_def Let_def)
  from process_fast [OF assms(1,2) this] show ?thesis .
qed

lemma fast_stage_2:
  assumes "\<not> loop_rep s" "ip_state (interrupts s) = IS_Fast" "ip_pipeline_stage (interrupts s) = 2"
    and "pc s = mask_pc (ip_vector_addr (interrupts s) + 2)"
  shows "process_pending_interrupts M s = Some (next_stage (s\<lparr>pc := ip_saved_pc (interrupts s)\<rparr>))"
  using assms by (intro process_fast) (simp_all add: fast_pipeline_def)

section \<open>Parked faults\<close>

text \<open>The countdown after a tick that follows a write of SP (\<open>w\<close>) or does not.\<close>

fun countdown :: "nat \<Rightarrow> bool list \<Rightarrow> nat" where
  "countdown c [] = c"
| "countdown c (w # ws) = countdown (max (c - 1) (if w then 3 else 0)) ws"

lemma countdown_append: "countdown c (ws @ [w]) = max (countdown c ws - 1) (if w then 3 else 0)"
  by (induction ws arbitrary: c) auto

text \<open>
  The documented rule: \<open>c\<close> completions after the start, and at least three after the last SP write.
\<close>

lemma countdown_closed:
  "countdown c ws = max (c - length ws)
    (if True \<in> set ws then 3 - length (takeWhile Not (rev ws)) else 0)"
  by (induction ws rule: rev_induct) (auto simp: countdown_append max_def)

definition mark_sp :: "bool \<Rightarrow> 'e dsp_state \<Rightarrow> 'e dsp_state" where
  "mark_sp w s = (if w then upd_interrupts (\<lambda>ip. ip\<lparr>ip_parked_sp_write := True\<rparr>) s else s)"

fun parked_run :: "'e dsp_state memory_map \<Rightarrow> bool list \<Rightarrow> 'e dsp_state \<Rightarrow> 'e dsp_state option" where
  "parked_run M [] s = Some s"
| "parked_run M (w # ws) s =
    Option.bind (process_pending_interrupts M (mark_sp w s)) (parked_run M ws)"

definition parked_at :: "nat \<Rightarrow> 'e dsp_state \<Rightarrow> bool" where
  "parked_at c s \<longleftrightarrow> \<not> loop_rep s \<and> ip_state (interrupts s) = IS_Parked \<and>
     unat (ip_parked_countdown (interrupts s)) = c \<and> \<not> ip_parked_sp_write (interrupts s)"

lemma parked_step:
  fixes w :: bool
  assumes "parked_at c s"
  defines "c' \<equiv> max (c - 1) (if w then 3 else 0)"
  shows "\<exists>t. parked_at c' t \<and> pc t = pc s \<and> process_pending_interrupts M (mark_sp w s) =
    (if c' = 0 then deliver_parked_fault M t else Some t)"
proof -
  define cd where "cd = ip_parked_countdown (interrupts s)"
  define cd1 where "cd1 = (if 0 < cd then cd - 1 else cd)"
  define cd2 where "cd2 = (if w then max cd1 3 else cd1)"
  have "unat cd1 = c - 1"
    using assms(1) by (auto simp: cd1_def cd_def parked_at_def unat_minus_one word_gt_0)
  then have u: "unat cd2 = c'" by (auto simp: cd2_def c'_def max_def word_le_nat_alt)
  define t where "t = upd_interrupts (\<lambda>ip. ip\<lparr>ip_parked_countdown := cd2, ip_parked_sp_write := False\<rparr>) s"
  have p: "ip_state (interrupts s) = IS_Parked" "\<not> ip_parked_sp_write (interrupts s)" "\<not> loop_rep s"
    using assms(1) by (simp_all add: parked_at_def)
  have "process_pending_interrupts M (mark_sp w s) = parked_tick M (mark_sp w s)"
    using p by (simp add: process_pending_interrupts_def mark_sp_def)
  also have "\<dots> = (if cd2 = 0 then deliver_parked_fault M t else Some t)"
  proof -
    let ?s1 = "if 0 < ip_parked_countdown (interrupts (mark_sp w s))
        then upd_interrupts (\<lambda>ip. ip\<lparr>ip_parked_countdown := ip_parked_countdown ip - 1\<rparr>) (mark_sp w s)
        else mark_sp w s"
    let ?s2 = "if ip_parked_sp_write (interrupts ?s1)
        then upd_interrupts (\<lambda>ip. ip\<lparr>ip_parked_sp_write := False,
          ip_parked_countdown := max (ip_parked_countdown ip) 3\<rparr>) ?s1 else ?s1"
    have "?s2 = t"
      using p(2) unfolding mark_sp_def t_def cd2_def cd1_def cd_def upd_interrupts_def
      by (cases s, cases "interrupts s") simp
    then show ?thesis unfolding parked_tick_def Let_def by (simp add: t_def)
  qed
  finally have "process_pending_interrupts M (mark_sp w s) =
      (if c' = 0 then deliver_parked_fault M t else Some t)"
    using u by (simp add: unat_eq_0 [symmetric])
  moreover have "parked_at c' t" "pc t = pc s" using p u by (simp_all add: parked_at_def t_def)
  ultimately show ?thesis by blast
qed

lemma parked_run_waits:
  assumes "parked_at c s" and "\<And>n. n < length ws \<Longrightarrow> 0 < countdown c (take (Suc n) ws)"
  shows "\<exists>t. parked_run M ws s = Some t \<and> parked_at (countdown c ws) t \<and> pc t = pc s"
  using assms
proof (induction ws arbitrary: c s)
  case (Cons w ws)
  let ?c = "max (c - 1) (if w then 3 else 0)"
  obtain t where t: "parked_at ?c t" "pc t = pc s" "process_pending_interrupts M (mark_sp w s) =
      (if ?c = 0 then deliver_parked_fault M t else Some t)"
    using parked_step [OF Cons.prems(1)] by blast
  have "0 < ?c" using Cons.prems(2) [of 0] by simp
  then have st: "process_pending_interrupts M (mark_sp w s) = Some t" using t(3) by auto
  have "0 < countdown ?c (take (Suc n) ws)" if "n < length ws" for n
    using Cons.prems(2) [of "Suc n"] that by simp
  from Cons.IH [OF t(1) this] show ?case using st t(2) by auto
qed auto

lemma process_not_None: "process_pending_interrupts M s \<noteq> None"
proof -
  have "parked_tick M t \<noteq> None" for t
    using deliver_parked_total [of M] unfolding parked_tick_def Let_def
    by (simp del: not_None_eq)
  moreover have "fast_pipeline M s \<noteq> None" by (rule fast_pipeline_total)
  ultimately show ?thesis
    unfolding process_pending_interrupts_def
    by (auto split: option.split prod.split simp: Option.bind_eq_None_conv simp del: not_None_eq)
qed

section \<open>Properties\<close>



definition irq_state :: "unit dsp_state" where
  "irq_state = upd_interrupts (\<lambda>ip. set_pending INT_ILLEGAL ip)
     (dsp_new (test_map 0 16 1 16 2 16) (\<lambda>_ _. 0) ())"



definition fast_state :: "unit dsp_state" where
  "fast_state = (upd_interrupts (\<lambda>ip. ip\<lparr>ip_state := IS_Fast, ip_pipeline_stage := 4, ip_vector_addr := 4\<rparr>)
     (dsp_new (test_map 0 16 1 16 2 16) (\<lambda>_ _. 0x200000) ()))\<lparr>pc := 9\<rparr>"




end
