(* ===== verification/Block_Shape.thy ===== *)
theory Block_Shape
  imports Decode
begin

text \<open>
  \<^verbatim>\<open>crates/emu/src/emit/mod.rs\<close> and \<^verbatim>\<open>emit/loops.rs\<close>: how the translator cuts the program into
  basic blocks. \<^verbatim>\<open>emit_block\<close> walks the program memory, decodes, and decides per instruction
  whether it is emitted in line, opens a forward skip, becomes an inlined REP or DO loop, or ends
  the block. The walk is modelled in full; its result is the plan of the block, the sequence of
  emitter calls with their arguments, together with the extent of the block. What an emitter call
  turns into (Cranelift IR) is not part of the plan.

  The program words are those the memory map returns at the time of the translation (a function
  \<open>p\<close>). Addresses are \<^verbatim>\<open>u32\<close> words and their sums wrap. The loops are partial functions, \<open>None\<close>
  if a loop does not end, if an \<^verbatim>\<open>unreachable!()\<close> is reached or if a \<^verbatim>\<open>debug_assert!\<close> fails. A vector
  used as a stack (\<^verbatim>\<open>open_skips\<close>) is a list with the last element first.
\<close>

section \<open>Classes of instructions\<close>

definition fault_reg :: "u8 \<Rightarrow> bool" where
  "fault_reg r \<longleftrightarrow> unat r = reg_SSH \<or> unat r = reg_SP"

definition is_stack_fault_capable :: "instruction \<Rightarrow> bool" where
  "is_stack_fault_capable inst = (case inst of
     Bitop (BtstReg r _) \<Rightarrow> fault_reg r
   | Bitop (BsetReg r _) \<Rightarrow> fault_reg r
   | Bitop (BchgReg r _) \<Rightarrow> fault_reg r
   | Bitop (BclrReg r _) \<Rightarrow> fault_reg r
   | Move_op (MovecImm _ dest) \<Rightarrow> fault_reg dest
   | Move_op (MovecReg src_reg dst_reg _) \<Rightarrow> fault_reg src_reg \<or> fault_reg dst_reg
   | Move_op (MovecEa _ numreg _ _) \<Rightarrow> fault_reg numreg
   | Move_op (MovecAa _ numreg _ _) \<Rightarrow> fault_reg numreg
   | Move_op (MovemEa _ numreg _) \<Rightarrow> fault_reg numreg
   | Move_op (MovemAa _ numreg _) \<Rightarrow> fault_reg numreg
   | _ \<Rightarrow> False)"

definition stackish :: "u8 \<Rightarrow> bool" where
  "stackish r \<longleftrightarrow> unat r = reg_SP \<or> unat r = reg_SSH \<or> unat r = reg_SSL"

definition may_arm_stack_fault :: "instruction \<Rightarrow> bool" where
  "may_arm_stack_fault inst = (case inst of
     Move_op (MovecEa _ numreg _ _) \<Rightarrow> stackish numreg
   | Move_op (MovecAa _ numreg _ _) \<Rightarrow> stackish numreg
   | Move_op (MovemEa _ numreg _) \<Rightarrow> stackish numreg
   | Move_op (MovemAa _ numreg _) \<Rightarrow> stackish numreg
   | Move_op (MovecReg src_reg dst_reg _) \<Rightarrow> stackish src_reg \<or> stackish dst_reg
   | Move_op (MovecImm _ dest) \<Rightarrow> stackish dest
   | Move_op (Movep0 _ reg_idx _ _) \<Rightarrow> stackish reg_idx
   | Move_op (MovepQqR _ reg_idx _ _) \<Rightarrow> stackish reg_idx
   | Bitop (BchgReg r _) \<Rightarrow> stackish r
   | Bitop (BclrReg r _) \<Rightarrow> stackish r
   | Bitop (BsetReg r _) \<Rightarrow> stackish r
   | Bitop (BtstReg r _) \<Rightarrow> stackish r
   | Bit_branch (BrclrReg r _) \<Rightarrow> stackish r
   | Bit_branch (BrsetReg r _) \<Rightarrow> stackish r
   | Bit_bsr (BsclrReg r _) \<Rightarrow> stackish r
   | Bit_bsr (BssetReg r _) \<Rightarrow> stackish r
   | Bit_jump (JclrReg r _) \<Rightarrow> stackish r
   | Bit_jump (JsetReg r _) \<Rightarrow> stackish r
   | Bit_jump (JsclrReg r _) \<Rightarrow> stackish r
   | Bit_jump (JssetReg r _) \<Rightarrow> stackish r
   | Loop EndDo \<Rightarrow> True
   | Misc Rts \<Rightarrow> True
   | Misc Rti \<Rightarrow> True
   | Special Trap \<Rightarrow> True
   | Special (Trapcc _) \<Rightarrow> True
   | Misc Illegal \<Rightarrow> True
   | _ \<Rightarrow> False)"

text \<open>
  The groups \<open>Bit_branch\<close> (BRCLR, BRSET), \<open>Bit_bsr\<close> (BSCLR, BSSET) and \<open>Bit_jump\<close> (JCLR, JSET,
  JSCLR, JSSET) are listed in full by the code.
\<close>

definition is_block_terminator :: "instruction \<Rightarrow> bool" where
  "is_block_terminator inst =
    (if is_stack_fault_capable inst then True
     else (case inst of
       Branch _ \<Rightarrow> True
     | Misc Rts \<Rightarrow> True | Misc Rti \<Rightarrow> True
     | Misc Wait \<Rightarrow> True | Misc Stop \<Rightarrow> True | Misc Illegal \<Rightarrow> True
     | Loop l \<Rightarrow> (case l of
         DoImm _ \<Rightarrow> True | DoEa _ _ \<Rightarrow> True | DoAa _ _ \<Rightarrow> True | DoReg _ \<Rightarrow> True | DoForever \<Rightarrow> True
       | DorImm _ \<Rightarrow> True | DorReg _ \<Rightarrow> True | DorForever \<Rightarrow> True | DorAa _ _ \<Rightarrow> True | DorEa _ _ \<Rightarrow> True
       | EndDo \<Rightarrow> True | _ \<Rightarrow> False)
     | Bit_jump _ \<Rightarrow> True
     | Bit_branch _ \<Rightarrow> True
     | Bit_bsr _ \<Rightarrow> True
     | Special Trap \<Rightarrow> True | Special (Trapcc _) \<Rightarrow> True
     | _ \<Rightarrow> False))"

definition needs_exit_check :: "instruction \<Rightarrow> bool" where
  "needs_exit_check inst = (case inst of
     Move_op m \<Rightarrow> (case m of
       Movep0 _ _ _ _ \<Rightarrow> True | Movep1 _ _ _ _ \<Rightarrow> True | Movep23 _ _ _ _ _ \<Rightarrow> True
     | MovepQq _ _ _ _ _ \<Rightarrow> True | MovepQqPea _ _ _ _ \<Rightarrow> True | MovepQqR _ _ _ _ \<Rightarrow> True
     | _ \<Rightarrow> False)
   | Bitop b \<Rightarrow> (case b of
       BsetPp _ _ _ \<Rightarrow> True | BclrPp _ _ _ \<Rightarrow> True | BchgPp _ _ _ \<Rightarrow> True
     | BsetQq _ _ _ \<Rightarrow> True | BclrQq _ _ _ \<Rightarrow> True | BchgQq _ _ _ \<Rightarrow> True
     | _ \<Rightarrow> False)
   | _ \<Rightarrow> False)"

definition writes_p_memory :: "instruction \<Rightarrow> bool" where
  "writes_p_memory inst = (case inst of
     Move_op (MovemEa _ _ w) \<Rightarrow> \<not> w
   | Move_op (MovemAa _ _ w) \<Rightarrow> \<not> w
   | Move_op (Movep1 _ _ w _) \<Rightarrow> \<not> w
   | Move_op (MovepQqPea _ _ w _) \<Rightarrow> \<not> w
   | _ \<Rightarrow> False)"

definition is_rep_instruction :: "instruction \<Rightarrow> bool" where
  "is_rep_instruction inst = (case inst of
     Loop (RepImm _) \<Rightarrow> True | Loop (RepAa _ _) \<Rightarrow> True | Loop (RepEa _ _) \<Rightarrow> True
   | Loop (RepReg _) \<Rightarrow> True | _ \<Rightarrow> False)"

definition is_do_instruction :: "instruction \<Rightarrow> bool" where
  "is_do_instruction inst = (case inst of
     Loop (DoImm _) \<Rightarrow> True | Loop (DoReg _) \<Rightarrow> True | Loop DoForever \<Rightarrow> True
   | Loop (DoAa _ _) \<Rightarrow> True | Loop (DoEa _ _) \<Rightarrow> True
   | Loop (DorImm _) \<Rightarrow> True | Loop (DorReg _) \<Rightarrow> True | Loop DorForever \<Rightarrow> True
   | Loop (DorAa _ _) \<Rightarrow> True | Loop (DorEa _ _) \<Rightarrow> True | _ \<Rightarrow> False)"

abbreviation (input) is_forever :: "instruction \<Rightarrow> bool" where
  "is_forever inst \<equiv> inst = Loop DoForever \<or> inst = Loop DorForever"

text \<open>The end address of a DO loop; \<open>None\<close> is the \<^verbatim>\<open>unreachable!\<close> arm.\<close>

definition compute_do_la :: "instruction \<Rightarrow> u32 \<Rightarrow> u32 \<Rightarrow> u32 option" where
  "compute_do_la inst pc next_word = (case inst of
     Loop l \<Rightarrow> (case l of
       DoImm _ \<Rightarrow> Some (next_word AND REG_MASKS ! reg_LA)
     | DoReg _ \<Rightarrow> Some (next_word AND REG_MASKS ! reg_LA)
     | DoForever \<Rightarrow> Some (next_word AND REG_MASKS ! reg_LA)
     | DoAa _ _ \<Rightarrow> Some (next_word AND REG_MASKS ! reg_LA)
     | DoEa _ _ \<Rightarrow> Some (next_word AND REG_MASKS ! reg_LA)
     | DorImm _ \<Rightarrow> Some (mask_pc (pc + next_word))
     | DorReg _ \<Rightarrow> Some (mask_pc (pc + next_word))
     | DorForever \<Rightarrow> Some (mask_pc (pc + next_word))
     | DorAa _ _ \<Rightarrow> Some (mask_pc (pc + next_word))
     | DorEa _ _ \<Rightarrow> Some (mask_pc (pc + next_word))
     | _ \<Rightarrow> None)
   | _ \<Rightarrow> None)"

text \<open>The option is the code's: the target of a branch that may become a forward skip.\<close>

definition skip_reg_ok :: "u8 \<Rightarrow> bool" where
  "skip_reg_ok r \<longleftrightarrow> unat r \<noteq> reg_SSH"

definition forward_skip_target :: "instruction \<Rightarrow> u32 \<Rightarrow> u32 \<Rightarrow> u32 option" where
  "forward_skip_target inst pc next_word =
    (let rel = mask_pc (pc + next_word)
     in case inst of
       Bit_branch b \<Rightarrow> (case b of
         BrclrReg r _ \<Rightarrow> if skip_reg_ok r then Some rel else None
       | BrsetReg r _ \<Rightarrow> if skip_reg_ok r then Some rel else None
       | _ \<Rightarrow> Some rel)
     | Bit_jump b \<Rightarrow> (case b of
         JclrEa _ _ _ \<Rightarrow> Some next_word | JclrAa _ _ _ \<Rightarrow> Some next_word
       | JclrPp _ _ _ \<Rightarrow> Some next_word | JclrQq _ _ _ \<Rightarrow> Some next_word
       | JsetEa _ _ _ \<Rightarrow> Some next_word | JsetAa _ _ _ \<Rightarrow> Some next_word
       | JsetPp _ _ _ \<Rightarrow> Some next_word | JsetQq _ _ _ \<Rightarrow> Some next_word
       | JclrReg r _ \<Rightarrow> if skip_reg_ok r then Some next_word else None
       | JsetReg r _ \<Rightarrow> if skip_reg_ok r then Some next_word else None
       | _ \<Rightarrow> None)
     | Branch (Bcc _ addr) \<Rightarrow> Some (mask_pc (pc + addr))
     | Branch (BccLong _) \<Rightarrow> Some rel
     | _ \<Rightarrow> None)"

section \<open>Operands of the structured forms\<close>

text \<open>
  The predicate of a forward skip (\<^verbatim>\<open>emit_skip_predicate\<close>): the operand and bit tested or the
  condition, with the instruction's cycles and length.
\<close>

datatype bit_test_addr =
    BT_Pp mem_space u8
  | BT_Qq mem_space u8
  | BT_Aa mem_space u8
  | BT_Reg u8
  | BT_Ea mem_space u8

datatype skip_predicate =
    Bit_test bit_test_addr u8 bool nat u32
  | Cond_test cond_code nat u32

definition emit_skip_predicate :: "instruction \<Rightarrow> skip_predicate option" where
  "emit_skip_predicate inst = (case inst of
     Bit_branch b \<Rightarrow> Some (case b of
       BrclrEa space ea b \<Rightarrow> Bit_test (BT_Ea space ea) b False 5 2
     | BrclrAa space a b \<Rightarrow> Bit_test (BT_Aa space a) b False 5 2
     | BrclrPp space a b \<Rightarrow> Bit_test (BT_Pp space a) b False 5 2
     | BrclrQq space a b \<Rightarrow> Bit_test (BT_Qq space a) b False 5 2
     | BrclrReg r b \<Rightarrow> Bit_test (BT_Reg r) b False 5 2
     | BrsetEa space ea b \<Rightarrow> Bit_test (BT_Ea space ea) b True 5 2
     | BrsetAa space a b \<Rightarrow> Bit_test (BT_Aa space a) b True 5 2
     | BrsetPp space a b \<Rightarrow> Bit_test (BT_Pp space a) b True 5 2
     | BrsetQq space a b \<Rightarrow> Bit_test (BT_Qq space a) b True 5 2
     | BrsetReg r b \<Rightarrow> Bit_test (BT_Reg r) b True 5 2)
   | Bit_jump b \<Rightarrow> (case b of
       JclrEa space ea b \<Rightarrow> Some (Bit_test (BT_Ea space ea) b False 4 2)
     | JclrAa space a b \<Rightarrow> Some (Bit_test (BT_Aa space a) b False 4 2)
     | JclrPp space a b \<Rightarrow> Some (Bit_test (BT_Pp space a) b False 4 2)
     | JclrQq space a b \<Rightarrow> Some (Bit_test (BT_Qq space a) b False 4 2)
     | JclrReg r b \<Rightarrow> Some (Bit_test (BT_Reg r) b False 4 2)
     | JsetEa space ea b \<Rightarrow> Some (Bit_test (BT_Ea space ea) b True 4 2)
     | JsetAa space a b \<Rightarrow> Some (Bit_test (BT_Aa space a) b True 4 2)
     | JsetPp space a b \<Rightarrow> Some (Bit_test (BT_Pp space a) b True 4 2)
     | JsetQq space a b \<Rightarrow> Some (Bit_test (BT_Qq space a) b True 4 2)
     | JsetReg r b \<Rightarrow> Some (Bit_test (BT_Reg r) b True 4 2)
     | _ \<Rightarrow> None)
   | Branch (Bcc cc _) \<Rightarrow> Some (Cond_test cc 4 1)
   | Branch (BccLong cc) \<Rightarrow> Some (Cond_test cc 5 2)
   | _ \<Rightarrow> None)"

text \<open>Where the count of an inlined REP or DO comes from; \<open>None\<close> is an \<^verbatim>\<open>unreachable!\<close> arm.\<close>

datatype lc_source =
    LC_imm u16
  | LC_reg u8
  | LC_aa mem_space u8
  | LC_ea mem_space u8

definition emit_rep_lc_value :: "instruction \<Rightarrow> lc_source option" where
  "emit_rep_lc_value inst = (case inst of
     Loop (RepImm count) \<Rightarrow> Some (LC_imm count)
   | Loop (RepReg reg_idx) \<Rightarrow> Some (LC_reg reg_idx)
   | Loop (RepAa space addr) \<Rightarrow> Some (LC_aa space addr)
   | Loop (RepEa space ea_mode) \<Rightarrow> Some (LC_ea space ea_mode)
   | _ \<Rightarrow> None)"

definition emit_do_lc_value :: "instruction \<Rightarrow> lc_source option" where
  "emit_do_lc_value inst = (case inst of
     Loop l \<Rightarrow> (case l of
       DoImm count \<Rightarrow> Some (LC_imm count) | DorImm count \<Rightarrow> Some (LC_imm count)
     | DoReg r \<Rightarrow> Some (LC_reg r) | DorReg r \<Rightarrow> Some (LC_reg r)
     | DoAa space addr \<Rightarrow> Some (LC_aa space addr)
     | DoEa space ea \<Rightarrow> Some (LC_ea space ea) | DorEa space ea \<Rightarrow> Some (LC_ea space ea)
     | DorAa space addr \<Rightarrow> Some (LC_aa space addr)
     | _ \<Rightarrow> None)
   | _ \<Rightarrow> None)"

section \<open>Scans\<close>

text \<open>The inner \<^verbatim>\<open>while\<close> that closes the skips whose target is reached.\<close>

definition close_skips :: "u32 \<Rightarrow> u32 list \<Rightarrow> u32 list" where
  "close_skips pc skips = dropWhile (\<lambda>t. t = pc) skips"

abbreviation (input) MAX_NESTING_DEPTH :: nat where "MAX_NESTING_DEPTH \<equiv> 8"
abbreviation (input) MAX_INLINE_LEN :: u32 where "MAX_INLINE_LEN \<equiv> 64"

text \<open>The number of instructions of a body, for the budget of the block.\<close>

partial_function (option) count_body_loop ::
  "(u32 \<Rightarrow> u32) \<Rightarrow> u32 \<Rightarrow> u32 \<Rightarrow> u32 \<Rightarrow> u32 option" where
  "count_body_loop p la body_pc count =
    (if \<not> body_pc \<le> la then Some count
     else do {
       inst \<leftarrow> decode (p body_pc);
       if is_do_instruction inst then do {
         inner_la \<leftarrow> compute_do_la inst body_pc (p (mask_pc (body_pc + 1)));
         inner_count \<leftarrow> count_body_loop p inner_la (body_pc + 2) 0;
         count_body_loop p la (inner_la + 1) (count + (1 + inner_count))
       } else if is_rep_instruction inst then do {
         rep_inst \<leftarrow> decode (p (mask_pc (body_pc + 1)));
         count_body_loop p la (body_pc + (1 + instruction_length rep_inst)) (count + 2)
       } else count_body_loop p la (body_pc + instruction_length inst) (count + 1)
     })"

definition count_body_instructions :: "(u32 \<Rightarrow> u32) \<Rightarrow> u32 \<Rightarrow> u32 \<Rightarrow> u32 option" where
  "count_body_instructions p body_start la = count_body_loop p la body_start 0"

text \<open>The checks of \<^verbatim>\<open>is_do_body_inlineable_inner\<close> before its loop.\<close>

definition inline_entry_ok :: "u32 \<Rightarrow> u32 \<Rightarrow> u32 \<Rightarrow> u32 \<Rightarrow> nat \<Rightarrow> bool" where
  "inline_entry_ok p_end body_start la outer_stop_pc depth \<longleftrightarrow>
    (if MAX_NESTING_DEPTH < depth then False
     else if p_end \<le> la then False
     else if outer_stop_pc \<le> la + 1 then False
     else \<not> la < body_start)"

text \<open>The tests of one body instruction that is neither a skip nor a DO loop.\<close>

definition inline_unsafe :: "instruction \<Rightarrow> bool" where
  "inline_unsafe inst \<longleftrightarrow> is_block_terminator inst \<or> needs_exit_check inst \<or>
     writes_p_memory inst \<or> may_arm_stack_fault inst"

text \<open>
  The loop of \<^verbatim>\<open>is_do_body_inlineable_inner\<close> with the tests after it; a nested DO runs the checks
  and the loop for its own body.
\<close>

partial_function (option) inlineable_loop ::
  "(u32 \<Rightarrow> u32) \<Rightarrow> u32 \<Rightarrow> nat \<Rightarrow> u32 \<Rightarrow> u32 \<Rightarrow> u32 \<Rightarrow> u32 list \<Rightarrow> bool option" where
  "inlineable_loop p p_end depth la body_pc count open_skips =
    (if \<not> body_pc \<le> la then
       Some (body_pc = la + 1 \<and> open_skips = [] \<and> \<not> MAX_INLINE_LEN < count)
     else let open_skips = close_skips body_pc open_skips in
       if p_end \<le> body_pc then Some False
       else do {
         inst \<leftarrow> decode (p body_pc);
         let inst_len = instruction_length inst;
         let nw = p (mask_pc (body_pc + 1));
         (case forward_skip_target inst body_pc nw of
           Some target \<Rightarrow>
             if target < body_pc + inst_len \<or> la < target then Some False
             else if open_skips \<noteq> [] \<and> hd open_skips < target then Some False
             else inlineable_loop p p_end depth la (body_pc + inst_len) (count + 1)
                    (target # open_skips)
         | None \<Rightarrow>
             if is_do_instruction inst then
               if open_skips \<noteq> [] then Some False
               else if is_forever inst then Some False
               else do {
                 inner_la \<leftarrow> compute_do_la inst body_pc nw;
                 if la \<le> inner_la then Some False
                 else do {
                   inner_ok \<leftarrow>
                     (if \<not> inline_entry_ok p_end (body_pc + 2) inner_la (la + 1) (depth + 1)
                      then Some False
                      else inlineable_loop p p_end (depth + 1) inner_la (body_pc + 2) 0 []);
                   if \<not> inner_ok then Some False
                   else do {
                     inner_count \<leftarrow> count_body_instructions p (body_pc + 2) inner_la;
                     inlineable_loop p p_end depth la (inner_la + 1) (count + (1 + inner_count))
                       open_skips
                   }
                 }
               }
             else if inline_unsafe inst then Some False
             else if is_rep_instruction inst then
               if open_skips \<noteq> [] then Some False
               else if p_end \<le> body_pc + 1 then Some False
               else do {
                 rep_inst \<leftarrow> decode (p (body_pc + 1));
                 let rep_len = instruction_length rep_inst;
                 if inline_unsafe rep_inst \<or> is_rep_instruction rep_inst \<or>
                    is_do_instruction rep_inst then Some False
                 else if la + 1 < body_pc + 1 + rep_len then Some False
                 else inlineable_loop p p_end depth la (body_pc + 1 + rep_len) (count + 2)
                        open_skips
               }
             else inlineable_loop p p_end depth la (body_pc + inst_len) (count + 1) open_skips)
       })"

definition is_do_body_inlineable_inner ::
  "(u32 \<Rightarrow> u32) \<Rightarrow> u32 \<Rightarrow> u32 \<Rightarrow> u32 \<Rightarrow> u32 \<Rightarrow> nat \<Rightarrow> bool option" where
  "is_do_body_inlineable_inner p p_end body_start la outer_stop_pc depth =
    (if \<not> inline_entry_ok p_end body_start la outer_stop_pc depth then Some False
     else inlineable_loop p p_end depth la body_start 0 [])"

definition is_do_body_inlineable ::
  "(u32 \<Rightarrow> u32) \<Rightarrow> u32 \<Rightarrow> u32 \<Rightarrow> u32 \<Rightarrow> u32 \<Rightarrow> bool option" where
  "is_do_body_inlineable p p_end body_start la outer_stop_pc =
    is_do_body_inlineable_inner p p_end body_start la outer_stop_pc 0"

text \<open>
  \<^verbatim>\<open>straightline_skip_region_len\<close>: the outer option is the loop's, the inner one the code's.
\<close>

partial_function (option) skip_region_loop ::
  "(u32 \<Rightarrow> u32) \<Rightarrow> u32 \<Rightarrow> u32 \<Rightarrow> u32 \<Rightarrow> u32 list \<Rightarrow> u32 option option" where
  "skip_region_loop p target pc count open_skips =
    (if \<not> pc < target then
       Some (if pc \<noteq> target \<or> list_ex (\<lambda>t. t \<noteq> target) open_skips then None else Some count)
     else let open_skips = close_skips pc open_skips in do {
       inst \<leftarrow> decode (p pc);
       let inst_len = instruction_length inst;
       let nw = p (mask_pc (pc + 1));
       (case forward_skip_target inst pc nw of
         Some inner \<Rightarrow>
           if inner < pc + inst_len \<or>
              (case open_skips of [] \<Rightarrow> target | t # _ \<Rightarrow> t) < inner then Some None
           else skip_region_loop p target (pc + inst_len) (count + 1) (inner # open_skips)
       | None \<Rightarrow>
           if is_do_instruction inst \<or> is_rep_instruction inst \<or> is_block_terminator inst \<or>
              writes_p_memory inst then Some None
           else skip_region_loop p target (pc + inst_len) (count + 1) open_skips)
     })"

definition straightline_skip_region_len ::
  "(u32 \<Rightarrow> u32) \<Rightarrow> u32 \<Rightarrow> u32 \<Rightarrow> u32 \<Rightarrow> u32 \<Rightarrow> u32 \<Rightarrow> u32 option option" where
  "straightline_skip_region_len p p_end branch_pc branch_len target stop_pc =
    (if target < branch_pc + branch_len \<or> stop_pc \<le> target \<or> p_end < target then Some None
     else skip_region_loop p target (branch_pc + branch_len) 0 [])"

section \<open>The plan of a block\<close>

text \<open>
  One constructor per emitter call of \<^verbatim>\<open>emit_block\<close> and \<^verbatim>\<open>emit_do_inline\<close>, with the address it is
  about: the merge of a forward skip; its opening (the branch, its address and target, the
  predicate); an instruction with its next word; the first-call arm after a legacy REP; an inlined
  REP with its count and the repeated instruction; an inlined DO with its end, count and body; the
  bail-out and exit checks with the address they resume at.
\<close>

datatype emit_op =
    Op_merge u32
  | Op_skip instruction u32 u32 skip_predicate
  | Op_inst instruction u32 u32
  | Op_rep_first_call u32
  | Op_rep instruction u32 lc_source instruction u32
  | Op_do instruction u32 u32 lc_source "emit_op list"
  | Op_arm_bail u32
  | Op_exit_check u32

text \<open>The merges at an address: one per skip closed there.\<close>

definition merges :: "u32 \<Rightarrow> u32 list \<Rightarrow> emit_op list" where
  "merges pc skips = map (\<lambda>_. Op_merge pc) (takeWhile (\<lambda>t. t = pc) skips)"

definition emit_rep_inline :: "(u32 \<Rightarrow> u32) \<Rightarrow> instruction \<Rightarrow> u32 \<Rightarrow> emit_op option" where
  "emit_rep_inline p rep_inst rep_pc = do {
     lc \<leftarrow> emit_rep_lc_value rep_inst;
     let next_pc = rep_pc + 1;
     let next_next_word = p (mask_pc (next_pc + 1));
     next_inst \<leftarrow> decode (p next_pc);
     Some (Op_rep rep_inst rep_pc lc next_inst next_next_word)
   }"

text \<open>The body of \<^verbatim>\<open>emit_do_inline\<close>; its debug assertions are \<open>None\<close> when they fail.\<close>

partial_function (option) do_body_ops ::
  "(u32 \<Rightarrow> u32) \<Rightarrow> u32 \<Rightarrow> u32 \<Rightarrow> u32 list \<Rightarrow> emit_op list option" where
  "do_body_ops p la body_pc open_skips =
    (if \<not> body_pc \<le> la then (if open_skips = [] then Some [] else None)
     else
       let merged = merges body_pc open_skips;
           open_skips = close_skips body_pc open_skips;
           nw = p (mask_pc (body_pc + 1))
       in do {
         inst \<leftarrow> decode (p body_pc);
         (ops, pc', skips') \<leftarrow>
           (case forward_skip_target inst body_pc nw of
             Some target \<Rightarrow>
               let inst_len = instruction_length inst
               in if \<not> (body_pc + inst_len \<le> target \<and> target \<le> la) then None
                  else do {
                    pred \<leftarrow> emit_skip_predicate inst;
                    Some ([Op_skip inst body_pc target pred], body_pc + inst_len,
                      target # open_skips)
                  }
           | None \<Rightarrow>
               if is_do_instruction inst then do {
                 inner_la \<leftarrow> compute_do_la inst body_pc nw;
                 lc \<leftarrow> emit_do_lc_value inst;
                 body \<leftarrow> do_body_ops p inner_la (body_pc + 2) [];
                 Some ([Op_do inst body_pc inner_la lc body], inner_la + 1, open_skips)
               } else if is_rep_instruction inst then do {
                 op \<leftarrow> emit_rep_inline p inst body_pc;
                 rep_inst \<leftarrow> decode (p (body_pc + 1));
                 Some ([op], body_pc + 1 + instruction_length rep_inst, open_skips)
               } else
                 Some ([Op_inst inst body_pc nw], body_pc + instruction_length inst, open_skips));
         rest \<leftarrow> do_body_ops p la pc' skips';
         Some (merged @ ops @ rest)
       })"

definition emit_do_inline ::
  "(u32 \<Rightarrow> u32) \<Rightarrow> instruction \<Rightarrow> u32 \<Rightarrow> u32 \<Rightarrow> emit_op option" where
  "emit_do_inline p do_inst do_pc la = do {
     lc \<leftarrow> emit_do_lc_value do_inst;
     body \<leftarrow> do_body_ops p la (do_pc + 2) [];
     Some (Op_do do_inst do_pc la lc body)
   }"

text \<open>
  One iteration of the loop of \<^verbatim>\<open>emit_block\<close> after its budget test: the operations emitted, the new
  address, count and open skips, and whether the loop breaks, with the terminator flag.
\<close>

datatype block_exit = Go_on | Break bool

type_synonym block_step = "emit_op list \<times> u32 \<times> u32 \<times> u32 list \<times> block_exit"

text \<open>The forward skip, if it is accepted; the inner option is the fall-through to the rest.\<close>

definition accept_skip ::
  "(u32 \<Rightarrow> u32) \<Rightarrow> u32 \<Rightarrow> u32 \<Rightarrow> u32 \<Rightarrow> instruction \<Rightarrow> u32 \<Rightarrow> u32 \<Rightarrow> u32 list \<Rightarrow>
   u32 option option" where
  "accept_skip p p_end max_len stop_pc inst pc count open_skips =
    (let inst_len = instruction_length inst;
         next_word = p (mask_pc (pc + 1))
     in case forward_skip_target inst pc next_word of
       None \<Rightarrow> Some None
     | Some target \<Rightarrow>
         (case open_skips of
           enclosing # _ \<Rightarrow>
             if pc + inst_len \<le> target \<and> target \<le> enclosing then Some (Some target) else None
         | [] \<Rightarrow> do {
             region \<leftarrow> straightline_skip_region_len p p_end pc inst_len target stop_pc;
             Some (case region of
               Some n \<Rightarrow> if count + 1 + n \<le> max_len then Some target else None
             | None \<Rightarrow> None)
           }))"

definition rep_step_ops ::
  "(u32 \<Rightarrow> u32) \<Rightarrow> u32 \<Rightarrow> instruction \<Rightarrow> u32 \<Rightarrow> u32 \<Rightarrow> u32 list \<Rightarrow> block_step option" where
  "rep_step_ops p stop_pc inst pc count open_skips = do {
     let next_word = p (mask_pc (pc + 1));
     target \<leftarrow> decode (p (mask_pc (pc + 1)));
     if may_arm_stack_fault target \<or> is_rep_instruction target \<or> is_do_instruction target
     then Some ([Op_inst inst pc next_word, Op_rep_first_call pc],
            pc + instruction_length inst, count, open_skips, Break True)
     else do {
       op \<leftarrow> emit_rep_inline p inst pc;
       rep_inst \<leftarrow> decode (p (pc + 1));
       let pc' = pc + (1 + instruction_length rep_inst);
       Some ([op], pc', count + 2, open_skips, if stop_pc \<le> pc' then Break False else Go_on)
     }
   }"

definition do_step_ops ::
  "(u32 \<Rightarrow> u32) \<Rightarrow> u32 \<Rightarrow> u32 \<Rightarrow> instruction \<Rightarrow> u32 \<Rightarrow> u32 \<Rightarrow> u32 list \<Rightarrow> block_step option" where
  "do_step_ops p p_end stop_pc inst pc count open_skips = do {
     let next_word = p (mask_pc (pc + 1));
     la \<leftarrow> compute_do_la inst pc next_word;
     inline \<leftarrow> (if is_forever inst then Some False
                else is_do_body_inlineable p p_end (pc + 2) la stop_pc);
     if inline then do {
       op \<leftarrow> emit_do_inline p inst pc la;
       body_count \<leftarrow> count_body_instructions p (pc + 2) la;
       let pc' = la + 1;
       Some ([op], pc', count + (1 + body_count), open_skips,
         if stop_pc \<le> pc' then Break False else Go_on)
     }
     else Some ([Op_inst inst pc next_word], pc + instruction_length inst, count, open_skips,
            Break True)
   }"

definition plain_step_ops ::
  "(u32 \<Rightarrow> u32) \<Rightarrow> u32 \<Rightarrow> instruction \<Rightarrow> u32 \<Rightarrow> u32 \<Rightarrow> u32 list \<Rightarrow> block_step" where
  "plain_step_ops p stop_pc inst pc count open_skips =
    (let is_terminator = is_block_terminator inst;
         check_exit = needs_exit_check inst;
         pc' = pc + instruction_length inst
     in ([Op_inst inst pc (p (mask_pc (pc + 1)))] @
         (if \<not> is_terminator then [Op_arm_bail pc'] else []) @
         (if check_exit \<and> \<not> is_terminator then [Op_exit_check pc'] else []),
         pc', count + 1, open_skips,
         if is_terminator \<or> stop_pc \<le> pc' \<or> writes_p_memory inst then Break True else Go_on))"

definition block_step ::
  "(u32 \<Rightarrow> u32) \<Rightarrow> u32 \<Rightarrow> u32 \<Rightarrow> u32 \<Rightarrow> u32 \<Rightarrow> u32 \<Rightarrow> u32 list \<Rightarrow> block_step option" where
  "block_step p p_end max_len stop_pc pc count open_skips = do {
     inst \<leftarrow> decode (p pc);
     accepted \<leftarrow> accept_skip p p_end max_len stop_pc inst pc count open_skips;
     (case accepted of
       Some target \<Rightarrow> do {
         pred \<leftarrow> emit_skip_predicate inst;
         Some ([Op_skip inst pc target pred], pc + instruction_length inst, count + 1,
           target # open_skips, Go_on)
       }
     | None \<Rightarrow>
         if is_rep_instruction inst then rep_step_ops p stop_pc inst pc count open_skips
         else if is_do_instruction inst
         then do_step_ops p p_end stop_pc inst pc count open_skips
         else Some (plain_step_ops p stop_pc inst pc count open_skips))
   }"

partial_function (option) emit_block_loop ::
  "(u32 \<Rightarrow> u32) \<Rightarrow> u32 \<Rightarrow> u32 \<Rightarrow> u32 \<Rightarrow> u32 \<Rightarrow> u32 \<Rightarrow> u32 list \<Rightarrow>
   (emit_op list \<times> u32 \<times> bool) option" where
  "emit_block_loop p p_end max_len stop_pc pc count open_skips =
    (let merged = merges pc open_skips;
         open_skips = close_skips pc open_skips
     in if max_len \<le> count \<or> p_end \<le> pc
        then (if open_skips = [] then Some (merged, pc, False) else None)
        else do {
          (ops, pc', count', skips', exit) \<leftarrow> block_step p p_end max_len stop_pc pc count open_skips;
          (case exit of
            Break ended \<Rightarrow> if skips' = [] then Some (merged @ ops, pc', ended) else None
          | Go_on \<Rightarrow> do {
              (rest, end_pc, ended) \<leftarrow> emit_block_loop p p_end max_len stop_pc pc' count' skips';
              Some (merged @ ops @ rest, end_pc, ended)
            })
        })"

text \<open>
  \<^verbatim>\<open>emit_block\<close>: the plan, how its final PC is set (from the instruction length of a terminator, or
  as a fall-through), the end of the block and whether it ends open.
\<close>

definition emit_block ::
  "(u32 \<Rightarrow> u32) \<Rightarrow> u32 \<Rightarrow> u32 \<Rightarrow> u32 \<Rightarrow> u32 \<Rightarrow> (emit_op list \<times> u32 \<times> bool) option" where
  "emit_block p p_end start_pc max_len stop_pc =
    map_option (\<lambda>(ops, end_pc, ended_with_terminator). (ops, end_pc, \<not> ended_with_terminator))
      (emit_block_loop p p_end max_len stop_pc start_pc 0 [])"

end
