(* ===== verification/Block_Laws.thy ===== *)
theory Block_Laws
  imports Block_Shape Decode_Laws
begin

text \<open>
  The laws of the block former of \<^verbatim>\<open>Block_Shape\<close>. A region that passes the scans is described by
  an inductive relation (\<open>body_ok\<close> for a DO body, \<open>region_ok\<close> for a forward skip); the emitters
  and the counter succeed along it. From that: the block former returns for every program, all of
  its debug assertions hold, and its plan tiles the block with the program's instructions.
\<close>

section \<open>Instructions\<close>

lemma decode_total': "\<exists>i. decode w = Some i"
  using decode_not_None by blast

lemma ilen_cases: "instruction_length i = 1 \<or> instruction_length i = 2"
  by (auto simp: instruction_length_def parallel_length_def split: instruction.split
      arith_instr.split branch_instr.split move_instr.split mul_instr.split loop_instr.split
      bitop_instr.split address_instr.split field_instr.split cache_instr.split)

lemma ilen_unat: "unat (instruction_length i) = 1 \<or> unat (instruction_length i) = 2"
  using ilen_cases [of i] by auto

lemma skip_target_SomeD:
  assumes "forward_skip_target i pc nw = Some t"
  shows "\<exists>pr. emit_skip_predicate i = Some pr" "\<not> is_do_instruction i" "\<not> is_rep_instruction i"
  using assms by (auto simp: forward_skip_target_def emit_skip_predicate_def is_do_instruction_def
      is_rep_instruction_def Let_def split: instruction.splits bit_branch_instr.splits
      bit_jump_instr.splits branch_instr.splits if_splits)

lemma do_instructionD:
  assumes "is_do_instruction i"
  shows "\<exists>la. compute_do_la i pc nw = Some la" "instruction_length i = 2" "\<not> is_rep_instruction i"
    "\<not> is_forever i \<Longrightarrow> \<exists>lc. emit_do_lc_value i = Some lc" "is_block_terminator i"
    "forward_skip_target i pc nw = None"
  using assms by (auto simp: is_do_instruction_def compute_do_la_def instruction_length_def
      is_rep_instruction_def emit_do_lc_value_def is_block_terminator_def forward_skip_target_def
      split: instruction.splits loop_instr.splits)

lemma rep_instructionD:
  assumes "is_rep_instruction i"
  shows "\<exists>lc. emit_rep_lc_value i = Some lc" "instruction_length i = 1" "\<not> is_do_instruction i"
    "forward_skip_target i pc nw = None"
  using assms by (auto simp: is_do_instruction_def instruction_length_def
      is_rep_instruction_def emit_rep_lc_value_def forward_skip_target_def
      split: instruction.splits loop_instr.splits)

lemma and_le_right: "(x :: u32) AND m \<le> m"
  by (simp add: word_and_le1)

lemma do_la_bound: "compute_do_la i pc nw = Some la \<Longrightarrow> la \<le> 0xFFFFFF"
  by (auto simp: compute_do_la_def mask_pc_def word_and_le1
      split: instruction.splits loop_instr.splits)

lemma mask_pc_id: "v \<le> 0xFFFFFF \<Longrightarrow> mask_pc v = v"
proof -
  assume "v \<le> 0xFFFFFF"
  then have "unat v < 2 ^ 24" by (simp add: word_le_nat_alt)
  then have "v AND mask 24 = v" by (simp add: unat_arith_simps unat_and_mask)
  then show ?thesis by (simp add: mask_pc_def mask_eq_exp_minus_1)
qed

section \<open>Validated bodies\<close>

text \<open>A body position from which the walk over a DO body succeeds.\<close>

inductive body_ok :: "(u32 \<Rightarrow> u32) \<Rightarrow> u32 \<Rightarrow> u32 \<Rightarrow> u32 list \<Rightarrow> bool" for p where
  body_end: "la < la + 1 \<Longrightarrow> body_ok p la (la + 1) []"
| body_skip: "pc \<le> la \<Longrightarrow> decode (p pc) = Some i \<Longrightarrow>
    forward_skip_target i pc (p (mask_pc (pc + 1))) = Some t \<Longrightarrow>
    pc + instruction_length i \<le> t \<Longrightarrow> t \<le> la \<Longrightarrow>
    body_ok p la (pc + instruction_length i) (t # close_skips pc sk) \<Longrightarrow> body_ok p la pc sk"
| body_do: "pc \<le> la \<Longrightarrow> decode (p pc) = Some i \<Longrightarrow> is_do_instruction i \<Longrightarrow> \<not> is_forever i \<Longrightarrow>
    compute_do_la i pc (p (mask_pc (pc + 1))) = Some ila \<Longrightarrow> close_skips pc sk = [] \<Longrightarrow>
    pc + 2 \<le> ila \<Longrightarrow> ila < la \<Longrightarrow> body_ok p ila (pc + 2) [] \<Longrightarrow> body_ok p la (ila + 1) [] \<Longrightarrow>
    body_ok p la pc sk"
| body_rep: "pc \<le> la \<Longrightarrow> pc + 1 \<le> 0xFFFFFF \<Longrightarrow> decode (p pc) = Some i \<Longrightarrow> is_rep_instruction i \<Longrightarrow>
    close_skips pc sk = [] \<Longrightarrow> decode (p (pc + 1)) = Some j \<Longrightarrow>
    \<not> inline_unsafe j \<Longrightarrow> \<not> is_rep_instruction j \<Longrightarrow> \<not> is_do_instruction j \<Longrightarrow>
    body_ok p la (pc + 1 + instruction_length j) [] \<Longrightarrow> body_ok p la pc sk"
| body_plain: "pc \<le> la \<Longrightarrow> decode (p pc) = Some i \<Longrightarrow>
    forward_skip_target i pc (p (mask_pc (pc + 1))) = None \<Longrightarrow> \<not> is_do_instruction i \<Longrightarrow>
    \<not> is_rep_instruction i \<Longrightarrow> \<not> inline_unsafe i \<Longrightarrow>
    body_ok p la (pc + instruction_length i) (close_skips pc sk) \<Longrightarrow> body_ok p la pc sk"

lemma body_loop_step:
  fixes pc la :: u32
  assumes "pc \<le> la" "la \<le> 0xFFFFFF"
  shows "unat (la + 1) = unat la + 1" "unat (pc + 1) = unat pc + 1" "unat (pc + 2) = unat pc + 2"
    "unat (pc + instruction_length i) = unat pc + unat (instruction_length i)"
    "unat (pc + 1 + instruction_length i) = unat pc + 1 + unat (instruction_length i)"
proof -
  have "unat la \<le> 0xFFFFFF" using assms by (simp add: word_le_nat_alt)
  moreover have "unat pc \<le> unat la" using assms by (simp add: word_le_nat_alt)
  moreover have "unat (instruction_length i) \<le> 2" using ilen_unat [of i] by auto
  ultimately show "unat (la + 1) = unat la + 1" "unat (pc + 1) = unat pc + 1"
    "unat (pc + 2) = unat pc + 2"
    "unat (pc + instruction_length i) = unat pc + unat (instruction_length i)"
    "unat (pc + 1 + instruction_length i) = unat pc + 1 + unat (instruction_length i)"
    by (simp_all add: unat_plus_if')
qed

lemma ilen_pos: "0 < unat (instruction_length i)"
  using ilen_unat [of i] by auto

lemma count_body_ok:
  assumes "body_ok p la pc sk"
  shows "\<exists>k. \<forall>c. count_body_loop p la pc c = Some (c + k)"
  using assms
proof (induction rule: body_ok.induct)
  case (body_end la)
  then show ?case by (subst count_body_loop.simps) (auto intro!: exI [of _ 0])
next
  case (body_skip pc la i t sk)
  then obtain k where "\<And>c. count_body_loop p la (pc + instruction_length i) c = Some (c + k)"
    by blast
  then show ?case
    using body_skip.hyps skip_target_SomeD [OF body_skip.hyps(3)]
    by (intro exI [of _ "1 + k"]) (subst count_body_loop.simps, simp add: add.assoc)
next
  case (body_do pc la i ila sk)
  then obtain k m where "\<And>c. count_body_loop p ila (pc + 2) c = Some (c + k)"
    "\<And>c. count_body_loop p la (ila + 1) c = Some (c + m)" by blast
  then show ?case using body_do.hyps
    by (intro exI [of _ "1 + k + m"]) (subst count_body_loop.simps, simp add: ac_simps)
next
  case (body_rep pc la i sk j)
  then obtain k where "\<And>c. count_body_loop p la (pc + 1 + instruction_length j) c = Some (c + k)"
    by blast
  moreover have "p (mask_pc (pc + 1)) = p (pc + 1)" using body_rep.hyps by (simp add: mask_pc_id)
  ultimately show ?case using body_rep.hyps rep_instructionD [OF body_rep.hyps(4)]
    by (intro exI [of _ "2 + k"]) (subst count_body_loop.simps, simp add: ac_simps)
next
  case (body_plain pc la i sk)
  then obtain k where "\<And>c. count_body_loop p la (pc + instruction_length i) c = Some (c + k)"
    by blast
  then show ?case
    using body_plain.hyps
    by (intro exI [of _ "1 + k"]) (subst count_body_loop.simps, simp add: add.assoc)
qed

lemma inline_entry_okD:
  "inline_entry_ok p_end start la stop d \<Longrightarrow> la < p_end \<and> start \<le> la \<and> la + 1 < stop \<and> d \<le> 8"
  by (auto simp: inline_entry_ok_def not_less not_le split: if_splits)

abbreviation scan_result :: "bool option \<Rightarrow> bool \<Rightarrow> bool" where
  "scan_result r ok \<equiv> r = Some False \<or> r = Some True \<and> ok"

lemma inlineable_loop_ok:
  assumes p_end: "p_end \<le> 0x1000000"
  shows "la < p_end \<Longrightarrow> scan_result (inlineable_loop p p_end d la pc c sk) (body_ok p la pc sk)"
proof (induction "unat la + 1 - unat pc" arbitrary: la d pc c sk rule: less_induct)
  case less
  have la: "la \<le> 0xFFFFFF" using less.prems p_end by unat_arith
  obtain i where i: "decode (p pc) = Some i" using decode_total' by blast
  obtain j where j: "decode (p (pc + 1)) = Some j" using decode_total' by blast
  note unfold = inlineable_loop.simps [of p p_end d la pc c sk]
  consider (past) "\<not> pc \<le> la" | (out) "pc \<le> la" "p_end \<le> pc"
    | (body) "pc \<le> la" "\<not> p_end \<le> pc" by blast
  then show ?case
  proof cases
    case past
    then show ?thesis using body_loop_step(1) [of la la] la
      by (subst (1 2) unfold) (auto simp: word_less_nat_alt intro: body_end)
  next
    case out
    then show ?thesis by (subst unfold) (simp add: Let_def)
  next
    case body
    note bounds = body_loop_step [OF body(1) la]
    have step: "scan_result (inlineable_loop p p_end d la pc' c' sk') (body_ok p la pc' sk')"
      if "unat pc < unat pc'" for pc' c' sk'
      using less.hyps [of la pc'] less.prems that body(1) by (simp add: word_le_nat_alt)
    show ?thesis
    proof (cases "forward_skip_target i pc (p (mask_pc (pc + 1)))")
      case (Some t)
      have "scan_result (inlineable_loop p p_end d la (pc + instruction_length i) (c + 1)
          (t # close_skips pc sk)) (body_ok p la (pc + instruction_length i) (t # close_skips pc sk))"
        using bounds(4) ilen_pos by (intro step) simp
      then show ?thesis using body i Some
        by (subst (1 2) unfold) (auto simp: Let_def intro: body_skip)
    next
      case None
      consider "is_do_instruction i" | "\<not> is_do_instruction i" "inline_unsafe i"
        | "is_rep_instruction i" "\<not> inline_unsafe i"
        | "\<not> is_do_instruction i" "\<not> is_rep_instruction i" "\<not> inline_unsafe i"
        using rep_instructionD by blast
      then show ?thesis
      proof cases
        case 1
        then obtain ila where ila: "compute_do_la i pc (p (mask_pc (pc + 1))) = Some ila"
          using do_instructionD by blast
        show ?thesis
        proof (cases "close_skips pc sk = [] \<and> \<not> is_forever i \<and> \<not> la \<le> ila \<and>
            inline_entry_ok p_end (pc + 2) ila (la + 1) (d + 1)")
          case True
          then have ent: "ila < p_end" "pc + 2 \<le> ila" "ila < la" by (auto dest: inline_entry_okD)
          have inner: "scan_result (inlineable_loop p p_end (d + 1) ila (pc + 2) 0 [])
              (body_ok p ila (pc + 2) [])"
            using less.hyps [of ila "pc + 2"] ent bounds by (simp add: word_le_nat_alt word_less_nat_alt)
          have outer: "scan_result (inlineable_loop p p_end d la (ila + 1) c' [])
              (body_ok p la (ila + 1) [])" for c'
            using ent bounds la body_loop_step(1) [of ila ila]
            by (intro step) (simp add: word_le_nat_alt word_less_nat_alt)
          show ?thesis
          proof (cases "body_ok p ila (pc + 2) []")
            case inner_ok: True
            then obtain k where "count_body_instructions p (pc + 2) ila = Some k"
              using count_body_ok by (fastforce simp: count_body_instructions_def)
            moreover have "body_ok p la (ila + 1) [] \<Longrightarrow> body_ok p la pc sk"
              using body_do [OF body(1) i 1 _ ila] True ent inner_ok by blast
            ultimately show ?thesis
              using inner outer [of "c + (1 + k)"] True inner_ok body i None 1 ila
              by (subst (1 2) unfold) (auto simp: Let_def)
          next
            case False
            then show ?thesis using inner True body i None 1 ila
              by (subst unfold) (auto simp: Let_def)
          qed
        next
          case False
          then show ?thesis using body i None 1 ila by (subst unfold) (auto simp: Let_def)
        qed
      next
        case 2
        then show ?thesis using body i None by (subst unfold) (simp add: Let_def)
      next
        case 3
        show ?thesis
        proof (cases "close_skips pc sk = [] \<and> \<not> p_end \<le> pc + 1 \<and> \<not> inline_unsafe j \<and>
            \<not> is_rep_instruction j \<and> \<not> is_do_instruction j \<and>
            \<not> la + 1 < pc + 1 + instruction_length j")
          case True
          have "scan_result (inlineable_loop p p_end d la (pc + 1 + instruction_length j) (c + 2) [])
              (body_ok p la (pc + 1 + instruction_length j) [])"
            using bounds(5) ilen_pos by (intro step) simp
          moreover have "pc + 1 \<le> 0xFFFFFF" using True p_end by unat_arith
          ultimately show ?thesis using body i j None 3 rep_instructionD [of i] True
            by (subst (1 2) unfold) (auto simp: Let_def intro: body_rep)
        next
          case False
          then show ?thesis using body i j None 3 rep_instructionD [of i]
            by (subst unfold) (auto simp: Let_def)
        qed
      next
        case 4
        have "scan_result (inlineable_loop p p_end d la (pc + instruction_length i) (c + 1)
            (close_skips pc sk)) (body_ok p la (pc + instruction_length i) (close_skips pc sk))"
          using bounds(4) ilen_pos by (intro step) simp
        then show ?thesis using body i None 4
          by (subst (1 2) unfold) (auto simp: Let_def intro: body_plain)
      qed
    qed
  qed
qed

section \<open>Reading a plan back\<close>

text \<open>
  The state of the reader is the address reached and the open skips. An operation must be about
  that address, carry what the program holds there, and moves the address past the words it
  covers; a merge closes the innermost skip, at its target.
\<close>

fun run_op :: "(u32 \<Rightarrow> u32) \<Rightarrow> emit_op \<Rightarrow> u32 \<times> u32 list \<Rightarrow> (u32 \<times> u32 list) option"
  and run_plan :: "(u32 \<Rightarrow> u32) \<Rightarrow> emit_op list \<Rightarrow> u32 \<times> u32 list \<Rightarrow> (u32 \<times> u32 list) option" where
  "run_op p (Op_merge a) (pc, sk) =
    (case sk of [] \<Rightarrow> None | t # sk' \<Rightarrow> if a = pc \<and> t = pc then Some (pc, sk') else None)"
| "run_op p (Op_skip i a t pr) (pc, sk) =
    (if a = pc \<and> pc \<le> 0xFFFFFF \<and> decode (p pc) = Some i \<and> emit_skip_predicate i = Some pr \<and>
        forward_skip_target i pc (p (mask_pc (pc + 1))) = Some t \<and> pc + instruction_length i \<le> t
     then Some (pc + instruction_length i, t # sk) else None)"
| "run_op p (Op_inst i a nw) (pc, sk) =
    (if a = pc \<and> pc \<le> 0xFFFFFF \<and> decode (p pc) = Some i \<and>
        (instruction_length i = 2 \<longrightarrow> nw = p (mask_pc (pc + 1)))
     then Some (pc + instruction_length i, sk) else None)"
| "run_op p (Op_rep_first_call a) (pc, sk) = (if pc = a + 1 then Some (pc, sk) else None)"
| "run_op p (Op_rep i a lc j nw) (pc, sk) =
    (if a = pc \<and> pc \<le> 0xFFFFFF \<and> decode (p pc) = Some i \<and> emit_rep_lc_value i = Some lc \<and>
        decode (p (pc + 1)) = Some j \<and>
        (instruction_length j = 2 \<longrightarrow> nw = p (mask_pc (pc + 2)))
     then Some (pc + 1 + instruction_length j, sk) else None)"
| "run_op p (Op_do i a la lc body) (pc, sk) =
    (if a = pc \<and> pc \<le> 0xFFFFFF \<and> decode (p pc) = Some i \<and> emit_do_lc_value i = Some lc \<and>
        compute_do_la i pc (p (mask_pc (pc + 1))) = Some la \<and> pc + 2 \<le> la \<and>
        run_plan p body (pc + 2, []) = Some (la + 1, [])
     then Some (la + 1, sk) else None)"
| "run_op p (Op_arm_bail a) (pc, sk) = (if a = pc then Some (pc, sk) else None)"
| "run_op p (Op_exit_check a) (pc, sk) = (if a = pc then Some (pc, sk) else None)"
| "run_plan p [] st = Some st"
| "run_plan p (op # ops) st = Option.bind (run_op p op st) (run_plan p ops)"

lemma run_plan_append:
  "run_plan p (ops @ ops') st = Option.bind (run_plan p ops st) (run_plan p ops')"
  by (induction ops arbitrary: st) (auto split: Option.bind_split)

lemma run_merges: "run_plan p (merges pc sk) (pc, sk) = Some (pc, close_skips pc sk)"
  by (induction sk) (auto simp: merges_def close_skips_def)

text \<open>What an inlined loop body must not contain.\<close>

fun op_safe :: "emit_op \<Rightarrow> bool" where
  "op_safe (Op_inst i _ _) \<longleftrightarrow>
    \<not> inline_unsafe i \<and> \<not> is_rep_instruction i \<and> \<not> is_do_instruction i"
| "op_safe (Op_rep _ _ _ j _) \<longleftrightarrow>
    \<not> inline_unsafe j \<and> \<not> is_rep_instruction j \<and> \<not> is_do_instruction j"
| "op_safe (Op_do i _ _ _ body) \<longleftrightarrow> \<not> is_forever i \<and> list_all op_safe body"
| "op_safe (Op_arm_bail _) \<longleftrightarrow> False"
| "op_safe (Op_exit_check _) \<longleftrightarrow> False"
| "op_safe (Op_rep_first_call _) \<longleftrightarrow> False"
| "op_safe (Op_merge _) \<longleftrightarrow> True"
| "op_safe (Op_skip i _ _ _) \<longleftrightarrow> True"

lemma merges_safe: "list_all op_safe (merges pc sk)"
  by (simp add: merges_def list_all_iff)

text \<open>The plan of a validated body.\<close>

lemma do_body_ops_ok:
  assumes "body_ok p la pc sk" "la \<le> 0xFFFFFF"
  shows "\<exists>ops. do_body_ops p la pc sk = Some ops \<and>
    run_plan p ops (pc, sk) = Some (la + 1, []) \<and> list_all op_safe ops"
  using assms
proof (induction rule: body_ok.induct)
  case (body_end la)
  then show ?case by (subst do_body_ops.simps) auto
next
  case (body_skip pc la i t sk)
  then obtain ops where "do_body_ops p la (pc + instruction_length i) (t # close_skips pc sk) = Some ops"
    "run_plan p ops (pc + instruction_length i, t # close_skips pc sk) = Some (la + 1, [])"
    "list_all op_safe ops" by blast
  moreover obtain pr where "emit_skip_predicate i = Some pr"
    using skip_target_SomeD [OF body_skip.hyps(3)] by blast
  ultimately show ?case using body_skip.hyps body_skip.prems
      order_trans [OF body_skip.hyps(1) body_skip.prems]
    by (subst do_body_ops.simps)
      (simp add: Let_def run_plan_append run_merges merges_safe)
next
  case (body_do pc la i ila sk)
  have "ila \<le> 0xFFFFFF" using body_do.hyps body_do.prems by simp
  then obtain body ops where "do_body_ops p ila (pc + 2) [] = Some body"
    "run_plan p body (pc + 2, []) = Some (ila + 1, [])" "list_all op_safe body"
    "do_body_ops p la (ila + 1) [] = Some ops"
    "run_plan p ops (ila + 1, []) = Some (la + 1, [])" "list_all op_safe ops"
    using body_do.IH body_do.prems by blast
  moreover obtain lc where "emit_do_lc_value i = Some lc"
    using do_instructionD(4) body_do.hyps by blast
  ultimately show ?case
    using body_do.hyps body_do.prems do_instructionD(6) [OF body_do.hyps(3)]
      order_trans [OF body_do.hyps(1) body_do.prems]
    by (subst do_body_ops.simps)
      (simp add: Let_def run_plan_append run_merges merges_safe)
next
  case (body_rep pc la i sk j)
  then obtain ops where "do_body_ops p la (pc + 1 + instruction_length j) [] = Some ops"
    "run_plan p ops (pc + 1 + instruction_length j, []) = Some (la + 1, [])"
    "list_all op_safe ops" by blast
  moreover obtain lc where "emit_rep_lc_value i = Some lc"
    using rep_instructionD(1) body_rep.hyps by blast
  ultimately show ?case
    using body_rep.hyps body_rep.prems rep_instructionD(3,4) [OF body_rep.hyps(4)]
      order_trans [OF body_rep.hyps(1) body_rep.prems]
    by (subst do_body_ops.simps)
      (simp add: Let_def run_plan_append run_merges merges_safe emit_rep_inline_def add.commute)
next
  case (body_plain pc la i sk)
  then obtain ops where "do_body_ops p la (pc + instruction_length i) (close_skips pc sk) = Some ops"
    "run_plan p ops (pc + instruction_length i, close_skips pc sk) = Some (la + 1, [])"
    "list_all op_safe ops" by blast
  then show ?case using body_plain.hyps body_plain.prems
      order_trans [OF body_plain.hyps(1) body_plain.prems]
    by (subst do_body_ops.simps)
      (simp add: Let_def run_plan_append run_merges merges_safe)
qed

section \<open>Forward skips\<close>

text \<open>A region of straight-line code that passes the scan, with the number of its instructions.\<close>

inductive region_ok :: "(u32 \<Rightarrow> u32) \<Rightarrow> u32 \<Rightarrow> u32 \<Rightarrow> u32 list \<Rightarrow> nat \<Rightarrow> bool" for p target where
  region_end: "list_all (\<lambda>t. t = target) sk \<Longrightarrow> region_ok p target target sk 0"
| region_skip: "pc < target \<Longrightarrow> decode (p pc) = Some i \<Longrightarrow>
    forward_skip_target i pc (p (mask_pc (pc + 1))) = Some t \<Longrightarrow> pc + instruction_length i \<le> t \<Longrightarrow>
    t \<le> (case close_skips pc sk of [] \<Rightarrow> target | t # _ \<Rightarrow> t) \<Longrightarrow>
    region_ok p target (pc + instruction_length i) (t # close_skips pc sk) n \<Longrightarrow>
    region_ok p target pc sk (Suc n)"
| region_plain: "pc < target \<Longrightarrow> decode (p pc) = Some i \<Longrightarrow>
    forward_skip_target i pc (p (mask_pc (pc + 1))) = None \<Longrightarrow> \<not> is_do_instruction i \<Longrightarrow>
    \<not> is_rep_instruction i \<Longrightarrow> \<not> is_block_terminator i \<Longrightarrow> \<not> writes_p_memory i \<Longrightarrow>
    region_ok p target (pc + instruction_length i) (close_skips pc sk) n \<Longrightarrow>
    region_ok p target pc sk (Suc n)"

lemma region_le: "region_ok p target pc sk n \<Longrightarrow> pc \<le> target"
  by (induction rule: region_ok.induct) auto

lemma pc_step:
  fixes pc :: u32
  assumes "pc < bnd" "bnd \<le> 0x1000000"
  shows "unat (pc + instruction_length i) = unat pc + unat (instruction_length i)"
    "unat (pc + 1) = unat pc + 1" "unat (pc + 2) = unat pc + 2" "pc \<le> 0xFFFFFF"
    "unat (pc + 1 + instruction_length i) = unat pc + 1 + unat (instruction_length i)"
proof -
  show pc: "pc \<le> 0xFFFFFF" using assms by unat_arith
  note this [THEN body_loop_step(2)] this [THEN body_loop_step(3)] this [THEN body_loop_step(4)]
    this [THEN body_loop_step(5)]
  then show "unat (pc + instruction_length i) = unat pc + unat (instruction_length i)"
    "unat (pc + 1) = unat pc + 1" "unat (pc + 2) = unat pc + 2"
    "unat (pc + 1 + instruction_length i) = unat pc + 1 + unat (instruction_length i)" by simp_all
qed

lemma region_count:
  assumes "region_ok p target pc sk n" "target \<le> 0x1000000"
  shows "n \<le> unat target - unat pc"
  using assms
proof (induction rule: region_ok.induct)
  case (region_skip pc i t sk n)
  then show ?case using pc_step(1) [OF region_skip.hyps(1), of i] ilen_pos [of i]
    by (simp add: word_less_nat_alt)
next
  case (region_plain pc i sk n)
  then show ?case using pc_step(1) [OF region_plain.hyps(1), of i] ilen_pos [of i]
    by (simp add: word_less_nat_alt)
qed simp

lemma skip_region_loop_ok:
  assumes target: "target \<le> 0x1000000"
  shows "skip_region_loop p target pc c sk = Some None \<or>
    (\<exists>n. skip_region_loop p target pc c sk = Some (Some (c + of_nat n)) \<and> region_ok p target pc sk n)"
    (is "?P pc c sk")
proof (induction "unat target - unat pc" arbitrary: pc c sk rule: less_induct)
  case less
  obtain i where i: "decode (p pc) = Some i" using decode_total' by blast
  note unfold = skip_region_loop.simps [of p target pc c sk]
  show ?case
  proof (cases "pc < target")
    case False
    then show ?thesis
      by (subst (1 2) unfold) (auto simp: list_all_iff list_ex_iff intro!: exI [of _ 0] region_end)
  next
    case True
    let ?len = "instruction_length i"
    let ?sk = "close_skips pc sk"
    have IH: "?P (pc + ?len) (c + 1) sk'" for sk'
      using less.hyps [of "pc + ?len"] pc_step(1) [OF True target, of i] ilen_pos [of i] True
      by (simp add: word_less_nat_alt)
    show ?thesis
    proof (cases "forward_skip_target i pc (p (mask_pc (pc + 1)))")
      case (Some t)
      show ?thesis
      proof (cases "t < pc + ?len \<or> (case ?sk of [] \<Rightarrow> target | t # _ \<Rightarrow> t) < t")
        case reject: True
        then show ?thesis using True i Some by (subst unfold) (simp add: Let_def)
      next
        case False
        then have "region_ok p target (pc + ?len) (t # ?sk) n \<Longrightarrow> region_ok p target pc sk (Suc n)" for n
          using region_skip [OF True i Some] by auto
        then show ?thesis using IH [of "t # ?sk"] True i Some False
          by (subst (1 2) unfold) (auto simp: Let_def add.assoc simp flip: of_nat_Suc)
      qed
    next
      case None
      show ?thesis
      proof (cases "is_do_instruction i \<or> is_rep_instruction i \<or> is_block_terminator i \<or>
          writes_p_memory i")
        case reject: True
        then show ?thesis using True i None by (subst unfold) (simp add: Let_def)
      next
        case False
        then have "region_ok p target (pc + ?len) ?sk n \<Longrightarrow> region_ok p target pc sk (Suc n)" for n
          using region_plain [OF True i None] by auto
        then show ?thesis using IH [of ?sk] True i None False
          by (subst (1 2) unfold) (auto simp: Let_def add.assoc simp flip: of_nat_Suc)
      qed
    qed
  qed
qed

section \<open>The loop of the block former\<close>

text \<open>
  The invariant at the top of the loop: no skip is open, or the walk is inside the region of one
  that the scan accepted, and the budget covers the rest of that region.
\<close>

definition skip_inv ::
  "(u32 \<Rightarrow> u32) \<Rightarrow> u32 \<Rightarrow> u32 \<Rightarrow> u32 \<Rightarrow> u32 \<Rightarrow> u32 \<Rightarrow> u32 list \<Rightarrow> bool" where
  "skip_inv p p_end max_len stop_pc pc count skips \<longleftrightarrow> skips = [] \<or>
    (\<exists>sk target n. skips = sk @ [target] \<and> region_ok p target pc sk n \<and>
       unat count + n \<le> unat max_len \<and> target \<le> p_end \<and> target < stop_pc)"

lemma close_append: "t \<noteq> pc \<Longrightarrow> close_skips pc (sk @ [t]) = close_skips pc sk @ [t]"
  by (induction sk) (auto simp: close_skips_def)

lemma close_all: "list_all (\<lambda>t. t = pc) sk \<Longrightarrow> close_skips pc sk = []"
  by (induction sk) (auto simp: close_skips_def)

lemma skip_inv_close:
  assumes "skip_inv p p_end max_len stop_pc pc count skips"
  obtains (closed) "close_skips pc skips = []"
  | (inside) sk target n where "close_skips pc skips = close_skips pc sk @ [target]"
      "pc < target" "region_ok p target pc sk (Suc n)" "unat count + Suc n \<le> unat max_len"
      "target \<le> p_end" "target < stop_pc"
proof -
  consider "skips = []" | sk target n where "skips = sk @ [target]" "region_ok p target pc sk n"
      "unat count + n \<le> unat max_len" "target \<le> p_end" "target < stop_pc"
    using assms by (auto simp: skip_inv_def)
  then show ?thesis
  proof cases
    case 1
    then show ?thesis using closed by (simp add: close_skips_def)
  next
    case (2 sk target n)
    show ?thesis using 2(2)
    proof cases
      case region_end
      then have "list_all (\<lambda>t. t = pc) skips" using 2(1) by auto
      then show ?thesis using closed close_all by blast
    next
      case (region_skip i t m)
      then have "close_skips pc skips = close_skips pc sk @ [target]"
        using 2(1) by (simp add: close_append)
      then show ?thesis using inside [of sk target m] region_skip 2 by simp
    next
      case (region_plain i m)
      then have "close_skips pc skips = close_skips pc sk @ [target]"
        using 2(1) by (simp add: close_append)
      then show ?thesis using inside [of sk target m] region_plain 2 by simp
    qed
  qed
qed

text \<open>
  What one step has to deliver: its operations read back, the address moves on, the invariant
  holds for the next iteration, and a break leaves no skip open.
\<close>

definition loop_op_safe :: "emit_op \<Rightarrow> bool" where
  "loop_op_safe op = (case op of Op_do _ _ _ _ _ \<Rightarrow> op_safe op | _ \<Rightarrow> True)"

abbreviation loops_safe :: "emit_op list \<Rightarrow> bool" where
  "loops_safe \<equiv> list_all loop_op_safe"

definition good_step ::
  "(u32 \<Rightarrow> u32) \<Rightarrow> u32 \<Rightarrow> u32 \<Rightarrow> u32 \<Rightarrow> u32 \<Rightarrow> u32 list \<Rightarrow> block_step option \<Rightarrow> bool" where
  "good_step p p_end max_len stop_pc pc skips r \<longleftrightarrow>
    (case r of None \<Rightarrow> False
     | Some (ops, pc', count', skips', exit) \<Rightarrow>
         run_plan p ops (pc, skips) = Some (pc', skips') \<and> unat pc < unat pc' \<and>
         unat pc' \<le> unat p_end + 2 \<and> loops_safe ops \<and>
         (case exit of Go_on \<Rightarrow> skip_inv p p_end max_len stop_pc pc' count' skips'
          | Break _ \<Rightarrow> skips' = []))"

lemma loop_op_safe_simps [simp]:
  "loop_op_safe (Op_do i a la lc body) \<longleftrightarrow> \<not> is_forever i \<and> list_all op_safe body"
  "loop_op_safe (Op_inst i a nw)" "loop_op_safe (Op_rep i a lc j nw)" "loop_op_safe (Op_skip i a t pr)"
  "loop_op_safe (Op_arm_bail a)" "loop_op_safe (Op_exit_check a)" "loop_op_safe (Op_rep_first_call a)"
  "loops_safe (merges pc sk)"
  by (simp_all add: loop_op_safe_def merges_def list_all_iff)

lemma skip_inv_Nil [simp]: "skip_inv p p_end max_len stop_pc pc count []"
  by (simp add: skip_inv_def)

lemma step_end:
  fixes pc :: u32
  assumes "pc < p_end"
  shows "unat pc + unat (instruction_length i) \<le> Suc (unat p_end)" "Suc (unat pc) \<le> unat p_end"
  using assms ilen_unat [of i] by (auto simp: word_less_nat_alt)

lemma plain_step_good:
  assumes pc: "pc < p_end" "p_end \<le> 0x1000000" and i: "decode (p pc) = Some i"
    and inv: "skips \<noteq> [] \<Longrightarrow> \<not> is_block_terminator i \<and> \<not> writes_p_memory i \<and>
      pc + instruction_length i < stop_pc \<and>
      skip_inv p p_end max_len stop_pc (pc + instruction_length i) (count + 1) skips"
  shows "good_step p p_end max_len stop_pc pc skips
    (Some (plain_step_ops p stop_pc i pc count skips))"
  using assms pc_step(1) [OF pc, of i] ilen_pos [of i] pc_step(4) [OF pc] step_end(1) [OF pc(1), of i] step_end(2) [OF pc(1)]
  by (cases "skips = []") (auto simp: good_step_def plain_step_ops_def Let_def run_plan_append)

lemma rep_step_good:
  assumes pc: "pc < p_end" "p_end \<le> 0x1000000" and i: "decode (p pc) = Some i" "is_rep_instruction i"
  shows "good_step p p_end max_len stop_pc pc [] (rep_step_ops p stop_pc i pc count [])"
proof -
  obtain j where j: "decode (p (mask_pc (pc + 1))) = Some j" using decode_total' by blast
  obtain k where k: "decode (p (pc + 1)) = Some k" using decode_total' by blast
  obtain lc where lc: "emit_rep_lc_value i = Some lc" using rep_instructionD(1) [OF i(2)] by blast
  note pc_step(2) [OF pc] pc_step(5) [OF pc, of k] pc_step(1) [OF pc, of i] pc_step(4) [OF pc]
    step_end(1) [OF pc(1), of k] step_end(2) [OF pc(1)]
  then show ?thesis
    using i j k lc rep_instructionD(2) [OF i(2)] ilen_pos [of k]
    by (auto simp: rep_step_ops_def good_step_def Let_def emit_rep_inline_def add.commute
        add.left_commute)
qed

lemma do_step_good:
  assumes pc: "pc < p_end" "p_end \<le> 0x1000000" and i: "decode (p pc) = Some i" "is_do_instruction i"
  shows "good_step p p_end max_len stop_pc pc [] (do_step_ops p p_end stop_pc i pc count [])"
proof -
  obtain la where la: "compute_do_la i pc (p (mask_pc (pc + 1))) = Some la"
    using do_instructionD(1) [OF i(2)] by blast
  note len = pc_step(1) [OF pc, of i] pc_step(3) [OF pc] pc_step(4) [OF pc] do_instructionD(2) [OF i(2)]
    step_end(2) [OF pc(1)]
  show ?thesis
  proof (cases "\<not> is_forever i \<and> inline_entry_ok p_end (pc + 2) la stop_pc 0")
    case True
    then have ent: "la < p_end" "pc + 2 \<le> la" by (auto dest: inline_entry_okD)
    have la24: "la \<le> 0xFFFFFF" using ent(1) pc(2) by unat_arith
    have scan: "scan_result (is_do_body_inlineable p p_end (pc + 2) la stop_pc)
        (body_ok p la (pc + 2) [])"
      using inlineable_loop_ok [OF pc(2) ent(1)] True
      by (simp add: is_do_body_inlineable_def is_do_body_inlineable_inner_def)
    show ?thesis
    proof (cases "body_ok p la (pc + 2) []")
      case ok: True
      obtain n where n: "count_body_instructions p (pc + 2) la = Some n"
        using count_body_ok [OF ok] by (auto simp: count_body_instructions_def)
      obtain body where body: "do_body_ops p la (pc + 2) [] = Some body"
        "run_plan p body (pc + 2, []) = Some (la + 1, [])" "list_all op_safe body"
        using do_body_ops_ok [OF ok la24] by blast
      obtain lc where lc: "emit_do_lc_value i = Some lc"
        using do_instructionD(4) [OF i(2)] True by blast
      have "unat pc < unat (la + 1)"
        using ent(2) len(2) body_loop_step(1) [OF order_refl la24] by (simp add: word_le_nat_alt)
      moreover have "unat (la + 1) \<le> unat p_end"
        using ent(1) body_loop_step(1) [OF order_refl la24] by (simp add: word_less_nat_alt)
      ultimately show ?thesis using scan i la n body lc len True ent
        by (auto simp: do_step_ops_def good_step_def emit_do_inline_def Let_def)
    next
      case False
      then show ?thesis using scan i la len True by (auto simp: do_step_ops_def good_step_def)
    qed
  next
    case False
    then have "(if is_forever i then Some False
        else is_do_body_inlineable p p_end (pc + 2) la stop_pc) = Some False"
      by (auto simp: is_do_body_inlineable_def is_do_body_inlineable_inner_def)
    then show ?thesis using i la len by (simp add: do_step_ops_def good_step_def)
  qed
qed

lemma close_skips_close [simp]: "close_skips pc (close_skips pc sk) = close_skips pc sk"
  by (induction sk) (auto simp: close_skips_def)

lemma accept_outer:
  assumes pc: "pc < p_end" "p_end \<le> 0x1000000" and max_len: "max_len \<le> 0x80000000"
    and count: "count < max_len"
  shows "accept_skip p p_end max_len stop_pc i pc count [] = Some None \<or>
    (\<exists>t. accept_skip p p_end max_len stop_pc i pc count [] = Some (Some t) \<and>
       forward_skip_target i pc (p (mask_pc (pc + 1))) = Some t \<and> pc + instruction_length i \<le> t \<and>
       skip_inv p p_end max_len stop_pc (pc + instruction_length i) (count + 1) [t])"
proof (cases "forward_skip_target i pc (p (mask_pc (pc + 1)))")
  case None
  then show ?thesis by (simp add: accept_skip_def)
next
  case (Some t)
  let ?pc = "pc + instruction_length i"
  show ?thesis
  proof (cases "t < ?pc \<or> stop_pc \<le> t \<or> p_end < t")
    case True
    then show ?thesis using Some by (simp add: accept_skip_def straightline_skip_region_len_def)
  next
    case False
    then have "t \<le> p_end" by (simp add: not_less)
    then have t: "t \<le> 0x1000000" using pc(2) by (rule order_trans)
    consider "skip_region_loop p t ?pc 0 [] = Some None"
      | n where "skip_region_loop p t ?pc 0 [] = Some (Some (of_nat n))" "region_ok p t ?pc [] n"
      using skip_region_loop_ok [OF t, of p ?pc 0 "[]"] by auto
    then show ?thesis
    proof cases
      case 1
      then show ?thesis using Some False
        by (simp add: accept_skip_def straightline_skip_region_len_def)
    next
      case (2 n)
      have "n \<le> unat t" using region_count [OF 2(2) t] by simp
      then have n: "n \<le> 0x1000000" using t by (simp add: word_le_nat_alt)
      have c: "unat count + 1 \<le> 0x80000000" using count max_len by unat_arith
      have "unat (of_nat n :: u32) = n" using n by (simp add: unat_of_nat)
      moreover have "unat (count + 1) = unat count + 1" using c by (simp add: unat_plus_if')
      ultimately have sum: "unat (count + 1 + of_nat n) = unat (count + 1) + n"
        using n c by (subst unat_plus_if') simp
      then have "skip_inv p p_end max_len stop_pc ?pc (count + 1) [t]"
        if "count + 1 + of_nat n \<le> max_len"
        using that 2(2) False unfolding skip_inv_def
        by (intro disjI2 exI [of _ "[]"] exI [of _ t] exI [of _ n])
            (auto simp: word_le_nat_alt word_less_nat_alt)
      moreover have "?pc \<le> t" using False by (simp add: not_less)
      ultimately show ?thesis using Some False 2(1)
        by (simp add: accept_skip_def straightline_skip_region_len_def)
    qed
  qed
qed

lemma block_step_good:
  assumes pc: "pc < p_end" "p_end \<le> 0x1000000" and max_len: "max_len \<le> 0x80000000"
    and count: "count < max_len" and inv: "skip_inv p p_end max_len stop_pc pc count skips"
  shows "good_step p p_end max_len stop_pc pc (close_skips pc skips)
    (block_step p p_end max_len stop_pc pc count (close_skips pc skips))"
proof -
  obtain i where i: "decode (p pc) = Some i" using decode_total' by blast
  let ?len = "instruction_length i"
  have c1: "unat (count + 1) = unat count + 1"
    using count max_len by unat_arith
  note len = pc_step(1) [OF pc, of i] ilen_pos [of i] pc_step(4) [OF pc] step_end(1) [OF pc(1), of i] step_end(2) [OF pc(1)]
  show ?thesis using inv
  proof (cases rule: skip_inv_close)
    case (inside sk target n)
    let ?sk = "close_skips pc sk @ [target]"
    have inv': "skip_inv p p_end max_len stop_pc pc' (count + 1) (sk' @ [target])"
      if "region_ok p target pc' sk' n" for pc' sk'
      using that inside c1 unfolding skip_inv_def by (intro disjI2 exI conjI) auto
    show ?thesis using inside(3)
    proof cases
      case (region_skip k t)
      then have k: "k = i" using i by simp
      obtain pr where pr: "emit_skip_predicate i = Some pr"
        using skip_target_SomeD region_skip(3) k by blast
      have "t \<le> (case ?sk of [] \<Rightarrow> target | t # _ \<Rightarrow> t)" 
        using region_skip(5) by (cases "close_skips pc sk") auto
      then have "accept_skip p p_end max_len stop_pc i pc count ?sk = Some (Some t)"
        using region_skip k by (auto simp: accept_skip_def Let_def split: list.split)
      then show ?thesis using inside(1) i pr region_skip k len inv' [of "pc + ?len" "t # close_skips pc sk"]
        by (simp add: block_step_def good_step_def)
    next
      case (region_plain k)
      then have k: "k = i" using i by simp
      have "accept_skip p p_end max_len stop_pc i pc count ?sk = Some None"
        using region_plain k by (simp add: accept_skip_def)
      moreover have "pc + ?len < stop_pc"
        using region_le region_plain k inside(6) by (metis le_less_trans)
      moreover have "skip_inv p p_end max_len stop_pc (pc + ?len) (count + 1) ?sk"
        using inv' region_plain k by simp
      ultimately show ?thesis
        using inside(1) i region_plain k plain_step_good [where p = p and i = i and skips = ?sk and count = count, OF pc i]
        by (simp add: block_step_def)
    qed
  next
    case closed
    show ?thesis
      using accept_outer [OF pc max_len count, of p stop_pc i]
    proof (elim disjE exE conjE)
      assume "accept_skip p p_end max_len stop_pc i pc count [] = Some None"
      then show ?thesis
        using closed i rep_step_good [where p = p and i = i, OF pc i] do_step_good [where p = p and i = i, OF pc i]
          plain_step_good [where p = p and i = i and skips = "[]", OF pc i]
        by (auto simp: block_step_def)
    next
      fix t
      assume acc: "accept_skip p p_end max_len stop_pc i pc count [] = Some (Some t)"
        and t: "forward_skip_target i pc (p (mask_pc (pc + 1))) = Some t" "pc + ?len \<le> t"
        and inv': "skip_inv p p_end max_len stop_pc (pc + ?len) (count + 1) [t]"
      obtain pr where pr: "emit_skip_predicate i = Some pr" using skip_target_SomeD t(1) by blast
      show ?thesis using closed acc t inv' pr i len by (simp add: block_step_def good_step_def)
    qed
  qed
qed

definition good_plan ::
  "(u32 \<Rightarrow> u32) \<Rightarrow> u32 \<Rightarrow> u32 \<Rightarrow> u32 list \<Rightarrow> (emit_op list \<times> u32 \<times> bool) option \<Rightarrow> bool" where
  "good_plan p p_end pc skips r \<longleftrightarrow> (\<exists>ops end_pc ended. r = Some (ops, end_pc, ended) \<and>
     run_plan p ops (pc, skips) = Some (end_pc, []) \<and> pc \<le> end_pc \<and>
     unat end_pc \<le> max (unat p_end + 2) (unat pc) \<and> loops_safe ops)"

lemma emit_block_loop_good:
  assumes p_end: "p_end \<le> 0x1000000" and max_len: "max_len \<le> 0x80000000"
  shows "skip_inv p p_end max_len stop_pc pc count skips \<Longrightarrow>
    good_plan p p_end pc skips (emit_block_loop p p_end max_len stop_pc pc count skips)"
proof (induction "unat p_end - unat pc" arbitrary: pc count skips rule: less_induct)
  case less
  note unfold = emit_block_loop.simps [of p p_end max_len stop_pc pc count skips]
  show ?case
  proof (cases "max_len \<le> count \<or> p_end \<le> pc")
    case True
    have "close_skips pc skips = []" using less.prems
    proof (cases rule: skip_inv_close)
      case (inside sk target n)
      then show ?thesis using True by (auto simp: word_le_nat_alt word_less_nat_alt)
    qed
    then show ?thesis using True
      by (subst unfold) (auto simp: good_plan_def run_merges Let_def intro: exI [of _ False])
  next
    case False
    then have pc: "pc < p_end" and count: "count < max_len" by (simp_all add: not_le)
    obtain ops pc' count' skips' ex where step:
      "block_step p p_end max_len stop_pc pc count (close_skips pc skips) =
         Some (ops, pc', count', skips', ex)"
      "run_plan p ops (pc, close_skips pc skips) = Some (pc', skips')" "unat pc < unat pc'"
      "unat pc' \<le> unat p_end + 2" "loops_safe ops"
      "case ex of Go_on \<Rightarrow> skip_inv p p_end max_len stop_pc pc' count' skips' | Break _ \<Rightarrow> skips' = []"
      using block_step_good [OF pc p_end max_len count less.prems]
      by (auto simp: good_step_def split: option.splits)
    show ?thesis
    proof (cases ex)
      case Go_on
      have "good_plan p p_end pc' skips' (emit_block_loop p p_end max_len stop_pc pc' count' skips')"
        using step Go_on pc by (intro less.hyps) (auto simp: word_less_nat_alt)
      then show ?thesis using step False Go_on
        by (subst unfold) (auto simp: good_plan_def Let_def run_plan_append run_merges word_le_nat_alt)
    next
      case (Break ended)
      then show ?thesis using step False
        by (subst unfold) (auto simp: good_plan_def Let_def run_plan_append run_merges word_le_nat_alt)
    qed
  qed
qed

section \<open>Plans and program words\<close>

text \<open>A plan moves forward, and what it says of the program depends on the words it covers.\<close>

lemma pc_bounds:
  fixes pc :: u32
  assumes "pc \<le> 0xFFFFFF"
  shows "pc < pc + instruction_length i" "pc < pc + 1 + instruction_length i"
    "pc + 1 < pc + 1 + instruction_length i" "pc < pc + 2" "pc + 1 < pc + 2"
    "instruction_length i = 2 \<Longrightarrow> pc + 2 < pc + 1 + instruction_length i"
  using body_loop_step [OF assms order_refl] body_loop_step(4,5) [OF assms order_refl, of i]
    ilen_pos [of i] by (auto simp: word_less_nat_alt)

lemma run_mono:
  "run_op p op st = Some st' \<Longrightarrow> fst st \<le> fst st'"
  "run_plan p ops st = Some st' \<Longrightarrow> fst st \<le> fst st'"
proof (induction p op st and p ops st arbitrary: st' and st' rule: run_op_run_plan.induct)
  case (6 p i a la lc body pc sk)
  then have "pc + 2 \<le> la" "pc \<le> 0xFFFFFF" "la \<le> 0xFFFFFF"
    by (auto split: if_splits dest: do_la_bound)
  moreover from this have "pc \<le> la" using pc_bounds(4) [of pc] by simp
  ultimately have "pc \<le> la + 1" using body_loop_step(1) [of pc la] by (simp add: word_le_nat_alt)
  then show ?case using 6 by (auto split: if_splits)
next
  case (10 p op ops st)
  then obtain mid where "run_op p op st = Some mid" "run_plan p ops mid = Some st'"
    by (auto split: bind_splits)
  then show ?case using 10(1,2) order_trans by blast
qed (auto simp: pc_bounds less_imp_le split: if_splits list.splits)

definition agree_on :: "u32 \<Rightarrow> u32 \<Rightarrow> (u32 \<Rightarrow> u32) \<Rightarrow> (u32 \<Rightarrow> u32) \<Rightarrow> bool" where
  "agree_on lo hi p q \<longleftrightarrow> (\<forall>a. lo \<le> a \<and> a < hi \<longrightarrow> q a = p a)"

lemma agree_onD: "agree_on lo hi p q \<Longrightarrow> lo \<le> a \<Longrightarrow> a < hi \<Longrightarrow> q a = p a"
  by (simp add: agree_on_def)

lemma agree_on_subset: "agree_on lo hi p q \<Longrightarrow> lo \<le> lo' \<Longrightarrow> hi' \<le> hi \<Longrightarrow> agree_on lo' hi' p q"
  by (auto simp: agree_on_def dest: order_trans less_le_trans)

lemma agree_next:
  assumes "agree_on pc e p q" "pc \<le> 0xFFFFFF" "pc + 2 \<le> e" "e \<le> 0x1000000"
  shows "q (mask_pc (pc + 1)) = p (mask_pc (pc + 1))"
proof -
  note b = pc_bounds(5) [OF assms(2)] pc_bounds(4) [OF assms(2)] body_loop_step(2,3) [OF assms(2) order_refl]
  have "pc + 1 \<le> 0xFFFFFF" using b assms(3,4) by (simp add: word_le_nat_alt)
  moreover have "pc \<le> pc + 1" using b by (simp add: word_le_nat_alt)
  moreover have "pc + 1 < e" using b(1) assms(3) by simp
  ultimately show ?thesis using assms(1) by (simp add: mask_pc_id agree_onD)
qed

lemma skip_target_next:
  assumes "instruction_length i = 1"
  shows "forward_skip_target i pc nw = forward_skip_target i pc nw'"
  using assms by (auto simp: forward_skip_target_def instruction_length_def Let_def
      split: instruction.splits branch_instr.splits)

lemma skip_target_cong:
  assumes "agree_on pc e p q" "pc \<le> 0xFFFFFF" "pc + instruction_length i \<le> e" "e \<le> 0x1000000"
  shows "forward_skip_target i pc (q (mask_pc (pc + 1))) = forward_skip_target i pc (p (mask_pc (pc + 1)))"
proof (cases "instruction_length i = 2")
  case True
  then show ?thesis using agree_next [OF assms(1,2) _ assms(4)] assms(3) by simp
next
  case False
  then show ?thesis using ilen_cases [of i] skip_target_next by blast
qed

lemma do_la_len: "compute_do_la i pc nw = Some la \<Longrightarrow> is_do_instruction i"
  by (auto simp: compute_do_la_def is_do_instruction_def split: instruction.splits loop_instr.splits)

lemma run_cong:
  "run_op p op st = Some st' \<Longrightarrow> fst st' \<le> 0x1000000 \<Longrightarrow> agree_on (fst st) (fst st') p q \<Longrightarrow>
    run_op q op st = Some st'"
  "run_plan p ops st = Some st' \<Longrightarrow> fst st' \<le> 0x1000000 \<Longrightarrow> agree_on (fst st) (fst st') p q \<Longrightarrow>
    run_plan q ops st = Some st'"
proof (induction p op st and p ops st arbitrary: st' and st' rule: run_op_run_plan.induct)
  case (2 p i a t pr pc sk)
  then have st': "st' = (pc + instruction_length i, t # sk)" "pc \<le> 0xFFFFFF" by (auto split: if_splits)
  then have "q pc = p pc" using agree_onD 2 pc_bounds(1) by fastforce
  moreover have "forward_skip_target i pc (q (mask_pc (pc + 1))) = forward_skip_target i pc (p (mask_pc (pc + 1)))"
    using skip_target_cong [of pc "fst st'" p q i] st' 2 by simp
  ultimately show ?case using 2 by (auto split: if_splits)
next
  case (3 p i a nw pc sk)
  then have st': "st' = (pc + instruction_length i, sk)" "pc \<le> 0xFFFFFF" by (auto split: if_splits)
  then have "q pc = p pc" using agree_onD 3 pc_bounds(1) by fastforce
  moreover have "instruction_length i = 2 \<Longrightarrow> q (mask_pc (pc + 1)) = p (mask_pc (pc + 1))"
    using agree_next [of pc "fst st'" p q] st' 3 by simp
  ultimately show ?case using 3 by (auto split: if_splits)
next
  case (5 p i a lc j nw pc sk)
  then have st': "st' = (pc + 1 + instruction_length j, sk)" "pc \<le> 0xFFFFFF" by (auto split: if_splits)
  have ag: "agree_on pc (pc + 1 + instruction_length j) p q" using 5 st' by simp
  then have "q pc = p pc" using agree_onD pc_bounds(2) st' by fastforce
  moreover have "q (pc + 1) = p (pc + 1)"
    using agree_onD [OF ag] pc_bounds(3) [OF st'(2), of j] body_loop_step(2) [OF st'(2) order_refl]
    by (simp add: word_le_nat_alt)
  moreover have "q (mask_pc (pc + 2)) = p (mask_pc (pc + 2))" if "instruction_length j = 2"
  proof -
    note pc1 = body_loop_step(2) [OF st'(2) order_refl]
    have "pc + 1 < 0x1000000" using 5(2) pc_bounds(3) [OF st'(2), of j] st'(1) by simp
    moreover from this have "pc + 1 \<le> 0xFFFFFF" using pc1 by (simp add: word_less_nat_alt word_le_nat_alt)
    moreover have "agree_on (pc + 1) (pc + 1 + 2) p q"
      using ag pc1 that by (auto intro: agree_on_subset simp: word_le_nat_alt)
    ultimately show ?thesis using agree_next [of "pc + 1" "pc + 1 + 2" p q] 5(2) that st'(1)
      by (simp add: add.commute)
  qed
  ultimately show ?case using 5 by (auto split: if_splits)
next
  case (6 p i a la lc body pc sk)
  from 6(2) have op: "a = pc" "pc \<le> 0xFFFFFF" "decode (p pc) = Some i" "emit_do_lc_value i = Some lc"
    "compute_do_la i pc (p (mask_pc (pc + 1))) = Some la" "pc + 2 \<le> la"
    "run_plan p body (pc + 2, []) = Some (la + 1, [])" "st' = (la + 1, sk)"
    by (simp_all split: if_splits)
  note st' = op(8) op(2) do_la_bound [OF op(5)] op(6)
  note la1 = body_loop_step(1) [OF order_refl st'(3)]
  have ag: "agree_on pc (la + 1) p q" and la: "la + 1 \<le> 0x1000000"
    using 6(3,4) st'(1) by simp_all
  have pc2: "pc < la + 1" "pc + 2 \<le> la + 1" "pc \<le> pc + 2"
    using st'(4) pc_bounds(4) [OF st'(2)] la1 by (auto simp: word_less_nat_alt word_le_nat_alt)
  have "agree_on (pc + 2) (la + 1) p q" using agree_on_subset [OF ag pc2(3)] by simp
  then have "run_plan q body (pc + 2, []) = Some (la + 1, [])"
    using 6(1) [of "(la + 1, [])"] op la by simp
  moreover have "q pc = p pc" using agree_onD [OF ag] pc2 by simp
  moreover have "q (mask_pc (pc + 1)) = p (mask_pc (pc + 1))"
    using agree_next [OF ag st'(2) pc2(2) la] .
  ultimately show ?case using op by simp
next
  case (10 p op ops st)
  then obtain mid where mid: "run_op p op st = Some mid" "run_plan p ops mid = Some st'"
    by (auto split: bind_splits)
  note mono = run_mono(1) [OF mid(1)] run_mono(2) [OF mid(2)]
  have "agree_on (fst st) (fst mid) p q" "agree_on (fst mid) (fst st') p q"
    using agree_on_subset [OF 10(5)] mono by auto
  then have "run_op q op st = Some mid" "run_plan q ops mid = Some st'"
    using 10(1) [OF mid(1) order_trans [OF mono(2) 10(4)]] 10(2) [OF mid(1) mid(2) 10(4)] by auto
  then show ?case by simp
qed (auto split: if_splits list.splits)

section \<open>Properties of the block former\<close>

lemma emit_block_good:
  assumes "p_end \<le> 0x1000000" "max_len \<le> 0x80000000"
  shows "\<exists>ops end_pc ends_open. emit_block p p_end start_pc max_len stop_pc = Some (ops, end_pc, ends_open) \<and>
    run_plan p ops (start_pc, []) = Some (end_pc, []) \<and> start_pc \<le> end_pc \<and> loops_safe ops \<and>
    unat end_pc \<le> max (unat p_end + 2) (unat start_pc) \<and>
    (start_pc < p_end \<and> 0 < max_len \<longrightarrow> start_pc < end_pc)"
proof -
  note good = emit_block_loop_good [OF assms, of p stop_pc]
  obtain ops end_pc ended where res:
    "emit_block_loop p p_end max_len stop_pc start_pc 0 [] = Some (ops, end_pc, ended)"
    "run_plan p ops (start_pc, []) = Some (end_pc, [])" "start_pc \<le> end_pc" "loops_safe ops"
    "unat end_pc \<le> max (unat p_end + 2) (unat start_pc)"
    using good [of start_pc 0 "[]"] by (auto simp: good_plan_def)
  have "start_pc < end_pc" if pc: "start_pc < p_end" and max: "0 < max_len"
  proof -
    obtain ops1 pc' count' skips' ex where step:
      "block_step p p_end max_len stop_pc start_pc 0 [] = Some (ops1, pc', count', skips', ex)"
      "unat start_pc < unat pc'"
      "case ex of Go_on \<Rightarrow> skip_inv p p_end max_len stop_pc pc' count' skips' | Break _ \<Rightarrow> skips' = []"
      using block_step_good [where p = p and stop_pc = stop_pc, OF pc assms max skip_inv_Nil]
      by (auto simp: good_step_def close_skips_def split: option.splits)
    have start: "\<not> (max_len \<le> 0 \<or> p_end \<le> start_pc)" using pc max by (simp add: not_le)
    note unfold = emit_block_loop.simps [of p p_end max_len stop_pc start_pc 0 "[]"]
    have "pc' \<le> end_pc"
    proof (cases ex)
      case Go_on
      then obtain rest e b where rest:
        "emit_block_loop p p_end max_len stop_pc pc' count' skips' = Some (rest, e, b)" "pc' \<le> e"
        using good [of pc' count' skips'] step by (auto simp: good_plan_def)
      have "emit_block_loop p p_end max_len stop_pc start_pc 0 [] = Some (ops1 @ rest, e, b)"
        using start step(1) rest Go_on by (subst unfold) (simp add: close_skips_def merges_def Let_def)
      then show ?thesis using res(1) rest(2) by simp
    next
      case (Break b)
      then have "emit_block_loop p p_end max_len stop_pc start_pc 0 [] = Some (ops1, pc', b)"
        using start step by (subst unfold) (simp add: close_skips_def merges_def Let_def)
      then show ?thesis using res(1) by simp
    qed
    then show ?thesis using step(2) by (simp add: word_le_nat_alt word_less_nat_alt)
  qed
  then show ?thesis using res by (simp add: emit_block_def)
qed

text \<open>A program with a DO loop of one instruction, and the block made of it.\<close>

lemma decode_entry:
  assumes "e \<in> set OPCODE_TABLE" "entry_accepts op e" "op < 0x100000" "\<not> is_pm0 op"
  shows "decode op = decode_with op e"
proof -
  have "\<not> 0x100000 \<le> op" using assms(3) by (simp add: not_le)
  then show ?thesis using assms(1,2,4) by (simp add: decode_eq_scan find_accepting)
qed

definition demo_prog :: "u32 \<Rightarrow> u32" where
  "demo_prog a = (if a = 0 then 0x060480 else if a = 1 then 2 else 0x200000)"

lemma demo_decode: "decode 0x060480 = Some (Loop (DoImm 4))" "decode 0x200000 = Some (Parallel Move Pm2 0x200000)"
proof -
  let ?e = "op_loop_imm ''00000110iiiiiiii1000hhhh'' ''do #xxx, expr'' Loop DoImm"
  have "?e \<in> set OPCODE_TABLE" by (simp add: OPCODE_TABLE_defs)
  moreover have "entry_accepts 0x060480 ?e"
    by (simp add: entry_accepts_def op_shape_defs template_to_mask_match_tmm entry_skipped_def
        tmpl_has_mmmrrr_mem)
  moreover have "tmpl_count ''00000110iiiiiiii1000hhhh'' 0x060480 = 4" by code_simp
  then have "decode_with 0x060480 ?e = Some (Loop (DoImm 4))"
    by (simp add: decode_with_def op_shape_defs has_invalid_register_def normalize_ea_mode_def)
  moreover have "\<not> is_pm0 0x060480" by code_simp
  ultimately show "decode 0x060480 = Some (Loop (DoImm 4))" by (simp add: decode_entry)
  show "decode 0x200000 = Some (Parallel Move Pm2 0x200000)" by code_simp
qed

lemma demo_plan:
  "emit_block demo_prog 8 0 3 0xFFFFFFFF =
    Some ([Op_do (Loop (DoImm 4)) 0 2 (LC_imm 4) [Op_inst (Parallel Move Pm2 0x200000) 2 0x200000],
      Op_inst (Parallel Move Pm2 0x200000) 3 0x200000, Op_arm_bail 4], 4, True)"
proof -
  note eval = demo_decode demo_prog_def mask_pc_def Let_def close_skips_def merges_def
    forward_skip_target_def is_do_instruction_def is_rep_instruction_def compute_do_la_def
    inline_unsafe_def is_block_terminator_def is_stack_fault_capable_def needs_exit_check_def
    writes_p_memory_def may_arm_stack_fault_def instruction_length_def parallel_length_def
    inline_entry_ok_def emit_do_lc_value_def ea_mode6_def
  have count: "count_body_instructions demo_prog 2 2 = Some 1"
    unfolding count_body_instructions_def
    by (subst count_body_loop.simps, simp add: eval, subst count_body_loop.simps, simp)
  have inline: "is_do_body_inlineable demo_prog 8 2 2 0xFFFFFFFF = Some True"
    unfolding is_do_body_inlineable_def is_do_body_inlineable_inner_def
    by (subst inlineable_loop.simps, simp add: eval, subst inlineable_loop.simps, simp)
  have body: "do_body_ops demo_prog 2 2 [] = Some [Op_inst (Parallel Move Pm2 0x200000) 2 0x200000]"
    by (subst do_body_ops.simps, simp add: eval, subst do_body_ops.simps, simp)
  have "block_step demo_prog 8 3 0xFFFFFFFF 0 0 [] = Some ([Op_do (Loop (DoImm 4)) 0 2 (LC_imm 4)
      [Op_inst (Parallel Move Pm2 0x200000) 2 0x200000]], 3, 2, [], Go_on)"
    by (simp add: block_step_def accept_skip_def do_step_ops_def emit_do_inline_def eval count inline
        body)
  moreover have "block_step demo_prog 8 3 0xFFFFFFFF 3 2 [] =
      Some ([Op_inst (Parallel Move Pm2 0x200000) 3 0x200000, Op_arm_bail 4], 4, 3, [], Go_on)"
    by (simp add: block_step_def accept_skip_def plain_step_ops_def eval)
  ultimately have "emit_block_loop demo_prog 8 3 0xFFFFFFFF 0 0 [] =
    Some ([Op_do (Loop (DoImm 4)) 0 2 (LC_imm 4) [Op_inst (Parallel Move Pm2 0x200000) 2 0x200000],
      Op_inst (Parallel Move Pm2 0x200000) 3 0x200000, Op_arm_bail 4], 4, False)"
    by (subst emit_block_loop.simps, simp add: close_skips_def merges_def,
        subst emit_block_loop.simps, simp add: close_skips_def merges_def,
        subst emit_block_loop.simps, simp add: close_skips_def merges_def)
  then show ?thesis by (simp add: emit_block_def)
qed

text \<open>
  C32. The block former returns a block for every program held in program memory of up to $2^{24}$
  words, from every start and for every boundary: no scan runs forever, no \<^verbatim>\<open>unreachable!\<close> arm is
  reached and no debug assertion on the open skips fails. A block that starts inside program
  memory, under a nonzero cap, is not empty.
\<close>
theorem emit_block_total:
  assumes "p_end \<le> 0x1000000" "max_len \<le> 0x80000000"
  shows "\<exists>ops end_pc ends_open.
    emit_block p p_end start_pc max_len stop_pc = Some (ops, end_pc, ends_open) \<and>
    (start_pc < p_end \<and> 0 < max_len \<longrightarrow> start_pc < end_pc)"
  using emit_block_good [OF assms] by blast

theorem emit_block_total_witness:
  "\<exists>ops end_pc ends_open. emit_block demo_prog 8 0 3 0xFFFFFFFF = Some (ops, end_pc, ends_open) \<and>
    0 < end_pc"
proof -
  obtain ops end_pc ends_open where
    "emit_block demo_prog 8 0 3 0xFFFFFFFF = Some (ops, end_pc, ends_open)"
    "0 < (8 :: u32) \<and> 0 < (3 :: u32) \<longrightarrow> 0 < end_pc"
    using emit_block_total [of 8 3 demo_prog 0 "0xFFFFFFFF"] by auto
  then show ?thesis by simp
qed

text \<open>
  C33. The plan of a block reads back as the program: its operations follow one another without gap
  from the start of the block to its end, each carries the instruction (and, for two words, the
  next word) the program holds at its address, every forward skip is closed by a merge at its
  target, inside the block and properly nested, and the body of every inlined loop is itself such a
  plan, from the word after the DO to its end address, free of instructions that end a block, leave
  compiled code, write program memory, or can arm a fault.
\<close>
theorem emit_block_reads_back:
  assumes "p_end \<le> 0x1000000" "max_len \<le> 0x80000000"
    and "emit_block p p_end start_pc max_len stop_pc = Some (ops, end_pc, ends_open)"
  shows "run_plan p ops (start_pc, []) = Some (end_pc, []) \<and> loops_safe ops"
  using emit_block_good [OF assms(1,2), of p start_pc stop_pc] assms(3) by auto

theorem emit_block_reads_back_witness:
  "run_plan demo_prog
     [Op_do (Loop (DoImm 4)) 0 2 (LC_imm 4) [Op_inst (Parallel Move Pm2 0x200000) 2 0x200000],
      Op_inst (Parallel Move Pm2 0x200000) 3 0x200000, Op_arm_bail 4] (0, []) = Some (4, [])"
  using emit_block_reads_back [OF _ _ demo_plan] by simp

text \<open>
  C34. A retained translation may be reused when the program words it covers are unchanged, whatever
  else changed: the plan still reads back as the program. Decisions that looked at words outside
  the block, such as refusing a forward skip, do not matter for this.
\<close>
theorem emit_block_content_keyed:
  assumes "p_end \<le> 0x1000000" "max_len \<le> 0x80000000"
    and "emit_block p p_end start_pc max_len stop_pc = Some (ops, end_pc, ends_open)"
    and "end_pc \<le> 0x1000000" and "\<forall>a. start_pc \<le> a \<and> a < end_pc \<longrightarrow> q a = p a"
  shows "run_plan q ops (start_pc, []) = Some (end_pc, [])"
proof -
  have "run_plan p ops (start_pc, []) = Some (end_pc, [])"
    using emit_block_good [OF assms(1,2), of p start_pc stop_pc] assms(3) by auto
  from run_cong(2) [OF this, of q] show ?thesis using assms(4,5) by (simp add: agree_on_def)
qed

theorem emit_block_content_keyed_witness:
  "run_plan (demo_prog(4 := 0x0C0000))
     [Op_do (Loop (DoImm 4)) 0 2 (LC_imm 4) [Op_inst (Parallel Move Pm2 0x200000) 2 0x200000],
      Op_inst (Parallel Move Pm2 0x200000) 3 0x200000, Op_arm_bail 4] (0, []) = Some (4, [])"
  by (rule emit_block_content_keyed [OF _ _ demo_plan]) simp_all

end
