(* ===== verification/Code_Cache.thy ===== *)
theory Code_Cache
  imports Prelude
begin

text \<open>
  \<^verbatim>\<open>crates/emu/src/jit.rs\<close>, first part: the code cache, a flat array of compiled blocks indexed by
  their start address, with the range invalidation that scans only a window before the range. Its
  contract is a map from addresses to blocks; invalidating a range is proved to drop exactly the
  blocks that overlap it, as a scan of the whole array would. Indexing past the array panics
  (\<open>None\<close>). The compiled function is a type parameter.
\<close>

section \<open>The cache\<close>

record 'f compiled_block =
  cb_func :: 'f
  cb_end_pc :: u32
  cb_generation :: u32
  cb_ends_open :: bool

record 'f code_cache =
  cc_blocks :: "'f compiled_block option list"
  cc_max_span :: u32

definition code_cache_new :: "nat \<Rightarrow> 'f code_cache" where
  "code_cache_new pram_size = \<lparr>cc_blocks = replicate pram_size None, cc_max_span = 0\<rparr>"

text \<open>\<^verbatim>\<open>u32::saturating_sub\<close> and \<^verbatim>\<open>usize::saturating_sub\<close> (the latter is \<open>nat\<close> subtraction).\<close>

definition sat_sub :: "u32 \<Rightarrow> u32 \<Rightarrow> u32" where
  "sat_sub a b = (if b \<le> a then a - b else 0)"

definition cc_insert :: "u32 \<Rightarrow> 'f compiled_block \<Rightarrow> 'f code_cache \<Rightarrow> 'f code_cache option" where
  "cc_insert pc block c =
    (let c = c\<lparr>cc_max_span := max (cc_max_span c) (sat_sub (cb_end_pc block) pc)\<rparr>
     in if unat pc < length (cc_blocks c)
        then Some (c\<lparr>cc_blocks := (cc_blocks c)[unat pc := Some block]\<rparr>) else None)"

definition cc_invalidate_all :: "'f code_cache \<Rightarrow> 'f code_cache" where
  "cc_invalidate_all c = c\<lparr>cc_blocks := replicate (length (cc_blocks c)) None\<rparr>"

text \<open>One pass of the loop of \<^verbatim>\<open>invalidate_range\<close>.\<close>

definition drop_overlap :: "u32 \<Rightarrow> nat \<Rightarrow> 'f compiled_block option list \<Rightarrow> 'f compiled_block option list"
  where
  "drop_overlap lo pc blocks =
    (case blocks ! pc of
       Some block \<Rightarrow> if unat lo < unat (cb_end_pc block) then blocks[pc := None] else blocks
     | None \<Rightarrow> blocks)"

definition cc_invalidate_range :: "u32 \<Rightarrow> u32 \<Rightarrow> 'f code_cache \<Rightarrow> 'f code_cache" where
  "cc_invalidate_range lo hi c =
    (if cc_blocks c = [] then c
     else
       let first = unat lo - unat (sat_sub (cc_max_span c) 1);
           hi = min (unat hi) (length (cc_blocks c) - 1)
       in c\<lparr>cc_blocks := fold (drop_overlap lo) [first..<Suc hi] (cc_blocks c)\<rparr>)"

text \<open>The single-entry operations of the run loop, by index.\<close>

definition cc_lookup :: "nat \<Rightarrow> 'f code_cache \<Rightarrow> 'f compiled_block option" where
  "cc_lookup pc c = (if pc < length (cc_blocks c) then cc_blocks c ! pc else None)"

definition cc_evict :: "nat \<Rightarrow> 'f code_cache \<Rightarrow> 'f code_cache" where
  "cc_evict pc c = c\<lparr>cc_blocks := (cc_blocks c)[pc := None]\<rparr>"

definition cc_touch :: "nat \<Rightarrow> u32 \<Rightarrow> 'f code_cache \<Rightarrow> 'f code_cache" where
  "cc_touch pc generation c =
    (case cc_lookup pc c of
       Some b \<Rightarrow> c\<lparr>cc_blocks := (cc_blocks c)[pc := Some (b\<lparr>cb_generation := generation\<rparr>)]\<rparr>
     | None \<Rightarrow> c)"

section \<open>The window of the range scan\<close>

text \<open>Every block fits in the widest span recorded.\<close>

definition cc_ok :: "'f code_cache \<Rightarrow> bool" where
  "cc_ok c \<longleftrightarrow> length (cc_blocks c) \<le> 2 ^ 32 \<and>
     (\<forall>pc b. cc_lookup pc c = Some b \<longrightarrow> unat (cb_end_pc b) \<le> pc + unat (cc_max_span c))"

definition overlaps :: "nat \<Rightarrow> 'f compiled_block \<Rightarrow> nat \<Rightarrow> nat \<Rightarrow> bool" where
  "overlaps pc b lo hi \<longleftrightarrow> pc \<le> hi \<and> lo < unat (cb_end_pc b)"

lemma unat_sat_sub: "unat (sat_sub a b) = unat a - unat b"
  by (simp add: sat_sub_def unat_sub word_le_nat_alt)

lemma length_drop_overlaps [simp]: "length (fold (drop_overlap lo) pcs blocks) = length blocks"
  by (induction pcs arbitrary: blocks) (auto simp: drop_overlap_def split: option.split)

lemma nth_drop_overlaps:
  assumes "\<forall>x\<in>set pcs. x < length blocks" "k < length blocks"
  shows "fold (drop_overlap lo) pcs blocks ! k =
    (if k \<in> set pcs then (case blocks ! k of
       Some b \<Rightarrow> if unat lo < unat (cb_end_pc b) then None else Some b | None \<Rightarrow> None)
     else blocks ! k)"
  using assms
proof (induction pcs arbitrary: blocks)
  case (Cons x xs)
  have len: "length (drop_overlap lo x blocks) = length blocks"
    by (auto simp: drop_overlap_def split: option.split)
  have nth: "drop_overlap lo x blocks ! k = (if k = x then (case blocks ! k of
       Some b \<Rightarrow> if unat lo < unat (cb_end_pc b) then None else Some b | None \<Rightarrow> None)
     else blocks ! k)"
    using Cons.prems by (auto simp: drop_overlap_def split: option.split)
  show ?case
    using Cons.IH [of "drop_overlap lo x blocks"] Cons.prems len nth
    by (auto split: option.split)
qed simp

lemma lookup_invalidate_range:
  assumes "cc_ok c"
  shows "cc_lookup pc (cc_invalidate_range lo hi c) =
    (case cc_lookup pc c of
       None \<Rightarrow> None
     | Some b \<Rightarrow> if overlaps pc b (unat lo) (unat hi) then None else Some b)"
proof (cases "pc < length (cc_blocks c)")
  case in_range: True
  let ?first = "unat lo - unat (sat_sub (cc_max_span c) 1)"
  let ?hi = "min (unat hi) (length (cc_blocks c) - 1)"
  have ne: "cc_blocks c \<noteq> []" using in_range by auto
  have "cc_blocks (cc_invalidate_range lo hi c) = fold (drop_overlap lo) [?first..<Suc ?hi] (cc_blocks c)"
    using ne by (simp add: cc_invalidate_range_def Let_def del: upt_Suc)
  note blocks = this
  have ranged: "\<forall>x\<in>set [?first..<Suc ?hi]. x < length (cc_blocks c)" using in_range by (auto simp: min_def)
  have nth: "cc_blocks (cc_invalidate_range lo hi c) ! pc =
    (if pc \<in> set [?first..<Suc ?hi] then (case cc_blocks c ! pc of
       Some b \<Rightarrow> if unat lo < unat (cb_end_pc b) then None else Some b | None \<Rightarrow> None)
     else cc_blocks c ! pc)"
    unfolding blocks by (rule nth_drop_overlaps [OF ranged in_range])
  have len: "length (cc_blocks (cc_invalidate_range lo hi c)) = length (cc_blocks c)"
    by (simp add: cc_invalidate_range_def Let_def del: upt_Suc)
  have win: "pc \<in> set [?first..<Suc ?hi]"
    if "cc_blocks c ! pc = Some b" "overlaps pc b (unat lo) (unat hi)" for b
  proof -
    have "unat (cb_end_pc b) \<le> pc + unat (cc_max_span c)"
      using assms that(1) in_range by (auto simp: cc_ok_def cc_lookup_def)
    then show ?thesis using that(2) in_range
      by (auto simp: overlaps_def unat_sat_sub)
  qed
  show ?thesis
  proof (cases "cc_blocks c ! pc")
    case None
    then show ?thesis using in_range nth len by (simp add: cc_lookup_def)
  next
    case (Some b)
    then show ?thesis using in_range nth len win [OF Some]
      by (cases "overlaps pc b (unat lo) (unat hi)") (auto simp: cc_lookup_def overlaps_def)
  qed
qed (simp add: cc_lookup_def cc_invalidate_range_def Let_def)

lemma lookup_insert:
  "cc_insert pc b c = Some c' \<Longrightarrow>
    cc_lookup k c' = (if k = unat pc then Some b else cc_lookup k c)"
  by (auto simp: cc_insert_def cc_lookup_def Let_def split: if_splits)

lemma lookup_evict: "cc_lookup k (cc_evict pc c) = (if k = pc then None else cc_lookup k c)"
  by (auto simp: cc_evict_def cc_lookup_def)

lemma lookup_touch: "cc_lookup k (cc_touch pc g c) =
    (if k = pc then map_option (cb_generation_update (\<lambda>_. g)) (cc_lookup k c) else cc_lookup k c)"
  by (auto simp: cc_touch_def cc_lookup_def split: option.split)

lemma lookup_all: "cc_lookup k (cc_invalidate_all c) = None"
  by (simp add: cc_invalidate_all_def cc_lookup_def)

lemma lookup_new: "cc_lookup k (code_cache_new n) = None"
  by (simp add: code_cache_new_def cc_lookup_def)

lemma cc_insert_total: "unat pc < length (cc_blocks c) \<Longrightarrow> \<exists>c'. cc_insert pc b c = Some c'"
  by (simp add: cc_insert_def Let_def)

lemma cc_insert_fields [simp]:
  assumes "cc_insert pc b c = Some c'"
  shows "length (cc_blocks c') = length (cc_blocks c)"
    "cc_max_span c' = max (cc_max_span c) (sat_sub (cb_end_pc b) pc)"
  using assms by (auto simp: cc_insert_def Let_def split: if_splits)

lemma cc_fields [simp]:
  "length (cc_blocks (cc_invalidate_range lo hi c)) = length (cc_blocks c)"
  "cc_max_span (cc_invalidate_range lo hi c) = cc_max_span c"
  "length (cc_blocks (cc_evict k c)) = length (cc_blocks c)"
  "cc_max_span (cc_evict k c) = cc_max_span c"
  "length (cc_blocks (cc_touch k g c)) = length (cc_blocks c)"
  "cc_max_span (cc_touch k g c) = cc_max_span c"
  "length (cc_blocks (cc_invalidate_all c)) = length (cc_blocks c)"
  "cc_max_span (cc_invalidate_all c) = cc_max_span c"
  by (simp_all add: cc_invalidate_range_def cc_evict_def cc_touch_def cc_invalidate_all_def Let_def
      del: upt_Suc split: option.split)

lemma cc_ok_insert:
  assumes "cc_ok c" "cc_insert pc b c = Some c'"
  shows "cc_ok c'"
proof -
  have "unat (max a b) = max (unat a) (unat b)" for a b :: u32
    by (simp add: max_def word_le_nat_alt)
  then show ?thesis
    using assms lookup_insert [OF assms(2)]
    by (fastforce simp: cc_ok_def unat_sat_sub split: if_splits)
qed

lemma cc_ok_intros:
  "cc_ok c \<Longrightarrow> cc_ok (cc_invalidate_range lo hi c)" "cc_ok c \<Longrightarrow> cc_ok (cc_evict k c)"
  "cc_ok c \<Longrightarrow> cc_ok (cc_touch k g c)" "cc_ok c \<Longrightarrow> cc_ok (cc_invalidate_all c)"
  "n \<le> 2 ^ 32 \<Longrightarrow> cc_ok (code_cache_new n)"
  by (auto simp: cc_ok_def lookup_invalidate_range lookup_evict lookup_touch lookup_all lookup_new
      split: option.splits if_splits) (simp add: code_cache_new_def)

section \<open>The interface of a block cache\<close>

text \<open>
  What the run loop relies on. A fact that holds of every cached block survives an insertion of a
  block it holds of, and after a range is dropped it only has to be known of the blocks outside it.
\<close>

locale range_cache =
  fixes inv :: "'c \<Rightarrow> bool"
    and find_block :: "nat \<Rightarrow> 'c \<Rightarrow> 'b option"
    and insert_block :: "u32 \<Rightarrow> 'b \<Rightarrow> 'c \<Rightarrow> 'c option"
    and drop_block :: "nat \<Rightarrow> 'c \<Rightarrow> 'c"
    and drop_range :: "u32 \<Rightarrow> u32 \<Rightarrow> 'c \<Rightarrow> 'c"
    and ends :: "'b \<Rightarrow> nat"
  assumes find_insert: "insert_block pc b c = Some c' \<Longrightarrow>
      find_block k c' = (if k = unat pc then Some b else find_block k c)"
    and find_drop: "find_block k (drop_block i c) = (if k = i then None else find_block k c)"
    and find_range: "inv c \<Longrightarrow> find_block k (drop_range lo hi c) = (case find_block k c of
      None \<Rightarrow> None | Some b \<Rightarrow> if k \<le> unat hi \<and> unat lo < ends b then None else Some b)"
    and inv_insert: "inv c \<Longrightarrow> insert_block pc b c = Some c' \<Longrightarrow> inv c'"
    and inv_drop: "inv c \<Longrightarrow> inv (drop_block i c)"
    and inv_range: "inv c \<Longrightarrow> inv (drop_range lo hi c)"
begin

definition all_blocks :: "(nat \<Rightarrow> 'b \<Rightarrow> bool) \<Rightarrow> 'c \<Rightarrow> bool" where
  "all_blocks P c \<longleftrightarrow> (\<forall>k b. find_block k c = Some b \<longrightarrow> P k b)"

lemma all_blocksD: "all_blocks P c \<Longrightarrow> find_block k c = Some b \<Longrightarrow> P k b"
  by (simp add: all_blocks_def)

lemma all_blocks_mono: "all_blocks P c \<Longrightarrow> (\<And>k b. find_block k c = Some b \<Longrightarrow> P k b \<Longrightarrow> Q k b) \<Longrightarrow>
    all_blocks Q c"
  by (simp add: all_blocks_def)

lemma all_blocks_insert:
  "all_blocks P c \<Longrightarrow> P (unat pc) b \<Longrightarrow> insert_block pc b c = Some c' \<Longrightarrow> all_blocks P c'"
  by (simp add: all_blocks_def find_insert)

lemma all_blocks_drop: "all_blocks P c \<Longrightarrow> all_blocks P (drop_block i c)"
  by (simp add: all_blocks_def find_drop)

lemma all_blocks_range:
  assumes "inv c" "all_blocks P c"
    and "\<And>k b. \<not> (k \<le> unat hi \<and> unat lo < ends b) \<Longrightarrow> P k b \<Longrightarrow> Q k b"
  shows "all_blocks Q (drop_range lo hi c)"
  using assms by (auto simp: all_blocks_def find_range split: option.splits if_splits)

end

interpretation cc: range_cache cc_ok cc_lookup cc_insert cc_evict cc_invalidate_range
  "\<lambda>b. unat (cb_end_pc b)"
  by unfold_locales
    (auto simp: lookup_insert lookup_evict lookup_invalidate_range overlaps_def
      intro: cc_ok_insert cc_ok_intros split: option.split)

lemma all_blocks_touch:
  assumes "cc.all_blocks P c" "\<And>b. cc_lookup i c = Some b \<Longrightarrow> P i b \<Longrightarrow> P i (b\<lparr>cb_generation := g\<rparr>)"
  shows "cc.all_blocks P (cc_touch i g c)"
  using assms by (auto simp: cc.all_blocks_def lookup_touch split: if_splits)

section \<open>Property\<close>

text \<open>
  C35. Range invalidation scans only a window before the range, and drops exactly the blocks that
  overlap the range, wherever they start, in any cache built by insertions and invalidations.
\<close>
theorem invalidate_range_exact:
  assumes "cc_ok c"
  shows "cc_lookup k (cc_invalidate_range lo hi c) =
    (case cc_lookup k c of
       Some b \<Rightarrow> if k \<le> unat hi \<and> unat lo < unat (cb_end_pc b) then None else Some b
     | None \<Rightarrow> None) \<and>
    cc_ok (cc_invalidate_range lo hi c) \<and>
    (\<forall>pc b c'. cc_insert pc b c = Some c' \<longrightarrow> cc_ok c')"
proof -
  have "cc_ok c'" if "cc_insert pc b c = Some c'" for pc c' and b :: "'a compiled_block"
    using cc.inv_insert [OF assms that] .
  then show ?thesis
    using cc.find_range [OF assms, of k lo hi] cc.inv_range [OF assms]
    by (auto split: option.split)
qed

theorem invalidate_range_exact_witness:
  "let b = \<lparr>cb_func = (), cb_end_pc = 9, cb_generation = 0, cb_ends_open = False\<rparr>;
       c = the (cc_insert 0 b (code_cache_new 16))
   in cc_lookup 0 c = Some b \<and> cc_lookup 0 (cc_invalidate_range 8 8 c) = None"
proof -
  let ?b = "\<lparr>cb_func = (), cb_end_pc = 9, cb_generation = 0, cb_ends_open = False\<rparr>"
  obtain c where c: "cc_insert 0 ?b (code_cache_new 16) = Some c"
    using cc_insert_total [of 0 "code_cache_new 16" ?b] by (auto simp: code_cache_new_def)
  have "cc_ok c" by (rule cc_ok_insert [OF cc_ok_intros(5) c]) simp
  then show ?thesis
    using invalidate_range_exact [of c 0 8 8] lookup_insert [OF c, of 0]
    by (simp add: c Let_def)
qed

end
