(* ===== verification/Jit.thy ===== *)
theory Jit
  imports Control Block_Shape Code_Cache
begin

text \<open>
  \<^verbatim>\<open>crates/emu/src/jit.rs\<close>, second part: the engine with its three caches (blocks by start address,
  single instructions by opcode, retained translations by content), and the two ways it executes:
  one instruction at a time (\<^verbatim>\<open>step_one\<close>) and the run loop over compiled blocks (\<^verbatim>\<open>run\<close>).

  Machine code is not modelled. What Cranelift makes of an instruction or of the plan of a block is
  a parameter, the record \<open>codegen\<close>: a function on the state that returns the cycles it consumed.
  The words the translator reads from program memory are those a read of the map returns; the
  effect a read callback of a program region may have on the embedder is kept in \<open>step_one\<close> and
  dropped in the translator, whose reads are peeks. Profiling (the tick counters and the dump), the
  nanosecond counters, the code-size counter and the perf map are not modelled. A panic is \<open>None\<close>.
\<close>

section \<open>Compiled code\<close>

type_synonym 'e compiled_fn = "'e dsp_state \<Rightarrow> i32 \<times> 'e dsp_state"

text \<open>
  The function made of an instruction with its address, next word and preemption quantum, and of the
  plan of a block with its end, whether it ends open and the quantum.
\<close>

record 'e codegen =
  cg_inst :: "instruction \<Rightarrow> u32 \<Rightarrow> u32 \<Rightarrow> i32 \<Rightarrow> 'e compiled_fn"
  cg_block :: "emit_op list \<Rightarrow> u32 \<Rightarrow> bool \<Rightarrow> i32 \<Rightarrow> 'e compiled_fn"

section \<open>The engine\<close>

abbreviation (input) MAX_BLOCK_LEN :: u32 where "MAX_BLOCK_LEN \<equiv> 32"
abbreviation (input) MAX_TRANSLATIONS :: nat where "MAX_TRANSLATIONS \<equiv> 16384"
abbreviation (input) INLINE_LOOP_QUANTUM :: i32 where "INLINE_LOOP_QUANTUM \<equiv> 4096"

record jit_stats =
  st_compiles :: u64
  st_invalidations :: u64
  st_cache_hits :: u64
  st_retained :: u64
  st_block_entries :: u64
  st_block_ends_do_boundary :: u64
  st_block_ends_open :: u64

definition jit_stats_default :: jit_stats where
  "jit_stats_default = \<lparr>st_compiles = 0, st_invalidations = 0, st_cache_hits = 0, st_retained = 0,
     st_block_entries = 0, st_block_ends_do_boundary = 0, st_block_ends_open = 0\<rparr>"

type_synonym 'f translation = "u32 list \<times> 'f \<times> bool"

record 'f jit_engine =
  je_cache :: "'f code_cache"
  je_instr_cache :: "u32 \<times> u32 \<times> u32 \<Rightarrow> ('f \<times> u32) option"
  je_pram_size :: nat
  je_translations :: "u32 \<times> u32 \<Rightarrow> 'f translation list option"
  je_translation_count :: nat
  je_loop_quantum :: i32
  je_max_block_len :: u32
  je_stats :: jit_stats

type_synonym 'e jit = "'e compiled_fn jit_engine"

definition jit_new :: "nat \<Rightarrow> 'f jit_engine" where
  "jit_new pram_size =
    \<lparr>je_cache = code_cache_new pram_size, je_instr_cache = Map.empty, je_pram_size = pram_size,
     je_translations = Map.empty, je_translation_count = 0, je_loop_quantum = INLINE_LOOP_QUANTUM,
     je_max_block_len = MAX_BLOCK_LEN, je_stats = jit_stats_default\<rparr>"

definition upd_stats :: "(jit_stats \<Rightarrow> jit_stats) \<Rightarrow> 'f jit_engine \<Rightarrow> 'f jit_engine" where
  "upd_stats f j = j\<lparr>je_stats := f (je_stats j)\<rparr>"

definition upd_cache :: "('f code_cache \<Rightarrow> 'f code_cache) \<Rightarrow> 'f jit_engine \<Rightarrow> 'f jit_engine" where
  "upd_cache f j = j\<lparr>je_cache := f (je_cache j)\<rparr>"

definition set_max_block_len :: "u32 \<Rightarrow> 'f jit_engine \<Rightarrow> 'f jit_engine" where
  "set_max_block_len cap j = j\<lparr>je_max_block_len := max cap 1\<rparr>"

definition invalidate_cache :: "'f jit_engine \<Rightarrow> 'f jit_engine" where
  "invalidate_cache j =
    (let j = upd_cache cc_invalidate_all j;
         j = j\<lparr>je_instr_cache := Map.empty, je_translations := Map.empty, je_translation_count := 0\<rparr>
     in upd_stats (\<lambda>st. st\<lparr>st_retained := 0\<rparr>) j)"

definition set_inline_loop_quantum :: "i32 \<Rightarrow> 'f jit_engine \<Rightarrow> 'f jit_engine" where
  "set_inline_loop_quantum cycles j = invalidate_cache (j\<lparr>je_loop_quantum := cycles\<rparr>)"

definition invalidate_blocks :: "'f jit_engine \<Rightarrow> 'f jit_engine" where
  "invalidate_blocks j = upd_cache cc_invalidate_all j"

definition invalidate_range :: "u32 \<Rightarrow> u32 \<Rightarrow> 'f jit_engine \<Rightarrow> 'f jit_engine" where
  "invalidate_range lo hi j =
    (upd_cache (cc_invalidate_range lo hi) j)
      \<lparr>je_instr_cache := (\<lambda>(at, op, nw). if at < lo \<or> hi < at then je_instr_cache j (at, op, nw) else None)\<rparr>"

text \<open>\<^verbatim>\<open>block_count\<close> and \<^verbatim>\<open>block_sizes\<close>; the entry sizes are differences of \<^verbatim>\<open>u32\<close>.\<close>

definition block_count :: "'f jit_engine \<Rightarrow> nat" where
  "block_count j = length (filter (\<lambda>b. b \<noteq> None) (cc_blocks (je_cache j)))"

definition block_sizes :: "'f jit_engine \<Rightarrow> (u32 \<times> u32 \<times> u32) list" where
  "block_sizes j = List.map_filter
     (\<lambda>(i, b). map_option (\<lambda>b. (word_of_nat i, cb_end_pc b, cb_end_pc b - word_of_nat i)) b)
     (List.enumerate 0 (cc_blocks (je_cache j)))"

section \<open>Single instructions\<close>

text \<open>The word a translator reads from program memory.\<close>

definition fetch :: "'e dsp_state memory_map \<Rightarrow> 'e dsp_state \<Rightarrow> u32 \<Rightarrow> u32" where
  "fetch M s a = fst (read_pram M a s)"

definition instruction_uses_pc :: "instruction \<Rightarrow> bool" where
  "instruction_uses_pc inst = (case inst of
     Branch b \<Rightarrow> (case b of
       Bra _ \<Rightarrow> True | BraLong \<Rightarrow> True | BraRn _ \<Rightarrow> True
     | Bcc _ _ \<Rightarrow> True | BccLong _ \<Rightarrow> True | BccRn _ _ \<Rightarrow> True
     | Bsr _ \<Rightarrow> True | BsrLong \<Rightarrow> True | BsrRn _ \<Rightarrow> True
     | Bscc _ _ \<Rightarrow> True | BsccLong _ \<Rightarrow> True | BsccRn _ _ \<Rightarrow> True
     | Jsr _ \<Rightarrow> True | JsrEa _ \<Rightarrow> True | Jscc _ _ \<Rightarrow> True | JsccEa _ _ \<Rightarrow> True
     | _ \<Rightarrow> False)
   | Loop l \<Rightarrow> (case l of
       DoImm _ \<Rightarrow> True | DoReg _ \<Rightarrow> True | DoAa _ _ \<Rightarrow> True | DoEa _ _ \<Rightarrow> True | DoForever \<Rightarrow> True
     | DorImm _ \<Rightarrow> True | DorReg _ \<Rightarrow> True | DorAa _ _ \<Rightarrow> True | DorEa _ _ \<Rightarrow> True
     | DorForever \<Rightarrow> True | _ \<Rightarrow> False)
   | Address a \<Rightarrow> (case a of LraRn _ _ \<Rightarrow> True | LraDisp _ \<Rightarrow> True | _ \<Rightarrow> False)
   | Bit_branch _ \<Rightarrow> True
   | Bit_bsr _ \<Rightarrow> True
   | Bit_jump j \<Rightarrow> (case j of
       JsclrEa _ _ _ \<Rightarrow> True | JsclrAa _ _ _ \<Rightarrow> True | JsclrPp _ _ _ \<Rightarrow> True
     | JsclrQq _ _ _ \<Rightarrow> True | JsclrReg _ _ \<Rightarrow> True
     | JssetEa _ _ _ \<Rightarrow> True | JssetAa _ _ _ \<Rightarrow> True | JssetPp _ _ _ \<Rightarrow> True
     | JssetQq _ _ _ \<Rightarrow> True | JssetReg _ _ \<Rightarrow> True
     | _ \<Rightarrow> False)
   | _ \<Rightarrow> False)"

definition get_or_compile_instruction ::
  "'e codegen \<Rightarrow> u32 \<Rightarrow> u32 \<Rightarrow> u32 \<Rightarrow> 'e jit \<Rightarrow> (('e compiled_fn \<times> u32) \<times> 'e jit) option" where
  "get_or_compile_instruction cg at opcode next_word j = do {
     inst \<leftarrow> decode opcode;
     let inst_len = instruction_length inst;
     let pc_key = (if instruction_uses_pc inst then at else 0);
     let nw_key = (if 1 < inst_len then next_word else 0);
     let key = (pc_key, opcode, nw_key);
     (case je_instr_cache j key of
       Some cached \<Rightarrow> Some (cached, j)
     | None \<Rightarrow>
         let func = cg_inst cg inst at next_word (je_loop_quantum j)
         in Some ((func, inst_len), j\<lparr>je_instr_cache := (je_instr_cache j)(key \<mapsto> (func, inst_len))\<rparr>))
   }"

text \<open>
  The gate of an armed core fault: an instruction that still fits in the window is charged to it; the
  first one that does not is annulled and the fault is delivered (\<open>True\<close>).
\<close>

definition armed_gate ::
  "'e dsp_state memory_map \<Rightarrow> u32 \<Rightarrow> u32 \<Rightarrow> 'e dsp_state \<Rightarrow> (bool \<times> 'e dsp_state) option" where
  "armed_gate M opcode inst_len s =
    (if ip_state (interrupts s) = IS_Armed \<and> \<not> loop_rep s then do {
       inst \<leftarrow> decode opcode;
       let cost = (if is_rep_instruction inst then 2 else inst_len);
       let remaining = ip_fault_budget (interrupts s);
       if inst_len = 0 \<or> remaining < cost then do {
         s \<leftarrow> deliver_armed_fault M s;
         Some (True, s\<lparr>cycle_count := cycle_count s + 2\<rparr>)
       } else Some (False, upd_interrupts (\<lambda>ip. ip\<lparr>ip_fault_budget := remaining - cost\<rparr>) s)
     } else Some (False, s))"

definition step_one ::
  "'e codegen \<Rightarrow> 'e dsp_state memory_map \<Rightarrow> 'e jit \<Rightarrow> 'e dsp_state \<Rightarrow>
   (i32 \<times> 'e jit \<times> 'e dsp_state) option" where
  "step_one cg M j s = do {
     let (opcode, s) = read_pram M (pc s) s;
     let (next_word, s) = read_pram M (mask_pc (pc s + 1)) s;
     ((func, inst_len), j) \<leftarrow> get_or_compile_instruction cg (pc s) opcode next_word j;
     (delivered, s) \<leftarrow> armed_gate M opcode inst_len s;
     if delivered then Some (2, j, s)
     else do {
       let s = s\<lparr>pc_advance := inst_len\<rparr>;
       let (consumed, s) = func s;
       let s = advance_pc s;
       s \<leftarrow> process_pending_interrupts M s;
       Some (consumed, j, s\<lparr>cycle_count := cycle_count s + consumed\<rparr>)
     }
   }"

definition execute_one ::
  "'e codegen \<Rightarrow> 'e dsp_state memory_map \<Rightarrow> 'e jit \<Rightarrow> 'e dsp_state \<Rightarrow>
   (i32 \<times> 'e jit \<times> 'e dsp_state) option" where
  "execute_one cg M j s = step_one cg M j s"

section \<open>Blocks\<close>

definition pram_matches :: "(u32 \<Rightarrow> u32) \<Rightarrow> u32 \<Rightarrow> u32 list \<Rightarrow> bool" where
  "pram_matches p start_pc words \<longleftrightarrow>
    list_all (\<lambda>(i, w). p (start_pc + word_of_nat i) = w) (List.enumerate 0 words)"

definition block_words :: "(u32 \<Rightarrow> u32) \<Rightarrow> u32 \<Rightarrow> u32 \<Rightarrow> u32 list" where
  "block_words p start_pc end_pc = map (\<lambda>a. p (word_of_nat a)) [unat start_pc..<unat end_pc]"

definition compile_block ::
  "'e codegen \<Rightarrow> 'e dsp_state memory_map \<Rightarrow> 'e dsp_state \<Rightarrow> u32 \<Rightarrow> u32 \<Rightarrow> u32 \<Rightarrow> 'e jit \<Rightarrow>
   'e compiled_fn compiled_block option" where
  "compile_block cg M s start_pc stop_pc generation j = do {
     (ops, end_pc, ends_open) \<leftarrow>
       emit_block (fetch M s) (p_space_end M) start_pc (je_max_block_len j) stop_pc;
     Some \<lparr>cb_func = cg_block cg ops end_pc ends_open (je_loop_quantum j), cb_end_pc = end_pc,
           cb_generation = generation, cb_ends_open = ends_open\<rparr>
   }"

definition get_or_compile_block ::
  "'e codegen \<Rightarrow> 'e dsp_state memory_map \<Rightarrow> 'e dsp_state \<Rightarrow> u32 \<Rightarrow> u32 \<Rightarrow> u32 \<Rightarrow> 'e jit \<Rightarrow>
   ('e compiled_fn compiled_block \<times> 'e jit) option" where
  "get_or_compile_block cg M s start_pc stop_pc generation j =
    (case Option.bind (je_translations j (start_pc, stop_pc))
            (find (\<lambda>(words, _, _). pram_matches (fetch M s) start_pc words)) of
       Some (words, func, ends_open) \<Rightarrow>
         Some (\<lparr>cb_func = func, cb_end_pc = start_pc + word_of_nat (length words),
                cb_generation = generation, cb_ends_open = ends_open\<rparr>,
               upd_stats (\<lambda>st. st\<lparr>st_cache_hits := st_cache_hits st + 1\<rparr>) j)
     | None \<Rightarrow> do {
         block \<leftarrow> compile_block cg M s start_pc stop_pc generation j;
         let j = upd_stats (\<lambda>st. st\<lparr>st_compiles := st_compiles st + 1\<rparr>) j;
         let j = (if MAX_TRANSLATIONS \<le> je_translation_count j
                  then j\<lparr>je_translations := Map.empty, je_translation_count := 0\<rparr> else j);
         let candidates = (case je_translations j (start_pc, stop_pc) of Some ts \<Rightarrow> ts | None \<Rightarrow> []);
         let new = (block_words (fetch M s) start_pc (cb_end_pc block), cb_func block,
                    cb_ends_open block);
         let j = j\<lparr>je_translations := (je_translations j)((start_pc, stop_pc) \<mapsto> candidates @ [new]),
                   je_translation_count := je_translation_count j + 1\<rparr>;
         Some (block, upd_stats (\<lambda>st. st\<lparr>st_retained := word_of_nat (je_translation_count j)\<rparr>) j)
       })"

section \<open>The run loop\<close>

text \<open>
  The power check at the top of an iteration: \<open>None\<close> when the loop breaks (the budget is given up),
  else the state to go on with.
\<close>

definition can_wake :: "'e dsp_state \<Rightarrow> bool" where
  "can_wake s \<longleftrightarrow> list_ex (\<lambda>i. pending (interrupts s) i \<and>
     (ip_ipl (interrupts s) i = 3 \<or> sr_level s \<le> ip_ipl (interrupts s) i)) [0..<INT_COUNT]"

definition power_check :: "'e dsp_state \<Rightarrow> 'e dsp_state option" where
  "power_check s =
    (if power_state_of s = PS_Stop then None
     else if power_state_of s = PS_Wait then
       if has_pending (interrupts s) \<and> can_wake s then Some (s\<lparr>power_state_of := PS_Normal\<rparr>) else None
     else Some s)"

definition loop_stop_pc :: "'e dsp_state \<Rightarrow> u32" where
  "loop_stop_pc s =
    (if registers s reg_SR AND push_bit sr_LF 1 \<noteq> 0 then mask_pc (registers s reg_LA + 1)
     else 0xFFFFFFFF)"

text \<open>The eviction test on the cached block at the PC.\<close>

definition evict_stale :: "'e dsp_state \<Rightarrow> u32 \<Rightarrow> 'e jit \<Rightarrow> 'e jit" where
  "evict_stale s stop_pc j =
    (case cc_lookup (unat (pc s)) (je_cache j) of
       None \<Rightarrow> j
     | Some block \<Rightarrow>
         if pc s < stop_pc \<and> stop_pc < cb_end_pc block \<or>
            cb_generation block \<noteq> pd_generation (pram_dirty s) \<and>
            is_range_dirty (pc s) (cb_end_pc block) (pram_dirty s)
         then upd_cache (cc_evict (unat (pc s))) j
         else upd_cache (cc_touch (unat (pc s)) (pd_generation (pram_dirty s))) j)"

text \<open>The compile path: a miss translates (or reuses), then drops what the write made stale.\<close>

definition fill_miss ::
  "'e codegen \<Rightarrow> 'e dsp_state memory_map \<Rightarrow> u32 \<Rightarrow> 'e jit \<times> 'e dsp_state \<Rightarrow>
   ('e jit \<times> 'e dsp_state) option" where
  "fill_miss cg M stop_pc = (\<lambda>(j, s).
    if cc_lookup (unat (pc s)) (je_cache j) \<noteq> None then Some (j, s)
    else do {
      (block, j) \<leftarrow> get_or_compile_block cg M s (pc s) stop_pc (pd_generation (pram_dirty s)) j;
      let (j, s) =
        (if is_range_dirty (pc s) (cb_end_pc block) (pram_dirty s) then
           let j = upd_stats (\<lambda>st. st\<lparr>st_invalidations := st_invalidations st + 1\<rparr>) j;
               j = upd_cache (cc_invalidate_range (pc s) (sat_sub (cb_end_pc block) 1)) j
           in (j, s\<lparr>pram_dirty := clear_dirty_range (pc s) (cb_end_pc block) (pram_dirty s)\<rparr>)
         else (j, s));
      cache \<leftarrow> cc_insert (pc s) block (je_cache j);
      Some (j\<lparr>je_cache := cache\<rparr>, s)
    })"

definition count_entry :: "u32 \<Rightarrow> 'f compiled_block \<Rightarrow> jit_stats \<Rightarrow> jit_stats" where
  "count_entry stop_pc block st =
    (let st = st\<lparr>st_block_entries := st_block_entries st + 1\<rparr>
     in if cb_end_pc block = stop_pc
        then st\<lparr>st_block_ends_do_boundary := st_block_ends_do_boundary st + 1\<rparr>
        else if cb_ends_open block then st\<lparr>st_block_ends_open := st_block_ends_open st + 1\<rparr>
        else st)"

text \<open>The lookup of the block to dispatch; the final \<^verbatim>\<open>unwrap\<close> panics on a miss.\<close>

definition find_block ::
  "'e codegen \<Rightarrow> 'e dsp_state memory_map \<Rightarrow> 'e jit \<Rightarrow> 'e dsp_state \<Rightarrow>
   ('e compiled_fn compiled_block \<times> 'e jit \<times> 'e dsp_state) option" where
  "find_block cg M j s = do {
     let stop_pc = loop_stop_pc s;
     let j = evict_stale s stop_pc j;
     (j, s) \<leftarrow> fill_miss cg M stop_pc (j, s);
     block \<leftarrow> cc_lookup (unat (pc s)) (je_cache j);
     Some (block, upd_stats (count_entry stop_pc block) j, s)
   }"

text \<open>The call of a block and what follows it in the iteration.\<close>

definition dispatch ::
  "'e dsp_state memory_map \<Rightarrow> 'e compiled_fn \<Rightarrow> 'e dsp_state \<Rightarrow> 'e dsp_state option" where
  "dispatch M func s =
    (let (consumed, s) = func s;
         s = s\<lparr>exit_requested := False\<rparr>;
         s = s\<lparr>cycle_count := cycle_count s + consumed\<rparr>;
         s = s\<lparr>cycle_budget := cycle_budget s - consumed\<rparr>;
         s = check_unimplemented_modes s;
         s = (if at_loop_end s then do_loop_step s else s)
     in process_pending_interrupts M s)"

text \<open>
  One iteration of \<^verbatim>\<open>run\<close>; the first component says whether the loop goes on (\<open>False\<close> for
  \<^verbatim>\<open>break\<close>).
\<close>

definition run_iter ::
  "'e codegen \<Rightarrow> 'e dsp_state memory_map \<Rightarrow> 'e jit \<times> 'e dsp_state \<Rightarrow>
   (bool \<times> 'e jit \<times> 'e dsp_state) option" where
  "run_iter cg M = (\<lambda>(j, s).
    (case power_check s of
       None \<Rightarrow> Some (False, j, s\<lparr>cycle_budget := 0\<rparr>)
     | Some s \<Rightarrow>
         if ip_state (interrupts s) \<noteq> IS_None \<or> loop_rep s \<or> je_pram_size j \<le> unat (pc s) then do {
           (consumed, j, s) \<leftarrow> step_one cg M j s;
           Some (True, j, s\<lparr>cycle_budget := cycle_budget s - consumed\<rparr>)
         } else do {
           (block, j, s) \<leftarrow> find_block cg M j s;
           s \<leftarrow> dispatch M (cb_func block) s;
           Some (True, j, s)
         }))"

partial_function (option) run_loop ::
  "'e codegen \<Rightarrow> 'e dsp_state memory_map \<Rightarrow> 'e jit \<times> 'e dsp_state \<Rightarrow> ('e jit \<times> 'e dsp_state) option"
  where
  "run_loop cg M js =
    (if \<not> (0 <s cycle_budget (snd js) \<and> \<not> halt_requested (snd js)) then Some js
     else do {
       (go_on, js) \<leftarrow> run_iter cg M js;
       if go_on then run_loop cg M js else Some js
     })"

definition run ::
  "'e codegen \<Rightarrow> 'e dsp_state memory_map \<Rightarrow> 'e jit \<Rightarrow> 'e dsp_state \<Rightarrow> i32 \<Rightarrow>
   ('e jit \<times> 'e dsp_state) option" where
  "run cg M j s cycles = run_loop cg M (j, s\<lparr>cycle_budget := cycle_budget s + cycles\<rparr>)"

end
