(* ===== verification/Jit_Laws.thy ===== *)
theory Jit_Laws
  imports Jit Block_Laws Interrupt_Laws
begin

text \<open>
  The engine is correct: compiled blocks always come from a plan that reads back as the program, a
  cached block is dispatched only while that is still true of the current program memory, the run
  loop returns, and the single-instruction cache returns what a fresh translation would.

  The generated code is a parameter. What is assumed of it is named: \<open>code_marks\<close> (a compiled
  function marks the program words it changes), \<open>code_pays\<close> (it consumes cycles and leaves the budget
  to the run loop) and \<open>inst_shared\<close> (an instruction that does not use its PC or next word is
  compiled to the same function whatever they are).
\<close>

section \<open>Buffered program memory\<close>

definition buffered_program :: "'s memory_map \<Rightarrow> bool" where
  "buffered_program M \<longleftrightarrow> (\<forall>r \<in> set (p_regions M). \<exists>b offset. mr_kind r = Buffer b offset)"

lemma read_pram_buffered:
  assumes "buffered_program M"
  shows "read_pram M a s = (fetch M s a, s)" "snd (read_memory M Space_P a s) = s"
proof -
  have pram: "snd (read_pram_regions rs a s) = s" and mem: "snd (read_regions rs a s) = s"
    if "\<forall>r \<in> set rs. \<exists>b offset. mr_kind r = Buffer b offset" for rs
    using that by (induction rs) auto
  show "read_pram M a s = (fetch M s a, s)"
    using pram assms by (simp add: read_pram_def fetch_def buffered_program_def prod_eq_iff)
  show "snd (read_memory M Space_P a s) = s"
    using mem assms by (simp add: read_memory_def regions_def buffered_program_def)
qed

lemma fetch_bufs:
  fixes s :: "'e dsp_state"
  assumes "buffered_program M" "bufs t = bufs s"
  shows "fetch M t a = fetch M s a"
proof -
  have "fst (read_pram_regions rs a t) = fst (read_pram_regions rs a s)"
    if "\<forall>r \<in> set rs. \<exists>b offset. mr_kind r = Buffer b offset" for rs
    using that assms(2) by (induction rs) auto
  then show ?thesis using assms(1) by (simp add: fetch_def read_pram_def buffered_program_def)
qed

lemma fetch_outside:
  assumes "p_space_end M \<le> a"
  shows "fetch M s a = 0"
proof -
  have "find (in_region a) (p_regions M) = None"
  proof (cases "lookup M Space_P a")
    case (Some r)
    from p_space_end_bound [OF this] assms show ?thesis by simp
  qed (simp add: lookup_def regions_def)
  then have "\<forall>r \<in> set (p_regions M). \<not> in_region a r" by (auto simp: find_None_iff)
  moreover have "read_pram_regions rs a s = (0, s)" if "\<forall>r \<in> set rs. \<not> in_region a r" for rs
    using that by (induction rs) (auto simp: in_region_def)
  ultimately show ?thesis by (simp add: fetch_def read_pram_def)
qed

section \<open>Steps that leave program memory alone\<close>

text \<open>The buffers, the dirty bits and the budget: what the control steps do not touch.\<close>

definition quiet :: "'e dsp_state \<Rightarrow> 'e dsp_state \<Rightarrow> bool" where
  "quiet s t \<longleftrightarrow> bufs t = bufs s \<and> pram_dirty t = pram_dirty s \<and> cycle_budget t = cycle_budget s"

lemma quiet_refl [simp]: "quiet s s"
  by (simp add: quiet_def)

lemma quiet_trans [trans]: "quiet s t \<Longrightarrow> quiet t u \<Longrightarrow> quiet s u"
  by (simp add: quiet_def)

lemma quiet_updates [simp]:
  "quiet s (set_reg r v t) = quiet s t" "quiet s (set_stack h i v t) = quiet s t"
  "quiet s (upd_interrupts f t) = quiet s t" "quiet s (post_stack_error t) = quiet s t"
  "quiet s (t\<lparr>pc := w\<rparr>) = quiet s t" "quiet s (t\<lparr>pc_advance := w\<rparr>) = quiet s t"
  "quiet s (t\<lparr>loop_rep := b\<rparr>) = quiet s t" "quiet s (t\<lparr>pc_on_rep := b\<rparr>) = quiet s t"
  "quiet s (t\<lparr>interrupts := ip\<rparr>) = quiet s t" "quiet s (t\<lparr>fault_budget_hint := w\<rparr>) = quiet s t"
  "quiet s (t\<lparr>warned_bits := w\<rparr>) = quiet s t" "quiet s (t\<lparr>unimpl_reported := w\<rparr>) = quiet s t"
  "quiet s (t\<lparr>cycle_count := w\<rparr>) = quiet s t" "quiet s (t\<lparr>exit_requested := b\<rparr>) = quiet s t"
  "quiet s (t\<lparr>power_state_of := p\<rparr>) = quiet s t"
  by (simp_all add: quiet_def set_reg_def set_stack_def upd_interrupts_def post_stack_error_def)

lemma quiet_stack [simp]:
  "quiet s (stack_push a b t) = quiet s t" "quiet s (snd (stack_pop t)) = quiet s t"
  by (simp_all add: stack_push_def stack_pop_def Let_def)

lemma quiet_steps [simp]:
  "quiet s (check_unimplemented_modes t) = quiet s t" "quiet s (rep_step t) = quiet s t"
  "quiet s (do_loop_step t) = quiet s t" "quiet s (advance_pc t) = quiet s t"
proof -
  have trunc: "quiet s (rep_truncate_armed_window t) = quiet s t" for t
    by (simp add: rep_truncate_armed_window_def)
  show modes: "quiet s (check_unimplemented_modes t) = quiet s t" for t
    by (simp add: check_unimplemented_modes_def check_unimplemented_modes_slow_def Let_def)
  show rep: "quiet s (rep_step t) = quiet s t" for t
    by (simp add: rep_step_def Let_def trunc)
  show loop: "quiet s (do_loop_step t) = quiet s t" for t
    by (simp add: do_loop_step_def Let_def case_prod_beta)
  show "quiet s (advance_pc t) = quiet s t"
    by (simp add: advance_pc_def Let_def modes rep loop)
qed

lemma quiet_enter [simp]: "quiet s (enter_long t) = quiet s t"
  "quiet s (next_stage t) = quiet s t" "quiet s (dispatch_interrupt i t) = quiet s t"
  by (simp_all add: enter_long_def next_stage_def dispatch_interrupt_def Let_def)

abbreviation quiet_result :: "'e dsp_state \<Rightarrow> 'e dsp_state option \<Rightarrow> bool" where
  "quiet_result s r \<equiv> \<forall>t. r = Some t \<longrightarrow> quiet s t"

lemma quiet_detect: "quiet s t \<Longrightarrow> quiet_result s (detect_long_interrupt instr t)"
  by (auto simp: detect_long_interrupt_def split: Option.bind_splits)

lemma quiet_deliver:
  assumes "buffered_program M"
  shows "quiet_result s (deliver_armed_fault M s)" "quiet_result s (deliver_parked_fault M s)"
proof -
  note [simp] = read_pram_buffered(2) [OF assms]
  show armed: "quiet_result s (deliver_armed_fault M s)" for s
    by (auto simp: deliver_armed_fault_def Let_def case_prod_beta dest!: quiet_detect [rule_format, rotated])
  show "quiet_result s (deliver_parked_fault M s)"
    using armed by (auto simp: deliver_parked_fault_def Let_def quiet_def upd_interrupts_def
        split: option.splits)
qed

lemma quiet_fast_pipeline:
  assumes "buffered_program M" "fast_pipeline M s = Some (b, t)"
  shows "quiet s t"
proof -
  note [simp] = read_pram_buffered(2) [OF assms(1)]
  show ?thesis using assms(2)
    by (auto simp: fast_pipeline_def Let_def case_prod_beta split: if_splits
        dest!: quiet_detect [rule_format, rotated])
qed

lemma quiet_process:
  assumes "buffered_program M" "process_pending_interrupts M s = Some t"
  shows "quiet s t"
proof -
  have parked: "quiet_result u (parked_tick M u)" for u
    using quiet_deliver(2) [OF assms(1)]
    by (auto simp: parked_tick_def Let_def quiet_def upd_interrupts_def split: if_splits)
  show ?thesis using assms(2) parked
    by (auto simp: process_pending_interrupts_def split: if_splits Option.bind_splits option.splits
        dest!: quiet_fast_pipeline [OF assms(1)] parked [rule_format] intro: quiet_trans)
qed

section \<open>Plans behind compiled blocks\<close>

text \<open>
  \<open>planned cg q p k e open f\<close>: the function is what the code generator makes, with quantum \<open>q\<close>, of a
  plan that reads back as the program \<open>p\<close> from address \<open>k\<close> to \<open>e\<close>, not empty and inside the 24-bit
  address space.
\<close>

definition planned ::
  "'e codegen \<Rightarrow> i32 \<Rightarrow> (u32 \<Rightarrow> u32) \<Rightarrow> u32 \<Rightarrow> u32 \<Rightarrow> bool \<Rightarrow> 'e compiled_fn \<Rightarrow> bool" where
  "planned cg q p k e ends_open f \<longleftrightarrow> (\<exists>ops. f = cg_block cg ops e ends_open q \<and>
     run_plan p ops (k, []) = Some (e, []) \<and> loops_safe ops \<and> k < e \<and> e \<le> 0x1000000)"

lemma planned_cong:
  assumes "planned cg q p k e b f" "agree_on k e p p'"
  shows "planned cg q p' k e b f"
proof -
  obtain ops where ops: "f = cg_block cg ops e b q" "run_plan p ops (k, []) = Some (e, [])"
    "loops_safe ops" "k < e" "e \<le> 0x1000000"
    using assms(1) by (auto simp: planned_def)
  have "run_plan p' ops (k, []) = Some (e, [])"
    using run_cong(2) [OF ops(2), of p'] ops(5) assms(2) by simp
  then show ?thesis using ops unfolding planned_def by blast
qed

text \<open>The map fits the address space with room for the last instruction.\<close>

definition map_fits :: "'s memory_map \<Rightarrow> bool" where
  "map_fits M \<longleftrightarrow> p_space_end M \<le> 0xFFFFFC"

lemma compile_block_planned:
  assumes M: "map_fits M" and len: "0 < je_max_block_len j" "je_max_block_len j \<le> 0x80000000"
    and start: "start < p_space_end M"
  shows "\<exists>b. compile_block cg M s start stop g j = Some b \<and> cb_generation b = g \<and>
    planned cg (je_loop_quantum j) (fetch M s) start (cb_end_pc b) (cb_ends_open b) (cb_func b)"
proof -
  have bound: "unat (p_space_end M) \<le> 0xFFFFFC" using M by (simp add: map_fits_def word_le_nat_alt)
  then have "p_space_end M \<le> 0x1000000" by (simp add: word_le_nat_alt)
  from emit_block_good [OF this len(2), of "fetch M s" start stop] start len(1)
  obtain ops e ends where plan:
    "emit_block (fetch M s) (p_space_end M) start (je_max_block_len j) stop = Some (ops, e, ends)"
    "run_plan (fetch M s) ops (start, []) = Some (e, [])" "loops_safe ops" "start < e"
    "unat e \<le> max (unat (p_space_end M) + 2) (unat start)" by blast
  have "unat start < unat (p_space_end M)" using start by (simp add: word_less_nat_alt)
  then have "e \<le> 0x1000000" using plan(5) bound by (simp add: word_le_nat_alt)
  then show ?thesis using plan by (auto simp: compile_block_def planned_def)
qed

text \<open>Retained translations: made of a plan, and kept with the words the plan covers.\<close>

lemma length_block_words: "length (block_words p k e) = unat e - unat k"
  by (simp add: block_words_def)

lemma pram_matches_agree:
  assumes "pram_matches q k (block_words p k e)"
  shows "agree_on k e p q"
proof -
  have all: "q (k + word_of_nat i) = block_words p k e ! i" if "i < unat e - unat k" for i
  proof -
    have "(i, block_words p k e ! i) \<in> set (List.enumerate 0 (block_words p k e))"
      using that by (simp add: in_set_enumerate_eq length_block_words)
    then show ?thesis using assms unfolding pram_matches_def list_all_iff by fast
  qed
  have "q a = p a" if "k \<le> a" "a < e" for a
  proof -
    have i: "unat a - unat k < unat e - unat k" "unat k \<le> unat a"
      using that by (auto simp: word_le_nat_alt word_less_nat_alt)
    then have "block_words p k e ! (unat a - unat k) = p a" by (simp add: block_words_def)
    moreover have "k + word_of_nat (unat a - unat k) = a" using i(2) by (simp add: of_nat_diff)
    ultimately show ?thesis using all [OF i(1)] by simp
  qed
  then show ?thesis by (simp add: agree_on_def)
qed

definition translation_ok :: "'e codegen \<Rightarrow> i32 \<Rightarrow> u32 \<Rightarrow> 'e compiled_fn translation \<Rightarrow> bool" where
  "translation_ok cg q start = (\<lambda>(words, f, ends_open).
     \<exists>p e. planned cg q p start e ends_open f \<and> words = block_words p start e)"

lemma translation_ok_match:
  assumes "translation_ok cg q start (words, f, b)" "pram_matches p start words"
  shows "planned cg q p start (start + word_of_nat (length words)) b f"
proof -
  obtain w e where w: "planned cg q w start e b f" "words = block_words w start e"
    using assms(1) by (auto simp: translation_ok_def)
  have "unat start \<le> unat e" using w(1) by (auto simp: planned_def word_less_nat_alt)
  then have "start + word_of_nat (length words) = e"
    by (simp add: w(2) length_block_words of_nat_diff)
  moreover have "agree_on start e w p" using pram_matches_agree assms(2) w(2) by simp
  ultimately show ?thesis using planned_cong [OF w(1)] by simp
qed

section \<open>The engine's invariant\<close>

abbreviation block_planned :: "'e codegen \<Rightarrow> i32 \<Rightarrow> (u32 \<Rightarrow> u32) \<Rightarrow> nat \<Rightarrow> 'e compiled_fn compiled_block \<Rightarrow> bool"
  where
  "block_planned cg q p k b \<equiv> planned cg q p (word_of_nat k) (cb_end_pc b) (cb_ends_open b) (cb_func b)"

definition engine_ok :: "'e codegen \<Rightarrow> 'e dsp_state memory_map \<Rightarrow> 'e jit \<Rightarrow> bool" where
  "engine_ok cg M j \<longleftrightarrow> cc_ok (je_cache j) \<and> length (cc_blocks (je_cache j)) = je_pram_size j \<and>
     je_pram_size j = unat (p_space_end M) \<and>
     0 < je_max_block_len j \<and> je_max_block_len j \<le> 0x80000000 \<and>
     cc.all_blocks (\<lambda>k b. \<exists>p. block_planned cg (je_loop_quantum j) p k b) (je_cache j) \<and>
     (\<forall>start stop ts t. je_translations j (start, stop) = Some ts \<longrightarrow> t \<in> set ts \<longrightarrow>
        translation_ok cg (je_loop_quantum j) start t)"

lemma upd_simps [simp]:
  "je_cache (upd_stats f j) = je_cache j" "je_instr_cache (upd_stats f j) = je_instr_cache j"
  "je_pram_size (upd_stats f j) = je_pram_size j" "je_translations (upd_stats f j) = je_translations j"
  "je_loop_quantum (upd_stats f j) = je_loop_quantum j"
  "je_max_block_len (upd_stats f j) = je_max_block_len j"
  "je_translation_count (upd_stats f j) = je_translation_count j"
  "je_cache (upd_cache g j) = g (je_cache j)" "je_instr_cache (upd_cache g j) = je_instr_cache j"
  "je_pram_size (upd_cache g j) = je_pram_size j" "je_translations (upd_cache g j) = je_translations j"
  "je_loop_quantum (upd_cache g j) = je_loop_quantum j"
  "je_max_block_len (upd_cache g j) = je_max_block_len j"
  by (simp_all add: upd_stats_def upd_cache_def)

lemma engine_ok_fields:
  assumes "engine_ok cg M j" "je_cache j' = je_cache j" "je_translations j' = je_translations j"
    "je_pram_size j' = je_pram_size j" "je_loop_quantum j' = je_loop_quantum j"
    "je_max_block_len j' = je_max_block_len j"
  shows "engine_ok cg M j'"
  using assms by (simp add: engine_ok_def)

lemma engine_ok_cache:
  assumes "engine_ok cg M j" "cc_ok c" "length (cc_blocks c) = je_pram_size j"
    "cc.all_blocks (\<lambda>k b. \<exists>p. block_planned cg (je_loop_quantum j) p k b) c"
  shows "engine_ok cg M (j\<lparr>je_cache := c\<rparr>)"
  using assms by (simp add: engine_ok_def)

lemma engine_ok_new: "engine_ok cg M (jit_new (unat (p_space_end M)))"
proof -
  have "unat (p_space_end M) < 2 ^ LENGTH(32)" by (rule unsigned_less)
  then have "unat (p_space_end M) \<le> 2 ^ 32" by simp
  from cc_ok_intros(5) [OF this] show ?thesis
    by (simp add: engine_ok_def jit_new_def cc.all_blocks_def lookup_new)
      (simp add: code_cache_new_def)
qed

text \<open>A translation, fresh or reused, is one of the current program.\<close>

definition compiled_for ::
  "'e codegen \<Rightarrow> 'e dsp_state memory_map \<Rightarrow> (u32 \<Rightarrow> u32) \<Rightarrow> 'e jit \<Rightarrow> u32 \<Rightarrow> u32 \<Rightarrow>
   'e compiled_fn compiled_block \<Rightarrow> 'e jit \<Rightarrow> bool" where
  "compiled_for cg M p j start g b j' \<longleftrightarrow>
     planned cg (je_loop_quantum j) p start (cb_end_pc b) (cb_ends_open b) (cb_func b) \<and>
     cb_generation b = g \<and> engine_ok cg M j' \<and> je_cache j' = je_cache j \<and>
     je_loop_quantum j' = je_loop_quantum j \<and> je_pram_size j' = je_pram_size j \<and>
     je_instr_cache j' = je_instr_cache j"

lemma get_or_compile_block_ok:
  assumes ok: "engine_ok cg M j" and M: "map_fits M" and start: "start < p_space_end M"
  shows "\<exists>b j'. get_or_compile_block cg M s start stop g j = Some (b, j') \<and>
    compiled_for cg M (fetch M s) j start g b j'"
proof (cases "Option.bind (je_translations j (start, stop))
    (find (\<lambda>(words, _, _). pram_matches (fetch M s) start words))")
  case (Some t)
  obtain words f b where t: "t = (words, f, b)" by (cases t)
  obtain ts where ts: "je_translations j (start, stop) = Some ts"
    "find (\<lambda>(words, _, _). pram_matches (fetch M s) start words) ts = Some (words, f, b)"
    using Some t by (auto split: Option.bind_splits)
  then have found: "(words, f, b) \<in> set ts" "pram_matches (fetch M s) start words"
    by (auto simp: find_Some_iff in_set_conv_nth)
  then have "translation_ok cg (je_loop_quantum j) start (words, f, b)"
    using ok ts(1) unfolding engine_ok_def by blast
  from translation_ok_match [OF this found(2)] show ?thesis
    using Some t ok
    by (simp add: get_or_compile_block_def compiled_for_def)
      (rule engine_ok_fields [OF ok]; simp)
next
  case None
  obtain b where b: "compile_block cg M s start stop g j = Some b" "cb_generation b = g"
    "planned cg (je_loop_quantum j) (fetch M s) start (cb_end_pc b) (cb_ends_open b) (cb_func b)"
    using compile_block_planned [OF M, of j start cg s stop g] start ok
    by (auto simp: engine_ok_def)
  have new: "translation_ok cg (je_loop_quantum j) start
      (block_words (fetch M s) start (cb_end_pc b), cb_func b, cb_ends_open b)"
    using b(3) unfolding translation_ok_def by blast
  note ok' = ok [unfolded engine_ok_def]
  show ?thesis
  proof (cases "je_translations j (start, stop)")
    case None
    then show ?thesis using b new ok'
      by (auto simp: get_or_compile_block_def compiled_for_def engine_ok_def Let_def split: if_splits)
  next
    case (Some ts)
    then show ?thesis using None b new ok'
      by (auto simp: get_or_compile_block_def compiled_for_def engine_ok_def Let_def split: if_splits)
  qed
qed

section \<open>Freshness\<close>

text \<open>
  A change of the state marks the program words it changes; \<open>as\<close> are the addresses marked, fewer than
  $2^{32}$ in one step.
\<close>

definition marks :: "'e dsp_state memory_map \<Rightarrow> 'e dsp_state \<Rightarrow> 'e dsp_state \<Rightarrow> bool" where
  "marks M s t \<longleftrightarrow> (\<exists>as. length as < 2 ^ 32 \<and> pram_dirty t = fold mark_dirty as (pram_dirty s) \<and>
     (\<forall>a. a \<notin> set as \<longrightarrow> fetch M t a = fetch M s a))"

definition dirty_ok :: "'e dsp_state memory_map \<Rightarrow> 'e dsp_state \<Rightarrow> bool" where
  "dirty_ok M s \<longleftrightarrow> pd_wf (pram_dirty s) \<and> pd_size (pram_dirty s) = unat (p_space_end M)"

abbreviation gen :: "'e dsp_state \<Rightarrow> u32" where
  "gen s \<equiv> pd_generation (pram_dirty s)"

text \<open>
  What the run loop knows of a cached block made of the program \<open>p\<close>: a word of it that has changed is
  dirty, and when the block was seen clean at the current generation no word has changed.
\<close>

definition fresh ::
  "'e dsp_state memory_map \<Rightarrow> 'e dsp_state \<Rightarrow> (u32 \<Rightarrow> u32) \<Rightarrow> u32 \<Rightarrow> 'f compiled_block \<Rightarrow> bool" where
  "fresh M s p k b \<longleftrightarrow>
     (\<forall>a. k \<le> a \<and> a < cb_end_pc b \<longrightarrow> fetch M s a = p a \<or> dirty_at (pram_dirty s) (unat a)) \<and>
     cb_generation b \<le> gen s \<and> (cb_generation b = gen s \<longrightarrow> agree_on k (cb_end_pc b) p (fetch M s))"

lemma fold_marks_fields:
  "pd_size (fold mark_dirty as d) = pd_size d" "pd_wf d \<Longrightarrow> pd_wf (fold mark_dirty as d)"
  "pd_wf d \<Longrightarrow> dirty_set (fold mark_dirty as d) = dirty_set d \<union> (unat ` set as \<inter> {..<pd_size d})"
proof -
  have size: "pd_size (mark_dirty a d) = pd_size d" for a d
    by (simp add: mark_dirty_def Let_def)
  show "pd_size (fold mark_dirty as d) = pd_size d" for d
    by (induction as arbitrary: d) (simp_all add: size)
  show "pd_wf d \<Longrightarrow> pd_wf (fold mark_dirty as d)" for d
    by (induction as arbitrary: d) (simp_all add: mark_dirty_wf)
  show "pd_wf d \<Longrightarrow> dirty_set (fold mark_dirty as d) = dirty_set d \<union> (unat ` set as \<inter> {..<pd_size d})"
    for d
  proof (induction as arbitrary: d)
    case (Cons a as)
    then show ?case by (auto simp: mark_dirty_wf mark_dirty_set size)
  qed simp
qed

lemma marks_dirty_ok: "marks M s t \<Longrightarrow> dirty_ok M s \<Longrightarrow> dirty_ok M t"
  by (auto simp: marks_def dirty_ok_def fold_marks_fields)

lemma marks_quiet:
  assumes "buffered_program M" "quiet s t"
  shows "marks M s t"
  using fetch_bufs [OF assms(1), of t s] assms(2)
  by (auto simp: marks_def quiet_def intro: exI [of _ "[]"])

lemma marks_trans_quiet:
  assumes "buffered_program M" "marks M s t" "quiet t u"
  shows "marks M s u"
  using fetch_bufs [OF assms(1), of u t] assms(2,3) by (simp add: marks_def quiet_def)

lemma marks_quiet_trans:
  assumes "buffered_program M" "quiet s t" "marks M t u"
  shows "marks M s u"
  using fetch_bufs [OF assms(1), of t s] assms(2,3) by (simp add: marks_def quiet_def)

text \<open>Freshness survives any step that marks what it changes, while the counter does not wrap.\<close>

lemma fresh_marks:
  assumes fresh: "fresh M s p k b" and marks: "marks M s t" and dirty: "dirty_ok M s"
    and no_wrap: "gen s \<le> gen t"
  shows "fresh M t p k b"
proof -
  obtain as where as: "length as < 2 ^ 32" "pram_dirty t = fold mark_dirty as (pram_dirty s)"
    "\<And>a. a \<notin> set as \<Longrightarrow> fetch M t a = fetch M s a"
    using marks by (auto simp: marks_def)
  let ?in = "filter (\<lambda>a. unat a < pd_size (pram_dirty s)) as"
  have outside: "fetch M t a = fetch M s a" if "a \<notin> set ?in" for a
  proof (cases "a \<in> set as")
    case True
    then have "p_space_end M \<le> a" using that dirty by (auto simp: dirty_ok_def word_le_nat_alt)
    then show ?thesis by (simp add: fetch_outside)
  qed (rule as(3))
  have dirty_t: "dirty_at (pram_dirty t) x \<longleftrightarrow> dirty_at (pram_dirty s) x \<or> x \<in> unat ` set ?in" for x
  proof -
    have "x \<in> dirty_set (pram_dirty t) \<longleftrightarrow>
        x \<in> dirty_set (pram_dirty s) \<or> x \<in> unat ` set as \<inter> {..<pd_size (pram_dirty s)}"
      using fold_marks_fields(3) [of "pram_dirty s" as] dirty as(2) by (simp add: dirty_ok_def)
    then show ?thesis by (auto simp: dirty_set_def)
  qed
  have gen: "gen t = gen s + word_of_nat (length ?in)"
    using as(2) by (simp add: generation_marks)
  show ?thesis
  proof (cases "?in = []")
    case True
    have "gen t = gen s" using gen True by simp
    moreover have "fetch M t a = fetch M s a" for a using outside [of a] True by simp
    moreover have "dirty_at (pram_dirty t) x = dirty_at (pram_dirty s) x" for x
      using dirty_t [of x] True by simp
    ultimately show ?thesis using fresh by (simp add: fresh_def agree_on_def)
  next
    case False
    have "length ?in < 2 ^ 32" by (rule le_less_trans [OF length_filter_le as(1)])
    moreover have "0 < length ?in" using False by blast
    ultimately have "word_of_nat (length ?in) \<noteq> (0 :: u32)"
      by (simp add: word_of_nat_eq_0_iff nat_dvd_not_less)
    then have "gen s \<noteq> gen t" using gen by auto
    then have "gen s < gen t" using no_wrap by simp
    then have "cb_generation b < gen t" using fresh by (auto simp: fresh_def)
    moreover have "fetch M t a = p a \<or> dirty_at (pram_dirty t) (unat a)"
      if "k \<le> a" "a < cb_end_pc b" for a
    proof (cases "a \<in> set ?in")
      case False
      then show ?thesis using fresh that outside [OF False] dirty_t by (auto simp: fresh_def)
    qed (use dirty_t in blast)
    ultimately show ?thesis by (auto simp: fresh_def)
  qed
qed

section \<open>The block to dispatch\<close>

definition stale_free :: "'e codegen \<Rightarrow> 'e dsp_state memory_map \<Rightarrow> 'e jit \<Rightarrow> 'e dsp_state \<Rightarrow> bool" where
  "stale_free cg M j s \<longleftrightarrow> dirty_ok M s \<and>
     cc.all_blocks (\<lambda>k b. \<exists>p. block_planned cg (je_loop_quantum j) p k b \<and>
       fresh M s p (word_of_nat k) b) (je_cache j)"

lemma stale_free_marks:
  assumes "stale_free cg M j s" "marks M s t" "gen s \<le> gen t"
  shows "stale_free cg M j t"
proof -
  have "dirty_ok M s" using assms(1) by (simp add: stale_free_def)
  then show ?thesis
    using assms fresh_marks [OF _ assms(2) _ assms(3)] marks_dirty_ok [OF assms(2)]
    unfolding stale_free_def by (auto elim!: cc.all_blocks_mono)
qed

lemma cached_key: "cc_ok c \<Longrightarrow> cc_lookup k c = Some b \<Longrightarrow> unat (word_of_nat k :: u32) = k"
proof -
  assume "cc_ok c" "cc_lookup k c = Some b"
  then have "k < 2 ^ LENGTH(32)" by (auto simp: cc_ok_def cc_lookup_def split: if_splits)
  then show ?thesis by (simp only: unsigned_of_nat take_bit_nat_eq_self of_nat_id)
qed

lemma evict_stale_ok:
  assumes ok: "engine_ok cg M j"
  shows "engine_ok cg M (evict_stale s stop j)" and "je_loop_quantum (evict_stale s stop j) = je_loop_quantum j"
    and "stale_free cg M j s \<Longrightarrow> stale_free cg M (evict_stale s stop j) s"
    and "stale_free cg M j s \<Longrightarrow> cc_lookup (unat (pc s)) (je_cache (evict_stale s stop j)) = Some b \<Longrightarrow>
      planned cg (je_loop_quantum j) (fetch M s) (pc s) (cb_end_pc b) (cb_ends_open b) (cb_func b)"
proof -
  let ?k = "unat (pc s)" and ?c = "je_cache j"
  have cc: "cc_ok ?c" "cc_ok (cc_evict ?k ?c)" "cc_ok (cc_touch ?k g ?c)" for g
    using ok by (auto simp: engine_ok_def intro: cc_ok_intros)
  have plans: "cc.all_blocks (\<lambda>k b. \<exists>p. block_planned cg (je_loop_quantum j) p k b) ?c"
    using ok by (simp add: engine_ok_def)
  show quantum: "je_loop_quantum (evict_stale s stop j) = je_loop_quantum j"
    by (simp add: evict_stale_def split: option.split)
  show "engine_ok cg M (evict_stale s stop j)"
  proof -
    have "cc.all_blocks (\<lambda>k b. \<exists>p. block_planned cg (je_loop_quantum j) p k b) (cc_touch ?k g ?c)" for g
      by (rule all_blocks_touch [OF plans]) simp
    moreover have "cc.all_blocks (\<lambda>k b. \<exists>p. block_planned cg (je_loop_quantum j) p k b) (cc_evict ?k ?c)"
      using plans by (rule cc.all_blocks_drop)
    ultimately show ?thesis
      using ok cc by (auto simp: evict_stale_def engine_ok_def split: option.split)
  qed
  assume sf: "stale_free cg M j s"
  have clean: "\<exists>p. planned cg (je_loop_quantum j) p (pc s) (cb_end_pc b) (cb_ends_open b) (cb_func b) \<and>
      agree_on (pc s) (cb_end_pc b) p (fetch M s)"
    if b: "cc_lookup ?k ?c = Some b" and
      not_dirty: "cb_generation b \<noteq> gen s \<Longrightarrow> \<not> is_range_dirty (pc s) (cb_end_pc b) (pram_dirty s)" for b
  proof -
    obtain p where p: "planned cg (je_loop_quantum j) p (pc s) (cb_end_pc b) (cb_ends_open b) (cb_func b)"
      "fresh M s p (pc s) b"
      using cc.all_blocksD [OF _ b] sf unfolding stale_free_def by fastforce
    have "agree_on (pc s) (cb_end_pc b) p (fetch M s)"
    proof (cases "cb_generation b = gen s")
      case False
      then have "\<not> dirty_at (pram_dirty s) (unat a)" if "pc s \<le> a" "a < cb_end_pc b" for a
        using not_dirty sf that is_range_dirty_iff [of "pram_dirty s"]
        by (auto simp: stale_free_def dirty_ok_def word_le_nat_alt word_less_nat_alt)
      then show ?thesis using p(2) by (auto simp: fresh_def agree_on_def)
    qed (use p(2) in \<open>simp add: fresh_def\<close>)
    then show ?thesis using p(1) by blast
  qed
  show "stale_free cg M (evict_stale s stop j) s"
  proof -
    let ?P = "\<lambda>k b. \<exists>p. block_planned cg (je_loop_quantum j) p k b \<and> fresh M s p (word_of_nat k) b"
    have P: "cc.all_blocks ?P ?c" using sf by (simp add: stale_free_def)
    have "cc.all_blocks ?P (cc_touch ?k (gen s) ?c)"
      if "\<And>b. cc_lookup ?k ?c = Some b \<Longrightarrow> cb_generation b \<noteq> gen s \<Longrightarrow>
        \<not> is_range_dirty (pc s) (cb_end_pc b) (pram_dirty s)"
    proof (rule all_blocks_touch [OF P])
      fix b assume "cc_lookup ?k ?c = Some b"
      from clean [OF this that [OF this]] show "?P ?k (b\<lparr>cb_generation := gen s\<rparr>)"
        by (auto simp: fresh_def agree_on_def)
    qed
    moreover have "cc.all_blocks ?P (cc_evict ?k ?c)" using P by (rule cc.all_blocks_drop)
    moreover have "dirty_ok M s" using sf by (simp add: stale_free_def)
    ultimately show ?thesis using P
      by (auto simp: evict_stale_def stale_free_def split: option.split)
  qed
  show "planned cg (je_loop_quantum j) (fetch M s) (pc s) (cb_end_pc b) (cb_ends_open b) (cb_func b)"
    if hit: "cc_lookup (unat (pc s)) (je_cache (evict_stale s stop j)) = Some b"
  proof -
    obtain b0 where b0: "cc_lookup ?k ?c = Some b0" "b = b0\<lparr>cb_generation := gen s\<rparr>"
      "cb_generation b0 \<noteq> gen s \<Longrightarrow> \<not> is_range_dirty (pc s) (cb_end_pc b0) (pram_dirty s)"
      using hit by (auto simp: evict_stale_def lookup_touch lookup_evict split: option.splits if_splits)
    from clean [OF b0(1,3)] show ?thesis using planned_cong b0(2) by fastforce
  qed
qed

text \<open>Blocks that survive a range invalidation do not see the range's dirty bits cleared.\<close>

lemma fresh_clear:
  assumes fresh: "fresh M s p k b" and dirty: "dirty_ok M s" and M: "buffered_program M"
    and apart: "\<not> (k \<le> sat_sub e 1 \<and> lo < cb_end_pc b)" and e: "lo < e"
  shows "fresh M (s\<lparr>pram_dirty := clear_dirty_range lo e (pram_dirty s)\<rparr>) p k b" (is "fresh M ?t p k b")
proof -
  have fetch: "fetch M ?t a = fetch M s a" for a by (rule fetch_bufs [OF M]) simp
  have gen: "gen ?t = gen s" by (simp add: clear_dirty_range_def Let_def)
  have "dirty_at (pram_dirty ?t) (unat a)"
    if "dirty_at (pram_dirty s) (unat a)" "k \<le> a" "a < cb_end_pc b" for a
  proof -
    have e1: "unat lo < unat e" using e by (simp add: word_less_nat_alt)
    have "unat (sat_sub e 1) = unat e - 1" by (simp add: unat_sat_sub)
    then have "\<not> (unat k \<le> unat e - 1 \<and> unat lo < unat (cb_end_pc b))"
      using apart by (simp add: word_le_nat_alt word_less_nat_alt)
    moreover have "unat k \<le> unat a" "unat a < unat (cb_end_pc b)"
      using that(2,3) by (simp_all add: word_le_nat_alt word_less_nat_alt)
    ultimately have "\<not> (unat lo \<le> unat a \<and> unat a < unat e)" using e1 by linarith
    moreover have "dirty_set (pram_dirty ?t) = dirty_set (pram_dirty s) - {unat lo..<unat e}"
      using clear_dirty_range_set(1) dirty by (simp add: dirty_ok_def)
    then have "unat a \<in> dirty_set (pram_dirty ?t) \<longleftrightarrow>
        unat a \<in> dirty_set (pram_dirty s) \<and> unat a \<notin> {unat lo..<unat e}" by (simp only: Diff_iff)
    ultimately show ?thesis using that(1) by (simp add: dirty_set_def)
  qed
  then have "\<forall>a. k \<le> a \<and> a < cb_end_pc b \<longrightarrow> fetch M ?t a = p a \<or> dirty_at (pram_dirty ?t) (unat a)"
    using fresh unfolding fresh_def fetch by blast
  then show ?thesis using fresh unfolding fresh_def fetch gen agree_on_def by blast
qed

definition clear_program_dirty :: "'e dsp_state \<Rightarrow> 'e dsp_state \<Rightarrow> bool" where
  "clear_program_dirty s t \<longleftrightarrow> (\<exists>d. t = s\<lparr>pram_dirty := d\<rparr> \<and> pd_generation d = gen s \<and>
     pd_size d = pd_size (pram_dirty s) \<and> (pd_wf (pram_dirty s) \<longrightarrow> pd_wf d))"

lemma clear_program_dirty_intros:
  "clear_program_dirty s s"
  "clear_program_dirty s (s\<lparr>pram_dirty := clear_dirty_range lo e (pram_dirty s)\<rparr>)"
proof -
  show "clear_program_dirty s s" unfolding clear_program_dirty_def by (rule exI [of _ "pram_dirty s"]) simp
  have "pd_generation (clear_dirty_range lo e d) = pd_generation d"
    "pd_size (clear_dirty_range lo e d) = pd_size d" for d
    by (simp_all add: clear_dirty_range_def Let_def)
  then show "clear_program_dirty s (s\<lparr>pram_dirty := clear_dirty_range lo e (pram_dirty s)\<rparr>)"
    unfolding clear_program_dirty_def using clear_dirty_range_set(2) by blast
qed

lemma fill_miss_ok:
  assumes ok: "engine_ok cg M j" and M: "map_fits M" "buffered_program M"
    and start: "unat (pc s) < je_pram_size j"
    and sf: "A \<Longrightarrow> stale_free cg M j s"
    and hit: "\<And>b. A \<Longrightarrow> cc_lookup (unat (pc s)) (je_cache j) = Some b \<Longrightarrow>
      planned cg (je_loop_quantum j) (fetch M s) (pc s) (cb_end_pc b) (cb_ends_open b) (cb_func b)"
  shows "\<exists>j' t b. fill_miss cg M stop (j, s) = Some (j', t) \<and> clear_program_dirty s t \<and>
    engine_ok cg M j' \<and> je_loop_quantum j' = je_loop_quantum j \<and>
    cc_lookup (unat (pc s)) (je_cache j') = Some b \<and>
    (A \<longrightarrow> stale_free cg M j' t \<and>
      planned cg (je_loop_quantum j) (fetch M s) (pc s) (cb_end_pc b) (cb_ends_open b) (cb_func b))"
proof (cases "cc_lookup (unat (pc s)) (je_cache j)")
  case (Some b)
  then show ?thesis using ok sf hit [OF _ Some] clear_program_dirty_intros(1)
    unfolding fill_miss_def by auto
next
  case None
  let ?k = "unat (pc s)"
  have "pc s < p_space_end M" using start ok by (simp add: engine_ok_def word_less_nat_alt)
  from get_or_compile_block_ok [OF ok M(1) this, of s stop "gen s"]
  obtain b j1 where b: "get_or_compile_block cg M s (pc s) stop (gen s) j = Some (b, j1)"
    "compiled_for cg M (fetch M s) j (pc s) (gen s) b j1" by blast
  then have plan: "planned cg (je_loop_quantum j) (fetch M s) (pc s) (cb_end_pc b) (cb_ends_open b) (cb_func b)"
    and bgen: "cb_generation b = gen s" and ok1: "engine_ok cg M j1"
    and same: "je_cache j1 = je_cache j" "je_loop_quantum j1 = je_loop_quantum j"
      "je_pram_size j1 = je_pram_size j"
    by (simp_all add: compiled_for_def)
  have nonempty: "pc s < cb_end_pc b" using plan by (auto simp: planned_def)
  let ?dirty = "is_range_dirty (pc s) (cb_end_pc b) (pram_dirty s)"
  let ?hi = "sat_sub (cb_end_pc b) 1"
  define c1 where "c1 = (if ?dirty then cc_invalidate_range (pc s) ?hi (je_cache j) else je_cache j)"
  define t where "t = (if ?dirty
    then s\<lparr>pram_dirty := clear_dirty_range (pc s) (cb_end_pc b) (pram_dirty s)\<rparr> else s)"
  have cc: "cc_ok (je_cache j)" "cc_ok c1" "length (cc_blocks c1) = je_pram_size j"
    using ok by (auto simp: engine_ok_def c1_def intro: cc_ok_intros)
  obtain c2 where c2: "cc_insert (pc s) b c1 = Some c2"
    using cc_insert_total [of "pc s" c1 b] cc(3) start by auto
  define j2 where "j2 = (if ?dirty then upd_cache (cc_invalidate_range (pc s) ?hi)
      (upd_stats (\<lambda>st. st\<lparr>st_invalidations := st_invalidations st + 1\<rparr>) j1) else j1)\<lparr>je_cache := c2\<rparr>"
  have fill: "fill_miss cg M stop (j, s) = Some (j2, t)"
    using None b(1) c2 same(1) unfolding fill_miss_def c1_def t_def j2_def by (cases ?dirty) auto
  have t: "clear_program_dirty s t" unfolding t_def by (cases ?dirty) (simp_all only: if_True if_False clear_program_dirty_intros)
  have found: "cc_lookup ?k (je_cache j2) = Some b"
    using lookup_insert [OF c2, of ?k] by (simp add: j2_def)
  have q: "je_loop_quantum j2 = je_loop_quantum j" using same(2) by (simp add: j2_def)
  have "engine_ok cg M j2"
  proof -
    let ?P = "\<lambda>k b. \<exists>p. block_planned cg (je_loop_quantum j) p k b"
    have "cc.all_blocks ?P (je_cache j)" using ok by (simp add: engine_ok_def)
    then have "cc.all_blocks ?P c1"
      using cc.all_blocks_range [OF cc(1)] by (simp add: c1_def)
    then have "cc.all_blocks ?P c2"
      by (rule cc.all_blocks_insert [OF _ _ c2]) (use plan in auto)
    moreover have "cc_ok c2" "length (cc_blocks c2) = je_pram_size j"
      using cc_ok_insert [OF cc(2) c2] cc_insert_fields(1) [OF c2] cc(3) by simp_all
    ultimately show ?thesis using ok1 same by (simp add: engine_ok_def j2_def)
  qed
  moreover have "stale_free cg M j2 t" if A: A
  proof -
    note sf = sf [OF A]
    let ?Q = "\<lambda>t k b. \<exists>p. block_planned cg (je_loop_quantum j) p k b \<and> fresh M t p (word_of_nat k) b"
    have dirty: "dirty_ok M s" using sf by (simp add: stale_free_def)
    then have dirty_t: "dirty_ok M t" using t by (auto simp: dirty_ok_def clear_program_dirty_def)
    have Q: "cc.all_blocks (?Q s) (je_cache j)" using sf by (simp add: stale_free_def)
    have "cc.all_blocks (?Q t) c1"
    proof (cases ?dirty)
      case True
      let ?t = "s\<lparr>pram_dirty := clear_dirty_range (pc s) (cb_end_pc b) (pram_dirty s)\<rparr>"
      have "cc.all_blocks (?Q ?t) (cc_invalidate_range (pc s) ?hi (je_cache j))"
      proof (rule cc.all_blocks_range [OF cc(1)])
        show "cc.all_blocks (\<lambda>k b. ?Q s k b \<and> unat (word_of_nat k :: u32) = k) (je_cache j)"
          using Q cached_key [OF cc(1)] by (auto elim!: cc.all_blocks_mono)
      next
        fix k b' assume apart: "\<not> (k \<le> unat ?hi \<and> unat (pc s) < unat (cb_end_pc b'))"
          and known: "?Q s k b' \<and> unat (word_of_nat k :: u32) = k"
        then have "\<not> (word_of_nat k \<le> ?hi \<and> pc s < cb_end_pc b')"
          by (simp add: word_le_nat_alt word_less_nat_alt)
        from fresh_clear [OF _ dirty M(2) this nonempty] show "?Q ?t k b'" using known by blast
      qed
      then show ?thesis using True by (simp add: c1_def t_def)
    qed (use Q in \<open>simp add: c1_def t_def\<close>)
    moreover have "?Q t ?k b"
    proof -
      have "bufs t = bufs s" "gen t = gen s" using t by (auto simp: clear_program_dirty_def)
      then have "fetch M t = fetch M s" using fetch_bufs [OF M(2)] by blast
      then have "fresh M t (fetch M s) (pc s) b"
        using bgen \<open>gen t = gen s\<close> by (simp add: fresh_def agree_on_def)
      then show ?thesis using plan by auto
    qed
    ultimately have "cc.all_blocks (?Q t) c2" by (rule cc.all_blocks_insert [OF _ _ c2])
    then show ?thesis using dirty_t q by (simp add: stale_free_def j2_def)
  qed
  ultimately show ?thesis using fill t found q plan by blast
qed

lemma find_block_ok:
  assumes ok: "engine_ok cg M j" and M: "map_fits M" "buffered_program M"
    and start: "unat (pc s) < je_pram_size j"
  shows "\<exists>b j' t. find_block cg M j s = Some (b, j', t) \<and> clear_program_dirty s t \<and>
    engine_ok cg M j' \<and> je_loop_quantum j' = je_loop_quantum j \<and>
    (\<exists>p. planned cg (je_loop_quantum j) p (pc s) (cb_end_pc b) (cb_ends_open b) (cb_func b)) \<and>
    (stale_free cg M j s \<longrightarrow> stale_free cg M j' t \<and>
      planned cg (je_loop_quantum j) (fetch M s) (pc s) (cb_end_pc b) (cb_ends_open b) (cb_func b))"
proof -
  let ?stop = "loop_stop_pc s"
  define j0 where "j0 = evict_stale s ?stop j"
  note ev = evict_stale_ok [OF ok, of s ?stop, folded j0_def]
  have size: "je_pram_size j0 = je_pram_size j"
    by (simp add: j0_def evict_stale_def split: option.split)
  have hit: "planned cg (je_loop_quantum j) (fetch M s) (pc s) (cb_end_pc b) (cb_ends_open b) (cb_func b)"
    if "stale_free cg M j s" "cc_lookup (unat (pc s)) (je_cache j0) = Some b" for b
    using ev(4) that by simp
  obtain j' t b where fill: "fill_miss cg M ?stop (j0, s) = Some (j', t)" "clear_program_dirty s t"
    "engine_ok cg M j'" "je_loop_quantum j' = je_loop_quantum j"
    "cc_lookup (unat (pc s)) (je_cache j') = Some b"
    "stale_free cg M j s \<Longrightarrow> stale_free cg M j' t \<and>
      planned cg (je_loop_quantum j) (fetch M s) (pc s) (cb_end_pc b) (cb_ends_open b) (cb_func b)"
    using fill_miss_ok [OF ev(1) M, of s "stale_free cg M j s" ?stop] ev(2,3) hit size start by auto
  let ?j = "upd_stats (count_entry ?stop b) j'"
  have pc_t: "pc t = pc s" using fill(2) by (auto simp: clear_program_dirty_def)
  have "find_block cg M j s = Some (b, ?j, t)"
    using fill(1,5) by (simp add: find_block_def j0_def pc_t)
  moreover have "engine_ok cg M ?j" by (rule engine_ok_fields [OF fill(3)]) simp_all
  moreover have "stale_free cg M ?j t = stale_free cg M j' t" by (simp add: stale_free_def)
  moreover have "\<exists>p. planned cg (je_loop_quantum j) p (pc s) (cb_end_pc b) (cb_ends_open b) (cb_func b)"
    using cc.all_blocksD [OF _ fill(5)] fill(3,4) by (fastforce simp: engine_ok_def)
  ultimately show ?thesis using fill by auto
qed

section \<open>What is assumed of the generated code\<close>

definition code_marks :: "'e codegen \<Rightarrow> 'e dsp_state memory_map \<Rightarrow> bool" where
  "code_marks cg M \<longleftrightarrow> (\<forall>s. (\<forall>i a nw q. marks M s (snd (cg_inst cg i a nw q s))) \<and>
     (\<forall>ops e b q. marks M s (snd (cg_block cg ops e b q s))))"

definition code_pays :: "'e codegen \<Rightarrow> bool" where
  "code_pays cg \<longleftrightarrow>
     (\<forall>i a nw q s. 0 <s fst (cg_inst cg i a nw q s) \<and>
        cycle_budget (snd (cg_inst cg i a nw q s)) = cycle_budget s) \<and>
     (\<forall>p k ops e b q s. run_plan p ops (k, []) = Some (e, []) \<longrightarrow> k < e \<longrightarrow>
        0 <s fst (cg_block cg ops e b q s) \<and>
        cycle_budget (snd (cg_block cg ops e b q s)) = cycle_budget s)"

text \<open>
  The instructions whose arm of \<^verbatim>\<open>Emitter::emit_instruction\<close> passes the address on: the relative
  branches, every jump to a subroutine (for the return address), the bit tests that branch, the DO
  loops (for the loop address) and the relative loads.
\<close>

definition emit_takes_pc :: "instruction \<Rightarrow> bool" where
  "emit_takes_pc i \<longleftrightarrow>
     (\<exists>b. i = Branch b \<and> \<not> (\<exists>cc w r. b = Brkcc cc \<or> b = Jcc cc w \<or> b = JccEa cc r \<or>
        b = Jmp w \<or> b = JmpEa r)) \<or>
     (\<exists>b. i = Bit_branch b) \<or> (\<exists>b. i = Bit_bsr b) \<or>
     (\<exists>b. i = Bit_jump b \<and> \<not> (\<exists>s r n. b = JclrEa s r n \<or> b = JclrAa s r n \<or> b = JclrPp s r n \<or>
        b = JclrQq s r n \<or> b = JclrReg r n \<or> b = JsetEa s r n \<or> b = JsetAa s r n \<or>
        b = JsetPp s r n \<or> b = JsetQq s r n \<or> b = JsetReg r n)) \<or>
     (\<exists>l. i = Loop l \<and> l \<noteq> EndDo \<and> \<not> (\<exists>s r n. l = RepEa s r \<or> l = RepAa s r \<or> l = RepImm n \<or>
        l = RepReg r)) \<or>
     (\<exists>r d. i = Address (LraRn r d)) \<or> (\<exists>d. i = Address (LraDisp d))"

definition inst_shared :: "'e codegen \<Rightarrow> bool" where
  "inst_shared cg \<longleftrightarrow> (\<forall>i a nw a' nw' q.
     (emit_takes_pc i \<longrightarrow> a = a') \<longrightarrow> (instruction_length i = 2 \<longrightarrow> nw = nw') \<longrightarrow>
     cg_inst cg i a nw q = cg_inst cg i a' nw' q)"

lemma uses_pc_complete: "instruction_uses_pc i \<longleftrightarrow> emit_takes_pc i"
proof (cases i)
  case (Branch b)
  then show ?thesis by (cases b) (simp_all add: instruction_uses_pc_def emit_takes_pc_def)
next
  case (Bit_jump b)
  then show ?thesis by (cases b) (simp_all add: instruction_uses_pc_def emit_takes_pc_def)
next
  case (Loop l)
  then show ?thesis by (cases l) (simp_all add: instruction_uses_pc_def emit_takes_pc_def)
next
  case (Address a)
  then show ?thesis by (cases a) (simp_all add: instruction_uses_pc_def emit_takes_pc_def)
qed (simp_all add: instruction_uses_pc_def emit_takes_pc_def)

section \<open>Single steps\<close>

text \<open>An entry of the instruction cache is the function of its opcode at some matching place.\<close>

definition inst_for :: "'e codegen \<Rightarrow> i32 \<Rightarrow> u32 \<Rightarrow> u32 \<Rightarrow> u32 \<Rightarrow> 'e compiled_fn \<times> u32 \<Rightarrow> bool" where
  "inst_for cg q at opcode next_word = (\<lambda>(f, len). \<exists>i a nw. decode opcode = Some i \<and>
     len = instruction_length i \<and> f = cg_inst cg i a nw q \<and>
     (instruction_uses_pc i \<longrightarrow> a = at) \<and> (1 < len \<longrightarrow> nw = next_word))"

definition instr_cache_ok :: "'e codegen \<Rightarrow> 'e jit \<Rightarrow> bool" where
  "instr_cache_ok cg j \<longleftrightarrow> (\<forall>at op nw c. je_instr_cache j (at, op, nw) = Some c \<longrightarrow>
     inst_for cg (je_loop_quantum j) at op nw c)"

lemma get_or_compile_instruction_ok:
  assumes ok: "instr_cache_ok cg j"
  shows "\<exists>c instrs. get_or_compile_instruction cg at opcode next_word j =
      Some (c, j\<lparr>je_instr_cache := instrs\<rparr>) \<and>
    inst_for cg (je_loop_quantum j) at opcode next_word c \<and>
    instr_cache_ok cg (j\<lparr>je_instr_cache := instrs\<rparr>)"
proof -
  obtain i where i: "decode opcode = Some i" using decode_total' by blast
  let ?key = "(if instruction_uses_pc i then at else 0, opcode,
    if 1 < instruction_length i then next_word else 0)"
  show ?thesis
  proof (cases "je_instr_cache j ?key")
    case (Some c)
    then have "inst_for cg (je_loop_quantum j) (fst ?key) opcode (snd (snd ?key)) c"
      using ok unfolding instr_cache_ok_def by fastforce
    then have "inst_for cg (je_loop_quantum j) at opcode next_word c"
      using i by (cases c) (auto simp: inst_for_def)
    then show ?thesis using Some i ok
      by (intro exI [of _ c] exI [of _ "je_instr_cache j"])
        (simp add: get_or_compile_instruction_def Let_def)
  next
    case None
    let ?c = "(cg_inst cg i at next_word (je_loop_quantum j), instruction_length i)"
    let ?m = "(je_instr_cache j)(?key \<mapsto> ?c)"
    have "inst_for cg (je_loop_quantum j) at opcode next_word ?c"
      using i by (auto simp: inst_for_def)
    moreover have "inst_for cg (je_loop_quantum j) (fst ?key) opcode (snd (snd ?key)) ?c"
      using i unfolding inst_for_def prod.case
      by (intro exI [of _ i] exI [of _ at] exI [of _ next_word]) simp
    then have "instr_cache_ok cg (j\<lparr>je_instr_cache := ?m\<rparr>)"
      using ok by (auto simp: instr_cache_ok_def split: if_splits)
    moreover have "get_or_compile_instruction cg at opcode next_word j = Some (?c, j\<lparr>je_instr_cache := ?m\<rparr>)"
      using None i by (simp add: get_or_compile_instruction_def Let_def)
    ultimately show ?thesis by blast
  qed
qed

lemma armed_gate_ok:
  assumes "buffered_program M"
  shows "\<exists>b t. armed_gate M opcode len s = Some (b, t) \<and> quiet s t"
proof -
  obtain i where i: "decode opcode = Some i" using decode_total' by blast
  obtain u where u: "deliver_armed_fault M s = Some u" using deliver_armed_total by blast
  then have "quiet s u" using quiet_deliver(1) [OF assms] by blast
  then show ?thesis using i u by (auto simp: armed_gate_def Let_def)
qed

lemma engine_ok_instrs: "engine_ok cg M (j\<lparr>je_instr_cache := c\<rparr>) = engine_ok cg M j"
  "stale_free cg M (j\<lparr>je_instr_cache := c\<rparr>) s = stale_free cg M j s"
  by (simp_all add: engine_ok_def stale_free_def)

lemma step_one_ok:
  assumes ok: "instr_cache_ok cg j" and M: "buffered_program M"
  shows "\<exists>c t instrs. step_one cg M j s = Some (c, j\<lparr>je_instr_cache := instrs\<rparr>, t) \<and>
    instr_cache_ok cg (j\<lparr>je_instr_cache := instrs\<rparr>) \<and>
    (code_pays cg \<longrightarrow> 0 <s c \<and> cycle_budget t = cycle_budget s) \<and>
    (code_marks cg M \<longrightarrow> marks M s t)"
proof -
  let ?op = "fetch M s (pc s)" and ?nw = "fetch M s (mask_pc (pc s + 1))"
  obtain f len instrs where c: "get_or_compile_instruction cg (pc s) ?op ?nw j =
      Some ((f, len), j\<lparr>je_instr_cache := instrs\<rparr>)"
    "inst_for cg (je_loop_quantum j) (pc s) ?op ?nw (f, len)"
    "instr_cache_ok cg (j\<lparr>je_instr_cache := instrs\<rparr>)"
    using get_or_compile_instruction_ok [OF ok, of "pc s" ?op ?nw] by auto
  obtain delivered u where u: "armed_gate M ?op len s = Some (delivered, u)" "quiet s u"
    using armed_gate_ok [OF M] by blast
  note start = c(1) u(1) read_pram_buffered(1) [OF M]
  show ?thesis
  proof (cases delivered)
    case True
    have "step_one cg M j s = Some (2, j\<lparr>je_instr_cache := instrs\<rparr>, u)"
      using start True by (simp add: step_one_def)
    moreover have "0 <s (2 :: 32 word)" by (simp add: word_sless_alt)
    ultimately show ?thesis using c(3) u(2) marks_quiet [OF M u(2)] by (auto simp: quiet_def)
  next
    case False
    let ?u = "u\<lparr>pc_advance := len\<rparr>"
    obtain c' v where f: "f ?u = (c', v)" by (cases "f ?u")
    obtain w where w: "process_pending_interrupts M (advance_pc v) = Some w"
      using process_not_None by blast
    have quiet_w: "quiet v (w\<lparr>cycle_count := cycle_count w + c'\<rparr>)"
      using quiet_process [OF M w] by (simp add: quiet_def) (metis quiet_def quiet_refl quiet_steps(4))
    have "step_one cg M j s = Some (c', j\<lparr>je_instr_cache := instrs\<rparr>, w\<lparr>cycle_count := cycle_count w + c'\<rparr>)"
      using start False f w by (simp add: step_one_def)
    moreover obtain i a nw where i: "f = cg_inst cg i a nw (je_loop_quantum j)"
      using c(2) by (auto simp: inst_for_def)
    have "marks M s (w\<lparr>cycle_count := cycle_count w + c'\<rparr>)" if "code_marks cg M"
    proof -
      have "marks M ?u v" using that f i unfolding code_marks_def by (metis snd_conv)
      moreover have "quiet s ?u" using u(2) by simp
      ultimately show ?thesis using marks_trans_quiet [OF M _ quiet_w] marks_quiet_trans [OF M] by blast
    qed
    moreover have "0 <s c'" "cycle_budget w = cycle_budget s" if "code_pays cg"
    proof -
      have "0 <s fst (f ?u) \<and> cycle_budget (snd (f ?u)) = cycle_budget ?u"
        using that i by (simp add: code_pays_def)
      then show "0 <s c'" "cycle_budget w = cycle_budget s"
        using f u(2) quiet_w by (simp_all add: quiet_def)
    qed
    ultimately show ?thesis using c(3) by auto
  qed
qed

section \<open>The run loop\<close>

lemma dispatch_ok:
  assumes M: "buffered_program M" and plan: "planned cg q p k e b f"
  shows "\<exists>t. dispatch M f s = Some t \<and>
    (code_pays cg \<longrightarrow> cycle_budget t = cycle_budget s - fst (f s) \<and> 0 <s fst (f s)) \<and>
    (code_marks cg M \<longrightarrow> marks M s t)"
proof -
  obtain c u where f: "f s = (c, u)" by (cases "f s")
  obtain ops where ops: "f = cg_block cg ops e b q" "run_plan p ops (k, []) = Some (e, [])" "k < e"
    using plan by (auto simp: planned_def)
  let ?v = "u\<lparr>exit_requested := False, cycle_count := cycle_count u + c,
    cycle_budget := cycle_budget u - c\<rparr>"
  let ?w = "check_unimplemented_modes ?v"
  let ?x = "if at_loop_end ?w then do_loop_step ?w else ?w"
  obtain t where t: "process_pending_interrupts M ?x = Some t" using process_not_None by blast
  have "quiet ?v ?x" by simp
  then have quiet_t: "quiet ?v t" using quiet_process [OF M t] by (rule quiet_trans)
  have "dispatch M f s = Some t" using t f by (simp add: dispatch_def)
  moreover have "cycle_budget t = cycle_budget s - c" "0 <s c" if "code_pays cg"
  proof -
    have "0 <s fst (f s) \<and> cycle_budget (snd (f s)) = cycle_budget s"
      using that ops unfolding code_pays_def by blast
    then show "cycle_budget t = cycle_budget s - c" "0 <s c"
      using f quiet_t by (simp_all add: quiet_def)
  qed
  moreover have "marks M s t" if "code_marks cg M"
  proof -
    have "marks M s u" using that f ops(1) unfolding code_marks_def by (metis snd_conv)
    moreover have "fetch M t a = fetch M u a" "pram_dirty t = pram_dirty u" for a
      using quiet_t fetch_bufs [OF M, of t u] by (simp_all add: quiet_def)
    ultimately show ?thesis by (simp add: marks_def)
  qed
  ultimately show ?thesis using f by auto
qed

definition jit_ok :: "'e codegen \<Rightarrow> 'e dsp_state memory_map \<Rightarrow> 'e jit \<Rightarrow> bool" where
  "jit_ok cg M j \<longleftrightarrow> engine_ok cg M j \<and> instr_cache_ok cg j"

lemma sint_budget_less:
  fixes b c :: i32
  assumes "0 <s b" "0 <s c"
  shows "sint (b - c) < sint b"
proof -
  have "0 < sint b" "0 < sint c" using assms by (simp_all add: word_sless_alt)
  moreover have "sint b < 2 ^ 31" "sint c < 2 ^ 31" using sint_lt [of b] sint_lt [of c] by simp_all
  ultimately have "sint (b - c) = sint b - sint c"
    by (simp add: sint_word_ariths signed_take_bit_int_eq_self)
  then show ?thesis using \<open>0 < sint c\<close> by simp
qed

lemma find_block_instrs:
  assumes "find_block cg M j s = Some (b, j', t)"
  shows "je_instr_cache j' = je_instr_cache j"
proof -
  have compile: "je_instr_cache j2 = je_instr_cache j1"
    if "get_or_compile_block cg M s start stop g j1 = Some (b, j2)" for start stop g j1 j2 b
    using that by (auto simp: get_or_compile_block_def Let_def split: option.splits Option.bind_splits)
  have "je_instr_cache j2 = je_instr_cache j1" if "fill_miss cg M stop (j1, s) = Some (j2, t)"
    for stop j1 j2 t
    using that compile
    by (auto simp: fill_miss_def Let_def split: if_splits Option.bind_splits dest!: compile)
  moreover have "je_instr_cache (evict_stale s stop j) = je_instr_cache j" for stop
    by (simp add: evict_stale_def split: option.split)
  ultimately show ?thesis
    using assms by (auto simp: find_block_def Let_def split: Option.bind_splits)
qed

lemma run_iter_ok:
  assumes ok: "jit_ok cg M j" and M: "map_fits M" "buffered_program M"
  shows "\<exists>go j' t. run_iter cg M (j, s) = Some (go, j', t) \<and> jit_ok cg M j' \<and>
    (\<not> go \<longrightarrow> cycle_budget t = 0) \<and>
    (code_pays cg \<and> go \<and> 0 <s cycle_budget s \<longrightarrow> sint (cycle_budget t) < sint (cycle_budget s)) \<and>
    (code_marks cg M \<and> stale_free cg M j s \<and> gen s \<le> gen t \<longrightarrow> stale_free cg M j' t)"
proof (cases "power_check s")
  case None
  let ?t = "s\<lparr>cycle_budget := 0\<rparr>"
  have "marks M s ?t" using fetch_bufs [OF M(2), of ?t s] by (auto simp: marks_def intro: exI [of _ "[]"])
  then show ?thesis using None ok stale_free_marks by (fastforce simp: run_iter_def)
next
  case (Some u)
  have u: "quiet s u" using Some by (auto simp: power_check_def split: if_splits)
  then have budget: "cycle_budget u = cycle_budget s" by (simp add: quiet_def)
  have e: "engine_ok cg M j" and i: "instr_cache_ok cg j" using ok by (simp_all add: jit_ok_def)
  let ?slow = "ip_state (interrupts u) \<noteq> IS_None \<or> loop_rep u \<or> je_pram_size j \<le> unat (pc u)"
  have sf_u: "stale_free cg M j u" if "stale_free cg M j s"
    using stale_free_marks [OF that marks_quiet [OF M(2) u]] u by (simp add: quiet_def)
  show ?thesis
  proof (cases ?slow)
    case True
    obtain c t instrs where step: "step_one cg M j u = Some (c, j\<lparr>je_instr_cache := instrs\<rparr>, t)"
      "instr_cache_ok cg (j\<lparr>je_instr_cache := instrs\<rparr>)"
      "code_pays cg \<Longrightarrow> 0 <s c \<and> cycle_budget t = cycle_budget u"
      "code_marks cg M \<Longrightarrow> marks M u t"
      using step_one_ok [OF i M(2), of u] by blast
    let ?t = "t\<lparr>cycle_budget := cycle_budget t - c\<rparr>"
    have "run_iter cg M (j, s) = Some (True, j\<lparr>je_instr_cache := instrs\<rparr>, ?t)"
      using Some True step(1) by (simp add: run_iter_def)
    moreover have "jit_ok cg M (j\<lparr>je_instr_cache := instrs\<rparr>)"
      using e step(2) by (simp add: jit_ok_def engine_ok_instrs)
    moreover have "sint (cycle_budget ?t) < sint (cycle_budget s)"
      if "code_pays cg" "0 <s cycle_budget s"
      using step(3) [OF that(1)] sint_budget_less [OF that(2), of c] budget by simp
    moreover have "stale_free cg M (j\<lparr>je_instr_cache := instrs\<rparr>) ?t"
      if "code_marks cg M" "stale_free cg M j s" "gen s \<le> gen ?t"
    proof -
      have "fetch M ?t = fetch M t" using fetch_bufs [OF M(2), of ?t t] by auto
      then have "marks M u ?t" using step(4) [OF that(1)] by (simp add: marks_def)
      from stale_free_marks [OF sf_u [OF that(2)] this] show ?thesis
        using that(3) u by (simp add: engine_ok_instrs quiet_def)
    qed
    ultimately show ?thesis by blast
  next
    case False
    then have "unat (pc u) < je_pram_size j" by simp
    from find_block_ok [OF e M this] obtain b j' v p where b:
      "find_block cg M j u = Some (b, j', v)" "clear_program_dirty u v" "engine_ok cg M j'"
      "planned cg (je_loop_quantum j) p (pc u) (cb_end_pc b) (cb_ends_open b) (cb_func b)"
      "je_loop_quantum j' = je_loop_quantum j"
      "stale_free cg M j u \<Longrightarrow> stale_free cg M j' v" by blast
    have v: "gen v = gen u" "cycle_budget v = cycle_budget u"
      using b(2) by (auto simp: clear_program_dirty_def)
    obtain t where t: "dispatch M (cb_func b) v = Some t"
      "code_pays cg \<Longrightarrow> cycle_budget t = cycle_budget v - fst (cb_func b v) \<and> 0 <s fst (cb_func b v)"
      "code_marks cg M \<Longrightarrow> marks M v t"
      using dispatch_ok [OF M(2) b(4), of v] by blast
    have "run_iter cg M (j, s) = Some (True, j', t)"
      using Some False b(1) t(1) by (simp add: run_iter_def)
    moreover have "jit_ok cg M j'"
      using b(3,5) i find_block_instrs [OF b(1)] by (simp add: jit_ok_def instr_cache_ok_def)
    moreover have "sint (cycle_budget t) < sint (cycle_budget s)"
      if "code_pays cg" "0 <s cycle_budget s"
      using t(2) [OF that(1)] sint_budget_less [OF that(2), of "fst (cb_func b v)"] budget v(2) by simp
    moreover have "stale_free cg M j' t"
      if "code_marks cg M" "stale_free cg M j s" "gen s \<le> gen t"
      using stale_free_marks [OF b(6) [OF sf_u [OF that(2)]] t(3) [OF that(1)]] that(3) u v
      by (simp add: quiet_def)
    ultimately show ?thesis by blast
  qed
qed

lemma run_loop_returns:
  assumes M: "map_fits M" "buffered_program M" and pays: "code_pays cg"
  shows "jit_ok cg M j \<Longrightarrow> \<exists>j' t. run_loop cg M (j, s) = Some (j', t) \<and> jit_ok cg M j' \<and>
    (\<not> 0 <s cycle_budget t \<or> halt_requested t)"
proof (induction "nat (sint (cycle_budget s))" arbitrary: j s rule: less_induct)
  case less
  note unfold = run_loop.simps [of cg M "(j, s)"]
  show ?case
  proof (cases "0 <s cycle_budget s \<and> \<not> halt_requested s")
    case True
    obtain go j' t where it: "run_iter cg M (j, s) = Some (go, j', t)" "jit_ok cg M j'"
      "\<not> go \<Longrightarrow> cycle_budget t = 0"
      "go \<Longrightarrow> sint (cycle_budget t) < sint (cycle_budget s)"
      using run_iter_ok [OF less.prems M, of s] pays True by blast
    show ?thesis
    proof (cases go)
      case go: True
      have "0 < sint (cycle_budget s)" using True by (simp add: word_sless_alt)
      then have "nat (sint (cycle_budget t)) < nat (sint (cycle_budget s))" using it(4) go by simp
      from less.hyps [OF this it(2)] show ?thesis
        using True it(1) go by (subst unfold) auto
    next
      case False
      then show ?thesis using True it by (subst unfold) auto
    qed
  next
    case False
    then show ?thesis using less.prems by (subst unfold) auto
  qed
qed

end
