(* ===== verification/Ffi.thy ===== *)
theory Ffi
  imports Jit
begin

text \<open>
  \<^verbatim>\<open>crates/emu-ffi/src/lib.rs\<close>: the operations an embedder calls through the C interface. A handle
  is the state with its engine; the memory map, a field of the state that only \<^verbatim>\<open>dsp56300_create\<close>
  sets, stays an argument. A null pointer is \<open>None\<close> where the function tests for one; the other
  pointers are valid by the functions' safety contracts. The calls that hand pointers back and free
  them, and the copy of the counters into the C struct, are not modelled.
\<close>

section \<open>Creating a handle\<close>

datatype c_mem_space = CSpace_X | CSpace_Y | CSpace_P

definition to_core :: "c_mem_space \<Rightarrow> mem_space" where
  "to_core c = (case c of CSpace_X \<Rightarrow> Space_X | CSpace_Y \<Rightarrow> Space_Y | CSpace_P \<Rightarrow> Space_P)"

datatype c_region = CRegion_Buffer | CRegion_Callback

record c_buffer_region =
  cb_base :: nat
  cb_offset :: u32

text \<open>The opaque pointer is a number the callbacks are given.\<close>

record 's c_callback_region =
  cc_opaque :: nat
  cc_read :: "(nat \<Rightarrow> 's \<Rightarrow> u32 \<Rightarrow> u32 \<times> 's) option"
  cc_write :: "(nat \<Rightarrow> 's \<Rightarrow> u32 \<Rightarrow> u32 \<Rightarrow> 's) option"

text \<open>The union of the two payloads; the tag says which one the embedder filled in.\<close>

record 's c_memory_region =
  cm_start :: u32
  cm_end :: u32
  cm_kind :: c_region
  cm_buffer :: c_buffer_region
  cm_callback :: "'s c_callback_region"

record 's c_memory_map =
  cmm_x_regions :: "'s c_memory_region list option"
  cmm_x_count :: u32
  cmm_y_regions :: "'s c_memory_region list option"
  cmm_y_count :: u32
  cmm_p_regions :: "'s c_memory_region list option"
  cmm_p_count :: u32

definition convert_region :: "'s c_memory_region \<Rightarrow> 's memory_region option" where
  "convert_region r = do {
     kind \<leftarrow> (case cm_kind r of
       CRegion_Buffer \<Rightarrow> Some (Buffer (cb_base (cm_buffer r)) (cb_offset (cm_buffer r)))
     | CRegion_Callback \<Rightarrow> do {
         rd \<leftarrow> cc_read (cm_callback r);
         wr \<leftarrow> cc_write (cm_callback r);
         Some (Callback (rd (cc_opaque (cm_callback r))) (wr (cc_opaque (cm_callback r))))
       });
     Some \<lparr>mr_start = cm_start r, mr_end = cm_end r, mr_kind = kind\<rparr>
   }"

fun convert_all :: "'s c_memory_region list \<Rightarrow> 's memory_region list option" where
  "convert_all [] = Some []"
| "convert_all (r # rs) = do { m \<leftarrow> convert_region r; ms \<leftarrow> convert_all rs; Some (m # ms) }"

definition convert_regions ::
  "'s c_memory_region list option \<Rightarrow> u32 \<Rightarrow> 's memory_region list option" where
  "convert_regions ptr count =
    (case ptr of
       None \<Rightarrow> Some []
     | Some rs \<Rightarrow> if count = 0 then Some [] else convert_all (take (unat count) rs))"

definition convert_create_info :: "'s c_memory_map \<Rightarrow> 's memory_map option" where
  "convert_create_info m = do {
     x \<leftarrow> convert_regions (cmm_x_regions m) (cmm_x_count m);
     y \<leftarrow> convert_regions (cmm_y_regions m) (cmm_y_count m);
     p \<leftarrow> convert_regions (cmm_p_regions m) (cmm_p_count m);
     Some \<lparr>x_regions = x, y_regions = y, p_regions = p\<rparr>
   }"

record 'e dsp_jit =
  dj_state :: "'e dsp_state"
  dj_jit :: "'e jit"

definition dsp56300_create ::
  "'e dsp_state c_memory_map option \<Rightarrow> (nat \<Rightarrow> nat \<Rightarrow> u32) \<Rightarrow> 'e \<Rightarrow>
   ('e dsp_state memory_map \<times> 'e dsp_jit) option" where
  "dsp56300_create info buffers e = do {
     M \<leftarrow> (case info of None \<Rightarrow> Some \<lparr>x_regions = [], y_regions = [], p_regions = []\<rparr>
           | Some i \<Rightarrow> convert_create_info i);
     let pram_size = unat (p_space_end M);
     let state = dsp_new M buffers e;
     Some (M, \<lparr>dj_state = state, dj_jit = jit_new pram_size\<rparr>)
   }"

section \<open>Running\<close>

definition dsp56300_reset :: "'e dsp_state memory_map \<Rightarrow> 'e dsp_jit \<Rightarrow> 'e dsp_jit" where
  "dsp56300_reset M d =
    (let d = d\<lparr>dj_state := dsp_new M (bufs (dj_state d)) (ext (dj_state d))\<rparr>
     in d\<lparr>dj_jit := invalidate_cache (dj_jit d)\<rparr>)"

definition dsp56300_step ::
  "'e codegen \<Rightarrow> 'e dsp_state memory_map \<Rightarrow> 'e dsp_jit \<Rightarrow> 'e dsp_jit option" where
  "dsp56300_step cg M d = do {
     (_, j, s) \<leftarrow> execute_one cg M (dj_jit d) (dj_state d);
     Some \<lparr>dj_state = s, dj_jit = j\<rparr>
   }"

definition dsp56300_run ::
  "'e codegen \<Rightarrow> 'e dsp_state memory_map \<Rightarrow> 'e dsp_jit \<Rightarrow> i32 \<Rightarrow> 'e dsp_jit option" where
  "dsp56300_run cg M d cycles = do {
     (j, s) \<leftarrow> run cg M (dj_jit d) (dj_state d) cycles;
     Some \<lparr>dj_state = s, dj_jit = j\<rparr>
   }"

definition upd_state :: "('e dsp_state \<Rightarrow> 'e dsp_state) \<Rightarrow> 'e dsp_jit \<Rightarrow> 'e dsp_jit" where
  "upd_state f d = d\<lparr>dj_state := f (dj_state d)\<rparr>"

definition dsp56300_halt_requested :: "'e dsp_jit \<Rightarrow> bool" where
  "dsp56300_halt_requested d = halt_requested (dj_state d)"

definition dsp56300_set_halt_requested :: "bool \<Rightarrow> 'e dsp_jit \<Rightarrow> 'e dsp_jit" where
  "dsp56300_set_halt_requested halt d =
    upd_state (\<lambda>s. let s = s\<lparr>halt_requested := halt\<rparr>
                   in if halt then s\<lparr>exit_requested := True\<rparr> else s) d"

definition dsp56300_cycle_count :: "'e dsp_jit \<Rightarrow> u32" where
  "dsp56300_cycle_count d = cycle_count (dj_state d)"

definition dsp56300_set_cycle_count :: "u32 \<Rightarrow> 'e dsp_jit \<Rightarrow> 'e dsp_jit" where
  "dsp56300_set_cycle_count count d = upd_state (\<lambda>s. s\<lparr>cycle_count := count\<rparr>) d"

definition dsp56300_invalidate_cache :: "'e dsp_jit \<Rightarrow> 'e dsp_jit" where
  "dsp56300_invalidate_cache d = d\<lparr>dj_jit := invalidate_cache (dj_jit d)\<rparr>"

section \<open>Memory\<close>

definition dsp56300_read_memory ::
  "'e dsp_state memory_map \<Rightarrow> c_mem_space \<Rightarrow> u32 \<Rightarrow> 'e dsp_jit \<Rightarrow> u32 \<times> 'e dsp_jit" where
  "dsp56300_read_memory M space addr d =
    (let (v, s) = read_memory M (to_core space) addr (dj_state d) in (v, d\<lparr>dj_state := s\<rparr>))"

text \<open>The write of one word, in \<^verbatim>\<open>dsp56300_write_memory\<close> and in the loop of the run.\<close>

definition write_word ::
  "'e dsp_state memory_map \<Rightarrow> mem_space \<Rightarrow> u32 \<Rightarrow> u32 \<Rightarrow> 'e dsp_state \<Rightarrow> 'e dsp_state" where
  "write_word M s addr value st =
    (let st = (if s = Space_P then
                 let masked = value AND 0x00FFFFFF;
                     (old, st) = read_pram M addr st
                 in if old \<noteq> masked then st\<lparr>pram_dirty := mark_dirty addr (pram_dirty st)\<rparr> else st
               else st)
     in write_memory M s addr value st)"

definition dsp56300_write_memory ::
  "'e dsp_state memory_map \<Rightarrow> c_mem_space \<Rightarrow> u32 \<Rightarrow> u32 \<Rightarrow> 'e dsp_jit \<Rightarrow> 'e dsp_jit" where
  "dsp56300_write_memory M space addr value d =
    upd_state (write_word M (to_core space) addr value) d"

fun read_run ::
  "'e dsp_state memory_map \<Rightarrow> mem_space \<Rightarrow> u32 \<Rightarrow> nat \<Rightarrow> 'e dsp_state \<Rightarrow>
   u32 list \<times> 'e dsp_state" where
  "read_run M s addr 0 st = ([], st)"
| "read_run M s addr (Suc n) st =
    (let (v, st) = read_memory M s addr st; (vs, st) = read_run M s (addr + 1) n st
     in (v # vs, st))"

definition dsp56300_read_memory_run ::
  "'e dsp_state memory_map \<Rightarrow> c_mem_space \<Rightarrow> u32 \<Rightarrow> u32 \<Rightarrow> 'e dsp_jit \<Rightarrow>
   u32 list \<times> 'e dsp_jit" where
  "dsp56300_read_memory_run M space addr count d =
    (let (vs, s) = read_run M (to_core space) addr (unat count) (dj_state d)
     in (vs, d\<lparr>dj_state := s\<rparr>))"

text \<open>The values behind the pointer are the list; the loop reads \<^verbatim>\<open>count\<close> of them.\<close>

definition dsp56300_write_memory_run ::
  "'e dsp_state memory_map \<Rightarrow> c_mem_space \<Rightarrow> u32 \<Rightarrow> u32 list \<Rightarrow> u32 \<Rightarrow> 'e dsp_jit \<Rightarrow> 'e dsp_jit"
  where
  "dsp56300_write_memory_run M space addr vals count d =
    upd_state (fold (\<lambda>i. write_word M (to_core space) (addr + word_of_nat i) (vals ! i))
      [0..<unat count]) d"

section \<open>Saving and restoring the state\<close>

record c_interrupt_state =
  ci_pending_bits :: "nat \<Rightarrow> u64"
  ci_pipeline_stage :: u8
  ci_vector_addr :: u32
  ci_saved_pc :: u32
  ci_state :: u8
  ci_ipl :: "nat \<Rightarrow> int"
  ci_ipl_to_raise :: u8

record c_dsp_state =
  cs_pc :: u32
  cs_pc_advance :: u32
  cs_pc_on_rep :: bool
  cs_cycle_count :: u32
  cs_cycle_budget :: i32
  cs_interrupts :: c_interrupt_state
  cs_loop_rep :: bool
  cs_halt_requested :: bool
  cs_power_state :: u8
  cs_registers :: "nat \<Rightarrow> u32"
  cs_stack :: "nat \<Rightarrow> nat \<Rightarrow> u32"

text \<open>The casts of the two enums to \<^verbatim>\<open>u8\<close>.\<close>

definition interrupt_state_u8 :: "interrupt_state \<Rightarrow> u8" where
  "interrupt_state_u8 st = (case st of
     IS_None \<Rightarrow> 0 | IS_Fast \<Rightarrow> 1 | IS_Long \<Rightarrow> 2 | IS_Armed \<Rightarrow> 3 | IS_Parked \<Rightarrow> 4)"

definition power_state_u8 :: "power_state \<Rightarrow> u8" where
  "power_state_u8 st = (case st of PS_Normal \<Rightarrow> 0 | PS_Wait \<Rightarrow> 1 | PS_Stop \<Rightarrow> 2)"

definition dsp56300_get_state :: "'e dsp_jit \<Rightarrow> c_dsp_state" where
  "dsp56300_get_state d =
    (let s = dj_state d; ip = interrupts s
     in \<lparr>cs_pc = pc s, cs_pc_advance = pc_advance s, cs_pc_on_rep = pc_on_rep s,
         cs_cycle_count = cycle_count s, cs_cycle_budget = cycle_budget s,
         cs_interrupts = \<lparr>ci_pending_bits = ip_pending_bits ip,
           ci_pipeline_stage = ip_pipeline_stage ip, ci_vector_addr = ip_vector_addr ip,
           ci_saved_pc = ip_saved_pc ip, ci_state = interrupt_state_u8 (ip_state ip),
           ci_ipl = ip_ipl ip, ci_ipl_to_raise = ip_ipl_to_raise ip\<rparr>,
         cs_loop_rep = loop_rep s, cs_halt_requested = halt_requested s,
         cs_power_state = power_state_u8 (power_state_of s), cs_registers = registers s,
         cs_stack = stack s\<rparr>)"

definition dsp56300_set_state :: "c_dsp_state \<Rightarrow> 'e dsp_jit \<Rightarrow> 'e dsp_jit" where
  "dsp56300_set_state src d =
    upd_state (\<lambda>s.
      s\<lparr>pc := cs_pc src, pc_advance := cs_pc_advance src, pc_on_rep := cs_pc_on_rep src,
        cycle_count := cs_cycle_count src, loop_rep := cs_loop_rep src,
        cycle_budget := cs_cycle_budget src,
        interrupts := (interrupts s)
          \<lparr>ip_ipl := ci_ipl (cs_interrupts src),
           ip_state := interrupt_state_from (ci_state (cs_interrupts src)),
           ip_vector_addr := ci_vector_addr (cs_interrupts src),
           ip_saved_pc := ci_saved_pc (cs_interrupts src),
           ip_ipl_to_raise := ci_ipl_to_raise (cs_interrupts src),
           ip_pipeline_stage := ci_pipeline_stage (cs_interrupts src),
           ip_pending_bits := ci_pending_bits (cs_interrupts src)\<rparr>,
        halt_requested := cs_halt_requested src,
        power_state_of := power_state_from (cs_power_state src),
        registers := cs_registers src, stack := cs_stack src\<rparr>) d"

end
