(* ===== verification/Jit_Props.thy ===== *)
theory Jit_Props
  imports Jit_Laws Ffi
begin

text \<open>
  The engine and its embedder together: the reachable states of a handle, and the properties of the
  engine as theorems over them. The codes the generator makes are assumed to mark the program words
  they change (\<open>code_marks\<close>) and to consume cycles (\<open>code_pays\<close>); program memory is held in buffers.
\<close>

section \<open>What an embedder can do\<close>

text \<open>
  The engine and the state of a handle: created, run by iterations of the run loop or by single
  instructions, changed by an embedder that marks the program words it writes, reset, and told to
  drop compiled code. A step in which the 32-bit generation counter of the dirty bits wraps around
  is left out.
\<close>

inductive reach ::
  "'e codegen \<Rightarrow> 'e dsp_state memory_map \<Rightarrow> 'e jit \<Rightarrow> 'e dsp_state \<Rightarrow> bool"
  for cg M where
  created: "reach cg M (jit_new (unat (p_space_end M))) (dsp_new M buffers e)"
| iterates: "reach cg M j s \<Longrightarrow> run_iter cg M (j, s) = Some (go, j', t) \<Longrightarrow> gen s \<le> gen t \<Longrightarrow>
    reach cg M j' t"
| steps: "reach cg M j s \<Longrightarrow> execute_one cg M j s = Some (c, j', t) \<Longrightarrow> gen s \<le> gen t \<Longrightarrow>
    reach cg M j' t"
| embedder: "reach cg M j s \<Longrightarrow> marks M s t \<Longrightarrow> gen s \<le> gen t \<Longrightarrow> reach cg M j t"
| resets: "reach cg M j s \<Longrightarrow> reach cg M (invalidate_cache j) (dsp_new M (bufs s) e)"
| drops: "reach cg M j s \<Longrightarrow>
    j' = invalidate_cache j \<or> j' = invalidate_blocks j \<or> j' = invalidate_range lo hi j \<or>
    j' = set_inline_loop_quantum q j \<Longrightarrow> reach cg M j' s"
| caps: "reach cg M j s \<Longrightarrow> cap \<le> 0x80000000 \<Longrightarrow> reach cg M (set_max_block_len cap j) s"

lemma dirty_ok_new: "dirty_ok M (dsp_new M buffers e)"
  by (simp add: dirty_ok_def dsp_new_def pd_wf_def pram_dirty_new_def)

lemma drop_all_ok:
  assumes "jit_ok cg M j"
  shows "jit_ok cg M (invalidate_cache j)" "jit_ok cg M (set_inline_loop_quantum q j)"
    "jit_ok cg M (invalidate_blocks j)" "jit_ok cg M (invalidate_range lo hi j)"
    "cap \<le> 0x80000000 \<Longrightarrow> jit_ok cg M (set_max_block_len cap j)"
proof -
  have ok: "engine_ok cg M j" "instr_cache_ok cg j" using assms by (simp_all add: jit_ok_def)
  have none: "cc.all_blocks P (cc_invalidate_all c)" for P and c :: "'a compiled_fn code_cache"
    by (simp add: cc.all_blocks_def lookup_all)
  have cc: "cc_ok (je_cache j)" using ok by (simp add: engine_ok_def)
  show "jit_ok cg M (invalidate_cache j)" "jit_ok cg M (set_inline_loop_quantum q j)"
    "jit_ok cg M (invalidate_blocks j)"
    using ok
    by (simp_all add: none cc_ok_intros(4) jit_ok_def engine_ok_def instr_cache_ok_def
        invalidate_cache_def set_inline_loop_quantum_def invalidate_blocks_def Let_def)
  have "cc.all_blocks P (cc_invalidate_range lo hi (je_cache j))" if "cc.all_blocks P (je_cache j)" for P
    using cc.all_blocks_range [OF cc that] by simp
  then show "jit_ok cg M (invalidate_range lo hi j)"
    using ok by (auto simp: cc_ok_intros(1) jit_ok_def engine_ok_def instr_cache_ok_def
        invalidate_range_def split: if_splits)
  assume "cap \<le> 0x80000000"
  moreover have "0 < max cap 1" by (simp add: max_def not_le word_le_nat_alt word_less_nat_alt)
  moreover have "max cap 1 \<le> 0x80000000" using calculation(1) by (simp add: max_def)
  ultimately show "jit_ok cg M (set_max_block_len cap j)"
    using ok by (simp add: jit_ok_def engine_ok_def instr_cache_ok_def set_max_block_len_def)
qed

lemma drop_stale_free:
  assumes "stale_free cg M j s" "jit_ok cg M j"
  shows "stale_free cg M (invalidate_cache j) s" "stale_free cg M (set_inline_loop_quantum q j) s"
    "stale_free cg M (invalidate_blocks j) s" "stale_free cg M (invalidate_range lo hi j) s"
    "stale_free cg M (set_max_block_len cap j) s"
proof -
  have cc: "cc_ok (je_cache j)" using assms(2) by (simp add: jit_ok_def engine_ok_def)
  have none: "cc.all_blocks P (cc_invalidate_all c)" for P and c :: "'a compiled_fn code_cache"
    by (simp add: cc.all_blocks_def lookup_all)
  have "cc.all_blocks P (cc_invalidate_range lo hi (je_cache j))" if "cc.all_blocks P (je_cache j)" for P
    using cc.all_blocks_range [OF cc that] by simp
  then show "stale_free cg M (invalidate_range lo hi j) s"
    using assms(1) by (simp add: stale_free_def invalidate_range_def)
  show "stale_free cg M (invalidate_cache j) s" "stale_free cg M (set_inline_loop_quantum q j) s"
    "stale_free cg M (invalidate_blocks j) s" "stale_free cg M (set_max_block_len cap j) s"
    using assms(1) none
    by (simp_all add: stale_free_def invalidate_cache_def set_inline_loop_quantum_def
        invalidate_blocks_def set_max_block_len_def Let_def)
qed

lemma stale_free_emptied: "dirty_ok M t \<Longrightarrow> stale_free cg M (invalidate_cache j) t"
proof -
  have "cc.all_blocks P (je_cache (invalidate_cache j))" for P
    unfolding cc.all_blocks_def by (simp add: invalidate_cache_def lookup_all Let_def)
  then show "dirty_ok M t \<Longrightarrow> ?thesis" by (simp add: stale_free_def)
qed

lemma reach_ok:
  assumes "reach cg M j s" "map_fits M" "buffered_program M" "code_marks cg M"
  shows "jit_ok cg M j \<and> stale_free cg M j s"
  using assms(1)
proof induction
  case (created buffers e)
  have "jit_ok cg M (jit_new (unat (p_space_end M)))"
    using engine_ok_new by (simp add: jit_ok_def instr_cache_ok_def) (simp add: jit_new_def)
  then show ?case
    using dirty_ok_new by (simp add: stale_free_def jit_new_def cc.all_blocks_def lookup_new)
next
  case (iterates j s go j' t)
  then have "jit_ok cg M j" "stale_free cg M j s" by simp_all
  from run_iter_ok [OF this(1) assms(2,3), of s] this(2) show ?case
    using iterates(2,3) assms(4) by (elim exE) simp
next
  case (steps j s c j' t)
  then have ok: "instr_cache_ok cg j" "engine_ok cg M j" by (simp_all add: jit_ok_def)
  obtain instrs where t: "j' = j\<lparr>je_instr_cache := instrs\<rparr>"
    "instr_cache_ok cg (j\<lparr>je_instr_cache := instrs\<rparr>)" "marks M s t"
    using step_one_ok [OF ok(1) assms(3), of s] steps(2) assms(4) by (auto simp: execute_one_def)
  then show ?case
    using ok stale_free_marks [OF _ t(3) steps(3)] steps(4) by (simp add: jit_ok_def engine_ok_instrs)
next
  case (embedder j s t)
  from embedder(4) stale_free_marks [OF _ embedder(2,3)] show ?case by simp
next
  case (resets j s e)
  from resets(2) have ok: "jit_ok cg M j" by simp
  show ?case by (simp add: drop_all_ok(1) [OF ok] stale_free_emptied [OF dirty_ok_new])
next
  case (drops j s j' lo hi q)
  from drops(3) have ok: "jit_ok cg M j" "stale_free cg M j s" by simp_all
  from drops(2) show ?case
    by (elim disjE) (simp_all only: drop_all_ok [OF ok(1)] drop_stale_free [OF ok(2,1)] simp_thms)
next
  case (caps j s cap)
  from caps(3) have ok: "jit_ok cg M j" "stale_free cg M j s" by simp_all
  show ?case by (simp add: drop_all_ok(5) [OF ok(1) caps(2)] drop_stale_free(5) [OF ok(2,1)])
qed

section \<open>Writes of the embedder and of compiled code\<close>

text \<open>
  Program memory is private when no other address, of any space, names one of its cells, and the
  callbacks of X and Y leave it alone.
\<close>

definition program_private :: "'s memory_map \<Rightarrow> bool" where
  "program_private M \<longleftrightarrow> (\<forall>space a a' c. cell M Space_P a = Some c \<longrightarrow> cell M space a' = Some c \<longrightarrow>
     space = Space_P \<and> a' = a)"

definition callbacks_quiet :: "'e dsp_state memory_map \<Rightarrow> bool" where
  "callbacks_quiet M \<longleftrightarrow> (\<forall>r \<in> set (x_regions M @ y_regions M). \<forall>rd wr s a v a'.
     mr_kind r = Callback rd wr \<longrightarrow>
     pram_dirty (wr s a v) = pram_dirty s \<and> fetch M (wr s a v) a' = fetch M s a')"

lemma lookup_region: "lookup M space a = Some r \<Longrightarrow> r \<in> set (regions M space)"
  by (auto simp: lookup_def find_Some_iff)

lemma fetch_cell:
  assumes "buffered_program M"
  shows "fetch M s a = (case cell M Space_P a of Some (b, i) \<Rightarrow> bufs s b i AND 0xFFFFFF | None \<Rightarrow> 0)"
proof (cases "lookup M Space_P a")
  case None
  then show ?thesis by (simp add: fetch_def read_pram_read_memory read_memory_lookup cell_def)
next
  case (Some r)
  from lookup_region [OF this] assms obtain b off where "mr_kind r = Buffer b off"
    by (auto simp: buffered_program_def regions_def)
  then show ?thesis using Some
    by (simp add: fetch_def read_pram_read_memory read_memory_lookup cell_def)
qed

lemma write_other_space:
  assumes M: "buffered_program M" "program_private M" "callbacks_quiet M" and space: "space \<noteq> Space_P"
  shows "pram_dirty (write_memory M space a v s) = pram_dirty s"
    "fetch M (write_memory M space a v s) a' = fetch M s a'"
proof -
  have "pram_dirty (write_memory M space a v s) = pram_dirty s \<and>
      fetch M (write_memory M space a v s) a' = fetch M s a'"
  proof (cases "cell M space a")
    case (Some c)
    obtain b i where c: "c = (b, i)" by (cases c)
    have "cell M Space_P a' \<noteq> Some c"
      using Some space M(2) unfolding program_private_def by blast
    then have "fetch M (set_buf b i (v AND 0xFFFFFF) s) a' = fetch M s a'"
      using c by (auto simp: fetch_cell [OF M(1)] split: option.split)
    then show ?thesis using Some c by (simp add: write_cell set_buf_def)
  next
    case None
    then consider "lookup M space a = None"
      | r rd wr where "lookup M space a = Some r" "mr_kind r = Callback rd wr"
      by (cases "lookup M space a") (auto simp: cell_def split: region_kind.splits)
    then show ?thesis
    proof cases
      case 2
      then have "r \<in> set (x_regions M @ y_regions M)"
        using lookup_region [OF 2(1)] space by (cases space) (auto simp: regions_def)
      then show ?thesis using 2 M(3) by (simp add: write_memory_lookup callbacks_quiet_def)
    qed (simp add: write_memory_lookup)
  qed
  then show "pram_dirty (write_memory M space a v s) = pram_dirty s"
    "fetch M (write_memory M space a v s) a' = fetch M s a'" by simp_all
qed

lemma write_program:
  assumes M: "buffered_program M" "program_private M"
  shows "pram_dirty (write_memory M Space_P a v s) = pram_dirty s"
    "a' \<noteq> a \<Longrightarrow> fetch M (write_memory M Space_P a v s) a' = fetch M s a'"
    "fetch M s a = v AND 0xFFFFFF \<Longrightarrow> fetch M (write_memory M Space_P a v s) a' = fetch M s a'"
proof -
  have cases: "write_memory M Space_P a v s = (case cell M Space_P a of
      Some (b, i) \<Rightarrow> set_buf b i (v AND 0xFFFFFF) s | None \<Rightarrow> s)"
  proof (cases "lookup M Space_P a")
    case (Some r)
    from lookup_region [OF this] M(1) obtain b off where "mr_kind r = Buffer b off"
      by (auto simp: buffered_program_def regions_def)
    then show ?thesis using Some by (simp add: write_memory_lookup cell_def)
  qed (simp add: write_memory_lookup cell_def)
  show "pram_dirty (write_memory M Space_P a v s) = pram_dirty s"
    by (simp add: cases set_buf_def split: option.split prod.split)
  show other: "fetch M (write_memory M Space_P a v s) a' = fetch M s a'" if "a' \<noteq> a" for a'
  proof -
    have "cell M Space_P a' \<noteq> Some c" if "cell M Space_P a = Some c" for c
      using that \<open>a' \<noteq> a\<close> M(2) unfolding program_private_def by blast
    then show ?thesis by (auto simp: cases fetch_cell [OF M(1)] split: option.split)
  qed
  show "fetch M (write_memory M Space_P a v s) a' = fetch M s a'" if "fetch M s a = v AND 0xFFFFFF"
  proof (cases "a' = a")
    case True
    then show ?thesis using that
      by (auto simp: cases fetch_cell [OF M(1)] and.assoc split: option.split)
  qed (rule other)
qed

text \<open>A write of one word marks it or changes nothing.\<close>

definition marks_one :: "'e dsp_state memory_map \<Rightarrow> u32 \<Rightarrow> 'e dsp_state \<Rightarrow> 'e dsp_state \<Rightarrow> bool" where
  "marks_one M a s t \<longleftrightarrow>
     pram_dirty t = pram_dirty s \<and> (\<forall>a'. fetch M t a' = fetch M s a') \<or>
     pram_dirty t = mark_dirty a (pram_dirty s) \<and> (\<forall>a'. a' \<noteq> a \<longrightarrow> fetch M t a' = fetch M s a')"

lemma write_word_marks:
  assumes M: "buffered_program M" "program_private M" "callbacks_quiet M"
  shows "marks_one M a s (write_word M space a v s)" "marks_one M a s (jit_write_mem M space a v s)"
proof -
  have read: "read_memory M Space_P a s = (fetch M s a, s)"
    using read_pram_buffered(1) [OF M(1)] by (simp add: read_pram_read_memory)
  have mark: "fetch M (s\<lparr>pram_dirty := d\<rparr>) = fetch M s" for s :: "'a dsp_state" and d
    using fetch_bufs [OF M(1), of "s\<lparr>pram_dirty := d\<rparr>" s] by auto
  have masked: "write_memory M Space_P a (v AND 0xFFFFFF) s = write_memory M Space_P a v s"
    by (simp add: write_memory_def and.assoc)
  show "marks_one M a s (write_word M space a v s)"
    using write_program [OF M(1,2)] write_other_space [OF M]
    by (cases "space = Space_P"; cases "fetch M s a = v AND 0xFFFFFF")
      (simp_all add: marks_one_def write_word_def read_pram_buffered(1) [OF M(1)] mark Let_def)
  show "marks_one M a s (jit_write_mem M space a v s)"
    using write_program [OF M(1,2)] write_other_space [OF M]
    by (cases "space = Space_P"; cases "fetch M s a = v AND 0xFFFFFF")
      (simp_all add: marks_one_def jit_write_mem_def read mark masked Let_def)
qed

lemma marks_one_marks: "marks_one M a s t \<Longrightarrow> marks M s t"
proof -
  assume "marks_one M a s t"
  then consider "pram_dirty t = pram_dirty s" "\<And>a'. fetch M t a' = fetch M s a'"
    | "pram_dirty t = mark_dirty a (pram_dirty s)" "\<And>a'. a' \<noteq> a \<Longrightarrow> fetch M t a' = fetch M s a'"
    by (auto simp: marks_one_def)
  then show "marks M s t"
  proof cases
    case 1
    then show ?thesis unfolding marks_def by (intro exI [of _ "[]"]) simp
  next
    case 2
    then show ?thesis unfolding marks_def by (intro exI [of _ "[a]"]) simp
  qed
qed

lemma fold_marks:
  assumes "\<And>x s. x \<in> set xs \<Longrightarrow> marks_one M (f x) s (g x s)"
  shows "\<exists>as. length as \<le> length xs \<and> pram_dirty (fold g xs s) = fold mark_dirty as (pram_dirty s) \<and>
    (\<forall>a. a \<notin> set as \<longrightarrow> fetch M (fold g xs s) a = fetch M s a)"
  using assms
proof (induction xs arbitrary: s)
  case (Cons x xs)
  obtain as where as: "length as \<le> length xs"
    "pram_dirty (fold g xs (g x s)) = fold mark_dirty as (pram_dirty (g x s))"
    "\<And>a. a \<notin> set as \<Longrightarrow> fetch M (fold g xs (g x s)) a = fetch M (g x s) a"
    using Cons.IH [of "g x s"] Cons.prems by auto
  consider "pram_dirty (g x s) = pram_dirty s" "\<And>a'. fetch M (g x s) a' = fetch M s a'"
    | "pram_dirty (g x s) = mark_dirty (f x) (pram_dirty s)"
      "\<And>a'. a' \<noteq> f x \<Longrightarrow> fetch M (g x s) a' = fetch M s a'"
    using Cons.prems [of x s] by (auto simp: marks_one_def)
  then show ?case
  proof cases
    case 1
    then show ?thesis using as by (intro exI [of _ as]) auto
  next
    case 2
    then show ?thesis using as by (intro exI [of _ "f x # as"]) auto
  qed
qed auto

section \<open>A small handle\<close>

text \<open>Eight words of program memory, and a generator whose code only costs cycles and moves on.\<close>

definition idle_code :: "'e codegen" where
  "idle_code = \<lparr>cg_inst = (\<lambda>_ _ _ _ s. (1, s)), cg_block = (\<lambda>_ e _ _ s. (1, s\<lparr>pc := e\<rparr>))\<rparr>"

definition demo_map :: "unit dsp_state memory_map" where
  "demo_map = test_map 0 16 1 16 2 8"

definition demo_state :: "unit dsp_state" where
  "demo_state = dsp_new demo_map (\<lambda>b i. if b = 2 then demo_prog (word_of_nat i) else 0) ()"

lemma demo_map_ok: "map_fits demo_map" "buffered_program demo_map" "p_space_end demo_map = 8"
  "program_private demo_map" "callbacks_quiet demo_map"
proof -
  show "p_space_end demo_map = 8"
    by (simp add: p_space_end_def demo_map_def test_map_def max_def)
  then show "map_fits demo_map" by (simp add: map_fits_def)
  show "buffered_program demo_map" by (simp add: buffered_program_def demo_map_def test_map_def)
  show "callbacks_quiet demo_map" by (simp add: callbacks_quiet_def demo_map_def test_map_def)
  have cell: "cell demo_map Space_X a = (if a < 16 then Some (0, unat a) else None)"
    "cell demo_map Space_Y a = (if a < 16 then Some (1, unat a) else None)"
    "cell demo_map Space_P a = (if a < 8 then Some (2, unat a) else None)" for a
    by (simp_all add: cell_def lookup_def regions_def demo_map_def test_map_def in_region_def
        buffer_index_def)
  have "space = Space_P \<and> a' = a"
    if "cell demo_map Space_P a = Some c" "cell demo_map space a' = Some c" for space a a' c
    using that by (cases space) (auto simp: cell word_unat_eq_iff split: if_splits)
  then show "program_private demo_map" unfolding program_private_def by blast
qed

lemma idle_code_ok: "code_pays idle_code" "buffered_program M \<Longrightarrow> code_marks idle_code M"
  "inst_shared idle_code"
proof -
  show "code_pays idle_code" by (simp add: code_pays_def idle_code_def word_sless_alt)
  show "inst_shared idle_code" by (simp add: inst_shared_def idle_code_def)
  assume "buffered_program M"
  then show "code_marks idle_code M"
    by (simp add: code_marks_def idle_code_def marks_quiet)
qed

lemma jit_new_simps [simp]:
  "je_loop_quantum (jit_new n) = 4096" "je_pram_size (jit_new n) = n"
  by (simp_all add: jit_new_def)

lemma demo_reach: "reach idle_code demo_map (jit_new 8) demo_state"
  using reach.created [of idle_code demo_map] demo_map_ok(3) by (simp add: demo_state_def)

section \<open>Properties\<close>

text \<open>
  C36. A stale block is never dispatched: in every reachable state of a handle the run loop finds a
  block for a PC inside program memory, and the block is compiled code of a plan that reads back as
  the words program memory holds at that moment, from the PC to the end of the block.
\<close>

theorem dispatch_never_stale:
  assumes "map_fits M" "buffered_program M" "code_marks cg M"
    and "reach cg M j s" "unat (pc s) < je_pram_size j"
  shows "\<exists>b j' t ops. find_block cg M j s = Some (b, j', t) \<and>
    cb_func b = cg_block cg ops (cb_end_pc b) (cb_ends_open b) (je_loop_quantum j) \<and>
    run_plan (fetch M s) ops (pc s, []) = Some (cb_end_pc b, []) \<and> loops_safe ops \<and>
    pc s < cb_end_pc b"
proof -
  have "engine_ok cg M j" "stale_free cg M j s"
    using reach_ok [OF assms(4,1,2,3)] by (simp_all add: jit_ok_def)
  from find_block_ok [OF this(1) assms(1,2,5)] this(2) show ?thesis
    unfolding planned_def by blast
qed

theorem dispatch_never_stale_witness:
  "\<exists>b j' t ops. find_block idle_code demo_map (jit_new 8) demo_state = Some (b, j', t) \<and>
    run_plan (fetch demo_map demo_state) ops (0, []) = Some (cb_end_pc b, []) \<and> 0 < cb_end_pc b"
proof -
  have pc: "pc demo_state = 0" by (simp add: demo_state_def dsp_new_def)
  then have "unat (pc demo_state) < je_pram_size (jit_new 8 :: unit jit)" by simp
  from dispatch_never_stale [OF demo_map_ok(1,2) idle_code_ok(2) [OF demo_map_ok(2)] demo_reach this]
  show ?thesis unfolding pc by blast
qed

text \<open>
  C37. The run loop returns: from every reachable handle and for every budget, \<^verbatim>\<open>run\<close> ends without a
  panic, with the cycle budget used up or a halt requested.
\<close>

theorem run_returns:
  assumes "map_fits M" "buffered_program M" "code_marks cg M" "code_pays cg" "reach cg M j s"
  shows "\<exists>j' t. run cg M j s cycles = Some (j', t) \<and> (cycle_budget t \<le>s 0 \<or> halt_requested t)"
proof -
  have "jit_ok cg M j" using reach_ok [OF assms(5,1,2,3)] by simp
  from run_loop_returns [OF assms(1,2,4) this, of "s\<lparr>cycle_budget := cycle_budget s + cycles\<rparr>"]
  show ?thesis unfolding run_def by (auto simp: word_sless_alt word_sle_eq not_less)
qed

theorem run_returns_witness:
  "\<exists>j' t. run idle_code demo_map (jit_new 8) demo_state 100 = Some (j', t) \<and>
    (cycle_budget t \<le>s 0 \<or> halt_requested t)"
  using run_returns [OF demo_map_ok(1,2) idle_code_ok(2) [OF demo_map_ok(2)] idle_code_ok(1) demo_reach] .

text \<open>
  C38. The cache of single instructions is transparent: although an entry is shared by all addresses
  for an instruction that does not use its PC, and by all next words for a one-word instruction,
  the function returned is the one compiled for this address and next word, in every reachable
  state.
\<close>

theorem instruction_cache_transparent:
  assumes "map_fits M" "buffered_program M" "code_marks cg M" "inst_shared cg"
    and "reach cg M j s" "decode opcode = Some i"
  shows "\<exists>instrs. get_or_compile_instruction cg at opcode next_word j =
    Some ((cg_inst cg i at next_word (je_loop_quantum j), instruction_length i),
      j\<lparr>je_instr_cache := instrs\<rparr>)"
proof -
  have "instr_cache_ok cg j" using reach_ok [OF assms(5,1,2,3)] by (simp add: jit_ok_def)
  then obtain f len instrs where c: "get_or_compile_instruction cg at opcode next_word j =
      Some ((f, len), j\<lparr>je_instr_cache := instrs\<rparr>)"
    "inst_for cg (je_loop_quantum j) at opcode next_word (f, len)"
    using get_or_compile_instruction_ok [of cg j at opcode next_word] by auto
  then obtain a nw where a: "len = instruction_length i" "f = cg_inst cg i a nw (je_loop_quantum j)"
    "emit_takes_pc i \<longrightarrow> a = at" "1 < len \<longrightarrow> nw = next_word"
    using assms(6) by (auto simp: inst_for_def uses_pc_complete)
  then have "instruction_length i = 2 \<longrightarrow> nw = next_word" by simp
  with a(2,3) have "f = cg_inst cg i at next_word (je_loop_quantum j)"
    using assms(4) unfolding inst_shared_def by blast
  then show ?thesis using c(1) a(1) by blast
qed

theorem instruction_cache_transparent_witness:
  "\<exists>instrs. get_or_compile_instruction idle_code 3 0x200000 7 (jit_new 8) =
    Some ((cg_inst idle_code (Parallel Move Pm2 0x200000) 3 7 4096, 1),
      jit_new 8\<lparr>je_instr_cache := instrs :: _ \<Rightarrow> (unit compiled_fn \<times> u32) option\<rparr>)"
proof -
  have "instruction_length (Parallel Move Pm2 0x200000) = 1"
    by (simp add: instruction_length_def parallel_length_def)
  then show ?thesis
    using instruction_cache_transparent [OF demo_map_ok(1,2) idle_code_ok(2) [OF demo_map_ok(2)]
        idle_code_ok(3) demo_reach demo_decode(2), of 3 7] by simp
qed



text \<open>
  C40. Saving and restoring: a state written back into any handle is the state saved, except for the
  fields the C struct does not have, which stay those of the handle: the embedder's part, the exit
  request, the dirty bits, the record of warnings, and the three counters of a core fault in flight.
\<close>

theorem ffi_state_roundtrip:
  "dj_state (dsp56300_set_state (dsp56300_get_state d) d') =
    (let s = dj_state d; t = dj_state d' in
     s\<lparr>bufs := bufs t, ext := ext t, mem_write_sink := mem_write_sink t,
       exit_requested := exit_requested t, fault_budget_hint := fault_budget_hint t,
       pram_dirty := pram_dirty t, warned_bits := warned_bits t, unimpl_reported := unimpl_reported t,
       interrupts := (interrupts s)\<lparr>ip_fault_budget := ip_fault_budget (interrupts t),
         ip_parked_countdown := ip_parked_countdown (interrupts t),
         ip_parked_sp_write := ip_parked_sp_write (interrupts t)\<rparr>\<rparr>)"
proof -
  have "interrupt_state_from (interrupt_state_u8 st) = st" for st
    by (cases st) (simp_all add: interrupt_state_from_def interrupt_state_u8_def)
  moreover have "power_state_from (power_state_u8 st) = st" for st
    by (cases st) (simp_all add: power_state_from_def power_state_u8_def)
  ultimately show ?thesis
    by (simp add: dsp56300_set_state_def dsp56300_get_state_def upd_state_def Let_def)
qed

text \<open>
  What the missing counters mean: a core fault armed with an exhausted window is delivered at the
  next instruction, and after restoring the saved state into a new handle it is not.
\<close>

theorem restore_forgets_fault_window:
  assumes "ip_state (interrupts (dj_state d)) = IS_Armed" "\<not> loop_rep (dj_state d)"
    and "ip_fault_budget (interrupts (dj_state d)) = 0" "len = 1 \<or> len = 2"
    and "dj_state d' = dsp_new M buffers e"
  shows "\<exists>s t. armed_gate M opcode len (dj_state d) = Some (True, s) \<and>
    armed_gate M opcode len (dj_state (dsp56300_set_state (dsp56300_get_state d) d')) = Some (False, t)"
proof -
  obtain i where i: "decode opcode = Some i" using decode_total' by blast
  obtain u where u: "deliver_armed_fault M (dj_state d) = Some u" using deliver_armed_total by blast
  let ?r = "dj_state (dsp56300_set_state (dsp56300_get_state d) d')"
  have "ip_state (interrupts ?r) = IS_Armed" "\<not> loop_rep ?r"
    "ip_fault_budget (interrupts ?r) = 0xFFFFFFFF"
    using assms(1,2,5)
    by (simp_all add: dsp56300_set_state_def dsp56300_get_state_def upd_state_def Let_def
        interrupt_state_from_def interrupt_state_u8_def dsp_new_def interrupt_pipeline_new_def)
  then show ?thesis using assms i u by (auto simp: armed_gate_def Let_def)
qed

end
