(* ===== verification/Asm_Ast.thy ===== *)
theory Asm_Ast
  imports Parallel_Alu "HOL-Library.Signed_Division"
begin

text \<open>
  \<^verbatim>\<open>crates/asm/src/ast.rs\<close>: the abstract syntax of the assembler. The enum \<^verbatim>\<open>Instruction\<close> has 131
  variants under section comments; each section is a datatype, and \<open>asm_instruction\<close> wraps the
  sections. Constructors keep the source's names behind a prefix (\<open>I_\<close> for instructions, \<open>E_\<close>
  expressions, \<open>R_\<close> registers, \<open>Ea_\<close> addressing modes, \<open>M_\<close> parallel moves, \<open>D_\<close> directives,
  \<open>S_\<close> statements), since \<open>Instr\<close> has decoded instructions of the same names. The fields stand
  in the source's order. The positions in source files that the parser records for listings are
  the only data left out.
\<close>

section \<open>Results\<close>

text \<open>
  \<^verbatim>\<open>Result<T, E>\<close> with the panic as a third outcome, and the sequencing \<^verbatim>\<open>?\<close> stands for.
\<close>

datatype ('e, 'a) outcome = Ok 'a | Err 'e | Panic

primrec and_then :: "('e, 'a) outcome \<Rightarrow> ('a \<Rightarrow> ('e, 'b) outcome) \<Rightarrow> ('e, 'b) outcome" where
  "and_then (Ok x) f = f x"
| "and_then (Err e) f = Err e"
| "and_then Panic f = Panic"

primrec map_err :: "('e \<Rightarrow> 'f) \<Rightarrow> ('e, 'a) outcome \<Rightarrow> ('f, 'a) outcome" where
  "map_err g (Ok x) = Ok x"
| "map_err g (Err e) = Err (g e)"
| "map_err g Panic = Panic"

lemma and_then_eq_Ok [simp]: "and_then m f = Ok y \<longleftrightarrow> (\<exists>x. m = Ok x \<and> f x = Ok y)"
  by (cases m) auto

lemma and_then_eq_Panic: "and_then m f = Panic \<longleftrightarrow> m = Panic \<or> (\<exists>x. m = Ok x \<and> f x = Panic)"
  by (cases m) auto

lemma map_err_eq_Ok [simp]: "map_err g m = Ok y \<longleftrightarrow> m = Ok y"
  by (cases m) auto

lemma map_err_eq_Panic [simp]: "map_err g m = Panic \<longleftrightarrow> m = Panic"
  by (cases m) auto

section \<open>Operands\<close>

datatype ast_space = Sp_X | Sp_Y | Sp_P | Sp_L

datatype bin_op = Add_op | Sub_op | Mul_op | Div_op | Shl_op | Shr_op | BitAnd_op | BitOr_op

datatype unary_op = Neg_op | BitNot_op

datatype expr =
    E_Literal i64
  | E_Frac i64
  | E_Symbol string
  | E_CurrentPc
  | E_BinOp bin_op expr expr
  | E_UnaryOp unary_op expr

text \<open>
  A constant expression is evaluated on \<^verbatim>\<open>i64\<close>: sums, differences and products wrap, a shift
  takes the low six bits of its count, and the quotient truncates. The quotient of
  \<^verbatim>\<open>i64::MIN\<close> and \<open>-1\<close> panics (in every build profile).
\<close>

definition const_div :: "i64 \<Rightarrow> i64 \<Rightarrow> ('e, i64 option) outcome" where
  "const_div l r =
    (if r = 0 then Ok None
     else if l = push_bit 63 1 \<and> r = - 1 then Panic
     else Ok (Some (word_of_int (sint l sdiv sint r))))"

definition const_binop :: "bin_op \<Rightarrow> i64 \<Rightarrow> i64 \<Rightarrow> ('e, i64 option) outcome" where
  "const_binop op l r = (case op of
     Add_op \<Rightarrow> Ok (Some (l + r))
   | Sub_op \<Rightarrow> Ok (Some (l - r))
   | Mul_op \<Rightarrow> Ok (Some (l * r))
   | Div_op \<Rightarrow> const_div l r
   | Shl_op \<Rightarrow> Ok (Some (push_bit (unat (r AND 63)) l))
   | Shr_op \<Rightarrow> Ok (Some (signed_drop_bit (unat (r AND 63)) l))
   | BitAnd_op \<Rightarrow> Ok (Some (l AND r))
   | BitOr_op \<Rightarrow> Ok (Some (l OR r)))"

definition const_unop :: "unary_op \<Rightarrow> i64 \<Rightarrow> i64" where
  "const_unop op v = (case op of Neg_op \<Rightarrow> - v | BitNot_op \<Rightarrow> NOT v)"

text \<open>The early return \<^verbatim>\<open>?\<close> on an \<^verbatim>\<open>Option\<close>.\<close>

definition opt_then ::
  "('e, 'a option) outcome \<Rightarrow> ('a \<Rightarrow> ('e, 'b option) outcome) \<Rightarrow> ('e, 'b option) outcome" where
  "opt_then m f = and_then m (\<lambda>r. case r of None \<Rightarrow> Ok None | Some x \<Rightarrow> f x)"

primrec try_eval_const :: "expr \<Rightarrow> ('e, i64 option) outcome" where
  "try_eval_const (E_Literal v) = Ok (Some v)"
| "try_eval_const (E_Frac v) = Ok (Some v)"
| "try_eval_const (E_BinOp op lhs rhs) =
     opt_then (try_eval_const lhs) (\<lambda>l.
     opt_then (try_eval_const rhs) (\<lambda>r. const_binop op l r))"
| "try_eval_const (E_UnaryOp op operand) =
     opt_then (try_eval_const operand) (\<lambda>v. Ok (Some (const_unop op v)))"
| "try_eval_const (E_Symbol name) = Ok None"
| "try_eval_const E_CurrentPc = Ok None"

definition expr_as_u32 :: "expr \<Rightarrow> ('e, u32 option) outcome" where
  "expr_as_u32 e = and_then (try_eval_const e) (\<lambda>r. Ok (map_option (\<lambda>v. ucast v) r))"

definition is_literal :: "expr \<Rightarrow> ('e, bool) outcome" where
  "is_literal e = and_then (try_eval_const e) (\<lambda>r. Ok (r \<noteq> None))"

section \<open>Registers, accumulators, condition codes\<close>

datatype register =
    R_X0 | R_X1 | R_Y0 | R_Y1
  | R_A0 | R_A1 | R_A2 | R_B0 | R_B1 | R_B2 | R_A | R_B
  | R_R u8 | R_N u8 | R_M u8
  | R_Ep | R_Vba | R_Sc | R_Sz | R_Sr | R_Omr | R_Sp | R_Ssh | R_Ssl | R_La | R_Lc | R_Mr | R_Ccr
  | R_A10 | R_B10 | R_RegX | R_RegY | R_Ab | R_Ba

fun register_index :: "register \<Rightarrow> nat" where
  "register_index R_X0 = reg_X0"
| "register_index R_X1 = reg_X1"
| "register_index R_Y0 = reg_Y0"
| "register_index R_Y1 = reg_Y1"
| "register_index R_A0 = reg_A0"
| "register_index R_A1 = reg_A1"
| "register_index R_A2 = reg_A2"
| "register_index R_B0 = reg_B0"
| "register_index R_B1 = reg_B1"
| "register_index R_B2 = reg_B2"
| "register_index R_A = reg_A"
| "register_index R_B = reg_B"
| "register_index (R_R n) = reg_R0 + unat n"
| "register_index (R_N n) = reg_N0 + unat n"
| "register_index (R_M n) = reg_M0 + unat n"
| "register_index R_Ep = reg_EP"
| "register_index R_Vba = reg_VBA"
| "register_index R_Sc = reg_SC"
| "register_index R_Sz = reg_SZ"
| "register_index R_Sr = reg_SR"
| "register_index R_Omr = reg_OMR"
| "register_index R_Sp = reg_SP"
| "register_index R_Ssh = reg_SSH"
| "register_index R_Ssl = reg_SSL"
| "register_index R_La = reg_LA"
| "register_index R_Lc = reg_LC"
| "register_index R_Mr = reg_SR"
| "register_index R_Ccr = reg_SR"
| "register_index R_A10 = 0"
| "register_index R_B10 = 0"
| "register_index R_RegX = 0"
| "register_index R_RegY = 0"
| "register_index R_Ab = 0"
| "register_index R_Ba = 0"

definition is_data_alu :: "register \<Rightarrow> bool" where
  "is_data_alu r \<longleftrightarrow>
     r \<in> {R_X0, R_X1, R_Y0, R_Y1, R_A0, R_A1, R_A2, R_B0, R_B1, R_B2, R_A, R_B}"

datatype ast_acc = AccA | AccB

definition ast_acc_bits :: "ast_acc \<Rightarrow> u32" where
  "ast_acc_bits acc = (case acc of AccA \<Rightarrow> 0 | AccB \<Rightarrow> 1)"

datatype ast_cc =
    Cc_Cc | Cc_Ge | Cc_Ne | Cc_Pl | Cc_Nn | Cc_Ec | Cc_Lc | Cc_Gt
  | Cc_Cs | Cc_Lt | Cc_Eq | Cc_Mi | Cc_Nr | Cc_Es | Cc_Ls | Cc_Le

definition ast_cc_bits :: "ast_cc \<Rightarrow> u32" where
  "ast_cc_bits cc = (case cc of
     Cc_Cc \<Rightarrow> 0 | Cc_Ge \<Rightarrow> 1 | Cc_Ne \<Rightarrow> 2 | Cc_Pl \<Rightarrow> 3 | Cc_Nn \<Rightarrow> 4 | Cc_Ec \<Rightarrow> 5 | Cc_Lc \<Rightarrow> 6 | Cc_Gt \<Rightarrow> 7
   | Cc_Cs \<Rightarrow> 8 | Cc_Lt \<Rightarrow> 9 | Cc_Eq \<Rightarrow> 10 | Cc_Mi \<Rightarrow> 11 | Cc_Nr \<Rightarrow> 12 | Cc_Es \<Rightarrow> 13 | Cc_Ls \<Rightarrow> 14
   | Cc_Le \<Rightarrow> 15)"

datatype effective_address =
    Ea_PostDecN u8
  | Ea_PostIncN u8
  | Ea_PostDec u8
  | Ea_PostInc u8
  | Ea_NoUpdate u8
  | Ea_IndexedN u8
  | Ea_AbsAddr expr
  | Ea_ForceLongAbsAddr expr
  | Ea_Immediate expr
  | Ea_PreDec u8

datatype bit_target =
    Bt_Addr ast_space expr
  | Bt_Ea ast_space effective_address
  | Bt_Reg register

datatype loop_source =
    Ls_Imm expr
  | Ls_Reg register
  | Ls_Aa ast_space expr
  | Ls_Ea ast_space effective_address

datatype rep_source =
    Rs_Imm expr
  | Rs_Reg register
  | Rs_Aa ast_space expr
  | Rs_Ea ast_space effective_address

datatype sign = Plus | Minus

datatype mul_shift_mnem = Mn_Mpy | Mn_Mpyr | Mn_Mac | Mn_Macr

section \<open>Instructions\<close>

text \<open>Zero-operand and single-accumulator instructions.\<close>

datatype zero_ast =
  I_Nop | I_Rts | I_Rti | I_Reset | I_Stop | I_Wait | I_EndDo | I_Illegal

datatype acc_ast = I_Inc ast_acc | I_Dec ast_acc

text \<open>Arithmetic with immediate.\<close>

datatype arith_ast =
    I_AddImm expr ast_acc
  | I_AddLong expr ast_acc
  | I_SubImm expr ast_acc
  | I_SubLong expr ast_acc
  | I_CmpImm expr ast_acc
  | I_CmpLong expr ast_acc
  | I_AndImm expr ast_acc
  | I_AndLong expr ast_acc
  | I_OrLong expr ast_acc
  | I_OrImm expr ast_acc
  | I_EorImm expr ast_acc
  | I_EorLong expr ast_acc
  | I_AndI expr u8
  | I_OrI expr u8

text \<open>Shifts.\<close>

datatype shift_ast =
    I_AslImm expr ast_acc ast_acc
  | I_AsrImm expr ast_acc ast_acc
  | I_LslImm expr ast_acc
  | I_LsrImm expr ast_acc
  | I_AslReg register ast_acc ast_acc
  | I_AsrReg register ast_acc ast_acc
  | I_LslReg register ast_acc
  | I_LsrReg register ast_acc

text \<open>Branches; the last fields are \<^verbatim>\<open>force_long\<close> and \<^verbatim>\<open>force_short\<close>.\<close>

datatype branch_ast =
    I_Bcc ast_cc expr bool
  | I_BccRn ast_cc u8
  | I_Bra expr bool
  | I_BraRn u8
  | I_Bsr expr bool
  | I_BsrRn u8
  | I_Bscc ast_cc expr bool
  | I_BsccRn ast_cc u8
  | I_Brkcc ast_cc
  | I_Jcc ast_cc expr
  | I_JccEa ast_cc effective_address
  | I_Jmp expr bool
  | I_JmpEa effective_address
  | I_Jscc ast_cc expr
  | I_JsccEa ast_cc effective_address
  | I_Jsr expr bool
  | I_JsrEa effective_address

text \<open>Bit manipulation and bit branches.\<close>

datatype bitop_ast =
    I_Bchg expr bit_target
  | I_Bclr expr bit_target
  | I_Bset expr bit_target
  | I_Btst expr bit_target

datatype bit_branch_ast =
    I_Jclr expr bit_target expr
  | I_Jset expr bit_target expr
  | I_Jsclr expr bit_target expr
  | I_Jsset expr bit_target expr
  | I_Brclr expr bit_target expr
  | I_Brset expr bit_target expr
  | I_Bsclr expr bit_target expr
  | I_Bsset expr bit_target expr

text \<open>Loops.\<close>

datatype loop_ast =
    I_Do loop_source expr
  | I_DoForever expr
  | I_Dor loop_source expr
  | I_DorForever expr
  | I_Rep rep_source

text \<open>Moves (non-parallel); the last field is the direction \<^verbatim>\<open>w\<close>, where there is one.\<close>

datatype move_ast =
    I_MovecReg register register bool
  | I_MovecAa ast_space expr register bool
  | I_MovecEa ast_space effective_address register bool
  | I_MovecImm expr register
  | I_MovemEa effective_address register bool
  | I_MovemAa expr register bool
  | I_Movep23 ast_space expr ast_space effective_address bool
  | I_Movep23Imm ast_space expr expr
  | I_MovepXQq expr ast_space effective_address bool
  | I_MovepXQqImm expr expr
  | I_Movep1 ast_space expr effective_address bool
  | I_Movep0 ast_space expr register bool
  | I_MoveLongDisp ast_space u8 expr register bool
  | I_MoveShortDisp ast_space u8 expr register bool

text \<open>Multiplications, the division step, \<^verbatim>\<open>cmpu\<close> and \<^verbatim>\<open>norm\<close>.\<close>

datatype mul_ast =
    I_MulShift mul_shift_mnem sign register expr ast_acc
  | I_MpyI sign expr register ast_acc
  | I_MpyrI sign expr register ast_acc
  | I_MacI sign expr register ast_acc
  | I_MacrI sign expr register ast_acc
  | I_Dmac u8 sign register register ast_acc
  | I_MacSU bool sign register register ast_acc
  | I_MpySU bool sign register register ast_acc
  | I_Div register ast_acc
  | I_CmpU register ast_acc
  | I_Norm u8 ast_acc

text \<open>Address arithmetic.\<close>

datatype address_ast =
    I_Lua effective_address register
  | I_LuaRel u8 expr bool u8
  | I_LraRn u8 register
  | I_LraDisp expr register

text \<open>The specialised tier.\<close>

datatype special_ast =
    I_Clb ast_acc ast_acc
  | I_Normf register ast_acc
  | I_Merge register ast_acc
  | I_ExtractReg register ast_acc ast_acc
  | I_ExtractImm expr ast_acc ast_acc
  | I_ExtractuReg register ast_acc ast_acc
  | I_ExtractuImm expr ast_acc ast_acc
  | I_InsertReg register register ast_acc
  | I_InsertImm expr register ast_acc
  | I_Vsl ast_acc u8 effective_address
  | I_Debug
  | I_Debugcc ast_cc
  | I_Trap
  | I_Trapcc ast_cc
  | I_Pflush
  | I_Pflushun
  | I_Pfree
  | I_PlockEa effective_address
  | I_Plockr expr
  | I_PunlockEa effective_address
  | I_Punlockr expr

section \<open>Parallel moves\<close>

datatype parallel_move =
    M_None
  | M_RegToReg register register
  | M_EaUpdate effective_address u8
  | M_ImmToReg expr register bool
  | M_XYMem ast_space effective_address register bool
  | M_XYAbs ast_space expr register bool bool
  | M_LMem effective_address register bool
  | M_LAbs expr register bool bool
  | M_LImm expr register
  | M_XReg effective_address register register register bool
  | M_XImmReg expr register register register
  | M_RegY register register effective_address register bool
  | M_RegYImm register register expr register
  | M_XYDouble effective_address register effective_address register bool bool
  | M_Pm0 register ast_space effective_address register
  | M_Ifcc ast_cc
  | M_IfccU ast_cc

datatype asm_instruction =
    I_zero zero_ast
  | I_acc acc_ast
  | I_arith arith_ast
  | I_shift shift_ast
  | I_branch branch_ast
  | I_bitop bitop_ast
  | I_bit_branch bit_branch_ast
  | I_loop loop_ast
  | I_move move_ast
  | I_mul mul_ast
  | I_address address_ast
  | I_special special_ast
  | I_Tcc ast_cc "(register \<times> register) option" "(u8 \<times> u8) option"
  | I_Parallel parallel_alu parallel_move

section \<open>Programs\<close>

datatype directive =
    D_Org ast_space expr
  | D_Dc "expr list"
  | D_Ds expr
  | D_Equ string expr
  | D_End
  | D_Section string
  | D_EndSec
  | D_Xref "string list"
  | D_Xdef "string list"
  | D_Include string
  | D_Psect string "(ast_space \<times> expr \<times> expr) option"
  | D_Align expr

datatype statement =
    S_Label string
  | S_Instruction "string option" asm_instruction
  | S_Directive "string option" directive
  | S_Empty

type_synonym program = "statement list"

end
