(* ===== verification/Asm_Encode.thy ===== *)
theory Asm_Encode
  imports Asm_Ast Encode_Prims
begin

text \<open>
  \<^verbatim>\<open>crates/asm/src/encode.rs\<close>, first part: the evaluation of expressions, addressing modes, and the
  encoders of the non-parallel instructions except the moves. An encoder takes the symbol
  table and the program counter, and returns the word or two words, an error, or the panic a
  constant quotient can cause (\<open>Asm_Ast.const_div\<close>). The error values stand for the messages of
  \<^verbatim>\<open>EncodeError\<close>.
\<close>

section \<open>Errors and symbols\<close>

datatype encode_error =
    Undefined_symbol string
  | Division_by_zero
  | Bit_branch_mode6
  | Bit_branch_range
  | Loop_aa_range
  | Loop_imm_ea
  | Reg5_field register
  | Reg6_field register
  | Movec_l_register
  | Movec_not_control register
  | Movep_range
  | Movep_imm_range
  | Movep_qq_range
  | Movep_p_range
  | Movep_r_range
  | Shift_register
  | Insert_source
  | Short_disp_register register
  | Mpyi_source
  | Mul_source
  | Mul_pair
  | Div_source
  | Cmpu_same
  | Cmpu_source
  | Tcc_pair
  | Mul_shift_source
  | Mul_shift_range
  | Undefined_alu parallel_alu
  | Control_with_alu
  | Control_imm_with_alu
  | Pm8_x_register
  | Pm8_y_register
  | Pm8_ea
  | L_move_register
  | L_immediate
  | Pm1_x_register
  | Pm1_y_register
  | Pm1_acc_register
  | Pm1_x_d2
  | Pm1_x_imm_d2
  | Pm1_y_d1
  | Pm1_y_imm_d1
  | Ds_range

type_synonym 'a enc_result = "(encode_error, 'a) outcome"

text \<open>
  The symbol table \<^verbatim>\<open>HashMap<String, i64>\<close>: the entries of an association list, of which only
  the map they make matters.
\<close>

type_synonym symbol_table = "(string \<times> i64) list"

section \<open>Evaluation\<close>

text \<open>
  Sub-results are \<^verbatim>\<open>u32\<close> and are zero-extended before the next operation, so every operand is
  non-negative as an \<^verbatim>\<open>i64\<close> and the quotient and the right shift are those of numbers.
\<close>

definition eval_binop :: "bin_op \<Rightarrow> i64 \<Rightarrow> i64 \<Rightarrow> u32 enc_result" where
  "eval_binop op l r = (case op of
     Add_op \<Rightarrow> Ok (ucast (l + r))
   | Sub_op \<Rightarrow> Ok (ucast (l - r))
   | Mul_op \<Rightarrow> Ok (ucast (l * r))
   | Div_op \<Rightarrow> if r = 0 then Err Division_by_zero else Ok (ucast (l div r))
   | Shl_op \<Rightarrow> Ok (ucast (push_bit (unat (r AND 63)) l))
   | Shr_op \<Rightarrow> Ok (ucast (drop_bit (unat (r AND 63)) l))
   | BitAnd_op \<Rightarrow> Ok (ucast (l AND r))
   | BitOr_op \<Rightarrow> Ok (ucast (l OR r)))"

primrec eval :: "expr \<Rightarrow> symbol_table \<Rightarrow> u32 \<Rightarrow> u32 enc_result" where
  "eval (E_Literal v) syms pc = Ok (ucast v)"
| "eval (E_Frac v) syms pc = Ok (ucast v)"
| "eval (E_Symbol name) syms pc =
     (case map_of syms name of Some v \<Rightarrow> Ok (ucast v) | None \<Rightarrow> Err (Undefined_symbol name))"
| "eval E_CurrentPc syms pc = Ok pc"
| "eval (E_BinOp op lhs rhs) syms pc =
     and_then (eval lhs syms pc) (\<lambda>l.
     and_then (eval rhs syms pc) (\<lambda>r. eval_binop op (ucast l) (ucast r)))"
| "eval (E_UnaryOp op operand) syms pc =
     and_then (eval operand syms pc) (\<lambda>v. Ok (ucast (const_unop op (ucast v))))"

definition with_ext :: "u32 \<Rightarrow> u32 option \<Rightarrow> encoded_instruction" where
  "with_ext w0 ext = (case ext of Some v \<Rightarrow> words_enc w0 v | None \<Rightarrow> word_enc w0)"

definition encode_imm_alu ::
  "expr \<Rightarrow> ast_acc \<Rightarrow> u32 \<Rightarrow> symbol_table \<Rightarrow> u32 \<Rightarrow> encoded_instruction enc_result" where
  "encode_imm_alu imm d op_bits syms pc =
    and_then (eval imm syms pc) (\<lambda>v.
    Ok (word_enc (0x014080 OR op_bits OR push_bit 8 (v AND 0x3F) OR push_bit 3 (ast_acc_bits d))))"

definition encode_long_alu ::
  "expr \<Rightarrow> ast_acc \<Rightarrow> u32 \<Rightarrow> symbol_table \<Rightarrow> u32 \<Rightarrow> encoded_instruction enc_result" where
  "encode_long_alu imm d op_bits syms pc =
    and_then (eval imm syms pc) (\<lambda>v.
    Ok (words_enc (0x0140C0 OR op_bits OR push_bit 3 (ast_acc_bits d)) (v AND 0xFFFFFF)))"

definition encode_ea ::
  "effective_address \<Rightarrow> symbol_table \<Rightarrow> u32 \<Rightarrow> (u8 \<times> u32 option) enc_result" where
  "encode_ea ea syms pc = (case ea of
     Ea_PostDecN n \<Rightarrow> Ok (n, None)
   | Ea_PostIncN n \<Rightarrow> Ok (0x08 OR n, None)
   | Ea_PostDec n \<Rightarrow> Ok (0x10 OR n, None)
   | Ea_PostInc n \<Rightarrow> Ok (0x18 OR n, None)
   | Ea_NoUpdate n \<Rightarrow> Ok (0x20 OR n, None)
   | Ea_IndexedN n \<Rightarrow> Ok (0x28 OR n, None)
   | Ea_AbsAddr e \<Rightarrow> and_then (eval e syms pc) (\<lambda>v. Ok (0x30, Some (v AND 0xFFFFFF)))
   | Ea_ForceLongAbsAddr e \<Rightarrow> and_then (eval e syms pc) (\<lambda>v. Ok (0x30, Some (v AND 0xFFFFFF)))
   | Ea_Immediate e \<Rightarrow> and_then (eval e syms pc) (\<lambda>v. Ok (0x34, Some (v AND 0xFFFFFF)))
   | Ea_PreDec n \<Rightarrow> Ok (0x38 OR n, None))"

definition ast_space_bit :: "ast_space \<Rightarrow> u32" where
  "ast_space_bit space = (case space of Sp_X \<Rightarrow> 0 | Sp_Y \<Rightarrow> 1 | _ \<Rightarrow> 0)"

section \<open>Register fields\<close>

definition is_l_composite :: "register \<Rightarrow> bool" where
  "is_l_composite r \<longleftrightarrow> r \<in> {R_A10, R_B10, R_RegX, R_RegY, R_Ab, R_Ba}"

definition is_movec_only :: "register \<Rightarrow> bool" where
  "is_movec_only r \<longleftrightarrow> \<not> is_l_composite r \<and> 0x20 \<le> register_index r"

definition pm5_reg_bits :: "register \<Rightarrow> u32 enc_result" where
  "pm5_reg_bits r =
    (let ix = register_index r
     in if is_l_composite r \<or> \<not> (0x04 \<le> ix \<and> ix \<le> 0x1F) then Err (Reg5_field r)
        else Ok (word_of_nat ix))"

definition reg6_bits :: "register \<Rightarrow> u32 enc_result" where
  "reg6_bits r =
    (let ix = register_index r
     in if is_l_composite r \<or> ix < 0x04 then Err (Reg6_field r) else Ok (word_of_nat ix))"

definition movec_ddddd :: "register \<Rightarrow> u32 enc_result" where
  "movec_ddddd r =
    (if is_l_composite r then Err Movec_l_register
     else let ix = register_index r
       in if ix < 0x20 then Err (Movec_not_control r) else Ok (word_of_nat ix AND 0x1F))"

definition reg_to_sss :: "register \<Rightarrow> u32 enc_result" where
  "reg_to_sss r = switch r
     [(R_A1, Ok 2), (R_B1, Ok 3), (R_X0, Ok 4), (R_Y0, Ok 5), (R_X1, Ok 6), (R_Y1, Ok 7)]
     (Err Shift_register)"

definition reg_to_qqq :: "register \<Rightarrow> u32 enc_result" where
  "reg_to_qqq r = switch r
     [(R_A0, Ok 2), (R_B0, Ok 3), (R_X0, Ok 4), (R_Y0, Ok 5), (R_X1, Ok 6), (R_Y1, Ok 7)]
     (Err Insert_source)"

definition reg_to_qq :: "register \<Rightarrow> u32 enc_result" where
  "reg_to_qq r = switch r
     [(R_X0, Ok 0), (R_Y0, Ok 1), (R_X1, Ok 2), (R_Y1, Ok 3)] (Err Mul_source)"

definition regs_to_qqqq :: "register \<Rightarrow> register \<Rightarrow> u32 enc_result" where
  "regs_to_qqqq s1 s2 = switch (s1, s2)
     [((R_X0, R_X0), Ok 0x0), ((R_Y0, R_Y0), Ok 0x1), ((R_X1, R_X0), Ok 0x2), ((R_Y1, R_Y0), Ok 0x3),
      ((R_X0, R_Y1), Ok 0x4), ((R_Y0, R_X0), Ok 0x5), ((R_X1, R_Y0), Ok 0x6), ((R_Y1, R_X1), Ok 0x7),
      ((R_X1, R_X1), Ok 0x8), ((R_Y1, R_Y1), Ok 0x9), ((R_X0, R_X1), Ok 0xA), ((R_Y0, R_Y1), Ok 0xB),
      ((R_Y1, R_X0), Ok 0xC), ((R_X0, R_Y0), Ok 0xD), ((R_Y0, R_X1), Ok 0xE), ((R_X1, R_Y1), Ok 0xF)]
     (Err Mul_pair)"

section \<open>Branches\<close>

definition encode_disp9 :: "u32 \<Rightarrow> u32" where
  "encode_disp9 disp = push_bit 1 (disp AND 0x1E0) OR (disp AND 0x1F)"

text \<open>The difference of the two words read as \<^verbatim>\<open>i32\<close>, compared as signed.\<close>

definition fits_short_branch :: "u32 \<Rightarrow> u32 \<Rightarrow> bool" where
  "fits_short_branch addr pc \<longleftrightarrow> (let disp = sint (addr - pc) in - 256 \<le> disp \<and> disp \<le> 255)"

definition encode_rel_branch ::
  "expr \<Rightarrow> u32 \<Rightarrow> symbol_table \<Rightarrow> bool \<Rightarrow> u32 \<Rightarrow> u32 \<Rightarrow> encoded_instruction enc_result" where
  "encode_rel_branch target pc syms force_long short_base long_base =
    and_then (eval target syms pc) (\<lambda>addr.
    let rel24 = (addr - pc) AND 0xFFFFFF;
        long = words_enc long_base rel24
    in if force_long then Ok long
       else and_then (is_literal target) (\<lambda>lit.
         if lit \<and> fits_short_branch addr pc
         then Ok (word_enc (short_base OR encode_disp9 (rel24 AND 0x1FF)))
         else Ok long))"

definition encode_bcc ::
  "ast_cc \<Rightarrow> expr \<Rightarrow> u32 \<Rightarrow> symbol_table \<Rightarrow> bool \<Rightarrow> encoded_instruction enc_result" where
  "encode_bcc cc target pc syms force_long =
    encode_rel_branch target pc syms force_long
      (0x050400 OR push_bit 12 (ast_cc_bits cc)) (0x0D1040 OR ast_cc_bits cc)"

definition encode_bra ::
  "expr \<Rightarrow> u32 \<Rightarrow> symbol_table \<Rightarrow> bool \<Rightarrow> encoded_instruction enc_result" where
  "encode_bra target pc syms force_long =
    encode_rel_branch target pc syms force_long 0x050C00 0x0D10C0"

definition encode_bsr ::
  "expr \<Rightarrow> u32 \<Rightarrow> symbol_table \<Rightarrow> bool \<Rightarrow> encoded_instruction enc_result" where
  "encode_bsr target pc syms force_long =
    encode_rel_branch target pc syms force_long 0x050800 0x0D1080"

definition encode_bscc ::
  "ast_cc \<Rightarrow> expr \<Rightarrow> u32 \<Rightarrow> symbol_table \<Rightarrow> bool \<Rightarrow> encoded_instruction enc_result" where
  "encode_bscc cc target pc syms force_long =
    encode_rel_branch target pc syms force_long
      (0x050000 OR push_bit 12 (ast_cc_bits cc)) (0x0D1000 OR ast_cc_bits cc)"

definition encode_jmp_jsr ::
  "expr \<Rightarrow> bool \<Rightarrow> u32 \<Rightarrow> u32 \<Rightarrow> symbol_table \<Rightarrow> u32 \<Rightarrow> encoded_instruction enc_result" where
  "encode_jmp_jsr target force_short short_base long_base syms pc =
    and_then (eval target syms pc) (\<lambda>addr.
    let short = word_enc (short_base OR (addr AND 0xFFF))
    in if force_short then Ok short
       else and_then (is_literal target) (\<lambda>lit.
         if lit \<and> addr < 0x1000 then Ok short
         else Ok (words_enc long_base (addr AND 0xFFFFFF))))"

definition encode_jcc_long ::
  "ast_cc \<Rightarrow> effective_address \<Rightarrow> u32 \<Rightarrow> symbol_table \<Rightarrow> u32 \<Rightarrow> encoded_instruction enc_result" where
  "encode_jcc_long cc ea long_base syms pc =
    and_then (encode_ea ea syms pc) (\<lambda>(ea_bits, ext).
    Ok (with_ext (long_base OR push_bit 8 (ucast ea_bits) OR ast_cc_bits cc) ext))"

definition encode_jcc_ea ::
  "ast_cc \<Rightarrow> effective_address \<Rightarrow> u32 \<Rightarrow> u32 \<Rightarrow> symbol_table \<Rightarrow> u32 \<Rightarrow> encoded_instruction enc_result"
where
  "encode_jcc_ea cc ea short_base long_base syms pc = (case ea of
     Ea_AbsAddr target \<Rightarrow>
       and_then (eval target syms pc) (\<lambda>addr.
       and_then (is_literal target) (\<lambda>lit.
       if lit \<and> addr < 0x1000
       then Ok (word_enc (short_base OR push_bit 12 (ast_cc_bits cc) OR (addr AND 0xFFF)))
       else encode_jcc_long cc ea long_base syms pc))
   | _ \<Rightarrow> encode_jcc_long cc ea long_base syms pc)"

definition encode_plock_ea ::
  "effective_address \<Rightarrow> u32 \<Rightarrow> symbol_table \<Rightarrow> u32 \<Rightarrow> encoded_instruction enc_result" where
  "encode_plock_ea ea base syms pc =
    and_then (encode_ea ea syms pc) (\<lambda>(ea_bits, ext).
    Ok (with_ext (base OR push_bit 8 (ucast ea_bits AND 0x3F)) ext))"

definition encode_plock_rel ::
  "expr \<Rightarrow> u32 \<Rightarrow> symbol_table \<Rightarrow> u32 \<Rightarrow> encoded_instruction enc_result" where
  "encode_plock_rel target base syms pc =
    and_then (eval target syms pc) (\<lambda>addr. Ok (words_enc base ((addr - pc) AND 0xFFFFFF)))"

section \<open>Bit operations\<close>

text \<open>16-bit peripheral addresses of the DSP56001 are raised to their 24-bit equivalents.\<close>

definition normalize_periph_addr :: "u32 \<Rightarrow> u32" where
  "normalize_periph_addr pa =
    (if 0xFF80 \<le> pa \<and> pa < 0x10000 then pa OR 0xFF0000 else pa)"

definition encode_bit_addr ::
  "u32 \<Rightarrow> u32 \<Rightarrow> u32 \<Rightarrow> ast_space \<Rightarrow> u32 \<Rightarrow> encoded_instruction" where
  "encode_bit_addr hi lo numbit space addr_val =
    (let s = ast_space_bit space;
         tail = push_bit 6 s OR push_bit 5 lo OR (numbit AND 0x1F)
     in if 0xFFFFC0 \<le> addr_val then
          word_enc (0x0A8000 OR push_bit 16 hi OR push_bit 8 ((addr_val - 0xFFFFC0) AND 0x3F) OR tail)
        else if 0xFFFF80 \<le> addr_val then
          word_enc (0x010000 OR push_bit 14 hi OR push_bit 8 ((addr_val - 0xFFFF80) AND 0x3F) OR tail)
        else if addr_val < 0x40 then
          word_enc (0x0A0000 OR push_bit 16 hi OR push_bit 8 (addr_val AND 0x3F) OR tail)
        else
          words_enc (0x0A4000 OR push_bit 16 hi OR push_bit 8 0x30 OR tail) (addr_val AND 0xFFFFFF))"

definition encode_bit_op ::
  "u32 \<Rightarrow> expr \<Rightarrow> bit_target \<Rightarrow> symbol_table \<Rightarrow> u32 \<Rightarrow> encoded_instruction enc_result" where
  "encode_bit_op op_bits bit_no target syms pc =
    and_then (eval bit_no syms pc) (\<lambda>numbit.
    let hi = drop_bit 1 op_bits AND 1; lo = op_bits AND 1
    in case target of
      Bt_Reg reg \<Rightarrow> and_then (reg6_bits reg) (\<lambda>reg_idx.
        Ok (word_enc (0x0AC000 OR push_bit 16 hi OR push_bit 8 reg_idx OR push_bit 6 1
          OR push_bit 5 lo OR (numbit AND 0x1F))))
    | Bt_Addr space addr \<Rightarrow> and_then (eval addr syms pc) (\<lambda>a.
        Ok (encode_bit_addr hi lo numbit space (normalize_periph_addr a)))
    | Bt_Ea space ea \<Rightarrow> and_then (encode_ea ea syms pc) (\<lambda>(ea_bits, ext).
        Ok (with_ext (0x0A4000 OR push_bit 16 hi OR push_bit 8 (ucast ea_bits)
          OR push_bit 6 (ast_space_bit space) OR push_bit 5 lo OR (numbit AND 0x1F)) ext)))"

text \<open>Branches on a bit; the extension word is the target, absolute or relative.\<close>

definition reject_bit_branch_mode6_ea :: "effective_address \<Rightarrow> unit enc_result" where
  "reject_bit_branch_mode6_ea ea = (case ea of
     Ea_AbsAddr _ \<Rightarrow> Err Bit_branch_mode6
   | Ea_ForceLongAbsAddr _ \<Rightarrow> Err Bit_branch_mode6
   | Ea_Immediate _ \<Rightarrow> Err Bit_branch_mode6
   | _ \<Rightarrow> Ok ())"

text \<open>\<^verbatim>\<open>brclr\<close>, \<^verbatim>\<open>brset\<close>, \<^verbatim>\<open>bsclr\<close>, \<^verbatim>\<open>bsset\<close>: the relative half of \<^verbatim>\<open>encode_bit_branch\<close>.\<close>

definition encode_bit_branch_rel ::
  "u32 \<Rightarrow> u32 \<Rightarrow> u32 \<Rightarrow> u32 \<Rightarrow> bit_target \<Rightarrow> symbol_table \<Rightarrow> u32 \<Rightarrow> encoded_instruction enc_result"
where
  "encode_bit_branch_rel bs set_b numbit ext_word target syms pc = (case target of
     Bt_Addr space addr \<Rightarrow> and_then (eval addr syms pc) (\<lambda>addr_val.
       let s = ast_space_bit space
       in if 0xFFFFC0 \<le> addr_val then
            Ok (words_enc (0x0CC000 OR push_bit 16 bs OR push_bit 8 ((addr_val - 0xFFFFC0) AND 0x3F)
              OR push_bit 6 s OR push_bit 5 set_b OR numbit) ext_word)
          else if 0xFFFF80 \<le> addr_val then
            Ok (words_enc (0x048000 OR push_bit 7 bs OR push_bit 8 ((addr_val - 0xFFFF80) AND 0x3F)
              OR push_bit 6 s OR push_bit 5 set_b OR numbit) ext_word)
          else if addr_val < 0x40 then
            Ok (words_enc (0x0C8000 OR push_bit 16 bs OR push_bit 8 (addr_val AND 0x3F)
              OR push_bit 7 1 OR push_bit 6 s OR push_bit 5 set_b OR numbit) ext_word)
          else Err Bit_branch_range)
   | Bt_Ea space ea \<Rightarrow>
       and_then (reject_bit_branch_mode6_ea ea) (\<lambda>_.
       and_then (encode_ea ea syms pc) (\<lambda>(ea_bits, _).
       Ok (words_enc (0x0C8000 OR push_bit 16 bs OR push_bit 8 (ucast ea_bits)
         OR push_bit 6 (ast_space_bit space) OR push_bit 5 set_b OR numbit) ext_word)))
   | Bt_Reg reg \<Rightarrow> and_then (reg6_bits reg) (\<lambda>reg_idx.
       Ok (words_enc (0x0CC080 OR push_bit 16 bs OR push_bit 8 reg_idx OR push_bit 5 set_b OR numbit)
         ext_word)))"

text \<open>\<^verbatim>\<open>jclr\<close>, \<^verbatim>\<open>jset\<close>, \<^verbatim>\<open>jsclr\<close>, \<^verbatim>\<open>jsset\<close>: the absolute half.\<close>

definition encode_bit_branch_abs ::
  "u32 \<Rightarrow> u32 \<Rightarrow> u32 \<Rightarrow> u32 \<Rightarrow> bit_target \<Rightarrow> symbol_table \<Rightarrow> u32 \<Rightarrow> encoded_instruction enc_result"
where
  "encode_bit_branch_abs op_code set_b numbit ext_word target syms pc =
    (let sub = (op_code AND 2 \<noteq> 0); js = (if sub then push_bit 16 1 else 0)
     in case target of
     Bt_Addr space addr \<Rightarrow> and_then (eval addr syms pc) (\<lambda>a.
       let addr_val = normalize_periph_addr a; s = ast_space_bit space
       in if 0xFFFFC0 \<le> addr_val then
            Ok (words_enc (0x0A8080 OR js OR push_bit 8 ((addr_val - 0xFFFFC0) AND 0x3F)
              OR push_bit 6 s OR push_bit 5 set_b OR numbit) ext_word)
          else if 0xFFFF80 \<le> addr_val then
            (let js_qq = (if sub then push_bit 14 1 else 0)
             in Ok (words_enc (0x018080 OR js_qq OR push_bit 8 ((addr_val - 0xFFFF80) AND 0x3F)
              OR push_bit 6 s OR push_bit 5 set_b OR numbit) ext_word))
          else if addr_val < 0x40 then
            Ok (words_enc (0x0A0080 OR js OR push_bit 8 (addr_val AND 0x3F)
              OR push_bit 6 s OR push_bit 5 set_b OR numbit) ext_word)
          else Err Bit_branch_range)
   | Bt_Ea space ea \<Rightarrow>
       and_then (reject_bit_branch_mode6_ea ea) (\<lambda>_.
       and_then (encode_ea ea syms pc) (\<lambda>(ea_bits, _).
       Ok (words_enc (0x0A4080 OR js OR push_bit 8 (ucast ea_bits)
         OR push_bit 6 (ast_space_bit space) OR push_bit 5 set_b OR numbit) ext_word)))
   | Bt_Reg reg \<Rightarrow> and_then (reg6_bits reg) (\<lambda>reg_idx.
       Ok (words_enc (0x0AC000 OR js OR push_bit 8 reg_idx OR push_bit 5 set_b OR numbit)
         ext_word)))"

definition encode_bit_branch ::
  "u32 \<Rightarrow> expr \<Rightarrow> bit_target \<Rightarrow> expr \<Rightarrow> u32 \<Rightarrow> symbol_table \<Rightarrow> encoded_instruction enc_result" where
  "encode_bit_branch op_code bit_no target addr pc syms =
    and_then (eval bit_no syms pc) (\<lambda>b.
    and_then (eval addr syms pc) (\<lambda>addr_val.
    let numbit = b AND 0x1F;
        is_relative = (4 \<le> op_code);
        ext_word = (if is_relative then (addr_val - pc) AND 0xFFFFFF else addr_val AND 0xFFFFFF);
        set_b = op_code AND 1;
        bs = (if 6 \<le> op_code then 1 else 0)
    in if is_relative then encode_bit_branch_rel bs set_b numbit ext_word target syms pc
       else encode_bit_branch_abs op_code set_b numbit ext_word target syms pc))"

section \<open>Loops\<close>

definition encode_do_aa :: "u32 \<Rightarrow> u32 \<Rightarrow> ast_space \<Rightarrow> u32 \<Rightarrow> encoded_instruction enc_result" where
  "encode_do_aa ext_word off space a =
    (if a \<le> 0x3F
     then Ok (words_enc (0x060000 OR off OR push_bit 8 (a AND 0x3F) OR push_bit 6 (ast_space_bit space))
       ext_word)
     else Err Loop_aa_range)"

definition encode_do_dor_inner ::
  "loop_source \<Rightarrow> u32 \<Rightarrow> u32 \<Rightarrow> symbol_table \<Rightarrow> u32 \<Rightarrow> encoded_instruction enc_result" where
  "encode_do_dor_inner source ext_word off syms pc = (case source of
     Ls_Imm imm \<Rightarrow> and_then (eval imm syms pc) (\<lambda>v.
       let (lo, hi) = pack_loop_count v
       in Ok (words_enc (0x060080 OR off OR push_bit 8 lo OR hi) ext_word))
   | Ls_Reg reg \<Rightarrow> and_then (reg6_bits reg) (\<lambda>idx.
       Ok (words_enc (0x06C000 OR off OR push_bit 8 idx) ext_word))
   | Ls_Aa space addr \<Rightarrow> and_then (eval addr syms pc) (encode_do_aa ext_word off space)
   | Ls_Ea space ea \<Rightarrow> (case ea of
       Ea_AbsAddr e \<Rightarrow> and_then (eval e syms pc) (encode_do_aa ext_word off space)
     | Ea_ForceLongAbsAddr e \<Rightarrow> and_then (eval e syms pc) (encode_do_aa ext_word off space)
     | Ea_Immediate _ \<Rightarrow> Err Loop_imm_ea
     | _ \<Rightarrow> and_then (encode_ea ea syms pc) (\<lambda>(ea_bits, _).
         Ok (words_enc (0x064000 OR off OR push_bit 8 (ucast ea_bits)
           OR push_bit 6 (ast_space_bit space)) ext_word))))"

definition encode_do ::
  "loop_source \<Rightarrow> expr \<Rightarrow> symbol_table \<Rightarrow> u32 \<Rightarrow> encoded_instruction enc_result" where
  "encode_do source end_addr syms pc =
    and_then (eval end_addr syms pc) (\<lambda>e.
    encode_do_dor_inner source ((e - 1) AND 0xFFFFFF) 0x00 syms pc)"

definition encode_dor ::
  "loop_source \<Rightarrow> expr \<Rightarrow> u32 \<Rightarrow> symbol_table \<Rightarrow> encoded_instruction enc_result" where
  "encode_dor source end_addr pc syms =
    and_then (eval end_addr syms pc) (\<lambda>e.
    let rel = (((e - 1) AND 0xFFFFFF) - pc) AND 0xFFFFFF
    in encode_do_dor_inner source rel 0x10 syms pc)"

definition encode_rep_aa :: "ast_space \<Rightarrow> u32 \<Rightarrow> encoded_instruction enc_result" where
  "encode_rep_aa space a =
    (if a \<le> 0x3F
     then Ok (word_enc (0x060020 OR push_bit 8 (a AND 0x3F) OR push_bit 6 (ast_space_bit space)))
     else Err Loop_aa_range)"

definition encode_rep :: "rep_source \<Rightarrow> symbol_table \<Rightarrow> u32 \<Rightarrow> encoded_instruction enc_result" where
  "encode_rep source syms pc = (case source of
     Rs_Imm imm \<Rightarrow> and_then (eval imm syms pc) (\<lambda>v.
       let (lo, hi) = pack_loop_count v
       in Ok (word_enc (0x0600A0 OR push_bit 8 lo OR hi)))
   | Rs_Reg reg \<Rightarrow> and_then (reg6_bits reg) (\<lambda>idx. Ok (word_enc (0x06C020 OR push_bit 8 idx)))
   | Rs_Aa space addr \<Rightarrow> and_then (eval addr syms pc) (encode_rep_aa space)
   | Rs_Ea space ea \<Rightarrow> (case ea of
       Ea_AbsAddr e \<Rightarrow> and_then (eval e syms pc) (encode_rep_aa space)
     | Ea_ForceLongAbsAddr e \<Rightarrow> and_then (eval e syms pc) (encode_rep_aa space)
     | Ea_Immediate _ \<Rightarrow> Err Loop_imm_ea
     | _ \<Rightarrow> and_then (encode_ea ea syms pc) (\<lambda>(ea_bits, _).
         Ok (word_enc (0x064020 OR push_bit 8 (ucast ea_bits) OR push_bit 6 (ast_space_bit space))))))"

section \<open>Multiplication, division, transfers\<close>

definition sign_bit :: "sign \<Rightarrow> u32" where
  "sign_bit s = (case s of Minus \<Rightarrow> 1 | Plus \<Rightarrow> 0)"

definition encode_mpyi ::
  "sign \<Rightarrow> expr \<Rightarrow> register \<Rightarrow> ast_acc \<Rightarrow> symbol_table \<Rightarrow> u32 \<Rightarrow> encoded_instruction enc_result" where
  "encode_mpyi s imm src dst syms pc =
    and_then (eval imm syms pc) (\<lambda>v.
    and_then (switch src [(R_X0, Ok 0), (R_Y0, Ok 1), (R_X1, Ok 2), (R_Y1, Ok 3)] (Err Mpyi_source))
      (\<lambda>qq.
    Ok (words_enc (0x0141C0 OR push_bit 4 qq OR push_bit 3 (ast_acc_bits dst) OR push_bit 2 (sign_bit s))
      (v AND 0xFFFFFF))))"

definition encode_imm_mul ::
  "sign \<Rightarrow> expr \<Rightarrow> register \<Rightarrow> ast_acc \<Rightarrow> u32 \<Rightarrow> symbol_table \<Rightarrow> u32 \<Rightarrow> encoded_instruction enc_result"
where
  "encode_imm_mul s imm src dst kind syms pc =
    and_then (eval imm syms pc) (\<lambda>v.
    and_then (reg_to_qq src) (\<lambda>qq.
    Ok (words_enc (0x0141C0 OR push_bit 4 qq OR push_bit 3 (ast_acc_bits dst)
      OR push_bit 2 (sign_bit s) OR kind) (v AND 0xFFFFFF))))"

definition encode_dmac ::
  "u8 \<Rightarrow> sign \<Rightarrow> register \<Rightarrow> register \<Rightarrow> ast_acc \<Rightarrow> encoded_instruction enc_result" where
  "encode_dmac ss s s1 s2 dst =
    and_then (regs_to_qqqq s1 s2) (\<lambda>qqqq.
    let ss_hi = drop_bit 1 (ucast ss) AND 1; ss_lo = ucast ss AND 1
    in Ok (word_enc (0x012480 OR push_bit 8 ss_hi OR push_bit 6 ss_lo OR push_bit 5 (ast_acc_bits dst)
      OR push_bit 4 (sign_bit s) OR qqqq)))"

definition encode_mac_mpy_su ::
  "bool \<Rightarrow> bool \<Rightarrow> sign \<Rightarrow> register \<Rightarrow> register \<Rightarrow> ast_acc \<Rightarrow> encoded_instruction enc_result" where
  "encode_mac_mpy_su is_mac su s s1 s2 dst =
    and_then (regs_to_qqqq s1 s2) (\<lambda>qqqq.
    let su_bit = (if su then 0 else 1); base = (if is_mac then 0x012680 else 0x012780)
    in Ok (word_enc (base OR push_bit 6 su_bit OR push_bit 5 (ast_acc_bits dst)
      OR push_bit 4 (sign_bit s) OR qqqq)))"

definition encode_div :: "register \<Rightarrow> ast_acc \<Rightarrow> encoded_instruction enc_result" where
  "encode_div src dst =
    and_then (switch src [(R_X0, Ok 0), (R_Y0, Ok 1), (R_X1, Ok 2), (R_Y1, Ok 3)] (Err Div_source))
      (\<lambda>jj. Ok (word_enc (0x018040 OR push_bit 4 jj OR push_bit 3 (ast_acc_bits dst))))"

definition cmpu_ggg :: "register \<Rightarrow> ast_acc \<Rightarrow> u32 enc_result" where
  "cmpu_ggg src dst =
    (if src = R_A \<or> src = R_B then
       (if (src = R_A \<and> dst = AccB) \<or> (src = R_B \<and> dst = AccA) then Ok 0 else Err Cmpu_same)
     else switch src [(R_X0, Ok 4), (R_Y0, Ok 5), (R_X1, Ok 6), (R_Y1, Ok 7)] (Err Cmpu_source))"

definition encode_cmpu :: "register \<Rightarrow> ast_acc \<Rightarrow> encoded_instruction enc_result" where
  "encode_cmpu src dst =
    and_then (cmpu_ggg src dst) (\<lambda>ggg.
    Ok (word_enc (0x0C1FF0 OR push_bit 1 (ggg AND 7) OR ast_acc_bits dst)))"

text \<open>\<^verbatim>\<open>iter().position(..)\<close>.\<close>

fun position :: "('a \<Rightarrow> bool) \<Rightarrow> 'a list \<Rightarrow> nat option" where
  "position P [] = None"
| "position P (x # xs) = (if P x then Some 0 else map_option Suc (position P xs))"

definition encode_tcc ::
  "ast_cc \<Rightarrow> (register \<times> register) option \<Rightarrow> (u8 \<times> u8) option \<Rightarrow> encoded_instruction enc_result"
where
  "encode_tcc cc acc r =
    (let (r_src_bits, r_dst_bits) = (case r of Some (s, d) \<Rightarrow> (ucast s, ucast d) | None \<Rightarrow> (0, 0))
     in case acc of
       None \<Rightarrow> Ok (word_enc (0x020000 OR push_bit 12 (ast_cc_bits cc) OR push_bit 11 1
         OR push_bit 8 r_src_bits OR r_dst_bits))
     | Some (s1, d1) \<Rightarrow>
         (case position (\<lambda>pair. pair = (register_index s1, register_index d1)) REGISTERS_TCC of
            None \<Rightarrow> Err Tcc_pair
          | Some tcc_idx \<Rightarrow>
              (let r_bit = (if r \<noteq> None then push_bit 16 1 else 0)
               in Ok (word_enc (0x020000 OR push_bit 12 (ast_cc_bits cc) OR r_bit
                 OR push_bit 8 r_src_bits OR push_bit 3 (word_of_nat tcc_idx) OR r_dst_bits)))))"

definition mul_shift_op_bits :: "mul_shift_mnem \<Rightarrow> u32" where
  "mul_shift_op_bits mnem = (case mnem of Mn_Mpy \<Rightarrow> 0 | Mn_Mpyr \<Rightarrow> 1 | Mn_Mac \<Rightarrow> 2 | Mn_Macr \<Rightarrow> 3)"

definition encode_mul_shift ::
  "mul_shift_mnem \<Rightarrow> sign \<Rightarrow> register \<Rightarrow> expr \<Rightarrow> ast_acc \<Rightarrow> symbol_table \<Rightarrow> u32
   \<Rightarrow> encoded_instruction enc_result" where
  "encode_mul_shift mnem s src shift dst syms pc =
    and_then (switch src [(R_Y1, Ok 0), (R_X0, Ok 1), (R_Y0, Ok 2), (R_X1, Ok 3)]
      (Err Mul_shift_source)) (\<lambda>qq.
    and_then (eval shift syms pc) (\<lambda>n.
    if 31 < n then Err Mul_shift_range
    else Ok (word_enc (0x010000 OR push_bit 8 n OR push_bit 6 3 OR push_bit 4 qq
      OR push_bit 3 (ast_acc_bits dst) OR push_bit 2 (sign_bit s) OR mul_shift_op_bits mnem))))"

end
