(* ===== verification/Asm_Moves.thy ===== *)
theory Asm_Moves
  imports Asm_Encode
begin

text \<open>
  \<^verbatim>\<open>crates/asm/src/encode.rs\<close>, second part: the encoders of the parallel moves and of the
  non-parallel moves, which fall back on each other, and \<^verbatim>\<open>encode\<close> itself, one function per
  section of the enum \<^verbatim>\<open>Instruction\<close>.
\<close>

section \<open>Parallel moves\<close>

definition is_msb_reg :: "register \<Rightarrow> bool" where
  "is_msb_reg r \<longleftrightarrow> r \<in> {R_A, R_B, R_X0, R_X1, R_Y0, R_Y1}"

definition is_bare_lit :: "expr \<Rightarrow> bool" where
  "is_bare_lit e \<longleftrightarrow> (case e of E_Literal _ \<Rightarrow> True | _ \<Rightarrow> False)"

definition is_frac :: "expr \<Rightarrow> bool" where
  "is_frac e \<longleftrightarrow> (case e of E_Frac _ \<Rightarrow> True | _ \<Rightarrow> False)"

text \<open>The choice of the PM3 short form: the byte, or nothing for the long form.\<close>

definition pm3_byte :: "expr \<Rightarrow> register \<Rightarrow> u32 \<Rightarrow> u32 option enc_result" where
  "pm3_byte imm dst v24 =
    (if is_bare_lit imm \<and> v24 \<le> 0xFF then Ok (Some v24)
     else and_then (is_literal imm) (\<lambda>lit.
       if lit \<and> is_msb_reg dst \<and> v24 AND 0xFFFF = 0 then Ok (Some (drop_bit 16 v24))
       else if is_frac imm \<and> \<not> is_data_alu dst \<and> v24 \<le> 0xFF then Ok (Some v24)
       else Ok None))"

definition encode_plain_imm_to_reg ::
  "expr \<Rightarrow> register \<Rightarrow> u32 \<Rightarrow> symbol_table \<Rightarrow> u32 \<Rightarrow> encoded_instruction enc_result" where
  "encode_plain_imm_to_reg imm dst alu_byte syms pc =
    and_then (eval imm syms pc) (\<lambda>v.
    let v24 = v AND 0xFFFFFF
    in and_then (pm5_reg_bits dst) (\<lambda>reg_idx.
       and_then (pm3_byte imm dst v24) (\<lambda>pm3. case pm3 of
         Some b \<Rightarrow> Ok (word_enc (push_bit 16 (reg_idx OR 0x20) OR push_bit 8 (b AND 0xFF) OR alu_byte))
       | None \<Rightarrow>
           (let (val_hi, val_lo) = pm4_reg_split reg_idx
            in Ok (words_enc (push_bit 22 1 OR push_bit 20 val_hi OR push_bit 16 val_lo OR push_bit 15 1
              OR push_bit 14 1 OR push_bit 8 0x34 OR alu_byte) v24)))))"

abbreviation w15 :: "bool \<Rightarrow> u32" where
  "w15 w \<equiv> (if w then push_bit 15 1 else 0)"

definition encode_parallel_xy_mem ::
  "ast_space \<Rightarrow> effective_address \<Rightarrow> register \<Rightarrow> bool \<Rightarrow> u32 \<Rightarrow> symbol_table \<Rightarrow> u32
   \<Rightarrow> encoded_instruction enc_result" where
  "encode_parallel_xy_mem space ea reg write alu_byte syms pc =
    and_then (encode_ea ea syms pc) (\<lambda>(ea_bits, ext).
    and_then (pm5_reg_bits reg) (\<lambda>reg_idx.
    let (val_hi, val_lo) = pm4_reg_split reg_idx
    in Ok (with_ext (push_bit 22 1 OR push_bit 20 val_hi OR push_bit 19 (ast_space_bit space)
      OR push_bit 16 val_lo OR w15 write OR push_bit 14 1 OR push_bit 8 (ucast ea_bits) OR alu_byte)
      ext)))"

text \<open>The short absolute form: forced, or a constant that fits six bits.\<close>

definition use_short_abs :: "expr \<Rightarrow> bool \<Rightarrow> u32 \<Rightarrow> bool enc_result" where
  "use_short_abs addr force_short addr_val =
    (if force_short then Ok True
     else and_then (expr_as_u32 addr) (\<lambda>c. Ok (c \<noteq> None \<and> addr_val AND 0xFFFFFF \<le> 0x3F)))"

definition encode_parallel_xy_abs ::
  "ast_space \<Rightarrow> expr \<Rightarrow> register \<Rightarrow> bool \<Rightarrow> bool \<Rightarrow> u32 \<Rightarrow> symbol_table \<Rightarrow> u32
   \<Rightarrow> encoded_instruction enc_result" where
  "encode_parallel_xy_abs space addr reg write force_short alu_byte syms pc =
    and_then (eval addr syms pc) (\<lambda>addr_val.
    and_then (pm5_reg_bits reg) (\<lambda>reg_idx.
    let (val_hi, val_lo) = pm4_reg_split reg_idx;
        head = push_bit 22 1 OR push_bit 20 val_hi OR push_bit 19 (ast_space_bit space)
          OR push_bit 16 val_lo OR w15 write
    in and_then (use_short_abs addr force_short addr_val) (\<lambda>short.
       if short then Ok (word_enc (head OR push_bit 8 (addr_val AND 0x3F) OR alu_byte))
       else Ok (words_enc (head OR push_bit 14 1 OR push_bit 8 0x30 OR alu_byte)
         (addr_val AND 0xFFFFFF)))))"

definition l_reg_idx :: "register \<Rightarrow> u32 enc_result" where
  "l_reg_idx r = switch r
     [(R_A10, Ok 0), (R_B10, Ok 1), (R_RegX, Ok 2), (R_RegY, Ok 3),
      (R_A, Ok 4), (R_A0, Ok 4), (R_A1, Ok 4), (R_A2, Ok 4),
      (R_B, Ok 5), (R_B0, Ok 5), (R_B1, Ok 5), (R_B2, Ok 5), (R_Ab, Ok 6), (R_Ba, Ok 7)]
     (Err L_move_register)"

definition encode_parallel_l_mem ::
  "effective_address \<Rightarrow> register \<Rightarrow> bool \<Rightarrow> u32 \<Rightarrow> symbol_table \<Rightarrow> u32 \<Rightarrow> encoded_instruction enc_result"
where
  "encode_parallel_l_mem ea reg write alu_byte syms pc =
    and_then (encode_ea ea syms pc) (\<lambda>(ea_bits, ext).
    and_then (l_reg_idx reg) (\<lambda>lreg_idx.
    let (bit2, bits10) = l_reg_split lreg_idx
    in Ok (with_ext (push_bit 22 1 OR push_bit 19 bit2 OR push_bit 16 bits10 OR w15 write
      OR push_bit 14 1 OR push_bit 8 (ucast ea_bits) OR alu_byte) ext)))"

definition pm8_x_bits :: "register \<Rightarrow> u32 enc_result" where
  "pm8_x_bits r = switch r [(R_X0, Ok 0), (R_X1, Ok 1), (R_A, Ok 2), (R_B, Ok 3)] (Err Pm8_x_register)"

definition pm8_y_bits :: "register \<Rightarrow> u32 enc_result" where
  "pm8_y_bits r = switch r [(R_Y0, Ok 0), (R_Y1, Ok 1), (R_A, Ok 2), (R_B, Ok 3)] (Err Pm8_y_register)"

definition pm8_mode_ok :: "u8 \<Rightarrow> bool" where
  "pm8_mode_ok ea_bits \<longleftrightarrow> (let mmm = drop_bit 3 (ucast ea_bits :: u32) AND 7 in 1 \<le> mmm \<and> mmm \<le> 4)"

definition encode_parallel_xy_double ::
  "effective_address \<Rightarrow> register \<Rightarrow> effective_address \<Rightarrow> register \<Rightarrow> bool \<Rightarrow> bool \<Rightarrow> u32
   \<Rightarrow> symbol_table \<Rightarrow> u32 \<Rightarrow> encoded_instruction enc_result" where
  "encode_parallel_xy_double x_ea x_reg y_ea y_reg x_write y_write alu_byte syms pc =
    and_then (pm8_x_bits x_reg) (\<lambda>x_reg_bits.
    and_then (pm8_y_bits y_reg) (\<lambda>y_reg_bits.
    and_then (encode_ea x_ea syms pc) (\<lambda>(x_ea_bits, x_ext).
    and_then (encode_ea y_ea syms pc) (\<lambda>(y_ea_bits, y_ext).
    if \<not> pm8_mode_ok x_ea_bits \<or> \<not> pm8_mode_ok y_ea_bits then Err Pm8_ea
    else
      let ea1 = ucast x_ea_bits AND 0x1F;
          ea2_lo = ucast y_ea_bits AND 0x3;
          ea2_hi = drop_bit 3 (ucast y_ea_bits) AND 0x3;
          w0 = push_bit 23 1 OR (if y_write then push_bit 22 1 else 0) OR push_bit 20 ea2_hi
            OR push_bit 18 x_reg_bits OR push_bit 16 y_reg_bits OR w15 x_write
            OR push_bit 13 ea2_lo OR push_bit 8 ea1 OR alu_byte
      in if x_ext \<noteq> None \<or> y_ext \<noteq> None
         then Ok (words_enc w0 (case x_ext of Some v \<Rightarrow> v
           | None \<Rightarrow> (case y_ext of Some v \<Rightarrow> v | None \<Rightarrow> 0)))
         else Ok (word_enc w0)))))"

definition encode_parallel_l_abs ::
  "expr \<Rightarrow> register \<Rightarrow> bool \<Rightarrow> bool \<Rightarrow> u32 \<Rightarrow> symbol_table \<Rightarrow> u32 \<Rightarrow> encoded_instruction enc_result"
where
  "encode_parallel_l_abs addr reg write force_short alu_byte syms pc =
    and_then (eval addr syms pc) (\<lambda>addr_val.
    and_then (l_reg_idx reg) (\<lambda>lreg.
    let (bit2, bits10) = l_reg_split lreg;
        head = push_bit 22 1 OR push_bit 19 bit2 OR push_bit 16 bits10 OR w15 write
    in and_then (use_short_abs addr force_short addr_val) (\<lambda>short.
       if short then Ok (word_enc (head OR push_bit 8 (addr_val AND 0x3F) OR alu_byte))
       else Ok (words_enc (head OR push_bit 14 1 OR push_bit 8 0x30 OR alu_byte)
         (addr_val AND 0xFFFFFF)))))"

definition encode_parallel_l_imm ::
  "expr \<Rightarrow> register \<Rightarrow> u32 \<Rightarrow> symbol_table \<Rightarrow> u32 \<Rightarrow> encoded_instruction enc_result" where
  "encode_parallel_l_imm imm reg alu_byte syms pc = Err L_immediate"

definition pm1_d1_bits :: "register \<Rightarrow> bool \<Rightarrow> u32 enc_result" where
  "pm1_d1_bits r is_x =
    (if is_x then switch r [(R_X0, Ok 0), (R_X1, Ok 1), (R_A, Ok 2), (R_B, Ok 3)] (Err Pm1_x_register)
     else switch r [(R_Y0, Ok 0), (R_Y1, Ok 1), (R_A, Ok 2), (R_B, Ok 3)] (Err Pm1_y_register))"

definition pm1_acc_bit :: "register \<Rightarrow> u32 enc_result" where
  "pm1_acc_bit r = switch r [(R_A, Ok 0), (R_B, Ok 1)] (Err Pm1_acc_register)"

definition encode_parallel_pm1_x_ea ::
  "effective_address \<Rightarrow> register \<Rightarrow> register \<Rightarrow> register \<Rightarrow> bool \<Rightarrow> u32 \<Rightarrow> symbol_table \<Rightarrow> u32
   \<Rightarrow> encoded_instruction enc_result" where
  "encode_parallel_pm1_x_ea ea x_reg s2 d2 write alu_byte syms pc =
    and_then (encode_ea ea syms pc) (\<lambda>(ea_bits, ext).
    and_then (pm1_d1_bits x_reg True) (\<lambda>d1.
    and_then (pm1_acc_bit s2) (\<lambda>s2_bit.
    and_then (switch d2 [(R_Y0, Ok 0), (R_Y1, Ok 1)] (Err Pm1_x_d2)) (\<lambda>d2_bit.
    Ok (with_ext (push_bit 20 1 OR push_bit 18 d1 OR push_bit 17 s2_bit OR push_bit 16 d2_bit
      OR w15 write OR push_bit 8 (ucast ea_bits) OR alu_byte) ext)))))"

definition encode_parallel_pm1_x_imm ::
  "expr \<Rightarrow> register \<Rightarrow> register \<Rightarrow> register \<Rightarrow> u32 \<Rightarrow> symbol_table \<Rightarrow> u32
   \<Rightarrow> encoded_instruction enc_result" where
  "encode_parallel_pm1_x_imm imm x_reg s2 d2 alu_byte syms pc =
    and_then (eval imm syms pc) (\<lambda>v.
    and_then (pm1_d1_bits x_reg True) (\<lambda>d1.
    and_then (pm1_acc_bit s2) (\<lambda>s2_bit.
    and_then (switch d2 [(R_Y0, Ok 0), (R_Y1, Ok 1)] (Err Pm1_x_imm_d2)) (\<lambda>d2_bit.
    Ok (words_enc (push_bit 20 1 OR push_bit 18 d1 OR push_bit 17 s2_bit OR push_bit 16 d2_bit
      OR push_bit 15 1 OR push_bit 8 0x34 OR alu_byte) (v AND 0xFFFFFF))))))"

definition encode_parallel_pm1_y_ea ::
  "register \<Rightarrow> register \<Rightarrow> effective_address \<Rightarrow> register \<Rightarrow> bool \<Rightarrow> u32 \<Rightarrow> symbol_table \<Rightarrow> u32
   \<Rightarrow> encoded_instruction enc_result" where
  "encode_parallel_pm1_y_ea s1 d1 ea y_reg write alu_byte syms pc =
    and_then (encode_ea ea syms pc) (\<lambda>(ea_bits, ext).
    and_then (pm1_acc_bit s1) (\<lambda>s1_bit.
    and_then (switch d1 [(R_X0, Ok 0), (R_X1, Ok 1)] (Err Pm1_y_d1)) (\<lambda>d1_bit.
    and_then (pm1_d1_bits y_reg False) (\<lambda>d2.
    Ok (with_ext (push_bit 20 1 OR push_bit 19 s1_bit OR push_bit 18 d1_bit OR push_bit 16 d2
      OR w15 write OR push_bit 14 1 OR push_bit 8 (ucast ea_bits) OR alu_byte) ext)))))"

definition encode_parallel_pm1_y_imm ::
  "register \<Rightarrow> register \<Rightarrow> expr \<Rightarrow> register \<Rightarrow> u32 \<Rightarrow> symbol_table \<Rightarrow> u32
   \<Rightarrow> encoded_instruction enc_result" where
  "encode_parallel_pm1_y_imm s1 d1 imm y_reg alu_byte syms pc =
    and_then (eval imm syms pc) (\<lambda>v.
    and_then (pm1_acc_bit s1) (\<lambda>s1_bit.
    and_then (switch d1 [(R_X0, Ok 0), (R_X1, Ok 1)] (Err Pm1_y_imm_d1)) (\<lambda>d1_bit.
    and_then (pm1_d1_bits y_reg False) (\<lambda>d2.
    Ok (words_enc (push_bit 20 1 OR push_bit 19 s1_bit OR push_bit 18 d1_bit OR push_bit 16 d2
      OR push_bit 15 1 OR push_bit 14 1 OR push_bit 8 0x34 OR alu_byte) (v AND 0xFFFFFF))))))"

definition encode_parallel_pm0 ::
  "register \<Rightarrow> ast_space \<Rightarrow> effective_address \<Rightarrow> register \<Rightarrow> u32 \<Rightarrow> symbol_table \<Rightarrow> u32
   \<Rightarrow> encoded_instruction enc_result" where
  "encode_parallel_pm0 acc space ea data_reg alu_byte syms pc =
    and_then (encode_ea ea syms pc) (\<lambda>(ea_bits, ext).
    and_then (pm1_acc_bit acc) (\<lambda>acc_bit.
    let space_bit = (if space = Sp_Y then 1 else 0)
    in Ok (with_ext (0x080000 OR push_bit 16 acc_bit OR push_bit 15 space_bit
      OR push_bit 8 (ucast ea_bits) OR alu_byte) ext)))"

section \<open>Moves\<close>

definition encode_movec_reg :: "register \<Rightarrow> register \<Rightarrow> bool \<Rightarrow> encoded_instruction enc_result" where
  "encode_movec_reg src dst w =
    (if is_l_composite src \<or> is_l_composite dst then Err Movec_l_register
     else let src_ix = register_index src; dst_ix = register_index dst;
              src_idx = word_of_nat src_ix :: u32; dst_idx = word_of_nat dst_ix
       in if src_ix < 0x20 \<and> dst_ix < 0x20 then
            and_then (pm5_reg_bits src) (\<lambda>s.
            and_then (pm5_reg_bits dst) (\<lambda>d.
            Ok (word_enc (0x200000 OR push_bit 13 s OR push_bit 8 d))))
          else if 0x20 \<le> src_ix then
            Ok (word_enc (0x0440A0 OR push_bit 8 (dst_idx AND 0x3F) OR (src_idx AND 0x1F)))
          else
            Ok (word_enc (0x0440A0 OR push_bit 15 1 OR push_bit 8 (src_idx AND 0x3F)
              OR (dst_idx AND 0x1F))))"

definition encode_movec_aa ::
  "ast_space \<Rightarrow> expr \<Rightarrow> register \<Rightarrow> bool \<Rightarrow> symbol_table \<Rightarrow> u32 \<Rightarrow> encoded_instruction enc_result"
where
  "encode_movec_aa space addr reg w syms pc =
    (if \<not> is_l_composite reg \<and> register_index reg < 0x20
     then encode_parallel_xy_abs space addr reg w False 0 syms pc
     else and_then (movec_ddddd reg) (\<lambda>reg_idx.
       and_then (eval addr syms pc) (\<lambda>a.
       if 0x3F < a
       then Ok (words_enc (0x054020 OR push_bit 8 0x30 OR w15 w OR push_bit 6 (ast_space_bit space)
         OR reg_idx) (a AND 0xFFFFFF))
       else Ok (word_enc (0x050020 OR push_bit 8 (a AND 0x3F) OR w15 w
         OR push_bit 6 (ast_space_bit space) OR reg_idx)))))"

definition encode_movec_ea ::
  "ast_space \<Rightarrow> effective_address \<Rightarrow> register \<Rightarrow> bool \<Rightarrow> symbol_table \<Rightarrow> u32
   \<Rightarrow> encoded_instruction enc_result" where
  "encode_movec_ea space ea reg w syms pc =
    (if \<not> is_l_composite reg \<and> register_index reg < 0x20
     then encode_parallel_xy_mem space ea reg w 0 syms pc
     else and_then (movec_ddddd reg) (\<lambda>reg_idx.
       and_then (encode_ea ea syms pc) (\<lambda>(ea_bits, ext).
       Ok (with_ext (0x054020 OR push_bit 8 (ucast ea_bits) OR w15 w
         OR push_bit 6 (ast_space_bit space) OR reg_idx) ext))))"

definition encode_movec_imm ::
  "expr \<Rightarrow> register \<Rightarrow> symbol_table \<Rightarrow> u32 \<Rightarrow> encoded_instruction enc_result" where
  "encode_movec_imm imm reg syms pc =
    (if \<not> is_l_composite reg \<and> register_index reg < 0x20
     then encode_plain_imm_to_reg imm reg 0 syms pc
     else and_then (movec_ddddd reg) (\<lambda>reg_idx.
       and_then (eval imm syms pc) (\<lambda>v.
       Ok (word_enc (0x0500A0 OR push_bit 8 (v AND 0xFF) OR reg_idx)))))"

definition encode_movem_ea ::
  "effective_address \<Rightarrow> register \<Rightarrow> bool \<Rightarrow> symbol_table \<Rightarrow> u32 \<Rightarrow> encoded_instruction enc_result"
where
  "encode_movem_ea ea reg w syms pc =
    and_then (encode_ea ea syms pc) (\<lambda>(ea_bits, ext).
    and_then (reg6_bits reg) (\<lambda>reg_idx.
    Ok (with_ext (0x074080 OR push_bit 8 (ucast ea_bits) OR w15 w OR reg_idx) ext)))"

definition encode_movem_aa ::
  "expr \<Rightarrow> register \<Rightarrow> bool \<Rightarrow> symbol_table \<Rightarrow> u32 \<Rightarrow> encoded_instruction enc_result" where
  "encode_movem_aa addr reg w syms pc =
    and_then (eval addr syms pc) (\<lambda>a.
    and_then (reg6_bits reg) (\<lambda>reg_idx.
    if 0x3F < a
    then Ok (words_enc (0x074080 OR push_bit 8 0x30 OR w15 w OR reg_idx) (a AND 0xFFFFFF))
    else Ok (word_enc (0x070000 OR push_bit 8 (a AND 0x3F) OR w15 w OR reg_idx))))"

text \<open>\<^verbatim>\<open>encode_movep23\<close> once the peripheral address \<open>pa\<close> is known to be in range.\<close>

definition encode_movep23_periph ::
  "ast_space \<Rightarrow> u32 \<Rightarrow> ast_space \<Rightarrow> effective_address \<Rightarrow> bool \<Rightarrow> symbol_table \<Rightarrow> u32
   \<Rightarrow> encoded_instruction enc_result" where
  "encode_movep23_periph periph_space pa ea_space ea w syms pc =
    and_then (encode_ea ea syms pc) (\<lambda>(ea_bits, ext).
    let es = ast_space_bit ea_space
    in if 0xFFFFC0 \<le> pa then
         Ok (with_ext (0x084080 OR push_bit 16 (ast_space_bit periph_space) OR push_bit 8 (ucast ea_bits)
           OR w15 w OR push_bit 6 es OR ((pa - 0xFFFFC0) AND 0x3F)) ext)
       else
         Ok (with_ext ((if periph_space = Sp_X then 0x074000 else 0x070080)
           OR push_bit 8 (ucast ea_bits) OR w15 w OR push_bit 6 es OR ((pa - 0xFFFF80) AND 0x3F)) ext))"

text \<open>
  An operand pair given in the other order is swapped by one recursive call. The parameter that
  decreases is whether the peripheral address is below the range.
\<close>

definition below_periph :: "expr \<Rightarrow> symbol_table \<Rightarrow> u32 \<Rightarrow> bool" where
  "below_periph addr syms pc \<longleftrightarrow>
     (case eval addr syms pc of Ok v \<Rightarrow> normalize_periph_addr v < 0xFFFF80 | _ \<Rightarrow> False)"

function encode_movep23 ::
  "ast_space \<Rightarrow> expr \<Rightarrow> ast_space \<Rightarrow> effective_address \<Rightarrow> bool \<Rightarrow> symbol_table \<Rightarrow> u32
   \<Rightarrow> encoded_instruction enc_result" where
  "encode_movep23 periph_space periph_addr ea_space ea w syms pc =
    (case eval periph_addr syms pc of
       Err e \<Rightarrow> Err e
     | Panic \<Rightarrow> Panic
     | Ok v \<Rightarrow>
        (let pa = normalize_periph_addr v
         in if \<not> pa < 0xFFFF80 then encode_movep23_periph periph_space pa ea_space ea w syms pc
            else (case (case ea of Ea_AbsAddr e \<Rightarrow> Some e | Ea_ForceLongAbsAddr e \<Rightarrow> Some e | _ \<Rightarrow> None) of
              None \<Rightarrow> Err Movep_range
            | Some ea_expr \<Rightarrow> (case eval ea_expr syms pc of
                Err e \<Rightarrow> Err e
              | Panic \<Rightarrow> Panic
              | Ok v' \<Rightarrow>
                  if 0xFFFF80 \<le> normalize_periph_addr v'
                  then encode_movep23 ea_space ea_expr periph_space (Ea_ForceLongAbsAddr periph_addr) True
                    syms pc
                  else Err Movep_range))))"
  by pat_completeness auto

termination
  by (relation "measure (\<lambda>(ps, addr, es, ea, w, syms, pc). if below_periph addr syms pc then 1 else 0)")
    (auto simp: below_periph_def Let_def not_less)

declare encode_movep23.simps [simp del]

definition encode_movep23_imm ::
  "ast_space \<Rightarrow> expr \<Rightarrow> expr \<Rightarrow> symbol_table \<Rightarrow> u32 \<Rightarrow> encoded_instruction enc_result" where
  "encode_movep23_imm periph_space periph_addr imm syms pc =
    and_then (eval periph_addr syms pc) (\<lambda>p.
    and_then (eval imm syms pc) (\<lambda>v.
    let pa = normalize_periph_addr p
    in if 0xFFFFC0 \<le> pa then
         Ok (words_enc (0x084080 OR push_bit 16 (ast_space_bit periph_space) OR push_bit 8 0x34
           OR push_bit 15 1 OR ((pa - 0xFFFFC0) AND 0x3F)) (v AND 0xFFFFFF))
       else if 0xFFFF80 \<le> pa then
         Ok (words_enc ((if periph_space = Sp_X then 0x074000 else 0x070080) OR push_bit 8 0x34
           OR push_bit 15 1 OR ((pa - 0xFFFF80) AND 0x3F)) (v AND 0xFFFFFF))
       else Err Movep_imm_range))"

definition periph_offset_qq :: "u32 \<Rightarrow> u32 enc_result" where
  "periph_offset_qq addr =
    (let addr = normalize_periph_addr addr
     in if 0xFFFF80 \<le> addr \<and> addr < 0xFFFFC0 then Ok (addr - 0xFFFF80) else Err Movep_qq_range)"

definition encode_movep_xqq ::
  "expr \<Rightarrow> ast_space \<Rightarrow> effective_address \<Rightarrow> bool \<Rightarrow> symbol_table \<Rightarrow> u32
   \<Rightarrow> encoded_instruction enc_result" where
  "encode_movep_xqq periph_addr ea_space ea w syms pc =
    and_then (eval periph_addr syms pc) (\<lambda>pa.
    and_then (periph_offset_qq pa) (\<lambda>offset.
    and_then (encode_ea ea syms pc) (\<lambda>(ea_bits, ext).
    Ok (with_ext (0x074000 OR push_bit 8 (ucast ea_bits) OR w15 w
      OR push_bit 6 (ast_space_bit ea_space) OR (offset AND 0x3F)) ext))))"

definition encode_movep_xqq_imm ::
  "expr \<Rightarrow> expr \<Rightarrow> symbol_table \<Rightarrow> u32 \<Rightarrow> encoded_instruction enc_result" where
  "encode_movep_xqq_imm periph_addr imm syms pc =
    and_then (eval periph_addr syms pc) (\<lambda>pa.
    and_then (periph_offset_qq pa) (\<lambda>offset.
    and_then (eval imm syms pc) (\<lambda>v.
    Ok (words_enc (0x074000 OR push_bit 8 0x34 OR push_bit 15 1 OR (offset AND 0x3F))
      (v AND 0xFFFFFF)))))"

definition encode_movep1 ::
  "ast_space \<Rightarrow> expr \<Rightarrow> effective_address \<Rightarrow> bool \<Rightarrow> symbol_table \<Rightarrow> u32
   \<Rightarrow> encoded_instruction enc_result" where
  "encode_movep1 periph_space periph_addr ea w syms pc =
    and_then (eval periph_addr syms pc) (\<lambda>p.
    and_then (encode_ea ea syms pc) (\<lambda>(ea_bits, ext).
    let pa = normalize_periph_addr p; ps = ast_space_bit periph_space
    in if 0xFFFFC0 \<le> pa then
         Ok (with_ext (0x084040 OR push_bit 16 ps OR push_bit 8 (ucast ea_bits) OR w15 w
           OR ((pa - 0xFFFFC0) AND 0x3F)) ext)
       else if 0xFFFF80 \<le> pa then
         Ok (with_ext (0x008000 OR push_bit 8 (ucast ea_bits) OR (if w then push_bit 14 1 else 0)
           OR push_bit 6 ps OR ((pa - 0xFFFF80) AND 0x3F)) ext)
       else Err Movep_p_range))"

definition encode_movep0 ::
  "ast_space \<Rightarrow> expr \<Rightarrow> register \<Rightarrow> bool \<Rightarrow> symbol_table \<Rightarrow> u32 \<Rightarrow> encoded_instruction enc_result"
where
  "encode_movep0 periph_space periph_addr reg w syms pc =
    and_then (eval periph_addr syms pc) (\<lambda>p.
    and_then (reg6_bits reg) (\<lambda>reg_idx.
    let pa = normalize_periph_addr p
    in if 0xFFFFC0 \<le> pa then
         Ok (word_enc (0x084000 OR push_bit 16 (ast_space_bit periph_space) OR push_bit 8 reg_idx
           OR w15 w OR ((pa - 0xFFFFC0) AND 0x3F)))
       else if 0xFFFF80 \<le> pa then
         (let offset = pa - 0xFFFF80; q_hi = drop_bit 5 offset AND 1; q_lo = offset AND 0x1F
          in Ok (word_enc ((if periph_space = Sp_X then 0x044080 else 0x044020) OR push_bit 8 reg_idx
            OR w15 w OR push_bit 6 q_hi OR q_lo)))
       else Err Movep_r_range))"

definition encode_move_long_disp ::
  "ast_space \<Rightarrow> u8 \<Rightarrow> expr \<Rightarrow> register \<Rightarrow> bool \<Rightarrow> symbol_table \<Rightarrow> u32
   \<Rightarrow> encoded_instruction enc_result" where
  "encode_move_long_disp space offset_reg offset reg w syms pc =
    and_then (eval offset syms pc) (\<lambda>off.
    and_then (reg6_bits reg) (\<lambda>reg_idx.
    let base = (if space = Sp_X then 0x0A7080 else 0x0B7080)
    in Ok (words_enc (base OR push_bit 8 (ucast offset_reg) OR (if w then push_bit 6 1 else 0)
      OR reg_idx) (off AND 0xFFFFFF))))"

definition encode_move_short_disp ::
  "ast_space \<Rightarrow> u8 \<Rightarrow> expr \<Rightarrow> register \<Rightarrow> bool \<Rightarrow> symbol_table \<Rightarrow> u32
   \<Rightarrow> encoded_instruction enc_result" where
  "encode_move_short_disp space offset_reg offset reg w syms pc =
    and_then (eval offset syms pc) (\<lambda>off.
    let off7 = off AND 0x7F; ix = register_index reg; reg_idx = word_of_nat ix
    in if is_l_composite reg \<or> \<not> (0x04 \<le> ix \<and> ix \<le> 0x0F) then Err (Short_disp_register reg)
       else
         let (xxx_hi, xxx_lo) = pack_xy_imm_offset off7; is_y = (if space = Sp_Y then 1 else 0)
         in Ok (word_enc (0x020080 OR push_bit 11 xxx_hi OR push_bit 8 (ucast offset_reg)
           OR push_bit 6 xxx_lo OR push_bit 5 is_y OR (if w then push_bit 4 1 else 0)
           OR (reg_idx AND 0xF))))"

section \<open>Parallel instructions\<close>

definition encode_control_imm ::
  "expr \<Rightarrow> register \<Rightarrow> bool \<Rightarrow> u32 \<Rightarrow> encoded_instruction" where
  "encode_control_imm imm dst force_long v24 =
    (let code = word_of_nat (register_index dst) AND 0x1F;
         is_lit = is_bare_lit imm \<or> is_frac imm
     in if is_lit \<and> v24 \<le> 0xFF \<and> \<not> force_long
        then word_enc (0x0500A0 OR push_bit 8 v24 OR code)
        else words_enc (0x05F420 OR code) v24)"

fun encode_pmove ::
  "parallel_move \<Rightarrow> u32 \<Rightarrow> symbol_table \<Rightarrow> u32 \<Rightarrow> encoded_instruction enc_result" where
  "encode_pmove M_None alu_byte syms pc = Ok (word_enc (0x200000 OR alu_byte))"
| "encode_pmove (M_RegToReg src dst) alu_byte syms pc =
    (if is_movec_only src \<or> is_movec_only dst then
       (if alu_byte \<noteq> 0 then Err Control_with_alu else encode_movec_reg src dst True)
     else and_then (pm5_reg_bits src) (\<lambda>src_idx.
       and_then (pm5_reg_bits dst) (\<lambda>dst_idx.
       Ok (word_enc (0x200000 OR push_bit 13 src_idx OR push_bit 8 dst_idx OR alu_byte)))))"
| "encode_pmove (M_EaUpdate ea dst) alu_byte syms pc =
    and_then (encode_ea ea syms pc) (\<lambda>(ea_bits, _).
    Ok (word_enc (0x204000 OR push_bit 8 (ucast ea_bits AND 0x1F) OR alu_byte)))"
| "encode_pmove (M_ImmToReg imm dst force_long) alu_byte syms pc =
    and_then (eval imm syms pc) (\<lambda>v.
    if is_movec_only dst then
      (if alu_byte \<noteq> 0 then Err Control_imm_with_alu
       else Ok (encode_control_imm imm dst force_long (v AND 0xFFFFFF)))
    else encode_plain_imm_to_reg imm dst alu_byte syms pc)"
| "encode_pmove (M_XYMem space ea reg write) alu_byte syms pc =
    (if is_movec_only reg then
       (if alu_byte \<noteq> 0 then Err Control_with_alu else encode_movec_ea space ea reg write syms pc)
     else encode_parallel_xy_mem space ea reg write alu_byte syms pc)"
| "encode_pmove (M_XYAbs space addr reg write force_short) alu_byte syms pc =
    (if is_movec_only reg then
       (if alu_byte \<noteq> 0 then Err Control_with_alu else encode_movec_aa space addr reg write syms pc)
     else encode_parallel_xy_abs space addr reg write force_short alu_byte syms pc)"
| "encode_pmove (M_XYDouble x_ea x_reg y_ea y_reg x_write y_write) alu_byte syms pc =
    encode_parallel_xy_double x_ea x_reg y_ea y_reg x_write y_write alu_byte syms pc"
| "encode_pmove (M_LMem ea reg write) alu_byte syms pc =
    encode_parallel_l_mem ea reg write alu_byte syms pc"
| "encode_pmove (M_LAbs addr reg write force_short) alu_byte syms pc =
    encode_parallel_l_abs addr reg write force_short alu_byte syms pc"
| "encode_pmove (M_LImm imm reg) alu_byte syms pc = encode_parallel_l_imm imm reg alu_byte syms pc"
| "encode_pmove (M_XReg ea x_reg s2 d2 write) alu_byte syms pc =
    encode_parallel_pm1_x_ea ea x_reg s2 d2 write alu_byte syms pc"
| "encode_pmove (M_XImmReg imm x_reg s2 d2) alu_byte syms pc =
    encode_parallel_pm1_x_imm imm x_reg s2 d2 alu_byte syms pc"
| "encode_pmove (M_RegY s1 d1 ea y_reg write) alu_byte syms pc =
    encode_parallel_pm1_y_ea s1 d1 ea y_reg write alu_byte syms pc"
| "encode_pmove (M_RegYImm s1 d1 imm y_reg) alu_byte syms pc =
    encode_parallel_pm1_y_imm s1 d1 imm y_reg alu_byte syms pc"
| "encode_pmove (M_Pm0 acc space ea data_reg) alu_byte syms pc =
    encode_parallel_pm0 acc space ea data_reg alu_byte syms pc"
| "encode_pmove (M_Ifcc cc) alu_byte syms pc =
    Ok (word_enc (0x202000 OR push_bit 8 (ast_cc_bits cc) OR alu_byte))"
| "encode_pmove (M_IfccU cc) alu_byte syms pc =
    Ok (word_enc (0x203000 OR push_bit 8 (ast_cc_bits cc) OR alu_byte))"

definition encode_parallel ::
  "parallel_alu \<Rightarrow> parallel_move \<Rightarrow> symbol_table \<Rightarrow> u32 \<Rightarrow> encoded_instruction enc_result" where
  "encode_parallel alu pmove syms pc = (case parallel_alu_encode alu of
     None \<Rightarrow> Err (Undefined_alu alu)
   | Some b \<Rightarrow> encode_pmove pmove (ucast b) syms pc)"

section \<open>The encoder\<close>

fun encode_zero :: "zero_ast \<Rightarrow> encoded_instruction" where
  "encode_zero I_Nop = word_enc 0x000000"
| "encode_zero I_Rts = word_enc 0x00000C"
| "encode_zero I_Rti = word_enc 0x000004"
| "encode_zero I_Reset = word_enc 0x000084"
| "encode_zero I_Stop = word_enc 0x000087"
| "encode_zero I_Wait = word_enc 0x000086"
| "encode_zero I_EndDo = word_enc 0x00008C"
| "encode_zero I_Illegal = word_enc 0x000005"

fun encode_acc :: "acc_ast \<Rightarrow> encoded_instruction" where
  "encode_acc (I_Inc acc) = word_enc (0x000008 OR ast_acc_bits acc)"
| "encode_acc (I_Dec acc) = word_enc (0x00000A OR ast_acc_bits acc)"

fun encode_arith :: "arith_ast \<Rightarrow> symbol_table \<Rightarrow> u32 \<Rightarrow> encoded_instruction enc_result" where
  "encode_arith (I_AddImm imm d) syms pc = encode_imm_alu imm d 0x00 syms pc"
| "encode_arith (I_AddLong imm d) syms pc = encode_long_alu imm d 0x00 syms pc"
| "encode_arith (I_SubImm imm d) syms pc = encode_imm_alu imm d 0x04 syms pc"
| "encode_arith (I_SubLong imm d) syms pc = encode_long_alu imm d 0x04 syms pc"
| "encode_arith (I_CmpImm imm d) syms pc = encode_imm_alu imm d 0x05 syms pc"
| "encode_arith (I_CmpLong imm d) syms pc = encode_long_alu imm d 0x05 syms pc"
| "encode_arith (I_AndImm imm d) syms pc = encode_imm_alu imm d 0x06 syms pc"
| "encode_arith (I_AndLong imm d) syms pc = encode_long_alu imm d 0x06 syms pc"
| "encode_arith (I_OrImm imm d) syms pc = encode_imm_alu imm d 0x02 syms pc"
| "encode_arith (I_OrLong imm d) syms pc = encode_long_alu imm d 0x02 syms pc"
| "encode_arith (I_EorImm imm d) syms pc = encode_imm_alu imm d 0x03 syms pc"
| "encode_arith (I_EorLong imm d) syms pc = encode_long_alu imm d 0x03 syms pc"
| "encode_arith (I_AndI imm dest) syms pc =
    and_then (eval imm syms pc) (\<lambda>v.
    Ok (word_enc (0x0000B8 OR push_bit 8 (v AND 0xFF) OR (ucast dest AND 3))))"
| "encode_arith (I_OrI imm dest) syms pc =
    and_then (eval imm syms pc) (\<lambda>v.
    Ok (word_enc (0x0000F8 OR push_bit 8 (v AND 0xFF) OR (ucast dest AND 3))))"

fun encode_shift :: "shift_ast \<Rightarrow> symbol_table \<Rightarrow> u32 \<Rightarrow> encoded_instruction enc_result" where
  "encode_shift (I_AslImm shift src dst) syms pc =
    and_then (eval shift syms pc) (\<lambda>ii.
    Ok (word_enc (0x0C1D00 OR push_bit 7 (ast_acc_bits src) OR push_bit 1 (ii AND 0x3F)
      OR ast_acc_bits dst)))"
| "encode_shift (I_AsrImm shift src dst) syms pc =
    and_then (eval shift syms pc) (\<lambda>ii.
    Ok (word_enc (0x0C1C00 OR push_bit 7 (ast_acc_bits src) OR push_bit 1 (ii AND 0x3F)
      OR ast_acc_bits dst)))"
| "encode_shift (I_LslImm shift dst) syms pc =
    and_then (eval shift syms pc) (\<lambda>ii.
    Ok (word_enc (0x0C1E80 OR push_bit 1 (ii AND 0x1F) OR ast_acc_bits dst)))"
| "encode_shift (I_LsrImm shift dst) syms pc =
    and_then (eval shift syms pc) (\<lambda>ii.
    Ok (word_enc (0x0C1EC0 OR push_bit 1 (ii AND 0x1F) OR ast_acc_bits dst)))"
| "encode_shift (I_AslReg shift_reg src dst) syms pc =
    and_then (reg_to_sss shift_reg) (\<lambda>sss.
    Ok (word_enc (0x0C1E40 OR push_bit 4 (ast_acc_bits src) OR push_bit 1 (sss AND 7)
      OR ast_acc_bits dst)))"
| "encode_shift (I_AsrReg shift_reg src dst) syms pc =
    and_then (reg_to_sss shift_reg) (\<lambda>sss.
    Ok (word_enc (0x0C1E60 OR push_bit 4 (ast_acc_bits src) OR push_bit 1 (sss AND 7)
      OR ast_acc_bits dst)))"
| "encode_shift (I_LslReg shift_reg dst) syms pc =
    and_then (reg_to_sss shift_reg) (\<lambda>sss.
    Ok (word_enc (0x0C1E10 OR push_bit 1 (sss AND 7) OR ast_acc_bits dst)))"
| "encode_shift (I_LsrReg shift_reg dst) syms pc =
    and_then (reg_to_sss shift_reg) (\<lambda>sss.
    Ok (word_enc (0x0C1E30 OR push_bit 1 (sss AND 7) OR ast_acc_bits dst)))"

fun encode_branch :: "branch_ast \<Rightarrow> symbol_table \<Rightarrow> u32 \<Rightarrow> encoded_instruction enc_result" where
  "encode_branch (I_Bcc cc target force_long) syms pc = encode_bcc cc target pc syms force_long"
| "encode_branch (I_BccRn cc rn) syms pc =
    Ok (word_enc (0x0D1840 OR push_bit 8 (ucast rn) OR ast_cc_bits cc))"
| "encode_branch (I_Bra target force_long) syms pc = encode_bra target pc syms force_long"
| "encode_branch (I_BraRn rn) syms pc = Ok (word_enc (0x0D18C0 OR push_bit 8 (ucast rn)))"
| "encode_branch (I_Bsr target force_long) syms pc = encode_bsr target pc syms force_long"
| "encode_branch (I_BsrRn rn) syms pc = Ok (word_enc (0x0D1880 OR push_bit 8 (ucast rn)))"
| "encode_branch (I_Bscc cc target force_long) syms pc = encode_bscc cc target pc syms force_long"
| "encode_branch (I_BsccRn cc rn) syms pc =
    Ok (word_enc (0x0D1800 OR push_bit 8 (ucast rn) OR ast_cc_bits cc))"
| "encode_branch (I_Brkcc cc) syms pc = Ok (word_enc (0x000210 OR ast_cc_bits cc))"
| "encode_branch (I_Jcc cc target) syms pc =
    and_then (eval target syms pc) (\<lambda>addr.
    Ok (word_enc (0x0E0000 OR push_bit 12 (ast_cc_bits cc) OR (addr AND 0xFFF))))"
| "encode_branch (I_JccEa cc ea) syms pc = encode_jcc_ea cc ea 0x0E0000 0x0AC0A0 syms pc"
| "encode_branch (I_Jmp target force_short) syms pc =
    encode_jmp_jsr target force_short 0x0C0000 0x0AF080 syms pc"
| "encode_branch (I_JmpEa ea) syms pc =
    and_then (encode_ea ea syms pc) (\<lambda>(ea_bits, ext).
    Ok (with_ext (0x0AC080 OR push_bit 8 (ucast ea_bits)) ext))"
| "encode_branch (I_Jscc cc target) syms pc =
    and_then (eval target syms pc) (\<lambda>addr.
    Ok (word_enc (0x0F0000 OR push_bit 12 (ast_cc_bits cc) OR (addr AND 0xFFF))))"
| "encode_branch (I_JsccEa cc ea) syms pc = encode_jcc_ea cc ea 0x0F0000 0x0BC0A0 syms pc"
| "encode_branch (I_Jsr target force_short) syms pc =
    encode_jmp_jsr target force_short 0x0D0000 0x0BF080 syms pc"
| "encode_branch (I_JsrEa ea) syms pc =
    and_then (encode_ea ea syms pc) (\<lambda>(ea_bits, ext).
    Ok (with_ext (0x0BC080 OR push_bit 8 (ucast ea_bits)) ext))"

fun encode_bitop :: "bitop_ast \<Rightarrow> symbol_table \<Rightarrow> u32 \<Rightarrow> encoded_instruction enc_result" where
  "encode_bitop (I_Bchg b target) syms pc = encode_bit_op 2 b target syms pc"
| "encode_bitop (I_Bclr b target) syms pc = encode_bit_op 0 b target syms pc"
| "encode_bitop (I_Bset b target) syms pc = encode_bit_op 1 b target syms pc"
| "encode_bitop (I_Btst b target) syms pc = encode_bit_op 3 b target syms pc"

fun encode_bitbr :: "bit_branch_ast \<Rightarrow> symbol_table \<Rightarrow> u32 \<Rightarrow> encoded_instruction enc_result" where
  "encode_bitbr (I_Jclr b target addr) syms pc = encode_bit_branch 0 b target addr pc syms"
| "encode_bitbr (I_Jset b target addr) syms pc = encode_bit_branch 1 b target addr pc syms"
| "encode_bitbr (I_Jsclr b target addr) syms pc = encode_bit_branch 2 b target addr pc syms"
| "encode_bitbr (I_Jsset b target addr) syms pc = encode_bit_branch 3 b target addr pc syms"
| "encode_bitbr (I_Brclr b target addr) syms pc = encode_bit_branch 4 b target addr pc syms"
| "encode_bitbr (I_Brset b target addr) syms pc = encode_bit_branch 5 b target addr pc syms"
| "encode_bitbr (I_Bsclr b target addr) syms pc = encode_bit_branch 6 b target addr pc syms"
| "encode_bitbr (I_Bsset b target addr) syms pc = encode_bit_branch 7 b target addr pc syms"

fun encode_loop :: "loop_ast \<Rightarrow> symbol_table \<Rightarrow> u32 \<Rightarrow> encoded_instruction enc_result" where
  "encode_loop (I_Do source end_addr) syms pc = encode_do source end_addr syms pc"
| "encode_loop (I_DoForever end_addr) syms pc =
    and_then (eval end_addr syms pc) (\<lambda>e. Ok (words_enc 0x000203 ((e - 1) AND 0xFFFFFF)))"
| "encode_loop (I_Dor source end_addr) syms pc = encode_dor source end_addr pc syms"
| "encode_loop (I_DorForever end_addr) syms pc =
    and_then (eval end_addr syms pc) (\<lambda>e. Ok (words_enc 0x000202 (((e - 1) - pc) AND 0xFFFFFF)))"
| "encode_loop (I_Rep source) syms pc = encode_rep source syms pc"

fun encode_move :: "move_ast \<Rightarrow> symbol_table \<Rightarrow> u32 \<Rightarrow> encoded_instruction enc_result" where
  "encode_move (I_MovecReg src dst w) syms pc = encode_movec_reg src dst w"
| "encode_move (I_MovecAa space addr reg w) syms pc = encode_movec_aa space addr reg w syms pc"
| "encode_move (I_MovecEa space ea reg w) syms pc = encode_movec_ea space ea reg w syms pc"
| "encode_move (I_MovecImm imm reg) syms pc = encode_movec_imm imm reg syms pc"
| "encode_move (I_MovemEa ea reg w) syms pc = encode_movem_ea ea reg w syms pc"
| "encode_move (I_MovemAa addr reg w) syms pc = encode_movem_aa addr reg w syms pc"
| "encode_move (I_Movep23 ps pa es ea w) syms pc = encode_movep23 ps pa es ea w syms pc"
| "encode_move (I_Movep23Imm ps pa imm) syms pc = encode_movep23_imm ps pa imm syms pc"
| "encode_move (I_MovepXQq pa es ea w) syms pc = encode_movep_xqq pa es ea w syms pc"
| "encode_move (I_MovepXQqImm pa imm) syms pc = encode_movep_xqq_imm pa imm syms pc"
| "encode_move (I_Movep1 ps pa ea w) syms pc = encode_movep1 ps pa ea w syms pc"
| "encode_move (I_Movep0 ps pa reg w) syms pc = encode_movep0 ps pa reg w syms pc"
| "encode_move (I_MoveLongDisp space rn offset reg w) syms pc =
    encode_move_long_disp space rn offset reg w syms pc"
| "encode_move (I_MoveShortDisp space rn offset reg w) syms pc =
    encode_move_short_disp space rn offset reg w syms pc"

fun encode_mul :: "mul_ast \<Rightarrow> symbol_table \<Rightarrow> u32 \<Rightarrow> encoded_instruction enc_result" where
  "encode_mul (I_MulShift mnem s src shift dst) syms pc = encode_mul_shift mnem s src shift dst syms pc"
| "encode_mul (I_MpyI s imm src dst) syms pc = encode_mpyi s imm src dst syms pc"
| "encode_mul (I_MpyrI s imm src dst) syms pc = encode_imm_mul s imm src dst 0x01 syms pc"
| "encode_mul (I_MacI s imm src dst) syms pc = encode_imm_mul s imm src dst 0x02 syms pc"
| "encode_mul (I_MacrI s imm src dst) syms pc = encode_imm_mul s imm src dst 0x03 syms pc"
| "encode_mul (I_Dmac ss s s1 s2 dst) syms pc = encode_dmac ss s s1 s2 dst"
| "encode_mul (I_MacSU su s s1 s2 dst) syms pc = encode_mac_mpy_su True su s s1 s2 dst"
| "encode_mul (I_MpySU su s s1 s2 dst) syms pc = encode_mac_mpy_su False su s s1 s2 dst"
| "encode_mul (I_Div src dst) syms pc = encode_div src dst"
| "encode_mul (I_CmpU src dst) syms pc = encode_cmpu src dst"
| "encode_mul (I_Norm src dst) syms pc =
    Ok (word_enc (0x01D815 OR push_bit 8 (ucast src) OR push_bit 3 (ast_acc_bits dst)))"

fun encode_address :: "address_ast \<Rightarrow> symbol_table \<Rightarrow> u32 \<Rightarrow> encoded_instruction enc_result" where
  "encode_address (I_Lua ea dst) syms pc =
    and_then (encode_ea ea syms pc) (\<lambda>(ea_bits, ext).
    and_then (pm5_reg_bits dst) (\<lambda>reg_idx.
    Ok (with_ext (0x044000 OR push_bit 8 (ucast ea_bits AND 0x1F) OR reg_idx) ext)))"
| "encode_address (I_LuaRel base offset dst_is_n dst) syms pc =
    and_then (eval offset syms pc) (\<lambda>aa.
    let aa7 = aa AND 0x7F; aa_lo = aa7 AND 0xF; aa_hi = drop_bit 4 aa7 AND 7
    in Ok (word_enc (0x040000 OR push_bit 11 aa_hi OR push_bit 8 (ucast base) OR push_bit 4 aa_lo
      OR (if dst_is_n then push_bit 3 1 else 0) OR ucast dst)))"
| "encode_address (I_LraRn src dst) syms pc =
    and_then (pm5_reg_bits dst) (\<lambda>d. Ok (word_enc (0x04C000 OR push_bit 8 (ucast src) OR d)))"
| "encode_address (I_LraDisp target dst) syms pc =
    and_then (eval target syms pc) (\<lambda>addr.
    and_then (pm5_reg_bits dst) (\<lambda>d.
    Ok (words_enc (0x044040 OR d) ((addr - pc) AND 0xFFFFFF))))"

fun encode_special :: "special_ast \<Rightarrow> symbol_table \<Rightarrow> u32 \<Rightarrow> encoded_instruction enc_result" where
  "encode_special (I_Clb s d) syms pc =
    Ok (word_enc (0x0C1E00 OR push_bit 1 (ast_acc_bits s) OR ast_acc_bits d))"
| "encode_special (I_Normf src d) syms pc =
    and_then (reg_to_sss src) (\<lambda>sss. Ok (word_enc (0x0C1E20 OR push_bit 1 sss OR ast_acc_bits d)))"
| "encode_special (I_Merge src d) syms pc =
    and_then (reg_to_sss src) (\<lambda>sss. Ok (word_enc (0x0C1B80 OR push_bit 1 sss OR ast_acc_bits d)))"
| "encode_special (I_ExtractReg s1 s2 d) syms pc =
    and_then (reg_to_sss s1) (\<lambda>sss.
    Ok (word_enc (0x0C1A00 OR push_bit 4 (ast_acc_bits s2) OR push_bit 1 sss OR ast_acc_bits d)))"
| "encode_special (I_ExtractImm co s2 d) syms pc =
    and_then (eval co syms pc) (\<lambda>v.
    Ok (words_enc (0x0C1800 OR push_bit 4 (ast_acc_bits s2) OR ast_acc_bits d) (v AND 0xFFFFFF)))"
| "encode_special (I_ExtractuReg s1 s2 d) syms pc =
    and_then (reg_to_sss s1) (\<lambda>sss.
    Ok (word_enc (0x0C1A80 OR push_bit 4 (ast_acc_bits s2) OR push_bit 1 sss OR ast_acc_bits d)))"
| "encode_special (I_ExtractuImm co s2 d) syms pc =
    and_then (eval co syms pc) (\<lambda>v.
    Ok (words_enc (0x0C1880 OR push_bit 4 (ast_acc_bits s2) OR ast_acc_bits d) (v AND 0xFFFFFF)))"
| "encode_special (I_InsertReg s1 s2 d) syms pc =
    and_then (reg_to_sss s1) (\<lambda>sss.
    and_then (reg_to_qqq s2) (\<lambda>qqq.
    Ok (word_enc (0x0C1B00 OR push_bit 4 qqq OR push_bit 1 sss OR ast_acc_bits d))))"
| "encode_special (I_InsertImm co s2 d) syms pc =
    and_then (reg_to_qqq s2) (\<lambda>qqq.
    and_then (eval co syms pc) (\<lambda>v.
    Ok (words_enc (0x0C1900 OR push_bit 4 qqq OR ast_acc_bits d) (v AND 0xFFFFFF))))"
| "encode_special (I_Vsl s i_bit ea) syms pc =
    and_then (encode_ea ea syms pc) (\<lambda>(ea_bits, ext).
    Ok (with_ext (0x0AC0C0 OR push_bit 16 (ast_acc_bits s) OR push_bit 8 (ucast ea_bits AND 0x3F)
      OR push_bit 4 (ucast i_bit)) ext))"
| "encode_special I_Debug syms pc = Ok (word_enc 0x000200)"
| "encode_special (I_Debugcc cc) syms pc = Ok (word_enc (0x000300 OR ast_cc_bits cc))"
| "encode_special I_Trap syms pc = Ok (word_enc 0x000006)"
| "encode_special (I_Trapcc cc) syms pc = Ok (word_enc (0x000010 OR ast_cc_bits cc))"
| "encode_special I_Pflush syms pc = Ok (word_enc 0x000003)"
| "encode_special I_Pflushun syms pc = Ok (word_enc 0x000001)"
| "encode_special I_Pfree syms pc = Ok (word_enc 0x000002)"
| "encode_special (I_PlockEa ea) syms pc = encode_plock_ea ea 0x0BC081 syms pc"
| "encode_special (I_Plockr target) syms pc = encode_plock_rel target 0x00000F syms pc"
| "encode_special (I_PunlockEa ea) syms pc = encode_plock_ea ea 0x0AC081 syms pc"
| "encode_special (I_Punlockr target) syms pc = encode_plock_rel target 0x00000E syms pc"

fun encode :: "asm_instruction \<Rightarrow> u32 \<Rightarrow> symbol_table \<Rightarrow> encoded_instruction enc_result" where
  "encode (I_zero i) pc syms = Ok (encode_zero i)"
| "encode (I_acc i) pc syms = Ok (encode_acc i)"
| "encode (I_arith i) pc syms = encode_arith i syms pc"
| "encode (I_shift i) pc syms = encode_shift i syms pc"
| "encode (I_branch i) pc syms = encode_branch i syms pc"
| "encode (I_bitop i) pc syms = encode_bitop i syms pc"
| "encode (I_bit_branch i) pc syms = encode_bitbr i syms pc"
| "encode (I_loop i) pc syms = encode_loop i syms pc"
| "encode (I_move i) pc syms = encode_move i syms pc"
| "encode (I_mul i) pc syms = encode_mul i syms pc"
| "encode (I_address i) pc syms = encode_address i syms pc"
| "encode (I_special i) pc syms = encode_special i syms pc"
| "encode (I_Tcc cc acc r) pc syms = encode_tcc cc acc r"
| "encode (I_Parallel alu pmove) pc syms = encode_parallel alu pmove syms pc"

end
