(* ===== verification/Asm_Size.thy ===== *)
theory Asm_Size
  imports Asm_Moves
begin

text \<open>
  \<^verbatim>\<open>crates/asm/src/lib.rs\<close>, first part: the static size of an instruction and the checks that only
  warn. Sizes are \<^verbatim>\<open>u32\<close>; the \<open>outcome\<close> is there for the panic of a constant quotient.
\<close>

section \<open>Sizes\<close>

definition ea_ext_size :: "effective_address \<Rightarrow> u32" where
  "ea_ext_size ea = (case ea of
     Ea_AbsAddr _ \<Rightarrow> 1 | Ea_ForceLongAbsAddr _ \<Rightarrow> 1 | Ea_Immediate _ \<Rightarrow> 1 | _ \<Rightarrow> 0)"

definition abs_ext_size :: "expr \<Rightarrow> bool \<Rightarrow> ('e, u32) outcome" where
  "abs_ext_size addr force_short =
    (if force_short then Ok 0
     else and_then (expr_as_u32 addr) (\<lambda>c. case c of
       Some v \<Rightarrow> Ok (if v AND 0xFFFFFF \<le> 0x3F then 0 else 1)
     | None \<Rightarrow> Ok 1))"

definition imm_ext_size :: "expr \<Rightarrow> register \<Rightarrow> bool \<Rightarrow> ('e, u32) outcome" where
  "imm_ext_size imm dst force_long =
    (if force_long then Ok 1
     else and_then (expr_as_u32 imm) (\<lambda>c. case c of
       Some v \<Rightarrow>
         (let v24 = v AND 0xFFFFFF
          in Ok (if (is_bare_lit imm \<and> v24 \<le> 0xFF) \<or> (is_msb_reg dst \<and> v24 AND 0xFFFF = 0)
              \<or> (is_frac imm \<and> \<not> is_data_alu dst \<and> v24 \<le> 0xFF) then 0 else 1))
     | None \<Rightarrow> Ok 1))"

definition pmove_ext_size :: "parallel_move \<Rightarrow> ('e, u32) outcome" where
  "pmove_ext_size pmove = (case pmove of
     M_None \<Rightarrow> Ok 0
   | M_RegToReg _ _ \<Rightarrow> Ok 0
   | M_XImmReg _ _ _ _ \<Rightarrow> Ok 1
   | M_RegYImm _ _ _ _ \<Rightarrow> Ok 1
   | M_XYAbs _ addr _ _ force_short \<Rightarrow> abs_ext_size addr force_short
   | M_LAbs addr _ _ force_short \<Rightarrow> abs_ext_size addr force_short
   | M_ImmToReg imm dst force_long \<Rightarrow> imm_ext_size imm dst force_long
   | M_EaUpdate ea _ \<Rightarrow> Ok (ea_ext_size ea)
   | M_XYMem _ ea _ _ \<Rightarrow> Ok (ea_ext_size ea)
   | M_LMem ea _ _ \<Rightarrow> Ok (ea_ext_size ea)
   | M_XReg ea _ _ _ _ \<Rightarrow> Ok (ea_ext_size ea)
   | M_RegY _ _ ea _ _ \<Rightarrow> Ok (ea_ext_size ea)
   | M_Pm0 _ _ ea _ \<Rightarrow> Ok (ea_ext_size ea)
   | M_LImm _ _ \<Rightarrow> Ok 1
   | M_XYDouble x_ea _ y_ea _ _ _ \<Rightarrow> Ok (max (ea_ext_size x_ea) (ea_ext_size y_ea))
   | M_Ifcc _ \<Rightarrow> Ok 0
   | M_IfccU _ \<Rightarrow> Ok 0)"

definition jump_size :: "expr \<Rightarrow> bool \<Rightarrow> ('e, u32) outcome" where
  "jump_size target force_short =
    (if force_short then Ok 1
     else and_then (expr_as_u32 target) (\<lambda>c. case c of
       Some v \<Rightarrow> Ok (if v AND 0xFFFFFF < 0x1000 then 1 else 2)
     | None \<Rightarrow> Ok 2))"

definition jcc_ea_size :: "effective_address \<Rightarrow> ('e, u32) outcome" where
  "jcc_ea_size ea = (case ea of
     Ea_AbsAddr e \<Rightarrow> and_then (expr_as_u32 e) (\<lambda>c.
       if (case c of Some v \<Rightarrow> v AND 0xFFFFFF < 0x1000 | None \<Rightarrow> False) then Ok 1
       else Ok (1 + ea_ext_size ea))
   | _ \<Rightarrow> Ok (1 + ea_ext_size ea))"

definition bit_target_size :: "bit_target \<Rightarrow> u32" where
  "bit_target_size target = (case target of Bt_Ea _ ea \<Rightarrow> 1 + ea_ext_size ea | _ \<Rightarrow> 1)"

definition branch_size :: "branch_ast \<Rightarrow> ('e, u32) outcome" where
  "branch_size i = (case i of
     I_Bcc _ _ _ \<Rightarrow> Ok 2 | I_Bra _ _ \<Rightarrow> Ok 2 | I_Bsr _ _ \<Rightarrow> Ok 2 | I_Bscc _ _ _ \<Rightarrow> Ok 2
   | I_Jmp target force_short \<Rightarrow> jump_size target force_short
   | I_Jsr target force_short \<Rightarrow> jump_size target force_short
   | I_JccEa _ ea \<Rightarrow> jcc_ea_size ea
   | I_JsccEa _ ea \<Rightarrow> jcc_ea_size ea
   | I_JmpEa ea \<Rightarrow> Ok (1 + ea_ext_size ea)
   | I_JsrEa ea \<Rightarrow> Ok (1 + ea_ext_size ea)
   | _ \<Rightarrow> Ok 1)"

definition instruction_size :: "asm_instruction \<Rightarrow> ('e, u32) outcome" where
  "instruction_size inst = (case inst of
     I_zero _ \<Rightarrow> Ok 1
   | I_acc _ \<Rightarrow> Ok 1
   | I_arith i \<Rightarrow> Ok (case i of I_AddLong _ _ \<Rightarrow> 2 | I_SubLong _ _ \<Rightarrow> 2 | I_CmpLong _ _ \<Rightarrow> 2
       | I_AndLong _ _ \<Rightarrow> 2 | I_OrLong _ _ \<Rightarrow> 2 | I_EorLong _ _ \<Rightarrow> 2 | _ \<Rightarrow> 1)
   | I_shift _ \<Rightarrow> Ok 1
   | I_branch i \<Rightarrow> branch_size i
   | I_bitop i \<Rightarrow> Ok (case i of I_Bchg _ t \<Rightarrow> bit_target_size t | I_Bclr _ t \<Rightarrow> bit_target_size t
       | I_Bset _ t \<Rightarrow> bit_target_size t | I_Btst _ t \<Rightarrow> bit_target_size t)
   | I_bit_branch _ \<Rightarrow> Ok 2
   | I_loop i \<Rightarrow> Ok (case i of I_Rep _ \<Rightarrow> 1 | _ \<Rightarrow> 2)
   | I_move i \<Rightarrow> Ok (case i of
         I_MovecEa _ ea _ _ \<Rightarrow> 1 + ea_ext_size ea
       | I_MovemEa ea _ _ \<Rightarrow> 1 + ea_ext_size ea
       | I_Movep1 _ _ ea _ \<Rightarrow> 1 + ea_ext_size ea
       | I_Movep23 _ _ _ ea _ \<Rightarrow> 1 + ea_ext_size ea
       | I_MovepXQq _ _ ea _ \<Rightarrow> 1 + ea_ext_size ea
       | I_Movep23Imm _ _ _ \<Rightarrow> 2
       | I_MovepXQqImm _ _ \<Rightarrow> 2
       | I_MoveLongDisp _ _ _ _ _ \<Rightarrow> 2
       | _ \<Rightarrow> 1)
   | I_mul i \<Rightarrow> Ok (case i of I_MpyI _ _ _ _ \<Rightarrow> 2 | I_MpyrI _ _ _ _ \<Rightarrow> 2 | I_MacI _ _ _ _ \<Rightarrow> 2
       | I_MacrI _ _ _ _ \<Rightarrow> 2 | _ \<Rightarrow> 1)
   | I_address i \<Rightarrow> Ok (case i of I_Lua ea _ \<Rightarrow> 1 + ea_ext_size ea | I_LraDisp _ _ \<Rightarrow> 2 | _ \<Rightarrow> 1)
   | I_special i \<Rightarrow> Ok (case i of
         I_ExtractImm _ _ _ \<Rightarrow> 2 | I_ExtractuImm _ _ _ \<Rightarrow> 2 | I_InsertImm _ _ _ \<Rightarrow> 2
       | I_Plockr _ \<Rightarrow> 2 | I_Punlockr _ \<Rightarrow> 2
       | I_PlockEa ea \<Rightarrow> 1 + ea_ext_size ea | I_PunlockEa ea \<Rightarrow> 1 + ea_ext_size ea
       | I_Vsl _ _ ea \<Rightarrow> 1 + ea_ext_size ea
       | _ \<Rightarrow> 1)
   | I_Tcc _ _ _ \<Rightarrow> Ok 1
   | I_Parallel _ pmove \<Rightarrow> and_then (pmove_ext_size pmove) (\<lambda>n. Ok (1 + n)))"

section \<open>Warnings\<close>

datatype warning_kind =
    BitNumberOutOfRange | DuplicateDestination | MovecUsesMoveEncoding | SshAsLoopCount
  | SshSourceAndDest | ShiftCountOutOfRange | PostUpdateOnDestination | InstructionInInterruptVector

definition alu_dest_is_a :: "parallel_alu \<Rightarrow> bool option" where
  "alu_dest_is_a alu = (case dest_accumulator alu of
     Some Acc_A \<Rightarrow> Some True | Some Acc_B \<Rightarrow> Some False | None \<Rightarrow> None)"

definition reg_overlaps_acc_strict :: "register \<Rightarrow> bool \<Rightarrow> bool" where
  "reg_overlaps_acc_strict r acc_is_a \<longleftrightarrow> r \<in> {R_Ab, R_Ba} \<or>
     (if acc_is_a then r \<in> {R_A, R_A1, R_A10} else r \<in> {R_B, R_B1, R_B10})"

definition reg_overlaps_acc :: "register \<Rightarrow> bool \<Rightarrow> bool" where
  "reg_overlaps_acc r acc_is_a \<longleftrightarrow> r \<in> {R_Ab, R_Ba} \<or>
     (if acc_is_a then r \<in> {R_A, R_A0, R_A1, R_A2, R_A10} else r \<in> {R_B, R_B0, R_B1, R_B2, R_B10})"

definition is_simple_ea :: "effective_address \<Rightarrow> bool" where
  "is_simple_ea ea \<longleftrightarrow> (case ea of
     Ea_PostInc _ \<Rightarrow> True | Ea_PostDec _ \<Rightarrow> True | Ea_NoUpdate _ \<Rightarrow> True | Ea_PostIncN _ \<Rightarrow> True
   | _ \<Rightarrow> False)"

definition ea_post_update_reg :: "effective_address \<Rightarrow> u8 option" where
  "ea_post_update_reg ea = (case ea of
     Ea_PostDec n \<Rightarrow> Some n | Ea_PostInc n \<Rightarrow> Some n | Ea_PostDecN n \<Rightarrow> Some n | Ea_PostIncN n \<Rightarrow> Some n
   | _ \<Rightarrow> None)"

text \<open>The destinations of a parallel move, as collected for the duplicate check.\<close>

definition pm_dsts :: "parallel_move \<Rightarrow> register list" where
  "pm_dsts pmove = (case pmove of
     M_RegToReg _ dst \<Rightarrow> [dst]
   | M_ImmToReg _ dst _ \<Rightarrow> [dst]
   | M_XYMem _ _ r w \<Rightarrow> if w then [r] else []
   | M_XYAbs _ _ r w _ \<Rightarrow> if w then [r] else []
   | M_LMem _ r w \<Rightarrow> if w then [r] else []
   | M_LAbs _ r w _ \<Rightarrow> if w then [r] else []
   | M_LImm _ r \<Rightarrow> [r]
   | M_XReg _ x_reg _ d2 w \<Rightarrow> if w then [x_reg, d2] else []
   | M_XImmReg _ x_reg _ d2 \<Rightarrow> [x_reg, d2]
   | M_RegY _ d1 _ y_reg w \<Rightarrow> d1 # (if w then [y_reg] else [])
   | M_RegYImm _ d1 _ y_reg \<Rightarrow> [d1, y_reg]
   | M_XYDouble _ x_reg _ y_reg xw yw \<Rightarrow> (if xw then [x_reg] else []) @ (if yw then [y_reg] else [])
   | M_Pm0 acc _ ea _ \<Rightarrow> if is_simple_ea ea then [acc] else []
   | _ \<Rightarrow> [])"

text \<open>The pairs of an addressing mode and the registers loaded with it.\<close>

definition ea_dest_pairs :: "parallel_move \<Rightarrow> (effective_address \<times> register list) list" where
  "ea_dest_pairs pmove = (case pmove of
     M_XYMem _ ea r w \<Rightarrow> if w then [(ea, [r])] else []
   | M_LMem ea r w \<Rightarrow> if w then [(ea, [r])] else []
   | M_XReg ea x_reg _ d2 w \<Rightarrow> if w then [(ea, [x_reg, d2])] else []
   | M_RegY _ d1 ea y_reg w \<Rightarrow> if w then [(ea, [d1, y_reg])] else []
   | M_XYDouble x_ea x_reg y_ea y_reg xw yw \<Rightarrow>
       (if xw then [(x_ea, [x_reg])] else []) @ (if yw then [(y_ea, [y_reg])] else [])
   | M_Pm0 _ _ ea data_reg \<Rightarrow> [(ea, [data_reg])]
   | _ \<Rightarrow> [])"

definition check_post_update_on_dest :: "parallel_move \<Rightarrow> warning_kind list" where
  "check_post_update_on_dest pmove =
    (if list_ex (\<lambda>(ea, dsts). case ea_post_update_reg ea of
          Some rn \<Rightarrow> R_R rn \<in> set dsts | None \<Rightarrow> False) (ea_dest_pairs pmove)
     then [PostUpdateOnDestination] else [])"

definition duplicate_dest :: "parallel_alu \<Rightarrow> parallel_move \<Rightarrow> bool" where
  "duplicate_dest alu pmove = (case alu_dest_is_a alu of
     None \<Rightarrow> False
   | Some is_a \<Rightarrow>
       (let is_limm = (case pmove of M_LImm _ _ \<Rightarrow> True | _ \<Rightarrow> False)
        in list_ex (\<lambda>dst. if is_limm \<or> is_logical_or_shift alu then reg_overlaps_acc_strict dst is_a
                       else reg_overlaps_acc dst is_a) (pm_dsts pmove)))"

definition check_parallel_warnings :: "parallel_alu \<Rightarrow> parallel_move \<Rightarrow> warning_kind list" where
  "check_parallel_warnings alu pmove =
    (let dup = duplicate_dest alu pmove;
         same_xy = (case pmove of M_XYDouble _ x_reg _ y_reg xw yw \<Rightarrow> xw \<and> yw \<and> x_reg = y_reg | _ \<Rightarrow> False)
     in (if dup \<or> same_xy then [DuplicateDestination] else [])
        @ (if pmove = M_RegToReg R_Ssh R_Ssh then [SshSourceAndDest] else [])
        @ check_post_update_on_dest pmove)"

text \<open>A warning when a constant is in a range; an expression with symbols gives none.\<close>

definition const_warning :: "warning_kind \<Rightarrow> (int \<Rightarrow> bool) \<Rightarrow> expr \<Rightarrow> ('e, warning_kind list) outcome" where
  "const_warning k bad e =
    and_then (try_eval_const e) (\<lambda>c. case c of
      Some v \<Rightarrow> Ok (if bad (sint v) then [k] else [])
    | None \<Rightarrow> Ok [])"

definition bit_number_warning :: "expr \<Rightarrow> ('e, warning_kind list) outcome" where
  "bit_number_warning = const_warning BitNumberOutOfRange (\<lambda>v. 24 \<le> v)"

definition shift_count_warning :: "expr \<Rightarrow> ('e, warning_kind list) outcome" where
  "shift_count_warning = const_warning ShiftCountOutOfRange (\<lambda>v. \<not> (0 \<le> v \<and> v \<le> 55))"

definition ssh_count_warning :: "loop_source \<Rightarrow> warning_kind list" where
  "ssh_count_warning source = (if source = Ls_Reg R_Ssh then [SshAsLoopCount] else [])"

definition movec_warning :: "bool \<Rightarrow> warning_kind list" where
  "movec_warning demoted = (if demoted then [MovecUsesMoveEncoding] else [])"

definition check_move_warnings :: "move_ast \<Rightarrow> warning_kind list" where
  "check_move_warnings i = (case i of
     I_MovecReg src dst _ \<Rightarrow>
       if src = R_Ssh \<and> dst = R_Ssh then [SshSourceAndDest]
       else movec_warning (register_index src < 0x20 \<and> register_index dst < 0x20)
   | I_MovecAa _ _ reg _ \<Rightarrow> movec_warning (register_index reg < 0x20)
   | I_MovecEa _ _ reg _ \<Rightarrow> movec_warning (register_index reg < 0x20)
   | I_MovecImm _ reg \<Rightarrow> movec_warning (register_index reg < 0x20)
   | I_MovemEa ea reg w \<Rightarrow>
       if w \<and> (case ea_post_update_reg ea of Some rn \<Rightarrow> reg = R_R rn | None \<Rightarrow> False)
       then [PostUpdateOnDestination] else []
   | _ \<Rightarrow> [])"

definition check_warnings :: "asm_instruction \<Rightarrow> ('e, warning_kind list) outcome" where
  "check_warnings inst = (case inst of
     I_bitop i \<Rightarrow> (case i of I_Bchg b _ \<Rightarrow> bit_number_warning b | I_Bclr b _ \<Rightarrow> bit_number_warning b
       | I_Bset b _ \<Rightarrow> bit_number_warning b | I_Btst b _ \<Rightarrow> bit_number_warning b)
   | I_bit_branch i \<Rightarrow> (case i of I_Jclr b _ _ \<Rightarrow> bit_number_warning b | I_Jset b _ _ \<Rightarrow> bit_number_warning b
       | I_Jsclr b _ _ \<Rightarrow> bit_number_warning b | I_Jsset b _ _ \<Rightarrow> bit_number_warning b
       | I_Brclr b _ _ \<Rightarrow> bit_number_warning b | I_Brset b _ _ \<Rightarrow> bit_number_warning b
       | I_Bsclr b _ _ \<Rightarrow> bit_number_warning b | I_Bsset b _ _ \<Rightarrow> bit_number_warning b)
   | I_shift i \<Rightarrow> (case i of I_AslImm n _ _ \<Rightarrow> shift_count_warning n
       | I_AsrImm n _ _ \<Rightarrow> shift_count_warning n | _ \<Rightarrow> Ok [])
   | I_loop i \<Rightarrow> (case i of I_Do source _ \<Rightarrow> Ok (ssh_count_warning source)
       | I_Dor source _ \<Rightarrow> Ok (ssh_count_warning source) | _ \<Rightarrow> Ok [])
   | I_move i \<Rightarrow> Ok (check_move_warnings i)
   | I_mul i \<Rightarrow> (case i of I_MulShift _ _ _ shift _ \<Rightarrow> bit_number_warning shift | _ \<Rightarrow> Ok [])
   | I_Parallel alu pmove \<Rightarrow> Ok (check_parallel_warnings alu pmove)
   | _ \<Rightarrow> Ok [])"

definition is_vector_prohibited_reg :: "register \<Rightarrow> bool" where
  "is_vector_prohibited_reg r \<longleftrightarrow> r \<in> {R_La, R_Lc, R_Sp, R_Sr, R_Ssh, R_Ssl}"

definition prohibited_bit_target :: "bit_target \<Rightarrow> bool" where
  "prohibited_bit_target t = (case t of Bt_Reg r \<Rightarrow> is_vector_prohibited_reg r | _ \<Rightarrow> False)"

definition is_prohibited_in_interrupt_vector :: "asm_instruction \<Rightarrow> bool" where
  "is_prohibited_in_interrupt_vector inst = (case inst of
     I_loop _ \<Rightarrow> True
   | I_move i \<Rightarrow> (case i of
         I_MovemEa _ reg _ \<Rightarrow> is_vector_prohibited_reg reg
       | I_MovemAa _ reg _ \<Rightarrow> is_vector_prohibited_reg reg
       | I_MovecReg _ dst w \<Rightarrow> w \<and> is_vector_prohibited_reg dst
       | I_MovecAa _ _ reg w \<Rightarrow> w \<and> is_vector_prohibited_reg reg
       | I_MovecEa _ _ reg w \<Rightarrow> w \<and> is_vector_prohibited_reg reg
       | I_MovecImm _ reg \<Rightarrow> is_vector_prohibited_reg reg
       | I_Movep0 _ _ reg w \<Rightarrow> \<not> w \<and> is_vector_prohibited_reg reg
       | I_MoveLongDisp _ _ _ reg w \<Rightarrow> w \<and> is_vector_prohibited_reg reg
       | _ \<Rightarrow> False)
   | I_bitop i \<Rightarrow> (case i of I_Bchg _ t \<Rightarrow> prohibited_bit_target t
       | I_Bclr _ t \<Rightarrow> prohibited_bit_target t | I_Bset _ t \<Rightarrow> prohibited_bit_target t
       | I_Btst _ _ \<Rightarrow> False)
   | _ \<Rightarrow> False)"

end
