(* ===== verification/Asm_Program.thy ===== *)
theory Asm_Program
  imports Asm_Size "HOL-Library.AList"
begin

text \<open>
  \<^verbatim>\<open>crates/asm/src/lib.rs\<close>, second part: the two passes over a program. Pass 1 collects labels and
  \<^verbatim>\<open>equ\<close> values, and is repeated with the sizes of trial encodings until the symbols are stable;
  pass 2 encodes the instructions into segments. A \<^verbatim>\<open>HashMap\<close> is an association list of which
  only the map matters; where the code iterates over one, the order is a parameter. Arithmetic
  on the \<^verbatim>\<open>u32\<close> program counter wraps. Program text, includes and the formatted listing are
  not part of the model.
\<close>

section \<open>State shared by the passes\<close>

type_synonym assemble_error = "nat \<times> encode_error"

record psect_state =
  ps_space :: ast_space
  ps_pc :: u32

type_synonym psect_map = "(string \<times> psect_state) list"

text \<open>The equality of two hash maps.\<close>

definition hm_eq :: "('k \<times> 'v) list \<Rightarrow> ('k \<times> 'v) list \<Rightarrow> bool" where
  "hm_eq a b \<longleftrightarrow> list_all (\<lambda>k. map_of a k = map_of b k) (map fst a @ map fst b)"

definition eval_at :: "expr \<Rightarrow> symbol_table \<Rightarrow> u32 \<Rightarrow> nat \<Rightarrow> (assemble_error, u32) outcome" where
  "eval_at e syms pc line = map_err (Pair line) (eval e syms pc)"

definition save_psect :: "psect_map \<Rightarrow> string option \<Rightarrow> u32 \<Rightarrow> psect_map" where
  "save_psect psects current pc = (case current of
     None \<Rightarrow> psects
   | Some name \<Rightarrow> (case map_of psects name of
       None \<Rightarrow> psects
     | Some st \<Rightarrow> AList.update name (st\<lparr>ps_pc := pc\<rparr>) psects))"

definition div_ceil :: "u32 \<Rightarrow> u32 \<Rightarrow> u32" where
  "div_ceil a b = a div b + (if a mod b = 0 then 0 else 1)"

section \<open>Pass 1\<close>

definition encoded_size ::
  "asm_instruction \<Rightarrow> u32 \<Rightarrow> symbol_table option \<Rightarrow> ('e, u32) outcome" where
  "encoded_size inst pc prior_symbols = (case prior_symbols of
     None \<Rightarrow> instruction_size inst
   | Some syms \<Rightarrow> (case encode inst pc syms of
       Ok enc \<Rightarrow> Ok (if word1 enc \<noteq> None then 2 else 1)
     | Err _ \<Rightarrow> instruction_size inst
     | Panic \<Rightarrow> Panic))"

record pass1_state =
  p1_symbols :: symbol_table
  p1_pc :: u32
  p1_psects :: psect_map
  p1_current :: "string option"

definition p1_init :: pass1_state where
  "p1_init = \<lparr>p1_symbols = [], p1_pc = 0, p1_psects = [], p1_current = None\<rparr>"

definition statement_label :: "statement \<Rightarrow> string option" where
  "statement_label stmt = (case stmt of
     S_Instruction label _ \<Rightarrow> label
   | S_Directive label _ \<Rightarrow> label
   | S_Label name \<Rightarrow> Some name
   | S_Empty \<Rightarrow> None)"

definition p1_define_label :: "statement \<Rightarrow> pass1_state \<Rightarrow> pass1_state" where
  "p1_define_label stmt st = (case statement_label stmt of
     Some name \<Rightarrow> st\<lparr>p1_symbols := AList.update name (ucast (p1_pc st)) (p1_symbols st)\<rparr>
   | None \<Rightarrow> st)"

definition p1_psect ::
  "string \<Rightarrow> (ast_space \<times> expr \<times> expr) option \<Rightarrow> nat \<Rightarrow> pass1_state
   \<Rightarrow> (assemble_error, pass1_state) outcome" where
  "p1_psect name bounds line st0 =
    (let st = st0\<lparr>p1_psects := save_psect (p1_psects st0) (p1_current st0) (p1_pc st0)\<rparr>
     in case bounds of
       Some (space, start, _) \<Rightarrow>
         and_then (eval_at start (p1_symbols st) (p1_pc st) line) (\<lambda>v.
         Ok (st\<lparr>p1_psects := AList.update name \<lparr>ps_space = space, ps_pc = v\<rparr> (p1_psects st),
                p1_pc := v, p1_current := Some name\<rparr>))
     | None \<Rightarrow>
         Ok (st\<lparr>p1_pc := (case map_of (p1_psects st) name of Some s \<Rightarrow> ps_pc s | None \<Rightarrow> p1_pc st),
                p1_current := Some name\<rparr>))"

fun p1_directive ::
  "directive \<Rightarrow> nat \<Rightarrow> pass1_state \<Rightarrow> (assemble_error, pass1_state) outcome" where
  "p1_directive (D_Org space addr) line st =
     and_then (eval_at addr (p1_symbols st) (p1_pc st) line) (\<lambda>v. Ok (st\<lparr>p1_pc := v\<rparr>))"
| "p1_directive (D_Dc values) line st = Ok (st\<lparr>p1_pc := p1_pc st + word_of_nat (length values)\<rparr>)"
| "p1_directive (D_Ds n_expr) line st =
     and_then (eval_at n_expr (p1_symbols st) (p1_pc st) line) (\<lambda>n.
     if 0xFFFFFF < n then Err (line, Ds_range) else Ok (st\<lparr>p1_pc := p1_pc st + n\<rparr>))"
| "p1_directive (D_Equ name value) line st =
     and_then (eval_at value (p1_symbols st) (p1_pc st) line) (\<lambda>v.
     Ok (st\<lparr>p1_symbols := AList.update name (ucast v) (p1_symbols st)\<rparr>))"
| "p1_directive (D_Psect name bounds) line st = p1_psect name bounds line st"
| "p1_directive (D_Align alignment) line st =
     and_then (eval_at alignment (p1_symbols st) (p1_pc st) line) (\<lambda>n.
     Ok (if 0 < n then st\<lparr>p1_pc := div_ceil (p1_pc st) n * n\<rparr> else st))"
| "p1_directive D_End line st = Ok st"
| "p1_directive (D_Section _) line st = Ok st"
| "p1_directive D_EndSec line st = Ok st"
| "p1_directive (D_Xref _) line st = Ok st"
| "p1_directive (D_Xdef _) line st = Ok st"
| "p1_directive (D_Include _) line st = Ok st"

fun is_end :: "statement \<Rightarrow> bool" where
  "is_end (S_Directive _ D_End) = True"
| "is_end _ = False"

definition p1_statement ::
  "symbol_table option \<Rightarrow> nat \<Rightarrow> statement \<Rightarrow> pass1_state \<Rightarrow> (assemble_error, pass1_state) outcome"
where
  "p1_statement prior line stmt st0 =
    (let st = p1_define_label stmt st0
     in case stmt of
       S_Empty \<Rightarrow> Ok st
     | S_Label _ \<Rightarrow> Ok st
     | S_Directive _ dir \<Rightarrow> p1_directive dir line st
     | S_Instruction _ inst \<Rightarrow>
         and_then (encoded_size inst (p1_pc st) prior) (\<lambda>n. Ok (st\<lparr>p1_pc := p1_pc st + n\<rparr>)))"

text \<open>The loop over the statements; \<^verbatim>\<open>end\<close> leaves it.\<close>

fun p1_loop ::
  "symbol_table option \<Rightarrow> nat \<Rightarrow> program \<Rightarrow> pass1_state \<Rightarrow> (assemble_error, pass1_state) outcome" where
  "p1_loop prior line [] st = Ok st"
| "p1_loop prior line (stmt # rest) st =
     and_then (p1_statement prior line stmt st) (\<lambda>st'.
     if is_end stmt then Ok st' else p1_loop prior (Suc line) rest st')"

definition resolve_symbols_once ::
  "program \<Rightarrow> symbol_table option \<Rightarrow> (assemble_error, symbol_table) outcome" where
  "resolve_symbols_once prog prior_symbols =
    and_then (p1_loop prior_symbols 1 prog p1_init) (\<lambda>st. Ok (p1_symbols st))"

text \<open>At most \<open>n\<close> rounds of refinement; \<^verbatim>\<open>resolve_symbols\<close> makes ten.\<close>

fun refine_symbols ::
  "nat \<Rightarrow> program \<Rightarrow> symbol_table \<Rightarrow> (assemble_error, symbol_table) outcome" where
  "refine_symbols 0 prog symbols = Ok symbols"
| "refine_symbols (Suc n) prog symbols =
     and_then (resolve_symbols_once prog (Some symbols)) (\<lambda>refined.
     if hm_eq refined symbols then Ok symbols else refine_symbols n prog refined)"

definition resolve_symbols :: "program \<Rightarrow> (assemble_error, symbol_table) outcome" where
  "resolve_symbols prog =
    and_then (resolve_symbols_once prog None) (refine_symbols 10 prog)"

section \<open>Pass 2\<close>

record segment =
  seg_space :: ast_space
  seg_org :: u32
  seg_words :: "u32 list"

record listing_line =
  ll_space :: ast_space
  ll_addr :: u32
  ll_words :: "u32 list"

text \<open>A warning is its line and kind; the message text is left out.\<close>

type_synonym warning = "nat \<times> warning_kind"

record pass2_state =
  p2_segments :: "segment list"
  p2_warnings :: "warning list"
  p2_space :: ast_space
  p2_pc :: u32
  p2_words :: "u32 list"
  p2_org :: u32
  p2_psects :: psect_map
  p2_psect_words :: "(string \<times> u32 \<times> u32 list) list"
  p2_current :: "string option"

definition p2_init :: pass2_state where
  "p2_init = \<lparr>p2_segments = [], p2_warnings = [], p2_space = Sp_P, p2_pc = 0, p2_words = [],
     p2_org = 0, p2_psects = [], p2_psect_words = [], p2_current = None\<rparr>"

definition p2_flush :: "pass2_state \<Rightarrow> pass2_state" where
  "p2_flush st =
    (if p2_words st = [] then st
     else st\<lparr>p2_segments := p2_segments st @
         [\<lparr>seg_space = p2_space st, seg_org = p2_org st, seg_words = p2_words st\<rparr>],
       p2_words := []\<rparr>)"

definition p2_emit :: "u32 list \<Rightarrow> pass2_state \<Rightarrow> pass2_state" where
  "p2_emit ws st = st\<lparr>p2_words := p2_words st @ ws, p2_pc := p2_pc st + word_of_nat (length ws)\<rparr>"

definition p2_listing :: "pass2_state \<Rightarrow> u32 list \<Rightarrow> listing_line option" where
  "p2_listing st ws = Some \<lparr>ll_space = p2_space st, ll_addr = p2_pc st, ll_words = ws\<rparr>"

text \<open>The values of a \<^verbatim>\<open>dc\<close>, each evaluated at its own address.\<close>

fun dc_words ::
  "expr list \<Rightarrow> symbol_table \<Rightarrow> u32 \<Rightarrow> nat \<Rightarrow> (assemble_error, u32 list) outcome" where
  "dc_words [] syms pc line = Ok []"
| "dc_words (e # es) syms pc line =
     and_then (eval_at e syms pc line) (\<lambda>v.
     and_then (dc_words es syms (pc + 1) line) (\<lambda>ws. Ok ((v AND 0xFFFFFF) # ws)))"

definition p2_leave_psect :: "pass2_state \<Rightarrow> pass2_state" where
  "p2_leave_psect st = (case p2_current st of
     Some cur \<Rightarrow> st\<lparr>p2_psects := save_psect (p2_psects st) (Some cur) (p2_pc st),
       p2_psect_words := AList.update cur (p2_org st, p2_words st) (p2_psect_words st),
       p2_words := []\<rparr>
   | None \<Rightarrow> p2_flush st)"

definition p2_psect ::
  "string \<Rightarrow> (ast_space \<times> expr \<times> expr) option \<Rightarrow> symbol_table \<Rightarrow> nat \<Rightarrow> pass2_state
   \<Rightarrow> (assemble_error, pass2_state) outcome" where
  "p2_psect name bounds syms line st0 =
    (let st = p2_leave_psect st0
     in case bounds of
       Some (space, start, _) \<Rightarrow>
         and_then (eval_at start syms (p2_pc st) line) (\<lambda>v.
         Ok (st\<lparr>p2_psects := AList.update name \<lparr>ps_space = space, ps_pc = v\<rparr> (p2_psects st),
                p2_space := space, p2_pc := v, p2_org := v, p2_current := Some name\<rparr>))
     | None \<Rightarrow> (case map_of (p2_psects st) name of
         None \<Rightarrow> Ok (st\<lparr>p2_current := Some name\<rparr>)
       | Some s \<Rightarrow> (case map_of (p2_psect_words st) name of
           Some (org, ws) \<Rightarrow>
             Ok (st\<lparr>p2_space := ps_space s, p2_pc := ps_pc s, p2_org := org, p2_words := ws,
                    p2_psect_words := AList.delete name (p2_psect_words st), p2_current := Some name\<rparr>)
         | None \<Rightarrow>
             Ok (st\<lparr>p2_space := ps_space s, p2_pc := ps_pc s, p2_org := ps_pc s,
                    p2_current := Some name\<rparr>))))"

type_synonym p2_result = "(assemble_error, pass2_state \<times> listing_line option) outcome"

fun p2_directive :: "directive \<Rightarrow> symbol_table \<Rightarrow> nat \<Rightarrow> pass2_state \<Rightarrow> p2_result" where
  "p2_directive (D_Org space addr) syms line st =
     (let st' = (p2_flush st)\<lparr>p2_space := space\<rparr>
      in and_then (eval_at addr syms (p2_pc st') line) (\<lambda>v.
         let st'' = st'\<lparr>p2_pc := v, p2_org := v\<rparr> in Ok (st'', p2_listing st'' [])))"
| "p2_directive (D_Dc values) syms line st =
     and_then (dc_words values syms (p2_pc st) line) (\<lambda>ws. Ok (p2_emit ws st, p2_listing st ws))"
| "p2_directive (D_Ds n_expr) syms line st =
     and_then (eval_at n_expr syms (p2_pc st) line) (\<lambda>n.
     if 0xFFFFFF < n then Err (line, Ds_range)
     else Ok (st\<lparr>p2_words := p2_words st @ replicate (unat n) 0, p2_pc := p2_pc st + n\<rparr>,
              p2_listing st []))"
| "p2_directive (D_Psect name bounds) syms line st =
     and_then (p2_psect name bounds syms line st) (\<lambda>st'. Ok (st', None))"
| "p2_directive (D_Align alignment) syms line st =
     and_then (eval_at alignment syms (p2_pc st) line) (\<lambda>n.
     if 0 < n then
       (let aligned = div_ceil (p2_pc st) n * n
        in if aligned \<noteq> p2_pc st
           then Ok ((p2_flush st)\<lparr>p2_pc := aligned, p2_org := aligned\<rparr>, None)
           else Ok (st, None))
     else Ok (st, None))"
| "p2_directive D_End syms line st = Ok (st, None)"
| "p2_directive (D_Equ _ _) syms line st = Ok (st, None)"
| "p2_directive (D_Section _) syms line st = Ok (st, None)"
| "p2_directive D_EndSec syms line st = Ok (st, None)"
| "p2_directive (D_Xref _) syms line st = Ok (st, None)"
| "p2_directive (D_Xdef _) syms line st = Ok (st, None)"
| "p2_directive (D_Include _) syms line st = Ok (st, None)"

definition vector_warnings :: "asm_instruction \<Rightarrow> nat \<Rightarrow> pass2_state \<Rightarrow> warning_kind list" where
  "vector_warnings inst inst_len st =
    (if p2_space st = Sp_P \<and> p2_pc st < 0x100 then
       (if inst_len = 2 \<and> p2_pc st AND 1 \<noteq> 0 then [InstructionInInterruptVector] else [])
       @ (if is_prohibited_in_interrupt_vector inst then [InstructionInInterruptVector] else [])
     else [])"

definition p2_instruction ::
  "asm_instruction \<Rightarrow> symbol_table \<Rightarrow> nat \<Rightarrow> pass2_state \<Rightarrow> p2_result" where
  "p2_instruction inst syms line st =
    and_then (check_warnings inst) (\<lambda>kinds.
    and_then (map_err (Pair line) (encode inst (p2_pc st) syms)) (\<lambda>enc.
    let ws = word0 enc # (case word1 enc of Some w1 \<Rightarrow> [w1] | None \<Rightarrow> []);
        warned = st\<lparr>p2_warnings := p2_warnings st @
          map (Pair line) (kinds @ vector_warnings inst (length ws) st)\<rparr>
    in Ok (p2_emit ws warned, p2_listing st ws)))"

definition p2_statement :: "symbol_table \<Rightarrow> nat \<Rightarrow> statement \<Rightarrow> pass2_state \<Rightarrow> p2_result" where
  "p2_statement syms line stmt st = (case stmt of
     S_Empty \<Rightarrow> Ok (st, None)
   | S_Label _ \<Rightarrow> Ok (st, None)
   | S_Directive _ dir \<Rightarrow> p2_directive dir syms line st
   | S_Instruction _ inst \<Rightarrow> p2_instruction inst syms line st)"

text \<open>The loop returns the listing of the statements it reached.\<close>

fun p2_loop ::
  "symbol_table \<Rightarrow> nat \<Rightarrow> program \<Rightarrow> pass2_state
   \<Rightarrow> (assemble_error, pass2_state \<times> listing_line option list) outcome" where
  "p2_loop syms line [] st = Ok (st, [])"
| "p2_loop syms line (stmt # rest) st =
     and_then (p2_statement syms line stmt st) (\<lambda>(st', l).
     if is_end stmt then Ok (st', replicate (Suc (length rest)) None)
     else and_then (p2_loop syms (Suc line) rest st') (\<lambda>(st'', ls). Ok (st'', l # ls)))"

record assemble_result =
  ar_segments :: "segment list"
  ar_warnings :: "warning list"
  ar_symbols :: symbol_table
  ar_listing :: "listing_line option list"

text \<open>The words of the psects left, in the order \<open>iter\<close> in which the hash map yields them.\<close>

definition psect_segments ::
  "((string \<times> u32 \<times> u32 list) list \<Rightarrow> (string \<times> u32 \<times> u32 list) list) \<Rightarrow> pass2_state \<Rightarrow> segment list"
where
  "psect_segments iter st =
    List.map_filter (\<lambda>(name, org, ws). if ws = [] then None
      else map_option (\<lambda>s. \<lparr>seg_space = ps_space s, seg_org = org, seg_words = ws\<rparr>)
        (map_of (p2_psects st) name)) (iter (p2_psect_words st))"

definition emit_segments ::
  "((string \<times> u32 \<times> u32 list) list \<Rightarrow> (string \<times> u32 \<times> u32 list) list) \<Rightarrow> program \<Rightarrow> symbol_table
   \<Rightarrow> (assemble_error, assemble_result) outcome" where
  "emit_segments iter prog syms =
    and_then (p2_loop syms 1 prog p2_init) (\<lambda>(st0, listing).
    let st = p2_flush st0
    in Ok \<lparr>ar_segments = p2_segments st @ psect_segments iter st, ar_warnings = p2_warnings st,
           ar_symbols = syms, ar_listing = listing\<rparr>)"

text \<open>\<^verbatim>\<open>assemble\<close> after parsing and the expansion of includes.\<close>

definition assemble_program ::
  "((string \<times> u32 \<times> u32 list) list \<Rightarrow> (string \<times> u32 \<times> u32 list) list) \<Rightarrow> program
   \<Rightarrow> (assemble_error, assemble_result) outcome" where
  "assemble_program iter prog =
    and_then (resolve_symbols prog) (\<lambda>syms. emit_segments iter prog syms)"

end
