(* ===== verification/Asm_Layout.thy ===== *)
theory Asm_Layout
  imports Asm_Program
begin

text \<open>
  The two passes of the assembler agree: evaluation only grows with the symbol table, pass 1 on a
  stable symbol table walks through the program with the program counters of pass 2, and so
  every label is the address its line is emitted at.
\<close>

section \<open>Maps and evaluation\<close>

lemma hm_eq_iff: "hm_eq a b \<longleftrightarrow> map_of a = map_of b"
proof
  assume h: "hm_eq a b"
  show "map_of a = map_of b"
  proof
    fix k
    show "map_of a k = map_of b k"
    proof (cases "k \<in> set (map fst a @ map fst b)")
      case True
      with h show ?thesis by (simp only: hm_eq_def list_all_iff)
    next
      case False
      then show ?thesis by (simp add: map_of_eq_None_iff [THEN iffD2])
    qed
  qed
qed (simp add: hm_eq_def list_all_iff)

lemma eval_mono:
  "eval e s pc = Ok v \<Longrightarrow> map_of s \<subseteq>\<^sub>m map_of t \<Longrightarrow> eval e t pc = Ok v"
proof (induction e arbitrary: v)
  case (E_Symbol name)
  then show ?case by (auto simp: map_le_def dom_def split: option.splits)
next
  case (E_BinOp op l r)
  from E_BinOp.prems(1) obtain x y where xy: "eval l s pc = Ok x" "eval r s pc = Ok y"
      "eval_binop op (ucast x) (ucast y) = Ok v" by auto
  show ?case
    by (simp only: eval.simps E_BinOp.IH(1) [OF xy(1) E_BinOp.prems(2)]
        E_BinOp.IH(2) [OF xy(2) E_BinOp.prems(2)] and_then.simps xy(3))
next
  case (E_UnaryOp op e)
  from E_UnaryOp.prems(1) obtain x where x: "eval e s pc = Ok x" "v = ucast (const_unop op (ucast x))"
    by auto
  show ?case
    by (simp only: eval.simps E_UnaryOp.IH [OF x(1) E_UnaryOp.prems(2)] and_then.simps x(2))
qed simp_all

lemma eval_at_mono:
  "eval_at e s pc line = Ok v \<Longrightarrow> map_of s \<subseteq>\<^sub>m map_of t \<Longrightarrow> eval_at e t pc line = Ok v"
  unfolding eval_at_def map_err_eq_Ok by (rule eval_mono)

lemma map_of_const: "map_of (map (\<lambda>n. (n, v)) xs) = (\<lambda>k. if k \<in> set xs then Some v else None)"
  by (induction xs) auto

section \<open>What a program defines\<close>

definition equ_names :: "statement \<Rightarrow> string list" where
  "equ_names stmt = (case stmt of S_Directive _ (D_Equ name _) \<Rightarrow> [name] | _ \<Rightarrow> [])"

definition defined_names :: "statement \<Rightarrow> string list" where
  "defined_names stmt = (case statement_label stmt of Some l \<Rightarrow> [l] | None \<Rightarrow> []) @ equ_names stmt"

lemma p1_define_label_frame [simp]:
  "p1_pc (p1_define_label stmt st) = p1_pc st"
  "p1_psects (p1_define_label stmt st) = p1_psects st"
  "p1_current (p1_define_label stmt st) = p1_current st"
  by (simp_all add: p1_define_label_def split: option.split)

lemma p1_psect_symbols: "p1_psect name bounds line st = Ok st' \<Longrightarrow> p1_symbols st' = p1_symbols st"
  by (auto simp: p1_psect_def Let_def split: option.splits)

lemma p1_directive_symbols:
  assumes "p1_directive dir line st = Ok st'"
  shows "\<exists>v. map_of (p1_symbols st') = map_of (p1_symbols st) ++ map_of (map (\<lambda>n. (n, v)) (equ_names (S_Directive l dir)))"
  using assms by (cases dir) (auto simp: equ_names_def update_conv' p1_psect_symbols split: if_splits)

lemma p1_statement_symbols:
  assumes "p1_statement prior line stmt st = Ok st'"
  shows "\<exists>v. map_of (p1_symbols st') =
    map_of (p1_symbols (p1_define_label stmt st)) ++ map_of (map (\<lambda>n. (n, v)) (equ_names stmt))"
proof (cases stmt)
  case (S_Directive l dir)
  then show ?thesis
    using assms p1_directive_symbols [of dir line "p1_define_label stmt st" st' l]
    by (simp add: p1_statement_def Let_def)
qed (use assms in \<open>auto simp: p1_statement_def Let_def equ_names_def\<close>)

lemma p1_statement_grows:
  assumes "p1_statement prior line stmt st = Ok st'"
    and "distinct (defined_names stmt)" "set (defined_names stmt) \<inter> dom (map_of (p1_symbols st)) = {}"
  shows "map_of (p1_symbols st) \<subseteq>\<^sub>m map_of (p1_symbols (p1_define_label stmt st))"
    "map_of (p1_symbols (p1_define_label stmt st)) \<subseteq>\<^sub>m map_of (p1_symbols st')"
    "dom (map_of (p1_symbols st')) = dom (map_of (p1_symbols st)) \<union> set (defined_names stmt)"
proof -
  obtain v where v: "map_of (p1_symbols st') =
      map_of (p1_symbols (p1_define_label stmt st)) ++ map_of (map (\<lambda>n. (n, v)) (equ_names stmt))"
    using p1_statement_symbols [OF assms(1)] by blast
  have d: "map_of (p1_symbols (p1_define_label stmt st)) = (case statement_label stmt of
      Some l \<Rightarrow> (map_of (p1_symbols st))(l \<mapsto> ucast (p1_pc st)) | None \<Rightarrow> map_of (p1_symbols st))"
    by (simp add: p1_define_label_def update_conv' split: option.split)
  show "map_of (p1_symbols st) \<subseteq>\<^sub>m map_of (p1_symbols (p1_define_label stmt st))"
    unfolding d using assms(3) by (auto simp: defined_names_def map_le_def split: option.splits)
  show "map_of (p1_symbols (p1_define_label stmt st)) \<subseteq>\<^sub>m map_of (p1_symbols st')"
    unfolding v d map_of_const using assms(2,3)
    by (auto simp: defined_names_def map_le_def map_add_def split: option.splits)
  show "dom (map_of (p1_symbols st')) = dom (map_of (p1_symbols st)) \<union> set (defined_names stmt)"
    unfolding v d map_of_const
    by (auto simp: defined_names_def map_add_def dom_def split: option.splits if_splits)
qed

lemma p1_loop_grows:
  assumes "p1_loop prior line prog st = Ok st'"
    and "distinct (concat (map defined_names prog))"
    and "set (concat (map defined_names prog)) \<inter> dom (map_of (p1_symbols st)) = {}"
  shows "map_of (p1_symbols st) \<subseteq>\<^sub>m map_of (p1_symbols st')"
  using assms
proof (induction prior line prog st rule: p1_loop.induct)
  case (2 prior line stmt rest st)
  obtain st1 where st1: "p1_statement prior line stmt st = Ok st1"
    and rest: "(if is_end stmt then Ok st1 else p1_loop prior (Suc line) rest st1) = Ok st'"
    using "2.prems"(1) by auto
  have fresh: "distinct (defined_names stmt)" "set (defined_names stmt) \<inter> dom (map_of (p1_symbols st)) = {}"
    using "2.prems"(2,3) by auto
  note g = p1_statement_grows [OF st1 fresh]
  have "map_of (p1_symbols st1) \<subseteq>\<^sub>m map_of (p1_symbols st')"
  proof (cases "is_end stmt")
    case False
    with rest have loop: "p1_loop prior (Suc line) rest st1 = Ok st'" by simp
    show ?thesis
      by (rule "2.IH" [OF False loop]) (use "2.prems"(2,3) g(3) in auto)
  qed (use rest in simp)
  then show ?case using g(1,2) map_le_trans by blast
qed simp

section \<open>The passes in step\<close>

definition in_step :: "pass1_state \<Rightarrow> pass2_state \<Rightarrow> bool" where
  "in_step a b \<longleftrightarrow> p1_pc a = p2_pc b \<and> p1_psects a = p2_psects b \<and> p1_current a = p2_current b"

lemma p2_flush_frame [simp]:
  "p2_pc (p2_flush st) = p2_pc st" "p2_psects (p2_flush st) = p2_psects st"
  "p2_current (p2_flush st) = p2_current st" "p2_space (p2_flush st) = p2_space st"
  "p2_psect_words (p2_flush st) = p2_psect_words st"
  by (simp_all add: p2_flush_def)

lemma p2_leave_psect_frame [simp]:
  "p2_pc (p2_leave_psect st) = p2_pc st" "p2_current (p2_leave_psect st) = p2_current st"
  "p2_psects (p2_leave_psect st) = save_psect (p2_psects st) (p2_current st) (p2_pc st)"
  by (simp_all add: p2_leave_psect_def save_psect_def split: option.split)

lemma psect_in_step:
  assumes "p1_psect name bounds line a = Ok a'" "p2_psect name bounds syms line b = Ok b'"
    and "in_step a b" "map_of (p1_symbols a) \<subseteq>\<^sub>m map_of syms"
  shows "in_step a' b'"
proof (cases bounds)
  case None
  then show ?thesis using assms
    by (auto simp: p1_psect_def p2_psect_def Let_def in_step_def split: option.splits)
next
  case (Some r)
  obtain space start e where r: "r = (space, start, e)" by (cases r)
  from assms(1) obtain v where v: "eval_at start (p1_symbols a) (p1_pc a) line = Ok v"
    by (auto simp: p1_psect_def Let_def Some r)
  note eval_at_mono [OF v assms(4)]
  then show ?thesis using assms(1-3) v
    by (auto simp: p1_psect_def p2_psect_def Let_def in_step_def Some r)
qed

fun is_org :: "statement \<Rightarrow> bool" where
  "is_org (S_Directive _ (D_Org _ _)) = True"
| "is_org _ = False"

lemma dc_words_length: "dc_words es syms pc line = Ok ws \<Longrightarrow> length ws = length es"
  by (induction es arbitrary: pc ws) auto

lemma directive_in_step:
  assumes "p1_directive dir line a = Ok a'" "p2_directive dir syms line b = Ok (b', l)"
    and "in_step a b" "map_of (p1_symbols a) \<subseteq>\<^sub>m map_of syms"
  shows "in_step a' b'" and "\<not> is_org (S_Directive lab dir) \<Longrightarrow> l = Some ll \<Longrightarrow> ll_addr ll = p1_pc a"
proof -
  have M: "eval_at e syms (p2_pc b) line = Ok v" if "eval_at e (p1_symbols a) (p1_pc a) line = Ok v" for e v
    using eval_at_mono [OF that assms(4)] assms(3) by (simp add: in_step_def)
  show "in_step a' b'"
  proof (cases dir)
    case (D_Psect name bounds)
    then show ?thesis using assms(1,2) psect_in_step [OF _ _ assms(3,4)] by auto
  next
    case (D_Align e)
    with assms(1,2) obtain v w where v: "eval_at e (p1_symbols a) (p1_pc a) line = Ok v"
      "a' = (if 0 < v then a\<lparr>p1_pc := div_ceil (p1_pc a) v * v\<rparr> else a)"
      "eval_at e syms (p2_pc b) line = Ok w" by auto
    with M [of e v] assms(3) have "w = v" by (simp add: in_step_def)
    with v assms(2,3) D_Align show ?thesis
      by (auto simp: in_step_def Let_def split: if_splits)
  qed (use assms(1-3) M in \<open>auto simp: in_step_def Let_def p2_emit_def dc_words_length
      split: if_splits dest!: M\<close>)
  show "ll_addr ll = p1_pc a" if "\<not> is_org (S_Directive lab dir)" "l = Some ll"
    using that assms(2,3)
    by (cases dir) (auto simp: in_step_def p2_listing_def Let_def split: if_splits)
qed

lemma instruction_in_step:
  assumes "p2_instruction inst syms line b = Ok (b', l)" "encoded_size inst (p2_pc b) (Some syms) = Ok n"
  shows "p2_pc b' = p2_pc b + n" "p2_psects b' = p2_psects b" "p2_current b' = p2_current b"
    "l = Some ll \<Longrightarrow> ll_addr ll = p2_pc b"
  using assms
  by (auto simp: p2_instruction_def encoded_size_def p2_emit_def p2_listing_def Let_def split: option.splits)

lemma statement_in_step:
  assumes "p1_statement (Some syms) line stmt a = Ok a'" "p2_statement syms line stmt b = Ok (b', l)"
    and "in_step a b" "map_of (p1_symbols (p1_define_label stmt a)) \<subseteq>\<^sub>m map_of syms"
  shows "in_step a' b'" and "\<not> is_org stmt \<Longrightarrow> l = Some ll \<Longrightarrow> ll_addr ll = p1_pc a"
proof -
  have s: "in_step (p1_define_label stmt a) b" using assms(3) by (simp add: in_step_def)
  show "in_step a' b'"
  proof (cases stmt)
    case (S_Directive lab dir)
    then show ?thesis
      using assms(1,2) directive_in_step(1) [OF _ _ s assms(4)]
      by (simp add: p1_statement_def p2_statement_def Let_def)
  next
    case (S_Instruction lab inst)
    then show ?thesis
      using assms(1,2) s instruction_in_step(1-3)
      by (fastforce simp: p1_statement_def p2_statement_def Let_def in_step_def)
  qed (use assms(1,2) s in \<open>auto simp: p1_statement_def p2_statement_def Let_def in_step_def\<close>)
  show "ll_addr ll = p1_pc a" if "\<not> is_org stmt" "l = Some ll"
  proof (cases stmt)
    case (S_Directive lab dir)
    then show ?thesis
      using assms(1,2) that directive_in_step(2) [OF _ _ s assms(4), of dir line a' b' l lab ll]
      by (auto simp: p1_statement_def p2_statement_def Let_def)
  next
    case (S_Instruction lab inst)
    then show ?thesis
      using assms(1,2) s that instruction_in_step(4) [of inst syms line b b' l _ ll]
      by (auto simp: p1_statement_def p2_statement_def Let_def in_step_def)
  qed (use assms(2) that in \<open>auto simp: p2_statement_def\<close>)
qed

text \<open>Lines that emit nothing: a label there names the address of the next line.\<close>

fun is_blank :: "statement \<Rightarrow> bool" where
  "is_blank S_Empty = True"
| "is_blank (S_Label _) = True"
| "is_blank _ = False"

definition names_line :: "program \<Rightarrow> nat \<Rightarrow> string \<Rightarrow> bool" where
  "names_line prog k l \<longleftrightarrow>
     (\<exists>j\<le>k. list_all is_blank (take (k - j) (drop j prog)) \<and> statement_label (prog ! j) = Some l)"

lemma names_line_Cons:
  "names_line (stmt # rest) (Suc k) l \<longleftrightarrow>
     names_line rest k l \<or> (list_all is_blank (take (Suc k) (stmt # rest)) \<and> statement_label stmt = Some l)"
proof
  assume "names_line (stmt # rest) (Suc k) l"
  then obtain j where j: "j \<le> Suc k" "list_all is_blank (take (Suc k - j) (drop j (stmt # rest)))"
    "statement_label ((stmt # rest) ! j) = Some l" by (auto simp: names_line_def)
  then show "names_line rest k l \<or>
      (list_all is_blank (take (Suc k) (stmt # rest)) \<and> statement_label stmt = Some l)"
    by (cases j) (auto simp: names_line_def)
next
  assume "names_line rest k l \<or>
      (list_all is_blank (take (Suc k) (stmt # rest)) \<and> statement_label stmt = Some l)"
  then show "names_line (stmt # rest) (Suc k) l"
  proof
    assume "names_line rest k l"
    then obtain j where "j \<le> k" "list_all is_blank (take (k - j) (drop j rest))"
      "statement_label (rest ! j) = Some l" by (auto simp: names_line_def)
    then show ?thesis unfolding names_line_def by (intro exI [of _ "Suc j"]) simp
  next
    assume "list_all is_blank (take (Suc k) (stmt # rest)) \<and> statement_label stmt = Some l"
    then show ?thesis unfolding names_line_def by (intro exI [of _ 0]) simp
  qed
qed

lemma names_line_0: "names_line (stmt # rest) 0 l \<longleftrightarrow> statement_label stmt = Some l"
  by (simp add: names_line_def)

lemma define_label_binds:
  "statement_label stmt = Some l \<Longrightarrow> map_of (p1_symbols (p1_define_label stmt st)) l = Some (ucast (p1_pc st))"
  by (simp add: p1_define_label_def update_conv')

lemma blank_step:
  "is_blank stmt \<Longrightarrow> p1_statement prior line stmt st = Ok st' \<Longrightarrow> p1_pc st' = p1_pc st"
  by (cases stmt) (auto simp: p1_statement_def Let_def)

text \<open>
  The walk. \<open>N\<close> are the names already bound to the current address by the blank lines before.
\<close>

lemma loop_in_step:
  assumes "p1_loop (Some syms) line prog a = Ok a'" "p2_loop syms line prog b = Ok (b', ls)"
    and "in_step a b" "map_of (p1_symbols a') \<subseteq>\<^sub>m map_of syms"
    and "distinct (concat (map defined_names prog))"
    and "set (concat (map defined_names prog)) \<inter> dom (map_of (p1_symbols a)) = {}"
    and "\<forall>l\<in>N. map_of (p1_symbols a) l = Some (ucast (p1_pc a))"
    and "k < length ls" "ls ! k = Some e" "\<not> is_org (prog ! k)"
    and "names_line prog k l \<or> list_all is_blank (take k prog) \<and> l \<in> N"
  shows "map_of syms l = Some (ucast (ll_addr e))"
  using assms
proof (induction prog arbitrary: line a b ls k N)
  case (Cons stmt rest)
  obtain a1 where a1: "p1_statement (Some syms) line stmt a = Ok a1"
    and arest: "(if is_end stmt then Ok a1 else p1_loop (Some syms) (Suc line) rest a1) = Ok a'"
    using Cons.prems(1) by auto
  obtain b1 x where b1: "p2_statement syms line stmt b = Ok (b1, x)"
    and brest: "(if is_end stmt then Ok (b1, replicate (Suc (length rest)) None)
      else and_then (p2_loop syms (Suc line) rest b1) (\<lambda>(st'', ls). Ok (st'', x # ls))) = Ok (b', ls)"
    using Cons.prems(2) by auto
  have ne: "\<not> is_end stmt"
    using brest Cons.prems(8,9) by (auto simp: nth_Cons' split: if_splits)
  with brest obtain ls' where ls: "ls = x # ls'" and bl: "p2_loop syms (Suc line) rest b1 = Ok (b', ls')"
    by auto
  from ne arest have al: "p1_loop (Some syms) (Suc line) rest a1 = Ok a'" by simp
  have fresh: "distinct (defined_names stmt)" "set (defined_names stmt) \<inter> dom (map_of (p1_symbols a)) = {}"
    using Cons.prems(5,6) by auto
  note g = p1_statement_grows [OF a1 fresh]
  have fresh': "distinct (concat (map defined_names rest))"
    "set (concat (map defined_names rest)) \<inter> dom (map_of (p1_symbols a1)) = {}"
    using Cons.prems(5,6) g(3) by auto
  have up: "map_of (p1_symbols a1) \<subseteq>\<^sub>m map_of syms"
    using p1_loop_grows [OF al fresh'] Cons.prems(4) map_le_trans by blast
  then have dl: "map_of (p1_symbols (p1_define_label stmt a)) \<subseteq>\<^sub>m map_of syms"
    using g(2) map_le_trans by blast
  note S = statement_in_step [OF a1 b1 Cons.prems(3) dl]
  have bound: "map_of syms m = Some (ucast (p1_pc a))"
    if "m \<in> N \<or> statement_label stmt = Some m" for m
  proof -
    have "map_of (p1_symbols (p1_define_label stmt a)) m = Some (ucast (p1_pc a))"
      using that define_label_binds [of stmt m a] Cons.prems(7) g(1)
      by (auto simp: map_le_def dom_def)
    then show ?thesis using dl by (auto simp: map_le_def dom_def)
  qed
  show ?case
  proof (cases k)
    case 0
    then have "ll_addr e = p1_pc a" using S(2) [of e] Cons.prems(9,10) ls by simp
    then show ?thesis using bound [of l] Cons.prems(11) 0 by (auto simp: names_line_0)
  next
    case (Suc k')
    define N' where "N' = (if is_blank stmt then {m. m \<in> N \<or> statement_label stmt = Some m} else {})"
    have N': "\<forall>m\<in>N'. map_of (p1_symbols a1) m = Some (ucast (p1_pc a1))"
    proof
      fix m assume m: "m \<in> N'"
      then have b: "is_blank stmt" and mm: "m \<in> N \<or> statement_label stmt = Some m"
        by (auto simp: N'_def split: if_splits)
      have "map_of (p1_symbols (p1_define_label stmt a)) m = Some (ucast (p1_pc a))"
        using mm define_label_binds [of stmt m a] Cons.prems(7) g(1) by (auto simp: map_le_def dom_def)
      then show "map_of (p1_symbols a1) m = Some (ucast (p1_pc a1))"
        using g(2) blank_step [OF b a1] by (auto simp: map_le_def dom_def)
    qed
    have "names_line rest k' l \<or> list_all is_blank (take k' rest) \<and> l \<in> N'"
      using Cons.prems(11) by (auto simp: Suc names_line_Cons N'_def)
    then show ?thesis
      using Cons.IH [OF al bl S(1) Cons.prems(4) fresh' N', of k'] Cons.prems(8-10) by (simp add: Suc ls)
  qed
qed simp

section \<open>Stable symbol tables\<close>

definition symbols_stable :: "program \<Rightarrow> symbol_table \<Rightarrow> bool" where
  "symbols_stable prog syms \<longleftrightarrow>
     (case resolve_symbols_once prog (Some syms) of Ok s \<Rightarrow> hm_eq s syms | _ \<Rightarrow> False)"

text \<open>
  C10. Labels are addresses: when the symbol table is stable and no name is defined twice, every
  line with an address in the listing is at the address its labels name, those on the line itself
  and those on the blank lines right before it. (The address of an \<^verbatim>\<open>org\<close> line is the new one, so
  a label on it is excepted.)
\<close>

theorem labels_are_addresses:
  assumes "symbols_stable prog syms" "distinct (concat (map defined_names prog))"
    and "emit_segments iter prog syms = Ok r"
    and "k < length (ar_listing r)" "ar_listing r ! k = Some e" "\<not> is_org (prog ! k)"
    and "names_line prog k l"
  shows "map_of syms l = Some (ucast (ll_addr e))"
proof -
  obtain a' where a': "p1_loop (Some syms) 1 prog p1_init = Ok a'" "map_of (p1_symbols a') = map_of syms"
    using assms(1)
    by (auto simp: symbols_stable_def resolve_symbols_once_def hm_eq_iff split: outcome.splits)
  obtain b' where b': "p2_loop syms 1 prog p2_init = Ok (b', ar_listing r)"
    using assms(3) by (auto simp: emit_segments_def Let_def)
  have i: "in_step p1_init p2_init" by (simp add: in_step_def p1_init_def p2_init_def)
  show ?thesis
    by (rule loop_in_step [OF a'(1) b' i _ assms(2) _ _ assms(4-6), where N = "{}"])
      (simp_all add: a'(2) p1_init_def assms(7))
qed

definition demo_program :: program where
  "demo_program =
    [S_Directive None (D_Org Sp_P (E_Literal 0x100)),
     S_Label ''top'',
     S_Instruction (Some ''loop'') (I_zero I_Nop),
     S_Instruction None (I_branch (I_Jmp (E_Symbol ''done'') False)),
     S_Instruction None (I_branch (I_Bra (E_Symbol ''top'') False)),
     S_Instruction (Some ''done'') (I_zero I_Rts)]"

definition demo_symbols :: symbol_table where
  "demo_symbols = [(''top'', 0x100), (''loop'', 0x100), (''done'', 0x105)]"

lemmas p1_defs = resolve_symbols_once_def p1_init_def p1_statement_def p1_define_label_def
  statement_label_def Let_def eval_at_def encoded_size_def

lemmas p2_defs = p2_init_def p2_statement_def p2_instruction_def p2_flush_def p2_emit_def
  p2_listing_def Let_def eval_at_def words_enc_def word_enc_def check_warnings_def vector_warnings_def

lemma demo_stable: "symbols_stable demo_program demo_symbols"
  by code_simp

lemma demo_emit:
  "\<exists>r. emit_segments iter demo_program demo_symbols = Ok r \<and>
     ar_listing r ! 2 = Some \<lparr>ll_space = Sp_P, ll_addr = 0x100, ll_words = [0]\<rparr> \<and> length (ar_listing r) = 6"
proof -
  have "(case p2_loop demo_symbols 1 demo_program p2_init of Ok (st, ls) \<Rightarrow>
      ls ! 2 = Some \<lparr>ll_space = Sp_P, ll_addr = 0x100, ll_words = [0]\<rparr> \<and> length ls = 6 | _ \<Rightarrow> False)"
    by (simp add: p2_defs demo_program_def demo_symbols_def encode_jmp_jsr_def encode_bra_def
        encode_rel_branch_def is_literal_def)
  then show ?thesis by (auto simp: emit_segments_def Let_def split: outcome.splits prod.splits)
qed

theorem labels_are_addresses_witness:
  "map_of demo_symbols ''top'' = Some (ucast (0x100 :: u32))"
proof -
  obtain r where r: "emit_segments id demo_program demo_symbols = Ok r"
    "ar_listing r ! 2 = Some \<lparr>ll_space = Sp_P, ll_addr = 0x100, ll_words = [0]\<rparr>"
    "length (ar_listing r) = 6" using demo_emit [of id] by blast
  have d: "distinct (concat (map defined_names demo_program))" by code_simp
  have o: "\<not> is_org (demo_program ! 2)" by code_simp
  have n: "names_line demo_program 2 ''top''"
    unfolding names_line_def by (intro exI [of _ 1]) code_simp
  show ?thesis
    using labels_are_addresses [OF demo_stable d r(1) _ r(2) o n] r(3) by simp
qed

text \<open>
  The ten rounds need not reach a stable table. The address of \<^verbatim>\<open>lab\<close> decides whether the
  instruction before it takes one word or two: with \<open>$20\<close> the operand is \<open>$40\<close>, which needs an
  extension word, and with \<open>$21\<close> it is \<open>$3f\<close>, which needs none.
\<close>

definition swinging_program :: program where
  "swinging_program =
    [S_Directive None (D_Org Sp_P (E_Literal 0x1F)),
     S_Instruction None (I_move (I_MovecAa Sp_X
       (E_BinOp Sub_op (E_Literal 0x60) (E_Symbol ''lab'')) (R_M 0) True)),
     S_Instruction (Some ''lab'') (I_zero I_Nop)]"

definition swinging_at :: "i64 \<Rightarrow> symbol_table" where
  "swinging_at a = [(''lab'', a)]"

lemma swinging_rounds:
  "resolve_symbols_once swinging_program None = Ok (swinging_at 0x20)"
  "resolve_symbols_once swinging_program (Some (swinging_at 0x20)) = Ok (swinging_at 0x21)"
  "resolve_symbols_once swinging_program (Some (swinging_at 0x21)) = Ok (swinging_at 0x20)"
  by (simp_all add: p1_defs swinging_program_def swinging_at_def instruction_size_def
      encode_movec_aa_def is_l_composite_def movec_ddddd_def eval_binop_def words_enc_def word_enc_def)

lemma swinging_differs: "\<not> hm_eq (swinging_at 0x20) (swinging_at 0x21)" "\<not> hm_eq (swinging_at 0x21) (swinging_at 0x20)"
  by (simp_all add: hm_eq_def swinging_at_def)

lemma swinging_resolved: "resolve_symbols swinging_program = Ok (swinging_at 0x20)"
  by (simp add: resolve_symbols_def swinging_rounds swinging_differs eval_nat_numeral)

lemma swinging_unstable: "\<not> symbols_stable swinging_program (swinging_at 0x20)"
  by (simp add: symbols_stable_def swinging_rounds swinging_differs)

lemma swinging_label_wrong:
  "(case p2_loop (swinging_at 0x20) 1 swinging_program p2_init of
      Ok (st, ls) \<Rightarrow> ls ! 2 = Some \<lparr>ll_space = Sp_P, ll_addr = 0x21, ll_words = [0]\<rparr> | _ \<Rightarrow> False)"
  by (simp add: swinging_program_def swinging_at_def p2_defs encode_movec_aa_def is_l_composite_def
      movec_ddddd_def eval_binop_def check_move_warnings_def movec_warning_def
      is_prohibited_in_interrupt_vector_def is_vector_prohibited_reg_def)

end
