(* ===== verification/Asm_Emit_Laws.thy ===== *)
theory Asm_Emit_Laws
  imports Asm_Layout
begin

text \<open>
  What pass 2 outputs: in a program that keeps the discipline of psects, the words of every line
  stand in an output segment of the line's memory space, at the line's address.
\<close>

section \<open>Where words are\<close>

definition placed_in :: "ast_space \<Rightarrow> u32 \<Rightarrow> u32 list \<Rightarrow> listing_line \<Rightarrow> bool" where
  "placed_in space org ws e \<longleftrightarrow> space = ll_space e \<and>
     (\<exists>off. ll_addr e = org + word_of_nat off \<and> off + length (ll_words e) \<le> length ws \<and>
        take (length (ll_words e)) (drop off ws) = ll_words e)"

abbreviation placed_seg :: "segment \<Rightarrow> listing_line \<Rightarrow> bool" where
  "placed_seg s e \<equiv> placed_in (seg_space s) (seg_org s) (seg_words s) e"

text \<open>The three places of a word during the pass: a finished segment or a psect left, or the open words.\<close>

definition away :: "pass2_state \<Rightarrow> listing_line \<Rightarrow> bool" where
  "away st e \<longleftrightarrow> (\<exists>s\<in>set (p2_segments st). placed_seg s e)
     \<or> (\<exists>n s org ws. map_of (p2_psect_words st) n = Some (org, ws) \<and>
          map_of (p2_psects st) n = Some s \<and> placed_in (ps_space s) org ws e)"

definition placed :: "pass2_state \<Rightarrow> listing_line \<Rightarrow> bool" where
  "placed st e \<longleftrightarrow> away st e \<or> placed_in (p2_space st) (p2_org st) (p2_words st) e"

lemma placed_in_append: "placed_in space org ws e \<Longrightarrow> placed_in space org (ws @ xs) e"
  by (auto simp: placed_in_def)

lemma placed_in_not_Nil: "placed_in space org ws e \<Longrightarrow> ll_words e \<noteq> [] \<Longrightarrow> ws \<noteq> []"
  by (auto simp: placed_in_def)

section \<open>The invariant\<close>

definition psects_inv :: "string list \<Rightarrow> pass2_state \<Rightarrow> bool" where
  "psects_inv defs st \<longleftrightarrow> dom (map_of (p2_psects st)) = set defs
   \<and> (\<forall>n org ws. map_of (p2_psect_words st) n = Some (org, ws) \<longrightarrow>
        (\<exists>s. map_of (p2_psects st) n = Some s \<and> ps_pc s = org + word_of_nat (length ws)))"

definition p2_inv :: "string list \<Rightarrow> bool \<Rightarrow> pass2_state \<Rightarrow> bool" where
  "p2_inv defs inside st \<longleftrightarrow> psects_inv defs st
   \<and> p2_pc st = p2_org st + word_of_nat (length (p2_words st))
   \<and> inside = (p2_current st \<noteq> None)
   \<and> (\<forall>c. p2_current st = Some c \<longrightarrow> map_of (p2_psect_words st) c = None \<and>
        (\<exists>s. map_of (p2_psects st) c = Some s \<and> ps_space s = p2_space st))"

text \<open>
  A psect is defined once, and before the switches that name it; \<^verbatim>\<open>org\<close> is not used inside one.
\<close>

fun psects_ok :: "string list \<Rightarrow> bool \<Rightarrow> program \<Rightarrow> bool" where
  "psects_ok defs inside [] = True"
| "psects_ok defs inside (stmt # rest) = (case stmt of
     S_Directive _ (D_Psect n (Some _)) \<Rightarrow> n \<notin> set defs \<and> psects_ok (n # defs) True rest
   | S_Directive _ (D_Psect n None) \<Rightarrow> n \<in> set defs \<and> psects_ok defs True rest
   | S_Directive _ (D_Org _ _) \<Rightarrow> \<not> inside \<and> psects_ok defs inside rest
   | _ \<Rightarrow> psects_ok defs inside rest)"

lemma p2_flush_words [simp]: "p2_words (p2_flush st) = []"
  by (simp add: p2_flush_def)

lemma flush_away: "placed st e \<Longrightarrow> ll_words e \<noteq> [] \<Longrightarrow> away (p2_flush st) e"
  using placed_in_not_Nil [of _ _ "p2_words st" e]
  by (auto simp: placed_def away_def p2_flush_def)

lemma emit_inv: "p2_inv defs inside st \<Longrightarrow> p2_inv defs inside (p2_emit ws st)"
  by (simp add: p2_inv_def psects_inv_def p2_emit_def)

lemma emit_placed: "placed st e \<Longrightarrow> placed (p2_emit ws st) e"
  by (auto simp: placed_def away_def p2_emit_def placed_in_append)

lemma emit_places:
  assumes "p2_pc st = p2_org st + word_of_nat (length (p2_words st))" "p2_listing st ws = Some e"
  shows "placed (p2_emit ws st) e"
proof -
  have e: "ll_space e = p2_space st" "ll_addr e = p2_pc st" "ll_words e = ws"
    using assms(2) by (auto simp: p2_listing_def)
  have "placed_in (p2_space st) (p2_org st) (p2_words st @ ws) e"
    unfolding placed_in_def e by (intro conjI refl exI [of _ "length (p2_words st)"]) (simp_all add: assms(1))
  then show ?thesis by (simp add: placed_def p2_emit_def)
qed

lemma leave_psect:
  assumes "p2_inv defs inside st"
  shows "p2_words (p2_leave_psect st) = []" "psects_inv defs (p2_leave_psect st)"
    "\<And>e. placed st e \<Longrightarrow> ll_words e \<noteq> [] \<Longrightarrow> away (p2_leave_psect st) e"
proof -
  consider "p2_current st = None" | c s where "p2_current st = Some c"
      "map_of (p2_psects st) c = Some s" "ps_space s = p2_space st" "map_of (p2_psect_words st) c = None"
    using assms by (auto simp: p2_inv_def)
  then have "p2_words (p2_leave_psect st) = [] \<and> psects_inv defs (p2_leave_psect st) \<and>
    (\<forall>e. placed st e \<and> ll_words e \<noteq> [] \<longrightarrow> away (p2_leave_psect st) e)"
  proof cases
    case 1
    then show ?thesis using assms flush_away [of st]
      by (simp add: p2_leave_psect_def p2_inv_def psects_inv_def)
  next
    case 2
    define ps where "ps = AList.update c (s\<lparr>ps_pc := p2_pc st\<rparr>) (p2_psects st)"
    have l: "p2_leave_psect st = st\<lparr>p2_psects := ps,
       p2_psect_words := AList.update c (p2_org st, p2_words st) (p2_psect_words st), p2_words := []\<rparr>"
      using 2 by (simp add: p2_leave_psect_def save_psect_def ps_def)
    have "psects_inv defs (p2_leave_psect st)"
      using assms 2 unfolding l ps_def
      by (auto simp: psects_inv_def p2_inv_def update_conv' split: if_splits)
    moreover have "away (p2_leave_psect st) e" if pl: "placed st e" "ll_words e \<noteq> []" for e
    proof -
      consider (a) "\<exists>s\<in>set (p2_segments st). placed_seg s e"
        | (b) "placed_in (p2_space st) (p2_org st) (p2_words st) e"
        | (c) m t org ws where "map_of (p2_psect_words st) m = Some (org, ws)"
            "map_of (p2_psects st) m = Some t" "placed_in (ps_space t) org ws e"
        using pl(1) unfolding placed_def away_def by blast
      then show ?thesis
      proof cases
        case a
        then show ?thesis by (simp add: away_def l)
      next
        case b
        have "map_of (p2_psect_words (p2_leave_psect st)) c = Some (p2_org st, p2_words st)"
          "map_of (p2_psects (p2_leave_psect st)) c = Some (s\<lparr>ps_pc := p2_pc st\<rparr>)"
          by (simp_all add: l ps_def update_conv')
        with b 2(3) show ?thesis unfolding away_def by fastforce
      next
        case c
        then have "m \<noteq> c" using 2(4) by auto
        then have "map_of (p2_psect_words (p2_leave_psect st)) m = Some (org, ws)"
          "map_of (p2_psects (p2_leave_psect st)) m = Some t"
          using c by (simp_all add: l ps_def update_conv')
        with c(3) show ?thesis unfolding away_def by blast
      qed
    qed
    ultimately show ?thesis using 2 by (auto simp: l update_conv')
  qed
  then show "p2_words (p2_leave_psect st) = []" "psects_inv defs (p2_leave_psect st)"
    "\<And>e. placed st e \<Longrightarrow> ll_words e \<noteq> [] \<Longrightarrow> away (p2_leave_psect st) e"
    by blast+
qed

lemma psects_inv_known: "psects_inv defs st \<Longrightarrow> n \<in> set defs \<Longrightarrow> \<exists>s. map_of (p2_psects st) n = Some s"
  unfolding psects_inv_def by (auto simp: dom_def)

lemma psects_inv_saved:
  "psects_inv defs st \<Longrightarrow> map_of (p2_psect_words st) n = Some (org, ws) \<Longrightarrow>
   \<exists>s. map_of (p2_psects st) n = Some s \<and> ps_pc s = org + word_of_nat (length ws)"
  unfolding psects_inv_def by blast

lemma psects_inv_fresh:
  assumes "psects_inv defs st" "n \<notin> set defs"
  shows "map_of (p2_psects st) n = None" "map_of (p2_psect_words st) n = None"
proof -
  show f: "map_of (p2_psects st) n = None"
    using assms unfolding psects_inv_def by (metis domIff)
  show "map_of (p2_psect_words st) n = None"
    using psects_inv_saved [OF assms(1)] f by (cases "map_of (p2_psect_words st) n") fastforce+
qed

lemma away_update_fresh:
  assumes "away st e" "psects_inv defs st" "n \<notin> set defs"
    and "p2_segments st' = p2_segments st" "p2_psect_words st' = p2_psect_words st"
    and "p2_psects st' = AList.update n s (p2_psects st)"
  shows "away st' e"
  using assms(1)
proof (unfold away_def, elim disjE exE conjE)
  fix m t org ws
  assume m: "map_of (p2_psect_words st) m = Some (org, ws)" "map_of (p2_psects st) m = Some t"
    "placed_in (ps_space t) org ws e"
  have "m \<noteq> n" using m(2) psects_inv_fresh(1) [OF assms(2,3)] by auto
  then have "map_of (p2_psect_words st') m = Some (org, ws)" "map_of (p2_psects st') m = Some t"
    using m by (simp_all add: assms(5,6) update_conv')
  with m(3) show "(\<exists>s\<in>set (p2_segments st'). placed_seg s e) \<or>
      (\<exists>n s org ws. map_of (p2_psect_words st') n = Some (org, ws) \<and>
        map_of (p2_psects st') n = Some s \<and> placed_in (ps_space s) org ws e)" by blast
qed (simp add: assms(4))

lemma psect_define:
  assumes "p2_psect n (Some r) syms line st = Ok st'" "p2_inv defs inside st" "n \<notin> set defs"
  shows "p2_inv (n # defs) True st' \<and> (\<forall>e. placed st e \<and> ll_words e \<noteq> [] \<longrightarrow> placed st' e)"
proof -
  note L = leave_psect [OF assms(2)]
  define l where "l = p2_leave_psect st"
  obtain space start stop where r: "r = (space, start, stop)" by (cases r)
  with assms(1) obtain v where st': "st' = l\<lparr>p2_psects := AList.update n \<lparr>ps_space = space, ps_pc = v\<rparr> (p2_psects l),
      p2_space := space, p2_pc := v, p2_org := v, p2_current := Some n\<rparr>"
    by (auto simp: p2_psect_def Let_def l_def)
  note fresh = psects_inv_fresh [OF L(2) assms(3), folded l_def]
  have "p2_inv (n # defs) True st'"
    using L(1,2) fresh unfolding st' l_def [symmetric]
    by (auto simp: p2_inv_def psects_inv_def update_conv')
  moreover have "placed st' e" if "placed st e" "ll_words e \<noteq> []" for e
    using away_update_fresh [OF L(3) [OF that] L(2) assms(3), of st'] by (simp add: placed_def st' l_def)
  ultimately show ?thesis by blast
qed

lemma psect_switch:
  assumes "p2_psect n None syms line st = Ok st'" "p2_inv defs inside st" "n \<in> set defs"
  shows "p2_inv defs True st' \<and> (\<forall>e. placed st e \<and> ll_words e \<noteq> [] \<longrightarrow> placed st' e)"
proof -
  note L = leave_psect [OF assms(2)]
  define l where "l = p2_leave_psect st"
  obtain s where s: "map_of (p2_psects l) n = Some s"
    using psects_inv_known [OF L(2) assms(3)] unfolding l_def by blast
  show ?thesis
  proof (cases "map_of (p2_psect_words l) n")
    case None
    then have st': "st' = l\<lparr>p2_space := ps_space s, p2_pc := ps_pc s, p2_org := ps_pc s, p2_current := Some n\<rparr>"
      using assms(1) s by (auto simp: p2_psect_def Let_def l_def)
    have "p2_inv defs True st'" using L(1,2) s None unfolding st' l_def [symmetric]
      by (auto simp: p2_inv_def psects_inv_def)
    moreover have "placed st' e" if "placed st e" "ll_words e \<noteq> []" for e
      using L(3) [OF that] by (simp add: placed_def st' l_def away_def)
    ultimately show ?thesis by blast
  next
    case (Some ow)
    obtain org ws where ow: "ow = (org, ws)" by (cases ow)
    have st': "st' = l\<lparr>p2_space := ps_space s, p2_pc := ps_pc s, p2_org := org, p2_words := ws,
        p2_psect_words := AList.delete n (p2_psect_words l), p2_current := Some n\<rparr>"
      using assms(1) s Some by (auto simp: p2_psect_def Let_def l_def ow)
    have "ps_pc s = org + word_of_nat (length ws)"
      using psects_inv_saved [OF L(2), folded l_def, OF Some [unfolded ow]] s by simp
    then have "p2_inv defs True st'" using L(2) s unfolding st' l_def [symmetric]
      by (auto simp: p2_inv_def psects_inv_def delete_conv')
    moreover have "placed st' e" if pl: "placed st e" "ll_words e \<noteq> []" for e
    proof -
      have "away l e" using L(3) [OF pl] by (simp add: l_def)
      then consider (a) "\<exists>s\<in>set (p2_segments l). placed_seg s e"
        | (b) m t org ws where "map_of (p2_psect_words l) m = Some (org, ws)"
            "map_of (p2_psects l) m = Some t" "placed_in (ps_space t) org ws e"
        unfolding away_def by blast
      then show ?thesis
      proof cases
        case a
        then show ?thesis by (simp add: placed_def away_def st')
      next
        case b
        show ?thesis
        proof (cases "m = n")
          case True
          then show ?thesis using b Some s by (simp add: placed_def st' ow)
        next
          case False
          then have "map_of (p2_psect_words st') m = Some (org, ws)" "map_of (p2_psects st') m = Some t"
            using b by (simp_all add: st' delete_conv')
          then show ?thesis using b(3) unfolding placed_def away_def by blast
        qed
      qed
    qed
    ultimately show ?thesis by blast
  qed
qed

section \<open>The pass\<close>

definition defs_after :: "string list \<Rightarrow> statement \<Rightarrow> string list" where
  "defs_after defs stmt = (case stmt of S_Directive _ (D_Psect n (Some _)) \<Rightarrow> n # defs | _ \<Rightarrow> defs)"

definition inside_after :: "bool \<Rightarrow> statement \<Rightarrow> bool" where
  "inside_after inside stmt = (case stmt of S_Directive _ (D_Psect n _) \<Rightarrow> True | _ \<Rightarrow> inside)"

lemma psects_ok_rest: "psects_ok defs inside (stmt # rest) \<Longrightarrow>
    psects_ok (defs_after defs stmt) (inside_after inside stmt) rest"
  by (auto simp: defs_after_def inside_after_def split: statement.splits directive.splits option.splits)

definition step_good :: "string list \<Rightarrow> bool \<Rightarrow> pass2_state \<Rightarrow> pass2_state \<Rightarrow> listing_line option \<Rightarrow> bool" where
  "step_good defs inside st st' l \<longleftrightarrow> p2_inv defs inside st' \<and>
     (\<forall>e. placed st e \<and> ll_words e \<noteq> [] \<longrightarrow> placed st' e) \<and>
     (\<forall>e. l = Some e \<and> ll_words e \<noteq> [] \<longrightarrow> placed st' e)"

lemma step_good_flush:
  assumes "p2_inv defs inside st" "p2_psects st' = p2_psects st" "p2_psect_words st' = p2_psect_words st"
    and "p2_segments st' = p2_segments (p2_flush st)" "p2_words st' = []" "p2_pc st' = p2_org st'"
    and "p2_current st' = p2_current st" "inside \<longrightarrow> p2_space st' = p2_space st"
    and "\<forall>e. l = Some e \<longrightarrow> ll_words e = []"
  shows "step_good defs inside st st' l"
proof -
  have "placed st' e" if "placed st e" "ll_words e \<noteq> []" for e
    using flush_away [OF that] assms(2-4) by (simp add: placed_def away_def)
  then show ?thesis using assms by (auto simp: step_good_def p2_inv_def psects_inv_def)
qed

lemma step_good_emit:
  assumes "p2_inv defs inside st" "l = p2_listing st ws"
  shows "step_good defs inside st (p2_emit ws st) l"
  using assms emit_inv [OF assms(1)] emit_placed emit_places [of st ws]
  by (auto simp: step_good_def p2_inv_def)

lemma step_good_refl: "p2_inv defs inside st \<Longrightarrow> step_good defs inside st st None"
  by (simp add: step_good_def)

lemma directive_good:
  assumes "p2_directive dir syms line st = Ok (st', l)" "p2_inv defs inside st"
    and "psects_ok defs inside (S_Directive lab dir # rest)"
  shows "step_good (defs_after defs (S_Directive lab dir)) (inside_after inside (S_Directive lab dir)) st st' l"
proof (cases dir)
  case (D_Org space e)
  then show ?thesis
    using assms by (auto simp: Let_def p2_listing_def defs_after_def inside_after_def p2_inv_def
        intro!: step_good_flush)
next
  case (D_Dc es)
  then show ?thesis
    using assms by (auto simp: defs_after_def inside_after_def intro!: step_good_emit)
next
  case (D_Ds e)
  obtain n where "eval_at e syms (p2_pc st) line = Ok n"
      "st' = st\<lparr>p2_words := p2_words st @ replicate (unat n) 0, p2_pc := p2_pc st + n\<rparr>"
    and l: "l = p2_listing st []"
    using assms(1) by (auto simp: D_Ds split: if_splits)
  then have st': "st' = p2_emit (replicate (unat n) 0) st" by (simp add: p2_emit_def)
  show ?thesis
    using emit_inv [OF assms(2)] emit_placed
    by (auto simp: D_Ds step_good_def st' l p2_listing_def defs_after_def inside_after_def)
next
  case (D_Psect n r)
  show ?thesis
  proof (cases r)
    case None
    then show ?thesis
      using assms psect_switch [of n syms line st st' defs inside]
      by (auto simp: D_Psect step_good_def defs_after_def inside_after_def)
  next
    case (Some x)
    then show ?thesis
      using assms psect_define [of n x syms line st st' defs inside]
      by (auto simp: D_Psect step_good_def defs_after_def inside_after_def)
  qed
next
  case (D_Align e)
  then show ?thesis
    using assms by (auto simp: Let_def defs_after_def inside_after_def
        intro!: step_good_flush step_good_refl split: if_splits)
qed (use assms in \<open>auto simp: defs_after_def inside_after_def intro!: step_good_refl\<close>)

lemma statement_good:
  assumes "p2_statement syms line stmt st = Ok (st', l)" "p2_inv defs inside st"
    and "psects_ok defs inside (stmt # rest)"
  shows "step_good (defs_after defs stmt) (inside_after inside stmt) st st' l"
proof (cases stmt)
  case (S_Directive lab dir)
  then show ?thesis using assms directive_good [of dir syms line st st' l defs inside lab rest]
    by (simp add: p2_statement_def)
next
  case (S_Instruction lab inst)
  then obtain ws k where st': "st' = p2_emit ws (st\<lparr>p2_warnings := k\<rparr>)" "l = p2_listing st ws"
    using assms(1) by (auto simp: p2_statement_def p2_instruction_def Let_def)
  have "step_good defs inside (st\<lparr>p2_warnings := k\<rparr>) st' l"
    unfolding st'(1) by (rule step_good_emit) (use assms(2) st'(2) in
        \<open>simp_all add: p2_inv_def psects_inv_def p2_listing_def\<close>)
  then show ?thesis
    by (simp add: S_Instruction step_good_def placed_def away_def defs_after_def inside_after_def)
qed (use assms in \<open>auto simp: p2_statement_def defs_after_def inside_after_def intro!: step_good_refl\<close>)

lemma loop_good:
  assumes "p2_loop syms line prog st = Ok (st', ls)" "p2_inv defs inside st" "psects_ok defs inside prog"
  shows "(\<exists>ds i. p2_inv ds i st') \<and> (\<forall>e. placed st e \<and> ll_words e \<noteq> [] \<longrightarrow> placed st' e) \<and>
    (\<forall>e\<in>set ls. \<forall>x. e = Some x \<and> ll_words x \<noteq> [] \<longrightarrow> placed st' x)"
  using assms
proof (induction prog arbitrary: line st ls defs inside)
  case (Cons stmt rest)
  obtain st1 l where s: "p2_statement syms line stmt st = Ok (st1, l)"
    and r: "(if is_end stmt then Ok (st1, replicate (Suc (length rest)) None)
      else and_then (p2_loop syms (Suc line) rest st1) (\<lambda>(st'', ls). Ok (st'', l # ls))) = Ok (st', ls)"
    using Cons.prems(1) by auto
  have rep: "Some x \<notin> set (replicate k None)" for x :: listing_line and k by (simp add: set_replicate_conv_if)
  note g = statement_good [OF s Cons.prems(2,3)]
  show ?case
  proof (cases "is_end stmt")
    case True
    with r have "st' = st1" "ls = replicate (Suc (length rest)) None" by auto
    with g rep show ?thesis unfolding step_good_def by blast
  next
    case False
    with r obtain ls' where ls: "ls = l # ls'" and loop: "p2_loop syms (Suc line) rest st1 = Ok (st', ls')"
      by auto
    have "p2_inv (defs_after defs stmt) (inside_after inside stmt) st1" using g by (simp add: step_good_def)
    note IH = Cons.IH [OF loop this psects_ok_rest [OF Cons.prems(3)]]
    show ?thesis using IH g unfolding step_good_def ls by auto
  qed
qed auto

section \<open>Properties\<close>

text \<open>
  C11. Every word of the listing is in the output: in a program that defines each psect once and
  before switching to it, and uses \<^verbatim>\<open>org\<close> outside psects, some segment of the line's memory
  space holds the words of the line at the line's address, whatever the order in which the hash
  map of the psects is iterated.
\<close>

theorem listed_words_emitted:
  assumes "emit_segments iter prog syms = Ok r" "psects_ok [] False prog" "\<forall>m. set (iter m) = set m"
    and "Some e \<in> set (ar_listing r)" "ll_words e \<noteq> []"
  shows "\<exists>s\<in>set (ar_segments r). placed_seg s e"
proof -
  obtain st where st: "p2_loop syms 1 prog p2_init = Ok (st, ar_listing r)"
    and seg: "ar_segments r = p2_segments (p2_flush st) @ psect_segments iter (p2_flush st)"
    using assms(1) by (auto simp: emit_segments_def Let_def)
  have "p2_inv [] False p2_init" by (simp add: p2_inv_def psects_inv_def p2_init_def)
  from loop_good [OF st this assms(2)] assms(4,5) have "placed st e" by blast
  from flush_away [OF this assms(5)] consider (a) "\<exists>s\<in>set (p2_segments (p2_flush st)). placed_seg s e"
    | (b) n s org ws where "map_of (p2_psect_words st) n = Some (org, ws)"
        "map_of (p2_psects st) n = Some s" "placed_in (ps_space s) org ws e"
    unfolding away_def by auto
  then show ?thesis
  proof cases
    case a
    then show ?thesis by (auto simp: seg)
  next
    case b
    have "(n, org, ws) \<in> set (iter (p2_psect_words st))" using b(1) assms(3) by (simp add: map_of_SomeD)
    moreover have "ws \<noteq> []" by (rule placed_in_not_Nil [OF b(3) assms(5)])
    ultimately have "\<lparr>seg_space = ps_space s, seg_org = org, seg_words = ws\<rparr> \<in> set (psect_segments iter (p2_flush st))"
      using b(2) by (force simp: psect_segments_def map_filter_def)
    then show ?thesis using b(3) unfolding seg by (intro bexI) auto
  qed
qed

definition psect_program :: program where
  "psect_program =
    [S_Directive None (D_Psect ''code'' (Some (Sp_P, E_Literal 0x40, E_Literal 0x80))),
     S_Directive None (D_Dc [E_Literal 1]),
     S_Directive None (D_Psect ''data'' (Some (Sp_X, E_Literal 0, E_Literal 0x10))),
     S_Directive None (D_Dc [E_Literal 2, E_Literal 3])]"

lemma psect_program_emit:
  "\<exists>r. emit_segments id psect_program [] = Ok r \<and>
     ar_listing r ! 3 = Some \<lparr>ll_space = Sp_X, ll_addr = 0, ll_words = [2, 3]\<rparr> \<and> length (ar_listing r) = 4"
proof -
  have "case p2_loop [] 1 psect_program p2_init of Ok (st, ls) \<Rightarrow>
      ls ! 3 = Some \<lparr>ll_space = Sp_X, ll_addr = 0, ll_words = [2, 3]\<rparr> \<and> length ls = 4 | _ \<Rightarrow> False"
    by (simp add: psect_program_def p2_defs p2_psect_def p2_leave_psect_def save_psect_def)
  then show ?thesis by (auto simp: emit_segments_def Let_def split: outcome.splits prod.splits)
qed

theorem listed_words_emitted_witness:
  "\<exists>s. placed_seg s \<lparr>ll_space = Sp_X, ll_addr = 0, ll_words = [2, 3]\<rparr>"
proof -
  obtain r where r: "emit_segments id psect_program [] = Ok r"
    "ar_listing r ! 3 = Some \<lparr>ll_space = Sp_X, ll_addr = 0, ll_words = [2, 3]\<rparr>" "length (ar_listing r) = 4"
    using psect_program_emit by blast
  have ok: "psects_ok [] False psect_program" by (simp add: psect_program_def)
  have "Some \<lparr>ll_space = Sp_X, ll_addr = 0, ll_words = [2, 3]\<rparr> \<in> set (ar_listing r)"
    using r(2,3) nth_mem [of 3 "ar_listing r"] by simp
  from listed_words_emitted [OF r(1) ok _ this] show ?thesis by auto
qed

end
