(* ===== verification/Decode_Rows.thy ===== *)
theory Decode_Rows
  imports Decode_Laws Encode_Prims
begin

text \<open>
  Decoding words whose fields are known: a row of the table decodes every word that has its fixed
  bits, a field of a template is a shift and a mask of the word, and a simplification set that
  computes the shifts and masks of words assembled from fields.
\<close>

unbundle bit_operations_syntax

section \<open>Fields as segments\<close>

text \<open>
  The segments of a field: position and width of each run of its letter, least significant first.
\<close>

fun segments_from :: "char \<Rightarrow> string \<Rightarrow> nat \<Rightarrow> (nat \<times> nat) list" where
  "segments_from l [] p = []"
| "segments_from l (c # cs) p =
    (let rest = segments_from l cs (Suc p)
     in if c \<noteq> l then rest
        else (case rest of
            (q, n) # ss \<Rightarrow> if q = Suc p then (p, Suc n) # ss else (p, 1) # rest
          | [] \<Rightarrow> [(p, 1)]))"

fun segments_value :: "(nat \<times> nat) list \<Rightarrow> u32 \<Rightarrow> u32" where
  "segments_value [] op = 0"
| "segments_value ((p, n) # ss) op =
    (drop_bit p op AND (2 ^ n - 1)) OR push_bit n (segments_value ss op)"

definition segment_bits :: "(nat \<times> nat) list \<Rightarrow> nat list" where
  "segment_bits ss = concat (map (\<lambda>(p, n). [p..<p + n]) ss)"

lemma segment_bits_simps [simp]:
  "segment_bits [] = []" "segment_bits ((p, n) # ss) = [p..<p + n] @ segment_bits ss"
  by (simp_all add: segment_bits_def)

lemma upt_Cons_width: "[p..<p + Suc n] = p # [Suc p..<Suc p + n]"
  by (simp add: upt_conv_Cons del: upt_Suc)

lemma segments_from_bits:
  "segment_bits (segments_from l cs p) = map (\<lambda>i. p + i) (filter (\<lambda>i. cs ! i = l) [0..<length cs])"
proof (induction cs arbitrary: p)
  case (Cons c cs)
  have "filter (\<lambda>i. (c # cs) ! i = l) [0..<length (c # cs)] =
      (if c = l then [0] else []) @ map Suc (filter (\<lambda>i. cs ! i = l) [0..<length cs])"
    by (simp add: upt_conv_Cons map_Suc_upt [symmetric] filter_map comp_def del: upt_Suc)
  moreover have "segment_bits (segments_from l (c # cs) p) =
      (if c = l then [p] else []) @ segment_bits (segments_from l cs (Suc p))"
    by (simp add: Let_def upt_Cons_width del: upt_Suc add_Suc_right split: list.split)
  ultimately show ?case
    by (simp add: Cons.IH [of "Suc p"] comp_def del: upt_Suc)
qed simp

lemma bit_u32_less: "bit (w :: u32) n \<Longrightarrow> n < 32"
  using bit_imp_le_length [of w n] by simp

lemma bit_segments_value:
  "bit (segments_value ss op) k \<longleftrightarrow>
   k < 32 \<and> k < length (segment_bits ss) \<and> bit op (segment_bits ss ! k)"
proof (induction ss op arbitrary: k rule: segments_value.induct)
  case (2 p n ss op)
  have "bit (segments_value ((p, n) # ss) op) k \<longleftrightarrow>
      k < 32 \<and> (if k < n then bit op (p + k) else bit (segments_value ss op) (k - n))"
    by (auto simp: bit_simps mask_eq_exp_minus_1 [symmetric] dest: bit_u32_less)
  then show ?case
    by (simp add: 2 nth_append) linarith
qed simp

lemma tmpl_field_segments:
  assumes "length t = 24"
  shows "tmpl_field t l op = segments_value (segments_from l (rev t) 0) op"
proof (rule bit_word_eqI)
  fix k assume k: "k < LENGTH(32)"
  have "rev (field_bits t l) = map (\<lambda>i. 23 - i) (filter (\<lambda>i. t ! i = l) (rev [0..<24]))"
    by (simp add: field_bits_def rev_map rev_filter)
  also have "rev [0..<24] = map (\<lambda>i. 23 - i) [0..<24 :: nat]"
    by (rule nth_equalityI) (auto simp: rev_nth)
  also have "map (\<lambda>i. 23 - i) (filter (\<lambda>i. t ! i = l) (map (\<lambda>i. 23 - i) [0..<24])) =
      filter (\<lambda>i. rev t ! i = l) [0..<24 :: nat]"
    unfolding filter_map map_map comp_def
    by (rule trans [OF map_idI filter_cong]) (auto simp: assms rev_nth)
  finally have "rev (field_bits t l) = segment_bits (segments_from l (rev t) 0)"
    by (simp add: segments_from_bits assms)
  then show "bit (tmpl_field t l op) k = bit (segments_value (segments_from l (rev t) 0) op) k"
    using k by (simp add: bit_tmpl_field bit_segments_value) (metis length_rev)
qed

section \<open>Shifts and masks of assembled words\<close>

text \<open>
  A word assembled from fields is a disjunction of shifted and masked values; with these rules the
  simplifier brings a field of it to the value it was assembled from. Masks go inside shifts to the
  left and outside shifts to the right; the rules of the library that move them the other way, or
  turn a shift by one into a product, are to be deleted (\<open>unpack\<close>).
\<close>

named_theorems pack \<open>shifts and masks of assembled words\<close>

lemmas unpack = push_bit_and push_bit_Suc

lemma drop_push_le [pack]:
  "k \<le> lo \<Longrightarrow> drop_bit lo (push_bit k x) = drop_bit (lo - k) x AND (2 ^ (32 - lo) - 1 :: u32)"
  unfolding mask_eq_exp_minus_1 [symmetric]
  by (rule bit_word_eqI) (auto simp: bit_simps add.commute dest: bit_u32_less)

lemma drop_push_gt [pack]:
  "lo < k \<Longrightarrow> drop_bit lo (push_bit k x) = push_bit (k - lo) (x AND (2 ^ (32 - k) - 1 :: u32))"
  unfolding mask_eq_exp_minus_1 [symmetric]
  by (rule bit_word_eqI) (auto simp: bit_simps add.commute dest: bit_u32_less)

lemma and_masks [pack]: "(x AND m) AND n = x AND (m AND (n :: u32))"
  by (simp add: and.assoc)

lemma mask_push [pack]: "push_bit k x AND m = push_bit k (x AND drop_bit k m :: u32)"
  by (rule bit_word_eqI) (auto simp: bit_simps)

lemma push_drop [pack]: "push_bit k (drop_bit k x AND m) = x AND push_bit k (m :: u32)"
  by (rule bit_word_eqI) (auto simp: bit_simps)

lemma or_masks [pack]:
  "(x AND numeral m) OR (x AND numeral n) = x AND (numeral m OR numeral n :: u32)"
  "(x AND numeral m) OR (x AND 1) = x AND (numeral m OR 1 :: u32)"
  by (rule bit.conj_disj_distrib [symmetric])+

lemmas [pack] = bit.conj_disj_distrib2

text \<open>A value known to fit a field needs no mask that covers the field.\<close>

lemma fits_mask:
  fixes x :: u32
  assumes "x AND f = x"
  shows "f AND m = f \<Longrightarrow> x AND m = x"
    and "f AND m = 0 \<Longrightarrow> x AND m = 0"
    and "f AND m \<noteq> m \<Longrightarrow> x AND m = x AND (f AND m)"
    and "drop_bit k f = 0 \<Longrightarrow> drop_bit k x = 0"
  using assms by (metis and.assoc, metis and.assoc and_zero_eq, metis and.assoc,
      metis drop_bit_and and_zero_eq)

section \<open>Rows\<close>

text \<open>
  A row of the table: the fixed bits and the entry, and when a word fits it. Rows are numbered as
  in the source.
\<close>

definition table_row :: "nat \<Rightarrow> entry_bits \<times> opcode_entry" where
  "table_row i = (table_info ! i, OPCODE_TABLE ! i)"

definition row_fits :: "u32 \<Rightarrow> entry_bits \<Rightarrow> bool" where
  "row_fits op = (\<lambda>(m, v, h, k). op AND m = v \<and>
     (h \<longrightarrow> drop_bit 11 op AND 7 = 6 \<longrightarrow> k \<and> (drop_bit 8 op AND 7 = 0 \<or> drop_bit 8 op AND 7 = 4)))"

lemma row_fits_accepts: "row_fits op (entry_info e) \<longleftrightarrow> entry_accepts op e"
  by (auto simp: row_fits_def entry_info_def entry_accepts_def entry_skipped_def match_mmmrrr_def Let_def)

lemma table_not_parallel:
  "list_all (\<lambda>(m, v, _). m AND 0xF00000 = 0xF00000 \<and> v AND 0xF00000 = 0 \<and>
     m AND v AND 0xFE4000 \<noteq> m AND 0x080000) table_info"
  unfolding table_info_def table_chunks_def by code_simp

lemma no_high_bits:
  assumes "op AND 0xFFF00000 = (0 :: u32)"
  shows "\<not> 0x100000 \<le> op"
proof -
  have m: "(0xFFF00000 :: u32) = NOT (mask 20)" by (simp add: mask_eq_exp_minus_1)
  have "take_bit 20 op = op"
    using assms by (intro bit_word_eqI) (auto simp: m bit_eq_iff bit_simps)
  then have "unat op < 2 ^ 20" by (metis take_bit_nat_less_exp unsigned_take_bit_eq)
  then show ?thesis by (simp add: word_le_nat_alt)
qed

lemma decode_row:
  assumes "op AND 0xFF000000 = 0" "e \<in> set OPCODE_TABLE" "entry_accepts op e"
  shows "decode op = decode_with op e"
proof -
  have f: "find (entry_accepts op) OPCODE_TABLE = Some e"
    by (rule find_accepting [OF assms(2,3)])
  have "entry_info e \<in> set table_info" and a: "op AND oe_mask e = oe_match e"
    using assms(2,3) by (auto simp: table_info [symmetric] entry_accepts_def)
  with table_not_parallel have m: "oe_mask e AND 0xF00000 = 0xF00000" "oe_match e AND 0xF00000 = 0"
    "oe_mask e AND oe_match e AND 0xFE4000 \<noteq> oe_mask e AND 0x080000"
    by (auto simp: list_all_iff entry_info_def)
  have "op AND 0xF00000 = (op AND oe_mask e) AND 0xF00000"
    using m(1) by (simp add: and.assoc)
  with a m(2) have "op AND 0xF00000 = 0" by simp
  with assms(1) have "op AND (0xFF000000 OR 0xF00000) = 0"
    by (simp only: bit.conj_disj_distrib or.left_neutral)
  then have "op AND 0xFFF00000 = 0" by simp
  then have small: "\<not> 0x100000 \<le> op"
    by (rule no_high_bits)
  have "\<not> is_pm0 op"
  proof
    assume "is_pm0 op"
    then have "oe_mask e AND (op AND 0xFE4000) = oe_mask e AND 0x080000" by (simp add: is_pm0_def)
    then show False using m(3) by (simp add: a [symmetric] ac_simps)
  qed
  with small show ?thesis
    by (simp add: decode_def decode_loop_find find_bucket f)
qed

text \<open>An assembled word that fits a row is decoded by its entry.\<close>

lemma length_table: "length OPCODE_TABLE = 185"
  by (simp add: OPCODE_TABLE_defs)

lemma decode_word:
  assumes "i < 185" "case table_row i of (bits, e) \<Rightarrow>
    row_fits (w AND 0xFFFFFF) bits \<and> decode_with (w AND 0xFFFFFF) e = r"
  shows "decode (w AND 0xFFFFFF) = r"
proof -
  have "table_info ! i = entry_info (OPCODE_TABLE ! i)"
    using assms(1) by (simp add: table_info [symmetric] length_table)
  with assms have "entry_accepts (w AND 0xFFFFFF) (OPCODE_TABLE ! i)"
    by (simp add: table_row_def row_fits_accepts [symmetric])
  then show ?thesis
    using decode_row [of "w AND 0xFFFFFF" "OPCODE_TABLE ! i"] assms
    by (simp add: table_row_def length_table and.assoc)
qed

lemma nth_index_cong: "i = j \<Longrightarrow> xs ! i = xs ! j"
  by simp

lemmas table_rows = arg_cong2 [where f = "\<lambda>is es. (is ! i, es ! i)" for i, OF
  table_info_def [unfolded table_chunks_def concat.simps append.simps append_Nil2]
  OPCODE_TABLE_def [unfolded OPCODE_TABLE_1_def OPCODE_TABLE_2_def append.simps], folded table_row_def]

lemmas decode_eval = pack table_rows row_fits_def op_shape_defs decode_with_def tmpl_field_segments
  tmpl_field2_bits length_field_bits tmpl_space_def tmpl_ea_def tmpl_bit_def tmpl_addr_def tmpl_pp_def tmpl_qq_def
  tmpl_reg_def tmpl_acc_def tmpl_cc_def tmpl_w_def tmpl_count_def tmpl_imm_def
  has_invalid_register_def normalize_ea_mode_def numeral_2_eq_2 [symmetric]

end
