(* ===== verification/Asm_Meaning.thy ===== *)
theory Asm_Meaning
  imports Asm_Moves Decode_Rows
begin

text \<open>
  What an assembler instruction means, stated over the decoder's instructions and independently of
  any bit pattern: the decoded instruction and the extension word it stands for. \<open>v\<close> is the value
  of an expression, \<open>pc\<close> the address of the instruction. Where the assembler may choose between a
  one-word and a two-word form, \<open>long\<close> says which it chose. A parallel instruction keeps its word
  in the decoder, so its meaning is the ALU operation, the move type and that word.

  The well-formedness predicates say which syntax trees have a meaning: register numbers below
  eight, data spaces x or y, and the addressing modes an instruction has.
\<close>

type_synonym meaning = "instruction \<times> u32 option"

section \<open>Operands\<close>

definition acc_of :: "ast_acc \<Rightarrow> accumulator" where
  "acc_of d = (case d of AccA \<Rightarrow> Acc_A | AccB \<Rightarrow> Acc_B)"

definition cc_of :: "ast_cc \<Rightarrow> cond_code" where
  "cc_of cc = (case cc of
     Cc_Cc \<Rightarrow> CC_CC | Cc_Ge \<Rightarrow> CC_GE | Cc_Ne \<Rightarrow> CC_NE | Cc_Pl \<Rightarrow> CC_PL
   | Cc_Nn \<Rightarrow> CC_NN | Cc_Ec \<Rightarrow> CC_EC | Cc_Lc \<Rightarrow> CC_LC | Cc_Gt \<Rightarrow> CC_GT
   | Cc_Cs \<Rightarrow> CC_CS | Cc_Lt \<Rightarrow> CC_LT | Cc_Eq \<Rightarrow> CC_EQ | Cc_Mi \<Rightarrow> CC_MI
   | Cc_Nr \<Rightarrow> CC_NR | Cc_Es \<Rightarrow> CC_ES | Cc_Ls \<Rightarrow> CC_LS | Cc_Le \<Rightarrow> CC_LE)"

definition space_of :: "ast_space \<Rightarrow> mem_space" where
  "space_of s = (if s = Sp_Y then Space_Y else Space_X)"

definition reg_of :: "register \<Rightarrow> u8" where
  "reg_of r = word_of_nat (register_index r)"

definition data_space :: "ast_space \<Rightarrow> bool" where
  "data_space s \<longleftrightarrow> s = Sp_X \<or> s = Sp_Y"

fun wf_register :: "register \<Rightarrow> bool" where
  "wf_register (R_R n) \<longleftrightarrow> n < 8"
| "wf_register (R_N n) \<longleftrightarrow> n < 8"
| "wf_register (R_M n) \<longleftrightarrow> n < 8"
| "wf_register _ \<longleftrightarrow> True"

text \<open>Addressing modes: mode number and register, and the extension word of the absolute modes.\<close>

fun ea_of :: "effective_address \<Rightarrow> u8" where
  "ea_of (Ea_PostDecN n) = encode_ea_mode 0 n"
| "ea_of (Ea_PostIncN n) = encode_ea_mode 1 n"
| "ea_of (Ea_PostDec n) = encode_ea_mode 2 n"
| "ea_of (Ea_PostInc n) = encode_ea_mode 3 n"
| "ea_of (Ea_NoUpdate n) = encode_ea_mode 4 n"
| "ea_of (Ea_IndexedN n) = encode_ea_mode 5 n"
| "ea_of (Ea_AbsAddr _) = encode_ea_mode 6 0"
| "ea_of (Ea_ForceLongAbsAddr _) = encode_ea_mode 6 0"
| "ea_of (Ea_Immediate _) = encode_ea_mode 6 4"
| "ea_of (Ea_PreDec n) = encode_ea_mode 7 n"

fun ea_word :: "effective_address \<Rightarrow> (expr \<Rightarrow> u32) \<Rightarrow> u32 option" where
  "ea_word (Ea_AbsAddr e) v = Some (v e AND 0xFFFFFF)"
| "ea_word (Ea_ForceLongAbsAddr e) v = Some (v e AND 0xFFFFFF)"
| "ea_word (Ea_Immediate e) v = Some (v e AND 0xFFFFFF)"
| "ea_word _ v = None"

fun wf_ea :: "effective_address \<Rightarrow> bool" where
  "wf_ea (Ea_PostDecN n) \<longleftrightarrow> n < 8"
| "wf_ea (Ea_PostIncN n) \<longleftrightarrow> n < 8"
| "wf_ea (Ea_PostDec n) \<longleftrightarrow> n < 8"
| "wf_ea (Ea_PostInc n) \<longleftrightarrow> n < 8"
| "wf_ea (Ea_NoUpdate n) \<longleftrightarrow> n < 8"
| "wf_ea (Ea_IndexedN n) \<longleftrightarrow> n < 8"
| "wf_ea (Ea_PreDec n) \<longleftrightarrow> n < 8"
| "wf_ea _ \<longleftrightarrow> True"

fun is_immediate :: "effective_address \<Rightarrow> bool" where
  "is_immediate (Ea_Immediate _) = True"
| "is_immediate _ = False"

text \<open>The four modes \<^verbatim>\<open>lua\<close> and a bare address update have.\<close>

fun is_post_update :: "effective_address \<Rightarrow> bool" where
  "is_post_update (Ea_PostDecN _) = True"
| "is_post_update (Ea_PostIncN _) = True"
| "is_post_update (Ea_PostDec _) = True"
| "is_post_update (Ea_PostInc _) = True"
| "is_post_update _ = False"

section \<open>Arithmetic and shifts\<close>

fun means_zero :: "zero_ast \<Rightarrow> instruction" where
  "means_zero I_Nop = Misc Nop"
| "means_zero I_Rts = Misc Rts"
| "means_zero I_Rti = Misc Rti"
| "means_zero I_Reset = Misc Reset"
| "means_zero I_Stop = Misc Stop"
| "means_zero I_Wait = Misc Wait"
| "means_zero I_EndDo = Loop EndDo"
| "means_zero I_Illegal = Misc Illegal"

fun means_acc :: "acc_ast \<Rightarrow> instruction" where
  "means_acc (I_Inc d) = Misc (Inc (acc_of d))"
| "means_acc (I_Dec d) = Misc (Dec (acc_of d))"

definition imm6 :: "u32 \<Rightarrow> u8" where "imm6 x = ucast (x AND 0x3F)"

definition ext24 :: "u32 \<Rightarrow> u32 option" where "ext24 x = Some (x AND 0xFFFFFF)"

fun means_arith :: "arith_ast \<Rightarrow> (expr \<Rightarrow> u32) \<Rightarrow> meaning" where
  "means_arith (I_AddImm i d) v = (Arith (AddImm (imm6 (v i)) (acc_of d)), None)"
| "means_arith (I_SubImm i d) v = (Arith (SubImm (imm6 (v i)) (acc_of d)), None)"
| "means_arith (I_CmpImm i d) v = (Arith (CmpImm (imm6 (v i)) (acc_of d)), None)"
| "means_arith (I_AndImm i d) v = (Arith (AndImm (imm6 (v i)) (acc_of d)), None)"
| "means_arith (I_OrImm i d) v = (Arith (OrImm (imm6 (v i)) (acc_of d)), None)"
| "means_arith (I_EorImm i d) v = (Arith (EorImm (imm6 (v i)) (acc_of d)), None)"
| "means_arith (I_AddLong i d) v = (Arith (AddLong (acc_of d)), ext24 (v i))"
| "means_arith (I_SubLong i d) v = (Arith (SubLong (acc_of d)), ext24 (v i))"
| "means_arith (I_CmpLong i d) v = (Arith (CmpLong (acc_of d)), ext24 (v i))"
| "means_arith (I_AndLong i d) v = (Arith (AndLong (acc_of d)), ext24 (v i))"
| "means_arith (I_OrLong i d) v = (Arith (OrLong (acc_of d)), ext24 (v i))"
| "means_arith (I_EorLong i d) v = (Arith (EorLong (acc_of d)), ext24 (v i))"
| "means_arith (I_AndI i dest) v = (Arith (AndI (ucast (v i)) dest), None)"
| "means_arith (I_OrI i dest) v = (Arith (OrI (ucast (v i)) dest), None)"

fun wf_arith :: "arith_ast \<Rightarrow> bool" where
  "wf_arith (I_AndI _ dest) \<longleftrightarrow> dest < 4"
| "wf_arith (I_OrI _ dest) \<longleftrightarrow> dest < 4"
| "wf_arith _ \<longleftrightarrow> True"

definition imm5 :: "u32 \<Rightarrow> u8" where "imm5 x = ucast (x AND 0x1F)"

fun means_shift :: "shift_ast \<Rightarrow> (expr \<Rightarrow> u32) \<Rightarrow> instruction" where
  "means_shift (I_AslImm n s d) v = Shift (AslImm (imm6 (v n)) (acc_of s) (acc_of d))"
| "means_shift (I_AsrImm n s d) v = Shift (AsrImm (imm6 (v n)) (acc_of s) (acc_of d))"
| "means_shift (I_LslImm n d) v = Shift (LslImm (imm5 (v n)) (acc_of d))"
| "means_shift (I_LsrImm n d) v = Shift (LsrImm (imm5 (v n)) (acc_of d))"
| "means_shift (I_AslReg r s d) v = Shift (AslReg (register_index r) (acc_of s) (acc_of d))"
| "means_shift (I_AsrReg r s d) v = Shift (AsrReg (register_index r) (acc_of s) (acc_of d))"
| "means_shift (I_LslReg r d) v = Shift (LslReg (register_index r) (acc_of d))"
| "means_shift (I_LsrReg r d) v = Shift (LsrReg (register_index r) (acc_of d))"

section \<open>Branches\<close>

text \<open>The short form of a relative branch holds the displacement, the long form the extension word.\<close>

definition means_relative :: "branch_instr \<Rightarrow> (i32 \<Rightarrow> branch_instr) \<Rightarrow> u32 \<Rightarrow> bool \<Rightarrow> meaning" where
  "means_relative far near disp long =
    (if long then (Branch far, ext24 disp) else (Branch (near disp), None))"

text \<open>An absolute jump: a 12-bit address or an addressing mode.\<close>

definition means_jump :: "(u8 \<Rightarrow> branch_instr) \<Rightarrow> (u32 \<Rightarrow> branch_instr) \<Rightarrow> u32 \<Rightarrow> bool \<Rightarrow> meaning" where
  "means_jump far near addr long =
    (if long then (Branch (far 0x30), ext24 addr) else (Branch (near (addr AND 0xFFF)), None))"

definition means_jump_ea ::
  "(u8 \<Rightarrow> branch_instr) \<Rightarrow> (u32 \<Rightarrow> branch_instr) \<Rightarrow> effective_address \<Rightarrow> (expr \<Rightarrow> u32) \<Rightarrow> bool
   \<Rightarrow> meaning" where
  "means_jump_ea far near ea v long = (case ea of
     Ea_AbsAddr e \<Rightarrow> means_jump far near (v e) long
   | _ \<Rightarrow> (Branch (far (ea_of ea)), ea_word ea v))"

fun means_branch :: "branch_ast \<Rightarrow> (expr \<Rightarrow> u32) \<Rightarrow> u32 \<Rightarrow> bool \<Rightarrow> meaning" where
  "means_branch (I_Bcc cc t _) v pc long = means_relative (BccLong (cc_of cc)) (Bcc (cc_of cc)) (v t - pc) long"
| "means_branch (I_Bscc cc t _) v pc long =
    means_relative (BsccLong (cc_of cc)) (Bscc (cc_of cc)) (v t - pc) long"
| "means_branch (I_Bra t _) v pc long = means_relative BraLong Bra (v t - pc) long"
| "means_branch (I_Bsr t _) v pc long = means_relative BsrLong Bsr (v t - pc) long"
| "means_branch (I_BccRn cc n) v pc long = (Branch (BccRn (cc_of cc) n), None)"
| "means_branch (I_BsccRn cc n) v pc long = (Branch (BsccRn (cc_of cc) n), None)"
| "means_branch (I_BraRn n) v pc long = (Branch (BraRn n), None)"
| "means_branch (I_BsrRn n) v pc long = (Branch (BsrRn n), None)"
| "means_branch (I_Brkcc cc) v pc long = (Branch (Brkcc (cc_of cc)), None)"
| "means_branch (I_Jcc cc t) v pc long = (Branch (Jcc (cc_of cc) (v t AND 0xFFF)), None)"
| "means_branch (I_Jscc cc t) v pc long = (Branch (Jscc (cc_of cc) (v t AND 0xFFF)), None)"
| "means_branch (I_JccEa cc ea) v pc long =
    means_jump_ea (JccEa (cc_of cc)) (Jcc (cc_of cc)) ea v long"
| "means_branch (I_JsccEa cc ea) v pc long =
    means_jump_ea (JsccEa (cc_of cc)) (Jscc (cc_of cc)) ea v long"
| "means_branch (I_Jmp t _) v pc long = means_jump JmpEa Jmp (v t) long"
| "means_branch (I_Jsr t _) v pc long = means_jump JsrEa Jsr (v t) long"
| "means_branch (I_JmpEa ea) v pc long = (Branch (JmpEa (ea_of ea)), ea_word ea v)"
| "means_branch (I_JsrEa ea) v pc long = (Branch (JsrEa (ea_of ea)), ea_word ea v)"

definition wf_jump_ea :: "effective_address \<Rightarrow> bool" where
  "wf_jump_ea ea \<longleftrightarrow> wf_ea ea \<and> \<not> is_immediate ea"

fun wf_branch :: "branch_ast \<Rightarrow> bool" where
  "wf_branch (I_BccRn _ n) \<longleftrightarrow> n < 8"
| "wf_branch (I_BsccRn _ n) \<longleftrightarrow> n < 8"
| "wf_branch (I_BraRn n) \<longleftrightarrow> n < 8"
| "wf_branch (I_BsrRn n) \<longleftrightarrow> n < 8"
| "wf_branch (I_JccEa _ ea) \<longleftrightarrow> wf_jump_ea ea"
| "wf_branch (I_JsccEa _ ea) \<longleftrightarrow> wf_jump_ea ea"
| "wf_branch (I_JmpEa ea) \<longleftrightarrow> wf_jump_ea ea"
| "wf_branch (I_JsrEa ea) \<longleftrightarrow> wf_jump_ea ea"
| "wf_branch _ \<longleftrightarrow> True"

section \<open>Bit instructions\<close>

text \<open>
  The forms a bit target can take: an addressing mode, a short absolute address, the two
  peripheral ranges, a register. Peripheral addresses of \<open>bchg\<close>, \<open>jclr\<close> and their relatives may be
  given as 16-bit addresses; those of \<open>brclr\<close> and its relatives may not.
\<close>

definition raise_periph :: "u32 \<Rightarrow> u32" where
  "raise_periph a = (if 0xFF80 \<le> a \<and> a < 0x10000 then 0xFF0000 + a else a)"

definition means_data ::
  "(mem_space \<Rightarrow> u8 \<Rightarrow> 'i) \<Rightarrow> (mem_space \<Rightarrow> u8 \<Rightarrow> 'i) \<Rightarrow> (mem_space \<Rightarrow> u8 \<Rightarrow> 'i) \<Rightarrow> (mem_space \<Rightarrow> u8 \<Rightarrow> 'i)
   \<Rightarrow> mem_space \<Rightarrow> u32 \<Rightarrow> 'i \<times> u32 option" where
  "means_data Ea Aa Pp Qq s a =
    (if 0xFFFFC0 \<le> a then (Pp s (imm6 (a - 0xFFFFC0)), None)
     else if 0xFFFF80 \<le> a then (Qq s (imm6 (a - 0xFFFF80)), None)
     else if a < 0x40 then (Aa s (ucast a), None)
     else (Ea s 0x30, ext24 a))"

definition means_bit_target ::
  "(mem_space \<Rightarrow> u8 \<Rightarrow> u8 \<Rightarrow> 'i) \<Rightarrow> (mem_space \<Rightarrow> u8 \<Rightarrow> u8 \<Rightarrow> 'i) \<Rightarrow> (mem_space \<Rightarrow> u8 \<Rightarrow> u8 \<Rightarrow> 'i)
   \<Rightarrow> (mem_space \<Rightarrow> u8 \<Rightarrow> u8 \<Rightarrow> 'i) \<Rightarrow> (u8 \<Rightarrow> u8 \<Rightarrow> 'i) \<Rightarrow> (u32 \<Rightarrow> u32) \<Rightarrow> bit_target \<Rightarrow> (expr \<Rightarrow> u32) \<Rightarrow> u8
   \<Rightarrow> 'i \<times> u32 option" where
  "means_bit_target Ea Aa Pp Qq Reg norm t v b = (case t of
     Bt_Reg r \<Rightarrow> (Reg (reg_of r) b, None)
   | Bt_Ea s ea \<Rightarrow> (Ea (space_of s) (norm_all (ea_of ea)) b, ea_word ea v)
   | Bt_Addr s e \<Rightarrow> means_data (\<lambda>s x. Ea s x b) (\<lambda>s x. Aa s x b) (\<lambda>s x. Pp s x b) (\<lambda>s x. Qq s x b)
       (space_of s) (norm (v e)))"

fun means_bitop :: "bitop_ast \<Rightarrow> (expr \<Rightarrow> u32) \<Rightarrow> meaning" where
  "means_bitop (I_Bchg b t) v =
    map_prod Bitop id (means_bit_target BchgEa BchgAa BchgPp BchgQq BchgReg raise_periph t v (imm5 (v b)))"
| "means_bitop (I_Bclr b t) v =
    map_prod Bitop id (means_bit_target BclrEa BclrAa BclrPp BclrQq BclrReg raise_periph t v (imm5 (v b)))"
| "means_bitop (I_Bset b t) v =
    map_prod Bitop id (means_bit_target BsetEa BsetAa BsetPp BsetQq BsetReg raise_periph t v (imm5 (v b)))"
| "means_bitop (I_Btst b t) v =
    map_prod Bitop id (means_bit_target BtstEa BtstAa BtstPp BtstQq BtstReg raise_periph t v (imm5 (v b)))"

fun wf_bit_target :: "bit_target \<Rightarrow> bool" where
  "wf_bit_target (Bt_Reg r) \<longleftrightarrow> wf_register r"
| "wf_bit_target (Bt_Ea s ea) \<longleftrightarrow> data_space s \<and> wf_ea ea"
| "wf_bit_target (Bt_Addr s _) \<longleftrightarrow> data_space s"

fun wf_bitop :: "bitop_ast \<Rightarrow> bool" where
  "wf_bitop (I_Bchg _ t) \<longleftrightarrow> wf_bit_target t"
| "wf_bitop (I_Bclr _ t) \<longleftrightarrow> wf_bit_target t"
| "wf_bitop (I_Bset _ t) \<longleftrightarrow> wf_bit_target t"
| "wf_bitop (I_Btst _ t) \<longleftrightarrow> wf_bit_target t"

text \<open>The branches take the target of the branch as their extension word.\<close>

definition to_target :: "('i \<Rightarrow> instruction) \<Rightarrow> u32 \<Rightarrow> 'i \<times> u32 option \<Rightarrow> meaning" where
  "to_target G dest m = (G (fst m), ext24 dest)"

fun means_bitbr :: "bit_branch_ast \<Rightarrow> (expr \<Rightarrow> u32) \<Rightarrow> u32 \<Rightarrow> meaning" where
  "means_bitbr (I_Jclr b t a) v pc = to_target Bit_jump (v a)
    (means_bit_target JclrEa JclrAa JclrPp JclrQq JclrReg raise_periph t v (imm5 (v b)))"
| "means_bitbr (I_Jset b t a) v pc = to_target Bit_jump (v a)
    (means_bit_target JsetEa JsetAa JsetPp JsetQq JsetReg raise_periph t v (imm5 (v b)))"
| "means_bitbr (I_Jsclr b t a) v pc = to_target Bit_jump (v a)
    (means_bit_target JsclrEa JsclrAa JsclrPp JsclrQq JsclrReg raise_periph t v (imm5 (v b)))"
| "means_bitbr (I_Jsset b t a) v pc = to_target Bit_jump (v a)
    (means_bit_target JssetEa JssetAa JssetPp JssetQq JssetReg raise_periph t v (imm5 (v b)))"
| "means_bitbr (I_Brclr b t a) v pc = to_target Bit_branch (v a - pc)
    (means_bit_target BrclrEa BrclrAa BrclrPp BrclrQq BrclrReg id t v (imm5 (v b)))"
| "means_bitbr (I_Brset b t a) v pc = to_target Bit_branch (v a - pc)
    (means_bit_target BrsetEa BrsetAa BrsetPp BrsetQq BrsetReg id t v (imm5 (v b)))"
| "means_bitbr (I_Bsclr b t a) v pc = to_target Bit_bsr (v a - pc)
    (means_bit_target BsclrEa BsclrAa BsclrPp BsclrQq BsclrReg id t v (imm5 (v b)))"
| "means_bitbr (I_Bsset b t a) v pc = to_target Bit_bsr (v a - pc)
    (means_bit_target BssetEa BssetAa BssetPp BssetQq BssetReg id t v (imm5 (v b)))"

fun bitbr_target :: "bit_branch_ast \<Rightarrow> bit_target" where
  "bitbr_target (I_Jclr _ t _) = t"
| "bitbr_target (I_Jset _ t _) = t"
| "bitbr_target (I_Jsclr _ t _) = t"
| "bitbr_target (I_Jsset _ t _) = t"
| "bitbr_target (I_Brclr _ t _) = t"
| "bitbr_target (I_Brset _ t _) = t"
| "bitbr_target (I_Bsclr _ t _) = t"
| "bitbr_target (I_Bsset _ t _) = t"

section \<open>Loops\<close>

definition means_count ::
  "(u16 \<Rightarrow> loop_instr) \<Rightarrow> (u8 \<Rightarrow> loop_instr) \<Rightarrow> (mem_space \<Rightarrow> u8 \<Rightarrow> loop_instr)
   \<Rightarrow> (mem_space \<Rightarrow> u8 \<Rightarrow> loop_instr) \<Rightarrow> loop_source \<Rightarrow> (expr \<Rightarrow> u32) \<Rightarrow> loop_instr" where
  "means_count Imm Reg Aa Ea src v = (case src of
     Ls_Imm i \<Rightarrow> Imm (ucast (v i AND 0xFFF))
   | Ls_Reg r \<Rightarrow> Reg (reg_of r)
   | Ls_Aa s e \<Rightarrow> Aa (space_of s) (ucast (v e))
   | Ls_Ea s ea \<Rightarrow> (case ea of
       Ea_AbsAddr e \<Rightarrow> Aa (space_of s) (ucast (v e))
     | Ea_ForceLongAbsAddr e \<Rightarrow> Aa (space_of s) (ucast (v e))
     | _ \<Rightarrow> Ea (space_of s) (ea_of ea)))"

fun rep_as_loop :: "rep_source \<Rightarrow> loop_source" where
  "rep_as_loop (Rs_Imm i) = Ls_Imm i"
| "rep_as_loop (Rs_Reg r) = Ls_Reg r"
| "rep_as_loop (Rs_Aa s e) = Ls_Aa s e"
| "rep_as_loop (Rs_Ea s ea) = Ls_Ea s ea"

fun means_loop :: "loop_ast \<Rightarrow> (expr \<Rightarrow> u32) \<Rightarrow> u32 \<Rightarrow> meaning" where
  "means_loop (I_Do src e) v pc = (Loop (means_count DoImm DoReg DoAa DoEa src v), ext24 (v e - 1))"
| "means_loop (I_DoForever e) v pc = (Loop DoForever, ext24 (v e - 1))"
| "means_loop (I_Dor src e) v pc =
    (Loop (means_count DorImm DorReg DorAa DorEa src v), ext24 (v e - 1 - pc))"
| "means_loop (I_DorForever e) v pc = (Loop DorForever, ext24 (v e - 1 - pc))"
| "means_loop (I_Rep src) v pc =
    (Loop (means_count RepImm RepReg RepAa RepEa (rep_as_loop src) v), None)"

fun wf_source :: "loop_source \<Rightarrow> bool" where
  "wf_source (Ls_Imm _) \<longleftrightarrow> True"
| "wf_source (Ls_Reg r) \<longleftrightarrow> wf_register r"
| "wf_source (Ls_Aa s _) \<longleftrightarrow> data_space s"
| "wf_source (Ls_Ea s ea) \<longleftrightarrow> data_space s \<and> wf_ea ea"

fun wf_loop :: "loop_ast \<Rightarrow> bool" where
  "wf_loop (I_Do src _) \<longleftrightarrow> wf_source src"
| "wf_loop (I_Dor src _) \<longleftrightarrow> wf_source src"
| "wf_loop (I_Rep src) \<longleftrightarrow> wf_source (rep_as_loop src)"
| "wf_loop _ \<longleftrightarrow> True"

section \<open>Multiplication and address arithmetic\<close>

definition mul_shift_of :: "mul_shift_mnem \<Rightarrow> mul_shift_op" where
  "mul_shift_of m = (case m of Mn_Mpy \<Rightarrow> MulShift_Mpy | Mn_Mpyr \<Rightarrow> MulShift_Mpyr
     | Mn_Mac \<Rightarrow> MulShift_Mac | Mn_Macr \<Rightarrow> MulShift_Macr)"

fun means_mul :: "mul_ast \<Rightarrow> (expr \<Rightarrow> u32) \<Rightarrow> meaning" where
  "means_mul (I_MulShift m s src n d) v =
    (Mul (MulShift (mul_shift_of m) (ucast (v n)) (register_index src) (acc_of d) (s = Minus)), None)"
| "means_mul (I_MpyI s i src d) v = (Mul (MpyI (s = Minus) (acc_of d) (register_index src)), ext24 (v i))"
| "means_mul (I_MpyrI s i src d) v = (Mul (MpyrI (s = Minus) (acc_of d) (register_index src)), ext24 (v i))"
| "means_mul (I_MacI s i src d) v = (Mul (MacI (s = Minus) (acc_of d) (register_index src)), ext24 (v i))"
| "means_mul (I_MacrI s i src d) v = (Mul (MacrI (s = Minus) (acc_of d) (register_index src)), ext24 (v i))"
| "means_mul (I_Dmac ss s s1 s2 d) v =
    (Mul (Dmac ss (s = Minus) (acc_of d) (register_index s1) (register_index s2)), None)"
| "means_mul (I_MacSU su s s1 s2 d) v =
    (Mul (MacSU (if su then 0 else 1) (s = Minus) (acc_of d) (register_index s1) (register_index s2)), None)"
| "means_mul (I_MpySU su s s1 s2 d) v =
    (Mul (MpySU (if su then 0 else 1) (s = Minus) (acc_of d) (register_index s1) (register_index s2)), None)"
| "means_mul (I_Div src d) v = (Mul (Div (register_index src) (acc_of d)), None)"
| "means_mul (I_CmpU src d) v = (Arith (CmpU (register_index src) (acc_of d)), None)"
| "means_mul (I_Norm n d) v = (Address (Norm n (acc_of d)), None)"

fun wf_mul :: "mul_ast \<Rightarrow> bool" where
  "wf_mul (I_Dmac ss _ _ _ _) \<longleftrightarrow> ss \<in> {0, 2, 3}"
| "wf_mul (I_Norm n _) \<longleftrightarrow> n < 8"
| "wf_mul _ \<longleftrightarrow> True"

fun means_address :: "address_ast \<Rightarrow> (expr \<Rightarrow> u32) \<Rightarrow> u32 \<Rightarrow> meaning" where
  "means_address (I_Lua ea d) v pc = (Address (Lua (ea_of ea) (reg_of d)), None)"
| "means_address (I_LuaRel base off dst_is_n dst) v pc =
    (Address (LuaRel (ucast (v off AND 0x7F)) base dst dst_is_n), None)"
| "means_address (I_LraRn n d) v pc = (Address (LraRn n (reg_of d)), None)"
| "means_address (I_LraDisp t d) v pc = (Address (LraDisp (reg_of d)), ext24 (v t - pc))"

fun wf_address :: "address_ast \<Rightarrow> bool" where
  "wf_address (I_Lua ea d) \<longleftrightarrow> wf_ea ea \<and> is_post_update ea \<and> wf_register d"
| "wf_address (I_LuaRel base _ _ dst) \<longleftrightarrow> base < 8 \<and> dst < 8"
| "wf_address (I_LraRn n d) \<longleftrightarrow> n < 8 \<and> wf_register d"
| "wf_address (I_LraDisp _ d) \<longleftrightarrow> wf_register d"

section \<open>Bit fields, traps and cache control\<close>

fun means_special :: "special_ast \<Rightarrow> (expr \<Rightarrow> u32) \<Rightarrow> u32 \<Rightarrow> meaning" where
  "means_special (I_Clb s d) v pc = (Special (Clb (acc_of s) (acc_of d)), None)"
| "means_special (I_Normf r d) v pc = (Special (Normf (register_index r) (acc_of d)), None)"
| "means_special (I_Merge r d) v pc = (Field (Merge (register_index r) (acc_of d)), None)"
| "means_special (I_ExtractReg r s d) v pc =
    (Field (ExtractReg (register_index r) (acc_of s) (acc_of d)), None)"
| "means_special (I_ExtractImm co s d) v pc = (Field (ExtractImm (acc_of s) (acc_of d)), ext24 (v co))"
| "means_special (I_ExtractuReg r s d) v pc =
    (Field (ExtractuReg (register_index r) (acc_of s) (acc_of d)), None)"
| "means_special (I_ExtractuImm co s d) v pc = (Field (ExtractuImm (acc_of s) (acc_of d)), ext24 (v co))"
| "means_special (I_InsertReg r s d) v pc =
    (Field (InsertReg (register_index r) (register_index s) (acc_of d)), None)"
| "means_special (I_InsertImm co s d) v pc = (Field (InsertImm (register_index s) (acc_of d)), ext24 (v co))"
| "means_special (I_Vsl s i ea) v pc = (Vsl (acc_of s) (ea_of ea) i, ea_word ea v)"
| "means_special I_Debug v pc = (Special Debug, None)"
| "means_special (I_Debugcc cc) v pc = (Special (Debugcc (cc_of cc)), None)"
| "means_special I_Trap v pc = (Special Trap, None)"
| "means_special (I_Trapcc cc) v pc = (Special (Trapcc (cc_of cc)), None)"
| "means_special I_Pflush v pc = (Cache Pflush, None)"
| "means_special I_Pflushun v pc = (Cache Pflushun, None)"
| "means_special I_Pfree v pc = (Cache Pfree, None)"
| "means_special (I_PlockEa ea) v pc = (Cache (PlockEa (ea_of ea)), ea_word ea v)"
| "means_special (I_Plockr t) v pc = (Cache Plockr, ext24 (v t - pc))"
| "means_special (I_PunlockEa ea) v pc = (Cache (PunlockEa (ea_of ea)), ea_word ea v)"
| "means_special (I_Punlockr t) v pc = (Cache Punlockr, ext24 (v t - pc))"

fun wf_special :: "special_ast \<Rightarrow> bool" where
  "wf_special (I_Vsl _ i ea) \<longleftrightarrow> i < 2 \<and> wf_jump_ea ea"
| "wf_special (I_PlockEa ea) \<longleftrightarrow> wf_jump_ea ea"
| "wf_special (I_PunlockEa ea) \<longleftrightarrow> wf_jump_ea ea"
| "wf_special _ \<longleftrightarrow> True"

section \<open>Moves\<close>

text \<open>
  The move type of a move of the memory or immediate to a data or address register is a matter of
  the register's number: the type is a field of the word that the number reaches into.
\<close>

definition mem_move :: "register \<Rightarrow> parallel_move_type" where
  "mem_move r = (if register_index r < 8 then Pm4 else Pm5)"

definition imm_move :: "register \<Rightarrow> parallel_move_type" where
  "imm_move r = (if register_index r < 16 then Pm2 else Pm3)"

definition means_movec_reg :: "parallel_alu \<Rightarrow> register \<Rightarrow> register \<Rightarrow> u32 \<Rightarrow> meaning" where
  "means_movec_reg alu src dst w0 =
    (if is_movec_only src then (Move_op (MovecReg (reg_of dst) (reg_of src) False), None)
     else if is_movec_only dst then (Move_op (MovecReg (reg_of src) (reg_of dst) True), None)
     else (Parallel alu Pm2 w0, None))"

definition means_movec_ea ::
  "parallel_alu \<Rightarrow> ast_space \<Rightarrow> effective_address \<Rightarrow> register \<Rightarrow> bool \<Rightarrow> (expr \<Rightarrow> u32) \<Rightarrow> u32 \<Rightarrow> meaning" where
  "means_movec_ea alu s ea r w v w0 =
    (if is_movec_only r then (Move_op (MovecEa (ea_of ea) (reg_of r) w (space_of s)), ea_word ea v)
     else (Parallel alu (mem_move r) w0, ea_word ea v))"

definition means_movec_aa ::
  "parallel_alu \<Rightarrow> ast_space \<Rightarrow> u32 \<Rightarrow> register \<Rightarrow> bool \<Rightarrow> bool \<Rightarrow> u32 \<Rightarrow> meaning" where
  "means_movec_aa alu s a r w long w0 =
    (if \<not> is_movec_only r then (Parallel alu (mem_move r) w0, if long then ext24 a else None)
     else if long then (Move_op (MovecEa 0x30 (reg_of r) w (space_of s)), ext24 a)
     else (Move_op (MovecAa (ucast a) (reg_of r) w (space_of s)), None))"

text \<open>An immediate to a data or address register is short or, with an extension word, a read.\<close>

definition means_imm :: "parallel_alu \<Rightarrow> u32 \<Rightarrow> register \<Rightarrow> bool \<Rightarrow> u32 \<Rightarrow> meaning" where
  "means_imm alu x r long w0 =
    (if long then (Parallel alu (mem_move r) w0, ext24 x) else (Parallel alu (imm_move r) w0, None))"

definition means_movep ::
  "ast_space \<Rightarrow> u32 \<Rightarrow> ast_space \<Rightarrow> u8 \<Rightarrow> bool \<Rightarrow> instruction" where
  "means_movep ps a es ea w =
    (if 0xFFFFC0 \<le> a then Move_op (Movep23 (imm6 (a - 0xFFFFC0)) ea w (space_of ps) (space_of es))
     else Move_op (MovepQq (imm6 (a - 0xFFFF80)) ea w (space_of ps) (space_of es)))"

fun means_move :: "move_ast \<Rightarrow> (expr \<Rightarrow> u32) \<Rightarrow> bool \<Rightarrow> u32 \<Rightarrow> meaning" where
  "means_move (I_MovecReg src dst _) v long w0 = means_movec_reg Move src dst w0"
| "means_move (I_MovecAa s e r w) v long w0 = means_movec_aa Move s (v e) r w long w0"
| "means_move (I_MovecEa s ea r w) v long w0 = means_movec_ea Move s ea r w v w0"
| "means_move (I_MovecImm i r) v long w0 =
    (if is_movec_only r then (Move_op (MovecImm (ucast (v i)) (reg_of r)), None)
     else means_imm Move (v i) r long w0)"
| "means_move (I_MovemEa ea r w) v long w0 = (Move_op (MovemEa (ea_of ea) (reg_of r) w), ea_word ea v)"
| "means_move (I_MovemAa e r w) v long w0 =
    (if long then (Move_op (MovemEa 0x30 (reg_of r) w), ext24 (v e))
     else (Move_op (MovemAa (ucast (v e)) (reg_of r) w), None))"
| "means_move (I_Movep23 ps pa es ea w) v long w0 =
    (let a = raise_periph (v pa)
     in case ea of
       Ea_AbsAddr e \<Rightarrow>
         if a < 0xFFFF80 then (means_movep es (raise_periph (v e)) ps 0x30 True, ext24 (v pa))
         else (means_movep ps a es 0x30 w, ext24 (v e))
     | Ea_ForceLongAbsAddr e \<Rightarrow>
         if a < 0xFFFF80 then (means_movep es (raise_periph (v e)) ps 0x30 True, ext24 (v pa))
         else (means_movep ps a es 0x30 w, ext24 (v e))
     | _ \<Rightarrow> (means_movep ps a es (ea_of ea) w, None))"
| "means_move (I_Movep23Imm ps pa i) v long w0 =
    (means_movep ps (raise_periph (v pa)) Sp_X 0x34 True, ext24 (v i))"
| "means_move (I_MovepXQq pa es ea w) v long w0 =
    (Move_op (MovepQq (imm6 (raise_periph (v pa) - 0xFFFF80)) (ea_of ea) w Space_X (space_of es)),
     ea_word ea v)"
| "means_move (I_MovepXQqImm pa i) v long w0 =
    (Move_op (MovepQq (imm6 (raise_periph (v pa) - 0xFFFF80)) 0x34 True Space_X Space_X), ext24 (v i))"
| "means_move (I_Movep1 ps pa ea w) v long w0 =
    (let a = raise_periph (v pa)
     in (Move_op (if 0xFFFFC0 \<le> a then Movep1 (imm6 (a - 0xFFFFC0)) (ea_of ea) w (space_of ps)
           else MovepQqPea (imm6 (a - 0xFFFF80)) (ea_of ea) w (space_of ps)), ea_word ea v))"
| "means_move (I_Movep0 ps pa r w) v long w0 =
    (let a = raise_periph (v pa)
     in (Move_op (if 0xFFFFC0 \<le> a then Movep0 (imm6 (a - 0xFFFFC0)) (reg_of r) w (space_of ps)
           else MovepQqR (imm6 (a - 0xFFFF80)) (reg_of r) w (space_of ps)), None))"
| "means_move (I_MoveLongDisp s n off r w) v long w0 =
    (Move_op (MoveLongDisp (space_of s) w n (reg_of r)), ext24 (v off))"
| "means_move (I_MoveShortDisp s n off r w) v long w0 =
    (Move_op (MoveShortDisp (space_of s) (ucast (v off AND 0x7F)) w n (reg_of r)), None)"

text \<open>An immediate as an addressing mode is a source, and of the x space.\<close>

fun wf_imm_ea :: "ast_space \<Rightarrow> effective_address \<Rightarrow> bool \<Rightarrow> bool" where
  "wf_imm_ea s (Ea_Immediate _) w \<longleftrightarrow> s = Sp_X \<and> w"
| "wf_imm_ea _ _ _ \<longleftrightarrow> True"

fun wf_move :: "move_ast \<Rightarrow> bool" where
  "wf_move (I_MovecReg src dst _) \<longleftrightarrow> wf_register src \<and> wf_register dst"
| "wf_move (I_MovecAa s _ r _) \<longleftrightarrow> data_space s \<and> wf_register r"
| "wf_move (I_MovecEa s ea r w) \<longleftrightarrow> data_space s \<and> wf_ea ea \<and> wf_register r \<and> wf_imm_ea s ea w"
| "wf_move (I_MovecImm _ r) \<longleftrightarrow> wf_register r"
| "wf_move (I_MovemEa ea r _) \<longleftrightarrow> wf_jump_ea ea \<and> wf_register r"
| "wf_move (I_MovemAa _ r _) \<longleftrightarrow> wf_register r"
| "wf_move (I_Movep23 ps _ es ea _) \<longleftrightarrow> data_space ps \<and> data_space es \<and> wf_jump_ea ea"
| "wf_move (I_Movep23Imm ps _ _) \<longleftrightarrow> data_space ps"
| "wf_move (I_MovepXQq _ es ea _) \<longleftrightarrow> data_space es \<and> wf_jump_ea ea"
| "wf_move (I_MovepXQqImm _ _) \<longleftrightarrow> True"
| "wf_move (I_Movep1 ps _ ea _) \<longleftrightarrow> data_space ps \<and> wf_jump_ea ea"
| "wf_move (I_Movep0 ps _ r _) \<longleftrightarrow> data_space ps \<and> wf_register r"
| "wf_move (I_MoveLongDisp s n _ r _) \<longleftrightarrow> data_space s \<and> n < 8 \<and> wf_register r"
| "wf_move (I_MoveShortDisp s n _ r _) \<longleftrightarrow> data_space s \<and> n < 8 \<and> wf_register r"

section \<open>Parallel instructions\<close>

fun means_pmove :: "parallel_alu \<Rightarrow> parallel_move \<Rightarrow> (expr \<Rightarrow> u32) \<Rightarrow> bool \<Rightarrow> u32 \<Rightarrow> meaning" where
  "means_pmove alu M_None v long w0 = (Parallel alu Pm2 w0, None)"
| "means_pmove alu (M_RegToReg src dst) v long w0 = means_movec_reg alu src dst w0"
| "means_pmove alu (M_EaUpdate ea _) v long w0 = (Parallel alu Pm2 w0, None)"
| "means_pmove alu (M_ImmToReg i r _) v long w0 =
    (if \<not> is_movec_only r then means_imm alu (v i) r long w0
     else if long then (Move_op (MovecEa 0x34 (reg_of r) True Space_X), ext24 (v i))
     else (Move_op (MovecImm (ucast (v i)) (reg_of r)), None))"
| "means_pmove alu (M_XYMem s ea r w) v long w0 = means_movec_ea alu s ea r w v w0"
| "means_pmove alu (M_XYAbs s e r w _) v long w0 = means_movec_aa alu s (v e) r w long w0"
| "means_pmove alu (M_LMem ea r w) v long w0 = (Parallel alu Pm4 w0, ea_word ea v)"
| "means_pmove alu (M_LAbs e r w _) v long w0 = (Parallel alu Pm4 w0, if long then ext24 (v e) else None)"
| "means_pmove alu (M_LImm i r) v long w0 = (Parallel alu Pm4 w0, ext24 (v i))"
| "means_pmove alu (M_XReg ea _ _ _ _) v long w0 = (Parallel alu Pm1 w0, ea_word ea v)"
| "means_pmove alu (M_XImmReg i _ _ _) v long w0 = (Parallel alu Pm1 w0, ext24 (v i))"
| "means_pmove alu (M_RegY _ _ ea _ _) v long w0 = (Parallel alu Pm1 w0, ea_word ea v)"
| "means_pmove alu (M_RegYImm _ _ i _) v long w0 = (Parallel alu Pm1 w0, ext24 (v i))"
| "means_pmove alu (M_XYDouble _ _ _ _ _ _) v long w0 = (Parallel alu Pm8 w0, None)"
| "means_pmove alu (M_Pm0 _ _ ea _) v long w0 = (Parallel alu Pm0 w0, ea_word ea v)"
| "means_pmove alu (M_Ifcc _) v long w0 = (Parallel alu Pm2 w0, None)"
| "means_pmove alu (M_IfccU _) v long w0 = (Parallel alu Pm2 w0, None)"

fun wf_pmove :: "parallel_move \<Rightarrow> bool" where
  "wf_pmove (M_RegToReg src dst) \<longleftrightarrow> wf_register src \<and> wf_register dst"
| "wf_pmove (M_EaUpdate ea _) \<longleftrightarrow> wf_ea ea \<and> is_post_update ea"
| "wf_pmove (M_ImmToReg _ r _) \<longleftrightarrow> wf_register r"
| "wf_pmove (M_XYMem s ea r w) \<longleftrightarrow> data_space s \<and> wf_ea ea \<and> wf_register r \<and> wf_imm_ea s ea w"
| "wf_pmove (M_XYAbs s _ r _ _) \<longleftrightarrow> data_space s \<and> wf_register r"
| "wf_pmove (M_LMem ea _ _) \<longleftrightarrow> wf_jump_ea ea"
| "wf_pmove (M_XReg ea _ _ _ _) \<longleftrightarrow> wf_jump_ea ea"
| "wf_pmove (M_RegY _ _ ea _ _) \<longleftrightarrow> wf_jump_ea ea"
| "wf_pmove (M_XYDouble x_ea _ y_ea _ _ _) \<longleftrightarrow> wf_ea x_ea \<and> wf_ea y_ea"
| "wf_pmove (M_Pm0 _ _ ea _) \<longleftrightarrow> wf_jump_ea ea"
| "wf_pmove _ \<longleftrightarrow> True"

section \<open>Instructions\<close>

fun means :: "asm_instruction \<Rightarrow> (expr \<Rightarrow> u32) \<Rightarrow> u32 \<Rightarrow> encoded_instruction \<Rightarrow> meaning" where
  "means (I_zero i) v pc e = (means_zero i, None)"
| "means (I_acc i) v pc e = (means_acc i, None)"
| "means (I_arith i) v pc e = means_arith i v"
| "means (I_shift i) v pc e = (means_shift i v, None)"
| "means (I_branch i) v pc e = means_branch i v pc (word1 e \<noteq> None)"
| "means (I_bitop i) v pc e = means_bitop i v"
| "means (I_bit_branch i) v pc e = means_bitbr i v pc"
| "means (I_loop i) v pc e = means_loop i v pc"
| "means (I_move i) v pc e = means_move i v (word1 e \<noteq> None) (word0 e)"
| "means (I_mul i) v pc e = means_mul i v"
| "means (I_address i) v pc e = means_address i v pc"
| "means (I_special i) v pc e = means_special i v pc"
| "means (I_Tcc cc acc r) v pc e =
    (Tcc (cc_of cc) (map_option (map_prod register_index register_index) acc) r, None)"
| "means (I_Parallel alu pmove) v pc e = means_pmove alu pmove v (word1 e \<noteq> None) (word0 e)"

fun wf_tcc :: "(register \<times> register) option \<Rightarrow> (u8 \<times> u8) option \<Rightarrow> bool" where
  "wf_tcc acc r \<longleftrightarrow> (acc = None \<longrightarrow> r \<noteq> None) \<and> pred_option (\<lambda>(m, n). m < 8 \<and> n < 8) r \<and>
     pred_option (\<lambda>(s, d). \<not> is_l_composite s \<and> \<not> is_l_composite d) acc"

fun wf_instruction :: "asm_instruction \<Rightarrow> bool" where
  "wf_instruction (I_zero _) \<longleftrightarrow> True"
| "wf_instruction (I_acc _) \<longleftrightarrow> True"
| "wf_instruction (I_arith i) \<longleftrightarrow> wf_arith i"
| "wf_instruction (I_shift _) \<longleftrightarrow> True"
| "wf_instruction (I_branch i) \<longleftrightarrow> wf_branch i"
| "wf_instruction (I_bitop i) \<longleftrightarrow> wf_bitop i"
| "wf_instruction (I_bit_branch i) \<longleftrightarrow> wf_bit_target (bitbr_target i)"
| "wf_instruction (I_loop i) \<longleftrightarrow> wf_loop i"
| "wf_instruction (I_move i) \<longleftrightarrow> wf_move i"
| "wf_instruction (I_mul i) \<longleftrightarrow> wf_mul i"
| "wf_instruction (I_address i) \<longleftrightarrow> wf_address i"
| "wf_instruction (I_special i) \<longleftrightarrow> wf_special i"
| "wf_instruction (I_Tcc _ acc r) \<longleftrightarrow> wf_tcc acc r"
| "wf_instruction (I_Parallel alu pmove) \<longleftrightarrow> alu \<in> set decodable_alus \<and> wf_pmove pmove"

text \<open>The value of an expression, zero where it has none.\<close>

definition value_at :: "symbol_table \<Rightarrow> u32 \<Rightarrow> expr \<Rightarrow> u32" where
  "value_at syms pc e = (case eval e syms pc of Ok x \<Rightarrow> x | _ \<Rightarrow> 0)"

end
