(* ===== verification/Asm_Operand_Laws.thy ===== *)
theory Asm_Operand_Laws
  imports Asm_Meaning
begin

text \<open>
  The operands of assembled words: the widths of their codes, how the decoder reads them back, and
  the claim \<open>decodes\<close> that a word has a meaning, with the rule that proves it from one row.
\<close>

unbundle bit_operations_syntax

section \<open>Operands\<close>

lemma acc_mask: "ast_acc_bits d AND 1 = ast_acc_bits d"
  by (cases d) (simp_all add: ast_acc_bits_def)

lemma sign_mask: "sign_bit s AND 1 = sign_bit s"
  by (cases s) (simp_all add: sign_bit_def)

lemma space_mask: "ast_space_bit s AND 1 = ast_space_bit s"
  by (cases s) (simp_all add: ast_space_bit_def)

lemma cc_mask: "ast_cc_bits cc AND 0xF = ast_cc_bits cc"
  by (cases cc) (simp_all add: ast_cc_bits_def)

text \<open>Small numbers in bytes.\<close>

lemma byte_mask:
  fixes n :: u8
  assumes "n < 2 ^ k" "k < 8"
  shows "(ucast n :: u32) AND (2 ^ k - 1) = ucast n"
proof -
  have "n AND mask k = n" using assms by (simp add: less_mask_eq)
  then have "bit n j \<Longrightarrow> j < k" for j by (metis bit_and_iff bit_mask_iff)
  then show ?thesis
    unfolding mask_eq_exp_minus_1 [symmetric] by (intro bit_word_eqI) (auto simp: bit_simps)
qed

lemma bit1_mask: "n < 2 \<Longrightarrow> (ucast (n :: u8) :: u32) AND 1 = ucast n"
  using byte_mask [of n 1] by simp

lemma bit2_mask: "n < 4 \<Longrightarrow> (ucast (n :: u8) :: u32) AND 3 = ucast n"
  using byte_mask [of n 2] by simp

lemma bit3_mask: "n < 8 \<Longrightarrow> (ucast (n :: u8) :: u32) AND 7 = ucast n"
  using byte_mask [of n 3] by simp

lemma byte_and [simp]: "ucast (x AND 0xFF :: u32) = (ucast x :: u8)"
proof -
  have m: "(0xFF :: u32) = mask 8" by (simp add: mask_eq_exp_minus_1)
  show ?thesis unfolding m by (rule bit_word_eqI) (auto simp: bit_simps)
qed

lemma byte_ucast [simp]: "ucast (ucast (n :: u8) :: u32) = n"
  by (rule bit_word_eqI) (auto simp: bit_simps)

lemma byte_less4: "n < 4 \<Longrightarrow> \<not> 3 < (n :: u8)"
  by (simp add: word_less_nat_alt)

lemmas operand_masks = fits_mask [OF acc_mask] fits_mask [OF sign_mask] fits_mask [OF space_mask]
  fits_mask [OF cc_mask] fits_mask [OF bit1_mask] fits_mask [OF bit2_mask] fits_mask [OF bit3_mask] byte_less4

lemma acc_read: "(if ast_acc_bits d = 0 then Acc_A else Acc_B) = acc_of d"
  by (cases d) (simp_all add: ast_acc_bits_def acc_of_def)

lemma sign_read: "sign_bit s = 0 \<longleftrightarrow> s = Plus"
  by (cases s) (simp_all add: sign_bit_def)

lemma space_read: "data_space s \<Longrightarrow> mem_space_xy (ast_space_bit s) = Some (space_of s)"
  by (auto simp: data_space_def mem_space_xy_def ast_space_bit_def space_of_def)

lemma cc_read: "cond_code_from_bits (ast_cc_bits cc) = Some (cc_of cc)"
  by (cases cc) (simp_all add: cond_code_from_bits_def cond_codes_def ast_cc_bits_def cc_of_def)

lemmas operand_reads = acc_read sign_read space_read cc_read

lemma value_at: "eval e syms pc = Ok x \<Longrightarrow> value_at syms pc e = x"
  by (simp add: value_at_def)

lemma word_enc_sel [simp]:
  "word0 (word_enc w) = w AND 0xFFFFFF" "word1 (word_enc w) = None"
  "word0 (words_enc w x) = w AND 0xFFFFFF" "word1 (words_enc w x) = Some (x AND 0xFFFFFF)"
  by (simp_all add: word_enc_def words_enc_def)

text \<open>
  The claim for one instruction: what the words decode to, and that the decoder's length of it is
  the number of words.
\<close>

definition decodes :: "encoded_instruction \<Rightarrow> meaning \<Rightarrow> bool" where
  "decodes e m \<longleftrightarrow> decode (word0 e) = Some (fst m) \<and> word1 e = snd m \<and>
     instruction_length (fst m) = (if snd m = None then 1 else 2)"

section \<open>Addressing modes\<close>

fun is_abs :: "effective_address \<Rightarrow> bool" where
  "is_abs (Ea_AbsAddr _) = True"
| "is_abs (Ea_ForceLongAbsAddr _) = True"
| "is_abs (Ea_Immediate _) = True"
| "is_abs _ = False"

lemma byte_less8: "n < 8 \<Longrightarrow> (n :: u8) \<in> {0, 1, 2, 3, 4, 5, 6, 7}"
proof -
  assume "n < 8"
  then have "unat n < 8" by (simp add: word_less_nat_alt)
  then have "unat n \<in> {0, 1, 2, 3, 4, 5, 6, 7}" by auto
  then show ?thesis by (auto simp: word_unat_eq_iff)
qed

lemma encode_ea_of:
  assumes "encode_ea ea syms pc = Ok (b, x)" "wf_ea ea"
  shows "b = ea_of ea \<and> x = ea_word ea (value_at syms pc)"
  using assms
  by (cases ea) (auto simp: encode_ea_def encode_ea_mode_def value_at_def dest!: byte_less8)

lemma ea_mask: "wf_ea ea \<Longrightarrow> ucast (ea_of ea) AND 0x3F = (ucast (ea_of ea) :: u32)"
  by (cases ea) (auto simp: encode_ea_mode_def dest!: byte_less8)

lemma ea_mode6: "wf_ea ea \<Longrightarrow> drop_bit 3 (ucast (ea_of ea)) AND 7 = (6 :: u32) \<longleftrightarrow> is_abs ea"
  by (cases ea) (auto simp: encode_ea_mode_def dest!: byte_less8)

lemma ea_legal:
  "is_abs ea \<longrightarrow> ucast (ea_of ea) AND 7 = (0 :: u32) \<or> ucast (ea_of ea) AND 7 = (4 :: u32)"
  by (cases ea) (auto simp: encode_ea_mode_def)

lemma ea_word_None: "ea_word ea v = None \<longleftrightarrow> \<not> is_abs ea"
  by (cases ea) auto

lemma norm_ea: "wf_ea ea \<Longrightarrow> \<not> is_immediate ea \<Longrightarrow> norm_all (ea_of ea) = ea_of ea"
  by (cases ea) (auto simp: encode_ea_mode_def norm_all_def dest!: byte_less8)

lemma norm_lo_ea: "wf_ea ea \<Longrightarrow> norm_lo (ea_of ea) = ea_of ea"
  by (cases ea) (auto simp: encode_ea_mode_def norm_lo_def dest!: byte_less8)

lemma ea_extended:
  "wf_ea ea \<Longrightarrow> drop_bit 3 (ea_of ea) = 6 \<longleftrightarrow> is_abs ea"
  "wf_ea ea \<Longrightarrow> drop_bit 3 (norm_all (ea_of ea)) = 6 \<longleftrightarrow> is_abs ea"
  by (cases ea; auto simp: encode_ea_mode_def norm_all_def dest!: byte_less8)+

lemmas ea_reads = fits_mask [OF ea_mask] ea_mode6 ea_legal norm_ea norm_lo_ea ea_extended

section \<open>Assembled words\<close>

lemma decodes_one_word:
  assumes "i < 185" "case table_row i of (bits, e) \<Rightarrow>
    row_fits (w AND 0xFFFFFF) bits \<and> decode_with (w AND 0xFFFFFF) e = Some d" "instruction_length d = 1"
  shows "decodes (word_enc w) (d, None)"
  using decode_word [OF assms(1,2)] assms(3) by (simp add: decodes_def)

lemma decodes_two_words:
  assumes "i < 185" "case table_row i of (bits, e) \<Rightarrow>
    row_fits (w AND 0xFFFFFF) bits \<and> decode_with (w AND 0xFFFFFF) e = Some d" "instruction_length d = 2"
    "x = Some (y AND 0xFFFFFF)"
  shows "decodes (words_enc w y) (d, x)"
  using decode_word [OF assms(1,2)] assms(3,4) by (simp add: decodes_def)

lemmas decodes_word = decodes_one_word decodes_two_words

lemmas word_eval = decode_eval operand_masks operand_reads instruction_length_def

lemma with_ext_decodes:
  assumes "i < 185" "case table_row i of (bits, e) \<Rightarrow>
    row_fits (w AND 0xFFFFFF) bits \<and> decode_with (w AND 0xFFFFFF) e = Some d"
    "instruction_length d = (if is_abs ea then 2 else 1)"
  shows "decodes (with_ext w (ea_word ea v)) (d, ea_word ea v)"
  using decode_word [OF assms(1,2)] assms(3)
  by (cases ea) (auto simp: with_ext_def decodes_def and.assoc)

lemmas ea_eval = word_eval ea_reads

lemmas value_eval = value_at_def imm5_def imm6_def ext24_def

text \<open>The field values of the register tables are masked values that read back.\<close>

lemma sss_read:
  assumes "reg_to_sss r = Ok x"
  obtains y where "x = y AND 7" "sss_reg (ucast (y AND 7)) = Some (register_index r)"
proof -
  have "x = x AND 7 \<and> sss_reg (ucast (x AND 7)) = Some (register_index r)"
    using assms by (cases r) (auto simp: reg_to_sss_def sss_reg_def)
  then show thesis by (blast intro: that)
qed

section \<open>Register fields\<close>

lemma reg_of_index: "wf_register r \<Longrightarrow> register_index r < 64"
  by (cases r) (auto dest!: byte_less8)

lemma reg_mask: "wf_register r \<Longrightarrow> ucast (reg_of r) AND 0x3F = (ucast (reg_of r) :: u32)"
  by (cases r) (auto simp: reg_of_def dest!: byte_less8)

lemma reg_named: "wf_register r \<Longrightarrow> \<not> is_l_composite r \<Longrightarrow> \<not> reg_name_empty (unat (reg_of r))"
  by (cases r) (auto simp: reg_of_def reg_name_empty_def REGISTER_NAMES_def is_l_composite_def dest!: byte_less8
      cong del: nth_index_cong)

lemma reg6_read:
  assumes "reg6_bits r = Ok x" "wf_register r"
  shows "x = ucast (reg_of r) \<and> \<not> is_l_composite r"
proof -
  have "register_index r < 2 ^ 8" using reg_of_index [OF assms(2)] by simp
  then have "take_bit 8 (register_index r) = register_index r" by (rule take_bit_nat_eq_self)
  with assms show ?thesis
    by (auto simp: reg6_bits_def reg_of_def Let_def unsigned_of_nat split: if_splits)
qed

lemmas reg_reads = fits_mask [OF reg_mask] reg_named

lemma reg5_read:
  assumes "pm5_reg_bits r = Ok x" "wf_register r"
  obtains y where "x = y AND 0x1F" "ucast (y AND 0x1F) = reg_of r" "\<not> reg_name_empty (unat (reg_of r))"
proof -
  have m: "register_index r < 2 ^ 5" and c: "\<not> is_l_composite r" and x: "x = word_of_nat (register_index r)"
    using assms(1) by (auto simp: pm5_reg_bits_def Let_def split: if_splits)
  from m have "x < 2 ^ 5"
    unfolding x by (simp add: word_less_nat_alt unsigned_of_nat take_bit_nat_eq_self)
  then have "x = x AND 0x1F" by (simp add: less_mask_eq [of _ 5, unfolded mask_eq_exp_minus_1, simplified])
  moreover have "ucast x = reg_of r"
  proof -
    have "register_index r < 2 ^ 32" using m by simp
    then show ?thesis by (simp add: x reg_of_def unsigned_of_nat take_bit_nat_eq_self)
  qed
  ultimately show thesis
    using that [of x] reg_named [OF assms(2) c] by metis
qed

section \<open>Data addresses\<close>

lemma raise_normalize: "normalize_periph_addr a = raise_periph a"
proof (cases "a < 0x10000")
  case True
  then have "a AND 0xFFFF = a"
    using less_mask_eq [of a 16] by (simp add: mask_eq_exp_minus_1)
  then have "0xFF0000 AND a = (a AND 0xFFFF) AND 0xFF0000" by (simp add: and.commute)
  then have "0xFF0000 AND a = 0" by (simp add: and.assoc)
  then have "0xFF0000 + a = 0xFF0000 OR a" by (rule disjunctive_add_eq_or)
  then show ?thesis
    by (simp add: normalize_periph_addr_def raise_periph_def or.commute)
qed (simp add: normalize_periph_addr_def raise_periph_def)

lemma below_mask6: "a < 0x40 \<Longrightarrow> a AND 0x3F = (a :: u32)"
  using less_mask_eq [of a 6] by (simp add: mask_eq_exp_minus_1)

lemma below_imm6: "a < 0x40 \<Longrightarrow> ucast a = imm6 a"
  by (simp add: imm6_def below_mask6)

lemma le_imm6: "a \<le> 0x3F \<Longrightarrow> ucast a = imm6 a"
  by (rule below_imm6) (simp add: word_le_nat_alt word_less_nat_alt)

text \<open>The ranges of data addresses, in the order the encoder tests them.\<close>

lemma data_cases:
  fixes z :: u32
  obtains (pp) "0xFFFFC0 \<le> z" | (qq) "\<not> 0xFFFFC0 \<le> z" "0xFFFF80 \<le> z"
    | (aa) "\<not> 0xFFFFC0 \<le> z" "\<not> 0xFFFF80 \<le> z" "z < 0x40"
    | (other) "\<not> 0xFFFFC0 \<le> z" "\<not> 0xFFFF80 \<le> z" "\<not> z < 0x40"
  by blast

lemma abs_immediate: "\<not> is_abs ea \<Longrightarrow> \<not> is_immediate ea"
  by (cases ea) auto

end
