(* ===== verification/Asm_Parallel_Laws.thy ===== *)
theory Asm_Parallel_Laws
  imports Asm_Operand_Laws
begin

text \<open>
  The encoder is correct for parallel instructions: the decoder finds the ALU operation and the
  move type, and keeps the word, since the encoder makes normalized words only.
\<close>

unbundle bit_operations_syntax

declare unpack [simp del] nth_index_cong [cong]

section \<open>Decoding parallel words\<close>

text \<open>The ALU byte.\<close>

lemma alu_byte_decodes:
  "alu \<in> set decodable_alus \<Longrightarrow> parallel_alu_encode alu = Some b \<Longrightarrow> decode_parallel_alu b = Some alu"
  using encode_alu_table by (force simp: list_all_iff)

lemma alu_mask: "(ucast (b :: u8) :: u32) AND 0xFF = ucast b"
proof -
  have m: "(0xFF :: u32) = mask 8" by (simp add: mask_eq_exp_minus_1)
  show ?thesis unfolding m by (rule bit_word_eqI) (auto simp: bit_simps dest: bit_imp_le_length)
qed

text \<open>A normalized addressing mode: an immediate only as a source.\<close>

definition mode6_kept :: "u32 \<Rightarrow> bool" where
  "mode6_kept w \<longleftrightarrow> (drop_bit 11 w AND 7 = 6 \<longrightarrow>
     drop_bit 8 w AND 7 = 0 \<or> drop_bit 8 w AND 7 = 4 \<and> drop_bit 15 w AND 1 = 1)"

lemma and_not_fits: "w AND m = 0 \<Longrightarrow> w AND NOT m = (w :: u32)"
  by (auto simp: bit_eq_iff bit_simps)

lemma normalize_kept:
  assumes "mode6_kept w"
  shows "normalize_mode6_ea w = w"
proof (cases "drop_bit 11 w AND 7 = 6")
  case True
  have "w AND 0x0300 = push_bit 8 ((drop_bit 8 w AND 7) AND 3)"
    "w AND 0x0400 = push_bit 8 ((drop_bit 8 w AND 7) AND 4)"
    by (simp_all add: pack)
  with assms True have "w AND 0x0300 = 0" "w AND 0x0400 = 0 \<or> drop_bit 15 w AND 1 = 1"
    by (auto simp: mode6_kept_def)
  moreover have "drop_bit 15 w AND 1 = 1 \<longleftrightarrow> bit w 15"
    by (simp add: bit_iff_odd_drop_bit and_one_eq odd_iff_mod_2_eq_one)
  ultimately have "w AND NOT 0x0300 = w" "\<not> bit w 15 \<Longrightarrow> w AND NOT 0x0400 = w"
    by (blast intro: and_not_fits)+
  then show ?thesis
    unfolding normalize_mode6_ea_def Let_def by auto
qed (simp add: normalize_mode6_ea_def)

text \<open>What the decoder looks at in a parallel word of move type \<open>k\<close>.\<close>

definition value_field :: "u32 \<Rightarrow> u32" where
  "value_field w = (drop_bit 16 w AND 7) OR (drop_bit 17 w AND push_bit 3 3)"

definition parallel_kept :: "u32 \<Rightarrow> u32 \<Rightarrow> bool" where
  "parallel_kept k w \<longleftrightarrow> (has_standard_ea k w \<longrightarrow> mode6_kept w \<and>
     (4 \<le> k \<longrightarrow> drop_bit 11 w AND 7 = 6 \<longrightarrow> drop_bit 8 w AND 7 = 4 \<longrightarrow>
       drop_bit 2 (value_field w) \<noteq> 0 \<and> drop_bit 19 w AND 1 = 0))"

lemma high_nibble:
  assumes "drop_bit 20 w AND 0xF \<noteq> (0 :: u32)"
  shows "0x100000 \<le> w"
proof (rule ccontr)
  assume "\<not> 0x100000 \<le> w"
  then have "w AND 0xFFFFF = w"
    using less_mask_eq [of w 20] by (simp add: mask_eq_exp_minus_1)
  then have "drop_bit 20 w = drop_bit 20 (w AND 0xFFFFF)" by simp
  then have "drop_bit 20 w = 0" unfolding drop_bit_and by simp
  with assms show False by simp
qed

lemma decode_parallel_word:
  assumes k: "drop_bit 20 w AND 0xF = k" "k \<noteq> 0" and mt: "move_type_from_bits k = Some mt"
    and alu: "decode_parallel_alu (ucast (w AND 0xFF)) = Some alu"
    and kept: "parallel_kept k w" and pm2: "k = 2 \<or> k = 3 \<Longrightarrow> \<not> pm2_reserved w"
  shows "decode w = Some (Parallel alu mt w)"
proof -
  have n: "(if has_standard_ea k w then normalize_mode6_ea w else w) = w"
    using kept by (simp add: parallel_kept_def normalize_kept)
  have "w AND 0x80000 = push_bit 19 (drop_bit 19 w AND 1)" by (simp add: pack)
  then have b: "drop_bit 19 w AND 1 = 0 \<Longrightarrow> w AND NOT (push_bit 19 1) = w"
    by (intro and_not_fits) simp
  have "0x100000 \<le> w" using k by (intro high_nibble) simp
  then show ?thesis
    unfolding decode_def decode_parallel_instr_def Let_def k(1) n value_field_def [symmetric]
    using kept b pm2 mt alu by (auto simp: parallel_kept_def)
qed

text \<open>The word of a parallel instruction, with a second word if \<open>l\<close>.\<close>

definition parallel_word :: "bool \<Rightarrow> parallel_alu \<Rightarrow> parallel_move_type \<Rightarrow> u32 \<Rightarrow> u32 \<Rightarrow> bool" where
  "parallel_word l alu mt k w \<longleftrightarrow> drop_bit 20 w AND 0xF = k \<and> k \<noteq> 0 \<and> move_type_from_bits k = Some mt \<and>
     decode_parallel_alu (ucast (w AND 0xFF)) = Some alu \<and> parallel_kept k w \<and>
     (k = 2 \<or> k = 3 \<longrightarrow> \<not> pm2_reserved w) \<and> parallel_length mt w = (if l then 2 else 1)"

lemma parallel_word_decodes:
  "parallel_word l alu mt k w \<Longrightarrow> decode w = Some (Parallel alu mt w) \<and>
     instruction_length (Parallel alu mt w) = (if l then 2 else 1)"
  unfolding parallel_word_def
  by (intro conjI decode_parallel_word [of _ k]) (auto simp: instruction_length_def)

lemma parallel_one_word:
  "parallel_word False alu mt k (w AND 0xFFFFFF) \<Longrightarrow>
     decodes (word_enc w) (Parallel alu mt (w AND 0xFFFFFF), None)"
  by (auto dest: parallel_word_decodes simp: decodes_def)

lemma parallel_two_words:
  "parallel_word True alu mt k (w AND 0xFFFFFF) \<Longrightarrow>
     decodes (words_enc w x) (Parallel alu mt (w AND 0xFFFFFF), Some (x AND 0xFFFFFF))"
  by (auto dest: parallel_word_decodes simp: decodes_def)

lemma parallel_ea_word:
  "parallel_word (is_abs ea) alu mt k (w AND 0xFFFFFF) \<Longrightarrow>
     decodes (with_ext w (ea_word ea v)) (Parallel alu mt (w AND 0xFFFFFF), ea_word ea v)"
  by (cases ea) (auto dest: parallel_word_decodes simp: decodes_def with_ext_def and.assoc)

lemmas parallel_decodes = parallel_one_word parallel_two_words parallel_ea_word

lemma with_ext_word0 [simp]: "word0 (with_ext w x) = w AND 0xFFFFFF"
  by (simp add: with_ext_def split: option.splits)

lemma has_standard_ea_field:
  "has_standard_ea k w = (k = 1 \<or> 4 \<le> k \<and> k \<le> 7 \<and> drop_bit 14 w AND 1 = 1)"
  by (auto simp: has_standard_ea_def bit_iff_odd_drop_bit and_one_eq odd_iff_mod_2_eq_one)

lemma not_four_le [simp]: "\<not> 4 \<le> (1 :: u32)" "\<not> 4 \<le> (2 :: u32)" "\<not> 4 \<le> (3 :: u32)"
  by (simp_all add: word_le_nat_alt)

lemmas parallel_eval = pack parallel_word_def parallel_kept_def mode6_kept_def has_standard_ea_field value_field_def
  move_type_from_bits_def parallel_length_def pm5_mode6_def ea_mode6_def operand_masks fits_mask [OF alu_mask]

section \<open>Moves of the memory\<close>

lemma reg_numbers: "[4..<32] = [4, 5, 6, 7, 8, 9, 10, 11, 12, 13, 14, 15, 16, 17, 18, 19, 20, 21, 22, 23, 24, 25,
    26, 27, 28, 29, 30, 31 :: nat]"
  by (simp add: upt_rec)

text \<open>The register field of a memory move is in two parts; the upper one is part of the move type.\<close>

lemma reg4_split:
  assumes "pm5_reg_bits r = Ok x"
  obtains hi lo where "pm4_reg_split x = (hi, lo AND 7)" "hi \<in> {0, 1, 2, 3}"
    "hi = 0 \<Longrightarrow> drop_bit 2 (lo AND 7) \<noteq> 0" "mem_move r = (if hi = 0 then Pm4 else Pm5)"
proof -
  have m: "4 \<le> register_index r" "register_index r < 2 ^ 5" and x: "x = word_of_nat (register_index r)"
    using assms(1) by (auto simp: pm5_reg_bits_def Let_def split: if_splits)
  have "\<exists>hi lo. pm4_reg_split x = (hi, lo AND 7) \<and> hi \<in> {0, 1, 2, 3} \<and>
    (hi = 0 \<longrightarrow> drop_bit 2 (lo AND 7) \<noteq> 0) \<and> mem_move r = (if hi = 0 then Pm4 else Pm5)"
  proof -
    define n where "n = register_index r"
    from m have "n \<in> set [4..<32]"
      by (simp only: set_upt atLeastLessThan_iff n_def) simp
    then show ?thesis
      unfolding x mem_move_def n_def [symmetric] reg_numbers
      by (intro exI [of _ "drop_bit 3 (word_of_nat n) AND 3"] exI [of _ "word_of_nat n"])
        (auto simp: pm4_reg_split_def)
  qed
  then show thesis using that by blast
qed

text \<open>The word of a move with an addressing mode, and of one with a short address.\<close>

lemma mem_ea_word:
  assumes "hi \<in> {0, 1, 2, 3}" "hi = 0 \<Longrightarrow> drop_bit 2 (lo AND 7) \<noteq> 0" "wf_ea ea" "wf_imm_ea s ea w" "data_space s"
    "decode_parallel_alu b = Some alu"
  shows "parallel_word (is_abs ea) alu (if hi = 0 then Pm4 else Pm5) (4 OR hi)
    ((push_bit 22 1 OR push_bit 20 hi OR push_bit 19 (ast_space_bit s)
      OR push_bit 16 (lo AND 7) OR w15 w OR push_bit 14 1 OR push_bit 8 (ucast (ea_of ea)) OR ucast b) AND 0xFFFFFF)"
proof -
  have imm: "is_abs ea \<Longrightarrow> ucast (ea_of ea) AND 7 = (0 :: u32) \<or>
      ucast (ea_of ea) AND 7 = (4 :: u32) \<and> ast_space_bit s = 0 \<and> w"
    using assms(4) by (cases ea) (auto simp: encode_ea_mode_def ast_space_bit_def)
  show ?thesis
    using assms(1)
    by (elim insertE emptyE; insert imm assms(2-); auto simp: parallel_eval ea_reads or_eq_0_iff simp del: not_less)
qed

lemma mem_aa_word:
  assumes "hi \<in> {0, 1, 2, 3}" "decode_parallel_alu b = Some alu" "data_space s"
  shows "parallel_word False alu (if hi = 0 then Pm4 else Pm5) (4 OR hi)
    ((push_bit 22 1 OR push_bit 20 hi OR push_bit 19 (ast_space_bit s)
      OR push_bit 16 (lo AND 7) OR w15 w OR push_bit 8 (a AND 0x3F) OR ucast b) AND 0xFFFFFF)"
  using assms(1) by (elim insertE emptyE; insert assms(2-); simp add: parallel_eval)

lemma xy_mem_decodes:
  assumes "encode_parallel_xy_mem s ea r w (ucast b) syms pc = Ok e"
    "wf_ea ea" "wf_imm_ea s ea w" "data_space s" "decode_parallel_alu b = Some alu"
  shows "decodes e (Parallel alu (mem_move r) (word0 e), ea_word ea (value_at syms pc))"
proof -
  from assms(1) obtain ea' x' x where x: "encode_ea ea syms pc = Ok (ea', x')" "pm5_reg_bits r = Ok x"
    by (auto simp: encode_parallel_xy_mem_def)
  from reg4_split [OF x(2)] obtain hi lo where r: "pm4_reg_split x = (hi, lo AND 7)" "hi \<in> {0, 1, 2, 3}"
    "hi = 0 \<Longrightarrow> drop_bit 2 (lo AND 7) \<noteq> 0" "mem_move r = (if hi = 0 then Pm4 else Pm5)" by metis
  from encode_ea_of [OF x(1) assms(2)] x assms(1) r(1) have
    "e = with_ext (push_bit 22 1 OR push_bit 20 hi OR push_bit 19 (ast_space_bit s)
      OR push_bit 16 (lo AND 7) OR w15 w OR push_bit 14 1 OR push_bit 8 (ucast (ea_of ea)) OR ucast b)
      (ea_word ea (value_at syms pc))"
    by (simp add: encode_parallel_xy_mem_def)
  then show ?thesis
    using parallel_decodes(3) [OF mem_ea_word [OF r(2,3) assms(2-)]] by (simp only: r(4) with_ext_word0)
qed

text \<open>An absolute or immediate word is the word of that addressing mode.\<close>

lemma long_word:
  assumes "hi \<in> {0, 1, 2, 3}" "hi = 0 \<Longrightarrow> drop_bit 2 (lo AND 7) \<noteq> 0" "data_space s"
    "decode_parallel_alu b = Some alu"
  shows "parallel_word True alu (if hi = 0 then Pm4 else Pm5) (4 OR hi)
      ((push_bit 22 1 OR push_bit 20 hi OR push_bit 19 (ast_space_bit s)
        OR push_bit 16 (lo AND 7) OR w15 w OR push_bit 14 1 OR push_bit 8 0x30 OR ucast b) AND 0xFFFFFF)"
    and "parallel_word True alu (if hi = 0 then Pm4 else Pm5) (4 OR hi)
      ((push_bit 22 1 OR push_bit 20 hi OR push_bit 16 (lo AND 7) OR push_bit 15 1 OR push_bit 14 1
        OR push_bit 8 0x34 OR ucast b) AND 0xFFFFFF)"
  using mem_ea_word [of hi lo "Ea_AbsAddr x" s w, OF assms(1,2)]
    mem_ea_word [of hi lo "Ea_Immediate x" Sp_X True, OF assms(1,2)] assms(3-)
  by (simp_all add: encode_ea_mode_def data_space_def ast_space_bit_def)

lemma xy_abs_decodes:
  assumes "encode_parallel_xy_abs s x r w short (ucast b) syms pc = Ok e"
    "data_space s" "decode_parallel_alu b = Some alu"
  shows "decodes e (Parallel alu (mem_move r) (word0 e), if word1 e \<noteq> None then ext24 (value_at syms pc x) else None)"
proof -
  from assms(1) obtain a y f where x: "eval x syms pc = Ok a" "pm5_reg_bits r = Ok y" "use_short_abs x short a = Ok f"
    by (auto simp: encode_parallel_xy_abs_def Let_def pm4_reg_split_def)
  from reg4_split [OF x(2)] obtain hi lo where r: "pm4_reg_split y = (hi, lo AND 7)" "hi \<in> {0, 1, 2, 3}"
    "hi = 0 \<Longrightarrow> drop_bit 2 (lo AND 7) \<noteq> 0" "mem_move r = (if hi = 0 then Pm4 else Pm5)" by metis
  note long = parallel_decodes(2) [OF long_word(1) [OF r(2,3) assms(2,3)], of w "a AND 0xFFFFFF"]
    and aa = parallel_decodes(1) [OF mem_aa_word [OF r(2) assms(3,2)], of lo w a]
  from assms(1) x r(1) show ?thesis
    using long aa unfolding r(4)
    by (cases f) (auto simp: encode_parallel_xy_abs_def Let_def value_at_def ext24_def or.assoc and.assoc)
qed

section \<open>Immediates, registers and updates\<close>

text \<open>A short immediate has the whole register field; it never looks like a move of registers.\<close>

lemma reg5_split:
  assumes "pm5_reg_bits r = Ok x"
  obtains hi lo where "x = push_bit 4 hi OR (lo AND 0xF)" "hi \<in> {0, 1}"
    "hi = 0 \<Longrightarrow> drop_bit 2 (lo AND 0xF) \<noteq> 0" "imm_move r = (if hi = 0 then Pm2 else Pm3)"
proof -
  have m: "4 \<le> register_index r" "register_index r < 2 ^ 5" and x: "x = word_of_nat (register_index r)"
    using assms(1) by (auto simp: pm5_reg_bits_def Let_def split: if_splits)
  have "\<exists>hi lo. x = push_bit 4 hi OR (lo AND 0xF) \<and> hi \<in> {0, 1} \<and>
    (hi = 0 \<longrightarrow> drop_bit 2 (lo AND 0xF) \<noteq> 0) \<and> imm_move r = (if hi = 0 then Pm2 else Pm3)"
  proof -
    define n where "n = register_index r"
    from m have "n \<in> set [4..<32]"
      by (simp only: set_upt atLeastLessThan_iff n_def) simp
    then show ?thesis
      unfolding x imm_move_def n_def [symmetric] reg_numbers
      by (intro exI [of _ "drop_bit 4 (word_of_nat n)"] exI [of _ "word_of_nat n"]) auto
  qed
  then show thesis using that by blast
qed

lemma not_reserved:
  assumes "drop_bit 18 w AND 7 \<noteq> 0"
  shows "\<not> pm2_reserved w"
proof -
  have "drop_bit 18 w AND 7 = drop_bit 10 ((drop_bit 8 w AND 0xFFFF) AND 0xFC00) AND 7"
    by (simp add: pack drop_bit_and)
  moreover have "drop_bit 10 (0x2000 :: u32) AND 7 = 0" by simp
  ultimately have "(drop_bit 8 w AND 0xFFFF) AND 0xFC00 \<noteq> 0x2000"
    using assms by metis
  then show ?thesis by (simp add: pm2_reserved_def Let_def)
qed

lemma imm_word:
  assumes "hi \<in> {0, 1}" "hi = 0 \<Longrightarrow> drop_bit 2 (lo AND 0xF) \<noteq> 0" "decode_parallel_alu b = Some alu"
  shows "parallel_word False alu (if hi = 0 then Pm2 else Pm3) (2 OR hi)
    ((push_bit 16 ((push_bit 4 hi OR (lo AND 0xF)) OR 0x20) OR push_bit 8 (c AND 0xFF) OR ucast b) AND 0xFFFFFF)"
  using assms(1) by (elim insertE emptyE; insert assms(2-); simp add: parallel_eval not_reserved or_eq_0_iff)

lemma plain_imm_decodes:
  assumes "encode_plain_imm_to_reg x r (ucast b) syms pc = Ok e" "decode_parallel_alu b = Some alu"
  shows "decodes e (means_imm alu (value_at syms pc x) r (word1 e \<noteq> None) (word0 e))"
proof -
  from assms(1) obtain v y f where x: "eval x syms pc = Ok v" "pm5_reg_bits r = Ok y"
      "pm3_byte x r (v AND 0xFFFFFF) = Ok f"
    by (auto simp: encode_plain_imm_to_reg_def Let_def)
  show ?thesis
  proof (cases f)
    case None
    from reg4_split [OF x(2)] obtain hi lo where r: "pm4_reg_split y = (hi, lo AND 7)" "hi \<in> {0, 1, 2, 3}"
      "hi = 0 \<Longrightarrow> drop_bit 2 (lo AND 7) \<noteq> 0" "mem_move r = (if hi = 0 then Pm4 else Pm5)" by metis
    note long = parallel_decodes(2) [OF long_word(2) [OF r(2,3) _ assms(2), of Sp_X], of "v AND 0xFFFFFF"]
    from assms(1) x r(1) None show ?thesis
      using long unfolding r(4)
      by (auto simp: encode_plain_imm_to_reg_def Let_def value_at_def ext24_def and.assoc means_imm_def
          r(4) data_space_def)
  next
    case (Some c)
    from reg5_split [OF x(2)] obtain hi lo where r: "y = push_bit 4 hi OR (lo AND 0xF)" "hi \<in> {0, 1}"
      "hi = 0 \<Longrightarrow> drop_bit 2 (lo AND 0xF) \<noteq> 0" "imm_move r = (if hi = 0 then Pm2 else Pm3)" by metis
    note short = parallel_decodes(1) [OF imm_word [OF r(2,3) assms(2)], of c]
    from assms(1) x r(1) Some show ?thesis
      using short by (auto simp: encode_plain_imm_to_reg_def Let_def means_imm_def r(4))
  qed
qed

text \<open>Moves of registers, updates and conditions share a move type, told apart by the upper bits.\<close>

lemma reg5_named:
  assumes "pm5_reg_bits r = Ok x" "wf_register r"
  obtains y where "x = y AND 0x1F" "\<not> reg_name_empty (unat (y AND 0x1F))"
proof -
  from reg5_read [OF assms] obtain y where y: "x = y AND 0x1F" "ucast (y AND 0x1F) = reg_of r"
    and n: "\<not> reg_name_empty (unat (reg_of r))" by metis
  have "(0x1F :: u32) = mask 5" by (simp add: mask_eq_exp_minus_1)
  then have "unat (y AND 0x1F) < 2 ^ 5"
    by (metis take_bit_eq_mask unsigned_take_bit_eq take_bit_nat_less_exp)
  then have "unat (ucast (y AND 0x1F) :: u8) = unat (y AND 0x1F)"
    by (simp add: unsigned_ucast_eq take_bit_nat_eq_self)
  with y n that [of y] show thesis by simp
qed

lemma pm2_decodes:
  assumes "pmove = M_None \<or> (\<exists>ea d. pmove = M_EaUpdate ea d) \<or> (\<exists>cc. pmove = M_Ifcc cc \<or> pmove = M_IfccU cc)"
    "wf_pmove pmove" "encode_pmove pmove (ucast b) syms pc = Ok e" "decode_parallel_alu b = Some alu"
  shows "decodes e (Parallel alu Pm2 (word0 e), None)"
  using assms(1)
proof (elim disjE exE)
  assume "pmove = M_None"
  with assms show ?thesis
    by clarsimp (rule parallel_one_word [of _ _ 2]; simp add: parallel_eval pm2_reserved_def)
next
  fix ea d assume "pmove = M_EaUpdate ea d"
  with assms(2,3) have "e = word_enc (0x204000 OR push_bit 8 (ucast (ea_of ea) AND 0x1F) OR ucast b)"
    by (auto dest: encode_ea_of)
  with assms(4) show ?thesis
    by clarsimp (rule parallel_one_word [of _ _ 2]; simp add: parallel_eval pm2_reserved_def)
next
  fix cc assume "pmove = M_Ifcc cc"
  with assms show ?thesis
    by clarsimp (rule parallel_one_word [of _ _ 2]; simp add: parallel_eval pm2_reserved_def)
next
  fix cc assume "pmove = M_IfccU cc"
  with assms show ?thesis
    by clarsimp (rule parallel_one_word [of _ _ 2]; simp add: parallel_eval pm2_reserved_def)
qed

lemma registers_decode:
  assumes "pm5_reg_bits r = Ok x" "pm5_reg_bits q = Ok y" "wf_register r" "wf_register q"
    "decode_parallel_alu b = Some alu" "e = word_enc (0x200000 OR push_bit 13 x OR push_bit 8 y OR ucast b)"
  shows "decodes e (Parallel alu Pm2 (word0 e), None)"
proof -
  from reg5_named [OF assms(1,3)] obtain x' where x: "x = x' AND 0x1F" "\<not> reg_name_empty (unat (x' AND 0x1F))" .
  from reg5_named [OF assms(2,4)] obtain y' where y: "y = y' AND 0x1F" "\<not> reg_name_empty (unat (y' AND 0x1F))" .
  show ?thesis
    unfolding assms(6) x(1) y(1) word_enc_sel
    by (rule parallel_one_word [of _ _ 2]) (simp add: parallel_eval pm2_reserved_def Let_def x(2) y(2) assms(5))
qed

section \<open>Long moves, two moves, and moves with a register\<close>

lemma jump_ea_rrr: "wf_jump_ea ea \<Longrightarrow> is_abs ea \<Longrightarrow> ucast (ea_of ea) AND 7 = (0 :: u32)"
  by (cases ea) (auto simp: wf_jump_ea_def encode_ea_mode_def)

lemma jump_ea_bit: "wf_jump_ea ea \<Longrightarrow> is_abs ea \<Longrightarrow> ucast (ea_of ea) AND 4 = (0 :: u32)"
  by (cases ea) (auto simp: wf_jump_ea_def encode_ea_mode_def)

lemma l_ea_word:
  assumes "wf_jump_ea ea" "decode_parallel_alu b = Some alu"
  shows "parallel_word (is_abs ea) alu Pm4 4 ((push_bit 22 1 OR push_bit 19 (drop_bit 2 l AND 1) OR push_bit 16 (l AND 3)
    OR w15 w OR push_bit 14 1 OR push_bit 8 (ucast (ea_of ea)) OR ucast b) AND 0xFFFFFF)"
  using assms jump_ea_rrr [OF assms(1)] by (auto simp: parallel_eval ea_reads wf_jump_ea_def simp del: not_less)

lemma l_mem_decodes:
  assumes "encode_parallel_l_mem ea r w (ucast b) syms pc = Ok e" "wf_jump_ea ea" "decode_parallel_alu b = Some alu"
  shows "decodes e (Parallel alu Pm4 (word0 e), ea_word ea (value_at syms pc))"
proof -
  from assms(1) obtain b' x' l where l: "encode_ea ea syms pc = Ok (b', x')" and
    e: "e = with_ext (push_bit 22 1 OR push_bit 19 (drop_bit 2 l AND 1) OR push_bit 16 (l AND 3)
      OR w15 w OR push_bit 14 1 OR push_bit 8 (ucast b') OR ucast b) x'"
    by (auto simp: encode_parallel_l_mem_def l_reg_split_def)
  from encode_ea_of [OF l] assms(2) have "b' = ea_of ea" "x' = ea_word ea (value_at syms pc)"
    by (auto simp: wf_jump_ea_def)
  with parallel_decodes(3) [OF l_ea_word [OF assms(2,3)]] show ?thesis
    unfolding e by (simp only: with_ext_word0)
qed

lemma l_abs_decodes:
  assumes "encode_parallel_l_abs x r w short (ucast b) syms pc = Ok e" "decode_parallel_alu b = Some alu"
  shows "decodes e (Parallel alu Pm4 (word0 e), if word1 e \<noteq> None then ext24 (value_at syms pc x) else None)"
proof -
  from assms(1) obtain a l f where x: "eval x syms pc = Ok a" "l_reg_idx r = Ok l" "use_short_abs x short a = Ok f"
    by (auto simp: encode_parallel_l_abs_def Let_def l_reg_split_def)
  have long: "parallel_word True alu Pm4 4 ((push_bit 22 1 OR push_bit 19 (drop_bit 2 l AND 1) OR push_bit 16 (l AND 3)
      OR w15 w OR push_bit 14 1 OR push_bit 8 0x30 OR ucast b) AND 0xFFFFFF)"
    using l_ea_word [OF _ assms(2), of "Ea_AbsAddr x" l w] by (simp add: wf_jump_ea_def encode_ea_mode_def)
  have aa: "parallel_word False alu Pm4 4 ((push_bit 22 1 OR push_bit 19 (drop_bit 2 l AND 1) OR push_bit 16 (l AND 3)
      OR w15 w OR push_bit 8 (a AND 0x3F) OR ucast b) AND 0xFFFFFF)"
    using assms(2) by (simp add: parallel_eval)
  show ?thesis
    using assms(1) x parallel_decodes(1) [OF aa] parallel_decodes(2) [OF long, of "a AND 0xFFFFFF"]
    by (cases f) (auto simp: encode_parallel_l_abs_def l_reg_split_def Let_def value_at_def ext24_def or.assoc and.assoc)
qed

text \<open>Register codes of the two-operand moves are masked values.\<close>

lemma d1_mask: "pm1_d1_bits r f = Ok x \<Longrightarrow> x AND 3 = x"
  by (auto simp: pm1_d1_bits_def split: if_splits)

lemma acc_bit_mask: "pm1_acc_bit r = Ok x \<Longrightarrow> x AND 1 = x"
  by (auto simp: pm1_acc_bit_def split: if_splits)

lemma d2_mask: "switch r [(p, Ok 0), (q, Ok 1)] (Err err) = Ok (x :: u32) \<Longrightarrow> x AND 1 = x"
  by (auto split: if_splits)

lemma pm8_masks: "pm8_x_bits r = Ok x \<Longrightarrow> x AND 3 = x" "pm8_y_bits r = Ok x \<Longrightarrow> x AND 3 = x"
  by (auto simp: pm8_x_bits_def pm8_y_bits_def split: if_splits)

lemma pm1_ea_word:
  assumes "wf_jump_ea ea" "decode_parallel_alu b = Some alu"
  shows "parallel_word (is_abs ea) alu Pm1 1 ((push_bit 20 1 OR push_bit 18 (x AND 3) OR push_bit 17 (y AND 1)
      OR push_bit 16 (z AND 1) OR w15 w OR push_bit 8 (ucast (ea_of ea)) OR ucast b) AND 0xFFFFFF)"
    and "parallel_word (is_abs ea) alu Pm1 1 ((push_bit 20 1 OR push_bit 19 (y AND 1) OR push_bit 18 (z AND 1)
      OR push_bit 16 (x AND 3) OR w15 w OR push_bit 14 1 OR push_bit 8 (ucast (ea_of ea)) OR ucast b) AND 0xFFFFFF)"
  using assms jump_ea_rrr [OF assms(1)] by (auto simp: parallel_eval ea_reads wf_jump_ea_def simp del: not_less)

lemma pm1_imm_word:
  assumes "decode_parallel_alu b = Some alu"
  shows "parallel_word True alu Pm1 1 ((push_bit 20 1 OR push_bit 18 (x AND 3) OR push_bit 17 (y AND 1)
      OR push_bit 16 (z AND 1) OR push_bit 15 1 OR push_bit 8 0x34 OR ucast b) AND 0xFFFFFF)"
    and "parallel_word True alu Pm1 1 ((push_bit 20 1 OR push_bit 19 (y AND 1) OR push_bit 18 (z AND 1)
      OR push_bit 16 (x AND 3) OR push_bit 15 1 OR push_bit 14 1 OR push_bit 8 0x34 OR ucast b) AND 0xFFFFFF)"
  using assms by (auto simp: parallel_eval)

lemma pm1_x_decodes:
  assumes "encode_parallel_pm1_x_ea ea r s2 d2 w (ucast b) syms pc = Ok e" "wf_jump_ea ea"
    "decode_parallel_alu b = Some alu"
  shows "decodes e (Parallel alu Pm1 (word0 e), ea_word ea (value_at syms pc))"
proof -
  from assms(1) obtain b' x' x y z where ea: "encode_ea ea syms pc = Ok (b', x')"
    and m: "pm1_d1_bits r True = Ok x" "pm1_acc_bit s2 = Ok y"
      "switch d2 [(R_Y0, Ok 0), (R_Y1, Ok 1)] (Err Pm1_x_d2) = Ok z"
    and e: "e = with_ext (push_bit 20 1 OR push_bit 18 x OR push_bit 17 y OR push_bit 16 z OR w15 w
      OR push_bit 8 (ucast b') OR ucast b) x'"
    by (auto simp: encode_parallel_pm1_x_ea_def simp del: switch.simps)
  from encode_ea_of [OF ea] assms(2) have "b' = ea_of ea" "x' = ea_word ea (value_at syms pc)"
    by (auto simp: wf_jump_ea_def)
  with parallel_decodes(3) [OF pm1_ea_word(1) [OF assms(2,3), of x y z]] show ?thesis
    unfolding e by (simp only: with_ext_word0 d1_mask [OF m(1)] acc_bit_mask [OF m(2)] d2_mask [OF m(3)])
qed

lemma pm1_y_decodes:
  assumes "encode_parallel_pm1_y_ea s1 d1 ea r w (ucast b) syms pc = Ok e" "wf_jump_ea ea"
    "decode_parallel_alu b = Some alu"
  shows "decodes e (Parallel alu Pm1 (word0 e), ea_word ea (value_at syms pc))"
proof -
  from assms(1) obtain b' x' x y z where ea: "encode_ea ea syms pc = Ok (b', x')"
    and m: "pm1_d1_bits r False = Ok x" "pm1_acc_bit s1 = Ok y"
      "switch d1 [(R_X0, Ok 0), (R_X1, Ok 1)] (Err Pm1_y_d1) = Ok z"
    and e: "e = with_ext (push_bit 20 1 OR push_bit 19 y OR push_bit 18 z OR push_bit 16 x OR w15 w
      OR push_bit 14 1 OR push_bit 8 (ucast b') OR ucast b) x'"
    by (auto simp: encode_parallel_pm1_y_ea_def simp del: switch.simps)
  from encode_ea_of [OF ea] assms(2) have "b' = ea_of ea" "x' = ea_word ea (value_at syms pc)"
    by (auto simp: wf_jump_ea_def)
  with parallel_decodes(3) [OF pm1_ea_word(2) [OF assms(2,3), of y z x]] show ?thesis
    unfolding e by (simp only: with_ext_word0 d1_mask [OF m(1)] acc_bit_mask [OF m(2)] d2_mask [OF m(3)])
qed

lemma pm1_x_imm_decodes:
  assumes "encode_parallel_pm1_x_imm i r s2 d2 (ucast b) syms pc = Ok e" "decode_parallel_alu b = Some alu"
  shows "decodes e (Parallel alu Pm1 (word0 e), ext24 (value_at syms pc i))"
proof -
  from assms(1) obtain v x y z where v: "eval i syms pc = Ok v"
    and m: "pm1_d1_bits r True = Ok x" "pm1_acc_bit s2 = Ok y"
      "switch d2 [(R_Y0, Ok 0), (R_Y1, Ok 1)] (Err Pm1_x_imm_d2) = Ok z"
    and e: "e = words_enc (push_bit 20 1 OR push_bit 18 x OR push_bit 17 y OR push_bit 16 z OR push_bit 15 1
      OR push_bit 8 0x34 OR ucast b) (v AND 0xFFFFFF)"
    by (auto simp: encode_parallel_pm1_x_imm_def simp del: switch.simps)
  from parallel_decodes(2) [OF pm1_imm_word(1) [OF assms(2), of x y z], of "v AND 0xFFFFFF"] show ?thesis
    unfolding e by (simp add: d1_mask [OF m(1)] acc_bit_mask [OF m(2)] d2_mask [OF m(3)] value_at [OF v]
        ext24_def and.assoc)
qed

lemma pm1_y_imm_decodes:
  assumes "encode_parallel_pm1_y_imm s1 d1 i r (ucast b) syms pc = Ok e" "decode_parallel_alu b = Some alu"
  shows "decodes e (Parallel alu Pm1 (word0 e), ext24 (value_at syms pc i))"
proof -
  from assms(1) obtain v x y z where v: "eval i syms pc = Ok v"
    and m: "pm1_d1_bits r False = Ok x" "pm1_acc_bit s1 = Ok y"
      "switch d1 [(R_X0, Ok 0), (R_X1, Ok 1)] (Err Pm1_y_imm_d1) = Ok z"
    and e: "e = words_enc (push_bit 20 1 OR push_bit 19 y OR push_bit 18 z OR push_bit 16 x OR push_bit 15 1
      OR push_bit 14 1 OR push_bit 8 0x34 OR ucast b) (v AND 0xFFFFFF)"
    by (auto simp: encode_parallel_pm1_y_imm_def simp del: switch.simps)
  from parallel_decodes(2) [OF pm1_imm_word(2) [OF assms(2), of y z x], of "v AND 0xFFFFFF"] show ?thesis
    unfolding e by (simp add: d1_mask [OF m(1)] acc_bit_mask [OF m(2)] d2_mask [OF m(3)] value_at [OF v]
        ext24_def and.assoc)
qed

text \<open>Two moves: the addressing modes have no extension word, and the upper bits any value.\<close>

lemma and3_cases: "(x :: u32) AND 3 \<in> {0, 1, 2, 3}"
proof -
  have m: "(3 :: u32) = mask 2" by (simp add: mask_eq_exp_minus_1)
  have "unat (x AND 3) < 2 ^ 2"
    unfolding m by (metis take_bit_eq_mask unsigned_take_bit_eq take_bit_nat_less_exp)
  then have "unat (x AND 3) \<in> {0, 1, 2, 3}" by auto
  then show ?thesis by (auto simp: word_unat_eq_iff)
qed

lemma pm8_word:
  assumes "h \<in> {0, 1, 2, 3}" "decode_parallel_alu b = Some alu"
  shows "parallel_word False alu Pm8 (8 OR (if yw then 4 else 0) OR h)
    ((push_bit 23 1 OR (if yw then push_bit 22 1 else 0) OR push_bit 20 h
      OR push_bit 18 (x AND 3) OR push_bit 16 (y AND 3) OR w15 xw
      OR push_bit 13 (l AND 3) OR push_bit 8 (a AND 0x1F) OR ucast b) AND 0xFFFFFF)"
  using assms(1) by (elim insertE emptyE; insert assms(2); simp add: parallel_eval word_le_nat_alt)

lemma pm8_mode_word: "wf_ea ea \<Longrightarrow> pm8_mode_ok (ea_of ea) \<Longrightarrow> ea_word ea v = None"
  by (cases ea) (auto simp: pm8_mode_ok_def encode_ea_mode_def Let_def word_le_nat_alt dest!: byte_less8)

lemma xy_double_decodes:
  assumes "encode_parallel_xy_double x_ea x_reg y_ea y_reg xw yw (ucast b) syms pc = Ok e"
    "wf_ea x_ea" "wf_ea y_ea" "decode_parallel_alu b = Some alu"
  shows "decodes e (Parallel alu Pm8 (word0 e), None)"
proof -
  from assms(1) obtain x y xb xe yb ye where m: "pm8_x_bits x_reg = Ok x" "pm8_y_bits y_reg = Ok y"
    and ea: "encode_ea x_ea syms pc = Ok (xb, xe)" "encode_ea y_ea syms pc = Ok (yb, ye)"
    by (auto simp: encode_parallel_xy_double_def)
  note x = encode_ea_of [OF ea(1) assms(2)] and y = encode_ea_of [OF ea(2) assms(3)]
  have ok: "pm8_mode_ok (ea_of x_ea) \<and> pm8_mode_ok (ea_of y_ea)"
    using assms(1) m ea x y by (auto simp: encode_parallel_xy_double_def split: if_splits)
  have "e = word_enc (push_bit 23 1 OR (if yw then push_bit 22 1 else 0)
      OR push_bit 20 (drop_bit 3 (ucast (ea_of y_ea)) AND 3)
      OR push_bit 18 x OR push_bit 16 y OR w15 xw
      OR push_bit 13 (ucast (ea_of y_ea) AND 3) OR push_bit 8 (ucast (ea_of x_ea) AND 0x1F) OR ucast b)"
    using assms(1) m ea x y ok pm8_mode_word [OF assms(2)] pm8_mode_word [OF assms(3)]
    by (simp add: encode_parallel_xy_double_def Let_def)
  with parallel_decodes(1) [OF pm8_word [OF and3_cases [of "drop_bit 3 (ucast (ea_of y_ea))"] assms(4),
      of yw x y xw "ucast (ea_of y_ea)" "ucast (ea_of x_ea)"]] show ?thesis
    by (simp only: pm8_masks(1) [OF m(1)] pm8_masks(2) [OF m(2)] word_enc_sel)
qed

lemma pm0_decodes:
  assumes "encode_parallel_pm0 acc s ea r (ucast b) syms pc = Ok e" "wf_jump_ea ea"
    "decode_parallel_alu b = Some alu"
  shows "decodes e (Parallel alu Pm0 (word0 e), ea_word ea (value_at syms pc))"
proof -
  from assms(1) obtain b' x' x where ea: "encode_ea ea syms pc = Ok (b', x')" and m: "pm1_acc_bit acc = Ok x"
    and e: "e = with_ext (0x080000 OR push_bit 16 x OR push_bit 15 (if s = Sp_Y then 1 else 0)
      OR push_bit 8 (ucast b') OR ucast b) x'"
    by (auto simp: encode_parallel_pm0_def Let_def)
  define y :: u32 where "y = (if s = Sp_Y then 1 else 0)"
  have y: "y AND 1 = y" by (simp add: y_def)
  have b': "b' = ea_of ea" "x' = ea_word ea (value_at syms pc)"
    using encode_ea_of [OF ea] assms(2) by (auto simp: wf_jump_ea_def)
  define w where "w = (0x080000 OR push_bit 16 (x AND 1) OR push_bit 15 (y AND 1)
    OR push_bit 8 (ucast (ea_of ea)) OR ucast b) AND 0xFFFFFF"
  have kept: "mode6_kept w" "drop_bit 11 w AND 7 = 6 \<Longrightarrow> w AND 0x0400 = 0"
    and f: "w AND 0xFFF00000 = 0" "is_pm0 w" "ucast (w AND 0xFF) = b"
      "parallel_length Pm0 w = (if is_abs ea then 2 else 1)"
    using assms(2) jump_ea_rrr [OF assms(2)] jump_ea_bit [OF assms(2)] unfolding w_def
    by (auto simp: parallel_eval is_pm0_def ea_reads wf_jump_ea_def)
  have "decode w = Some (Parallel alu Pm0 w)"
    unfolding decode_def decode_pm0_def Let_def normalize_kept [OF kept(1)]
    using no_high_bits [OF f(1)] f(1-3) assms(3) and_not_fits [OF kept(2)] by auto
  moreover have "instruction_length (Parallel alu Pm0 w) = (if is_abs ea then 2 else 1)"
    using f(4) by (simp add: instruction_length_def)
  ultimately show ?thesis
    unfolding e b' w_def y_def [symmetric]
    by (cases ea) (simp_all add: acc_bit_mask [OF m] y with_ext_def decodes_def and.assoc)
qed

end
