(* ===== verification/Asm_Word_Laws.thy ===== *)
theory Asm_Word_Laws
  imports Asm_Operand_Laws
begin

text \<open>
  The encoder is correct for arithmetic, shifts and branches: every word it makes decodes to the
  meaning of the instruction. The words are taken apart by the simplification set of
  \<open>Decode_Rows\<close> with the widths of the operands' codes.
\<close>

unbundle bit_operations_syntax

declare unpack [simp del] nth_index_cong [cong]

section \<open>Arithmetic and shifts\<close>

lemma zero_decodes: "decodes (encode_zero i) (means_zero i, None)"
  apply (cases i; simp only: encode_zero.simps means_zero.simps)
         apply (rule decodes_word [of 155]; simp add: word_eval)
        apply (rule decodes_word [of 174]; simp add: word_eval)
       apply (rule decodes_word [of 173]; simp add: word_eval)
      apply (rule decodes_word [of 172]; simp add: word_eval)
     apply (rule decodes_word [of 175]; simp add: word_eval)
    apply (rule decodes_word [of 184]; simp add: word_eval)
   apply (rule decodes_word [of 81]; simp add: word_eval)
  apply (rule decodes_word [of 88]; simp add: word_eval)
  done

lemma acc_decodes: "decodes (encode_acc i) (means_acc i, None)"
  apply (cases i; simp only: encode_acc.simps means_acc.simps)
   apply (rule decodes_word [of 89]; simp add: word_eval)
  apply (rule decodes_word [of 68]; simp add: word_eval)
  done

lemma arith_decodes:
  assumes "encode_arith i syms pc = Ok e" "wf_arith i"
  shows "decodes e (means_arith i (value_at syms pc))"
  using assms
  apply (cases i; clarsimp simp: encode_imm_alu_def encode_long_alu_def value_eval)
  apply (rule decodes_word [of 0]; simp add: word_eval)
  apply (rule decodes_word [of 1]; simp add: word_eval)
  apply (rule decodes_word [of 176]; simp add: word_eval)
  apply (rule decodes_word [of 177]; simp add: word_eval)
  apply (rule decodes_word [of 63]; simp add: word_eval)
  apply (rule decodes_word [of 64]; simp add: word_eval)
  apply (rule decodes_word [of 2]; simp add: word_eval)
  apply (rule decodes_word [of 3]; simp add: word_eval)
  apply (rule decodes_word [of 159]; simp add: word_eval)
  apply (rule decodes_word [of 158]; simp add: word_eval)
  apply (rule decodes_word [of 82]; simp add: word_eval)
  apply (rule decodes_word [of 83]; simp add: word_eval)
  apply (rule decodes_word [of 4]; simp add: word_eval)
  apply (rule decodes_word [of 160]; simp add: word_eval)
  done

lemma shift_decodes:
  assumes "encode_shift i syms pc = Ok e"
  shows "decodes e (means_shift i (value_at syms pc), None)"
  using assms
  apply (cases i; clarsimp simp: value_eval elim!: sss_read)
         apply (rule decodes_word [of 5]; simp add: word_eval)
        apply (rule decodes_word [of 7]; simp add: word_eval)
       apply (rule decodes_word [of 122]; simp add: word_eval)
      apply (rule decodes_word [of 124]; simp add: word_eval)
     apply (rule decodes_word [of 6]; simp add: word_eval)
    apply (rule decodes_word [of 8]; simp add: word_eval)
   apply (rule decodes_word [of 123]; simp add: word_eval)
  apply (rule decodes_word [of 125]; simp add: word_eval)
  done

section \<open>Branches\<close>

definition sext9 :: "u32 \<Rightarrow> u32" where
  "sext9 x = (if bit x 8 then x OR 0xFFFFFE00 else x)"

lemma sext9_fits:
  assumes "fits_short_branch addr pc"
  shows "sext9 ((addr - pc) AND 0x1FF) = addr - pc"
proof -
  define d where "d = addr - pc"
  have "- (2 ^ 8) \<le> sint d" "sint d < 2 ^ 8"
    using assms by (auto simp: fits_short_branch_def d_def Let_def)
  then have i: "signed_take_bit 8 (sint d) = sint d"
    by (simp add: signed_take_bit_int_eq_self)
  have "bit d (min 8 k) = bit d k" if "k < 32" for k
  proof -
    have "bit d (min 8 k) = bit (sint d) (min 8 k)" by (simp only: bit_sint_iff) simp
    also have "\<dots> = bit (sint d) k"
      by (subst (2) i [symmetric]) (simp add: bit_signed_take_bit_iff)
    also have "\<dots> = bit d k" using that by (simp only: bit_sint_iff) simp
    finally show ?thesis .
  qed
  then have d: "signed_take_bit 8 d = d"
    by (intro bit_word_eqI) (simp add: bit_signed_take_bit_iff)
  have m: "(0x1FF :: u32) = mask 9" by (simp add: mask_eq_exp_minus_1)
  have "bit (d AND 0x1FF) k \<longleftrightarrow> k < 9 \<and> bit d k" for k
    unfolding m by (auto simp: bit_simps)
  from sext9_signed_take_bit [of "d AND 0x1FF", OF this] show ?thesis
    by (simp only: sext9_def d d_def [symmetric])
qed

lemma rel_decodes:
  assumes "encode_rel_branch t pc syms force short_base long_base = Ok e"
    and "\<And>x. decodes (words_enc long_base x) (Branch far, Some (x AND 0xFFFFFF))"
    and "\<And>d. decodes (word_enc (short_base OR encode_disp9 (d AND 0x1FF))) (Branch (near (sext9 (d AND 0x1FF))), None)"
  shows "decodes e (means_relative far near (value_at syms pc t - pc) (word1 e \<noteq> None))"
proof -
  obtain addr where a: "eval t syms pc = Ok addr" and
    "e = words_enc long_base ((addr - pc) AND 0xFFFFFF) \<or>
     fits_short_branch addr pc \<and>
     e = word_enc (short_base OR encode_disp9 ((addr - pc) AND 0x1FF))"
    using assms(1) by (auto simp: encode_rel_branch_def Let_def and.assoc split: if_splits)
  then show ?thesis
    using assms(2) [of "addr - pc"] assms(3) [of "addr - pc"]
    by (auto simp: means_relative_def value_at_def ext24_def sext9_fits decodes_def and.assoc)
qed

lemma rel_words:
  "decodes (words_enc (0x0D1040 OR ast_cc_bits cc) x) (Branch (BccLong (cc_of cc)), Some (x AND 0xFFFFFF))"
  "decodes (word_enc ((0x050400 OR push_bit 12 (ast_cc_bits cc)) OR encode_disp9 (d AND 0x1FF)))
     (Branch (Bcc (cc_of cc) (sext9 (d AND 0x1FF))), None)"
  "decodes (words_enc (0x0D1000 OR ast_cc_bits cc) x) (Branch (BsccLong (cc_of cc)), Some (x AND 0xFFFFFF))"
  "decodes (word_enc ((0x050000 OR push_bit 12 (ast_cc_bits cc)) OR encode_disp9 (d AND 0x1FF)))
     (Branch (Bscc (cc_of cc) (sext9 (d AND 0x1FF))), None)"
  "decodes (words_enc 0x0D10C0 x) (Branch BraLong, Some (x AND 0xFFFFFF))"
  "decodes (word_enc (0x050C00 OR encode_disp9 (d AND 0x1FF))) (Branch (Bra (sext9 (d AND 0x1FF))), None)"
  "decodes (words_enc 0x0D1080 x) (Branch BsrLong, Some (x AND 0xFFFFFF))"
  "decodes (word_enc (0x050800 OR encode_disp9 (d AND 0x1FF))) (Branch (Bsr (sext9 (d AND 0x1FF))), None)"
         apply (rule decodes_word [of 9]; simp add: word_eval)
        apply (rule decodes_word [of 10]; simp add: word_eval encode_disp9_def tmpl_sext9_def sext9_def)
       apply (rule decodes_word [of 36]; simp add: word_eval)
      apply (rule decodes_word [of 37]; simp add: word_eval encode_disp9_def tmpl_sext9_def sext9_def)
     apply (rule decodes_word [of 22]; simp add: word_eval)
    apply (rule decodes_word [of 23]; simp add: word_eval encode_disp9_def tmpl_sext9_def sext9_def)
   apply (rule decodes_word [of 49]; simp add: word_eval)
  apply (rule decodes_word [of 50]; simp add: word_eval encode_disp9_def tmpl_sext9_def sext9_def)
  done

text \<open>Absolute jumps: twelve bits in the word, or an addressing mode.\<close>

lemma jump_words:
  "decodes (word_enc (0x0E0000 OR push_bit 12 (ast_cc_bits cc) OR (x AND 0xFFF)))
     (Branch (Jcc (cc_of cc) (x AND 0xFFF)), None)"
  "decodes (word_enc (0x0F0000 OR push_bit 12 (ast_cc_bits cc) OR (x AND 0xFFF)))
     (Branch (Jscc (cc_of cc) (x AND 0xFFF)), None)"
  "decodes (word_enc (0x0C0000 OR (x AND 0xFFF))) (Branch (Jmp (x AND 0xFFF)), None)"
  "decodes (word_enc (0x0D0000 OR (x AND 0xFFF))) (Branch (Jsr (x AND 0xFFF)), None)"
  "decodes (words_enc 0x0AF080 x) (Branch (JmpEa 0x30), Some (x AND 0xFFFFFF))"
  "decodes (words_enc 0x0BF080 x) (Branch (JsrEa 0x30), Some (x AND 0xFFFFFF))"
       apply (rule decodes_word [of 92]; simp add: word_eval)
      apply (rule decodes_word [of 101]; simp add: word_eval)
     apply (rule decodes_word [of 100]; simp add: word_eval)
    apply (rule decodes_word [of 114]; simp add: word_eval)
   apply (rule decodes_word [of 99]; simp add: word_eval norm_all_def)
  apply (rule decodes_word [of 113]; simp add: word_eval norm_all_def)
  done

lemma jump_ea_words:
  assumes "wf_jump_ea ea"
  shows "decodes (with_ext (0x0AC0A0 OR push_bit 8 (ucast (ea_of ea)) OR ast_cc_bits cc) (ea_word ea v))
      (Branch (JccEa (cc_of cc) (ea_of ea)), ea_word ea v)"
    and "decodes (with_ext (0x0BC0A0 OR push_bit 8 (ucast (ea_of ea)) OR ast_cc_bits cc) (ea_word ea v))
      (Branch (JsccEa (cc_of cc) (ea_of ea)), ea_word ea v)"
    and "decodes (with_ext (0x0AC080 OR push_bit 8 (ucast (ea_of ea))) (ea_word ea v))
      (Branch (JmpEa (ea_of ea)), ea_word ea v)"
    and "decodes (with_ext (0x0BC080 OR push_bit 8 (ucast (ea_of ea))) (ea_word ea v))
      (Branch (JsrEa (ea_of ea)), ea_word ea v)"
  using assms unfolding wf_jump_ea_def
     apply -
     apply (rule with_ext_decodes [of 93]; simp add: ea_eval)
    apply (rule with_ext_decodes [of 102]; simp add: ea_eval)
   apply (rule with_ext_decodes [of 99]; simp add: ea_eval)
  apply (rule with_ext_decodes [of 113]; simp add: ea_eval)
  done

lemma jump_decodes:
  assumes "encode_jmp_jsr t force short_base long_base syms pc = Ok e"
    and "\<And>x. decodes (word_enc (short_base OR (x AND 0xFFF))) (Branch (near (x AND 0xFFF)), None)"
    and "\<And>x. decodes (words_enc long_base x) (Branch (far 0x30), Some (x AND 0xFFFFFF))"
  shows "decodes e (means_jump far near (value_at syms pc t) (word1 e \<noteq> None))"
proof -
  have "decodes (words_enc long_base (x AND 0xFFFFFF)) (Branch (far 0x30), Some (x AND 0xFFFFFF))" for x
    using assms(3) [of "x AND 0xFFFFFF"] by (simp add: and.assoc)
  with assms(1,2) show ?thesis
    by (auto simp: encode_jmp_jsr_def means_jump_def Let_def value_eval split: if_splits)
qed

lemma jcc_decodes:
  assumes "encode_jcc_ea cc ea short_base long_base syms pc = Ok e" "wf_jump_ea ea"
    and "\<And>x. decodes (word_enc (short_base OR push_bit 12 (ast_cc_bits cc) OR (x AND 0xFFF)))
      (Branch (near (x AND 0xFFF)), None)"
    and "\<And>v. decodes (with_ext (long_base OR push_bit 8 (ucast (ea_of ea)) OR ast_cc_bits cc) (ea_word ea v))
      (Branch (far (ea_of ea)), ea_word ea v)"
  shows "decodes e (means_jump_ea far near ea (value_at syms pc) (word1 e \<noteq> None))"
proof (cases "\<exists>t. ea = Ea_AbsAddr t \<and> word1 e = None")
  case True
  then obtain t where t: "ea = Ea_AbsAddr t" "word1 e = None" by blast
  with assms(1) have "\<exists>x. eval t syms pc = Ok x \<and>
      e = word_enc (short_base OR push_bit 12 (ast_cc_bits cc) OR (x AND 0xFFF))"
    by (auto simp: encode_jcc_ea_def encode_jcc_long_def encode_ea_def with_ext_def split: if_splits)
  then show ?thesis
    using assms(3) t by (auto simp: means_jump_ea_def means_jump_def value_at_def)
next
  case False
  with assms(1) have "encode_jcc_long cc ea long_base syms pc = Ok e"
    by (auto simp: encode_jcc_ea_def split: effective_address.splits if_splits)
  then have "e = with_ext (long_base OR push_bit 8 (ucast (ea_of ea)) OR ast_cc_bits cc)
      (ea_word ea (value_at syms pc))"
    using assms(2) by (auto simp: encode_jcc_long_def wf_jump_ea_def dest: encode_ea_of)
  with assms(4) [of "value_at syms pc"] False show ?thesis
    by (cases ea) (auto simp: means_jump_ea_def means_jump_def ext24_def encode_ea_mode_def with_ext_def)
qed

lemma branch_decodes:
  assumes "encode_branch i syms pc = Ok e" "wf_branch i"
  shows "decodes e (means_branch i (value_at syms pc) pc (word1 e \<noteq> None))"
  using assms
  apply (cases i; simp only: encode_branch.simps means_branch.simps wf_branch.simps encode_bcc_def
      encode_bra_def encode_bsr_def encode_bscc_def)
                  apply (erule rel_decodes; rule rel_words)
                 apply (clarsimp, rule decodes_word [of 11]; simp add: word_eval)
                apply (erule rel_decodes; rule rel_words)
               apply (clarsimp, rule decodes_word [of 24]; simp add: word_eval)
              apply (erule rel_decodes; rule rel_words)
             apply (clarsimp, rule decodes_word [of 51]; simp add: word_eval)
            apply (erule rel_decodes; rule rel_words)
           apply (clarsimp, rule decodes_word [of 38]; simp add: word_eval)
          apply (clarsimp, rule decodes_word [of 30]; simp add: word_eval)
         apply (clarsimp simp: value_at_def jump_words)
        apply (erule jcc_decodes; (assumption | rule jump_words | erule jump_ea_words))
       apply (erule jump_decodes; rule jump_words)
      apply (clarsimp simp: wf_jump_ea_def)
      apply (drule (1) encode_ea_of)
      apply (clarsimp simp: jump_ea_words wf_jump_ea_def)
     apply (clarsimp simp: value_at_def jump_words)
    apply (erule jcc_decodes; (assumption | rule jump_words | erule jump_ea_words))
   apply (erule jump_decodes; rule jump_words)
  apply (clarsimp simp: wf_jump_ea_def)
  apply (drule (1) encode_ea_of)
  apply (clarsimp simp: jump_ea_words wf_jump_ea_def)
  done

end
