(* ===== verification/Asm_Bit_Laws.thy ===== *)
theory Asm_Bit_Laws
  imports Asm_Operand_Laws
begin

text \<open>
  The encoder is correct, continued: bit operations and branches on a bit, in each of their five
  forms.
\<close>

unbundle bit_operations_syntax

declare unpack [simp del] nth_index_cong [cong]

section \<open>Bit operations\<close>

text \<open>One operation has five words; the long absolute form is the addressing mode 0x30.\<close>

lemma bit_op_decodes:
  assumes "encode_bit_op k b t syms pc = Ok e" "wf_bit_target t"
    and reg: "\<And>r n. wf_register r \<Longrightarrow> \<not> is_l_composite r \<Longrightarrow>
      decodes (word_enc (0x0AC000 OR push_bit 16 (drop_bit 1 k AND 1) OR push_bit 8 (ucast (reg_of r))
        OR push_bit 6 1 OR push_bit 5 (k AND 1) OR (n AND 0x1F))) (G (Reg (reg_of r) (imm5 n)), None)"
    and ea: "\<And>s ea n v. data_space s \<Longrightarrow> wf_ea ea \<Longrightarrow>
      decodes (with_ext (0x0A4000 OR push_bit 16 (drop_bit 1 k AND 1) OR push_bit 8 (ucast (ea_of ea))
        OR push_bit 6 (ast_space_bit s) OR push_bit 5 (k AND 1) OR (n AND 0x1F)) (ea_word ea v))
        (G (Ea (space_of s) (norm_all (ea_of ea)) (imm5 n)), ea_word ea v)"
    and pp: "\<And>s x n. data_space s \<Longrightarrow>
      decodes (word_enc (0x0A8000 OR push_bit 16 (drop_bit 1 k AND 1) OR push_bit 8 (x AND 0x3F)
        OR (push_bit 6 (ast_space_bit s) OR push_bit 5 (k AND 1) OR (n AND 0x1F))))
        (G (Pp (space_of s) (imm6 x) (imm5 n)), None)"
    and qq: "\<And>s x n. data_space s \<Longrightarrow>
      decodes (word_enc (0x010000 OR push_bit 14 (drop_bit 1 k AND 1) OR push_bit 8 (x AND 0x3F)
        OR (push_bit 6 (ast_space_bit s) OR push_bit 5 (k AND 1) OR (n AND 0x1F))))
        (G (Qq (space_of s) (imm6 x) (imm5 n)), None)"
    and aa: "\<And>s x n. data_space s \<Longrightarrow>
      decodes (word_enc (0x0A0000 OR push_bit 16 (drop_bit 1 k AND 1) OR push_bit 8 (x AND 0x3F)
        OR (push_bit 6 (ast_space_bit s) OR push_bit 5 (k AND 1) OR (n AND 0x1F))))
        (G (Aa (space_of s) (imm6 x) (imm5 n)), None)"
  shows "decodes e (map_prod G id (means_bit_target Ea Aa Pp Qq Reg raise_periph t (value_at syms pc)
    (imm5 (value_at syms pc b))))"
proof -
  obtain n where n: "eval b syms pc = Ok n"
    using assms(1) by (auto simp: encode_bit_op_def)
  show ?thesis
  proof (cases t)
    case (Bt_Reg r)
    with assms(1,2) n show ?thesis
      by (auto simp: encode_bit_op_def means_bit_target_def value_at_def Let_def dest!: reg6_read intro!: reg [simplified])
  next
    case (Bt_Ea s ea')
    with assms(1,2) n show ?thesis
      by (auto simp: encode_bit_op_def means_bit_target_def value_at Let_def dest!: encode_ea_of intro!: ea [simplified])
  next
    case (Bt_Addr s x)
    have long: "decodes (words_enc (0x0A4000 OR push_bit 16 (drop_bit 1 k AND 1) OR push_bit 8 0x30
        OR (push_bit 6 (ast_space_bit s) OR push_bit 5 (k AND 1) OR (n AND 0x1F))) (y AND 0xFFFFFF))
        (G (Ea (space_of s) 0x30 (imm5 n)), Some (y AND 0xFFFFFF))" if "data_space s" for y
      using ea [OF that, of "Ea_AbsAddr x" n "\<lambda>_. y"]
      by (simp add: with_ext_def encode_ea_mode_def norm_all_def or.assoc)
    from Bt_Addr assms(1,2) n show ?thesis
      by (auto simp: encode_bit_op_def encode_bit_addr_def means_bit_target_def means_data_def value_at_def
          raise_normalize ext24_def Let_def imm6_def [symmetric] below_imm6
          intro!: pp [simplified] qq [simplified] aa [simplified] long [simplified])
  qed
qed

lemma bitop_decodes:
  assumes "encode_bitop i syms pc = Ok e" "wf_bitop i"
  shows "decodes e (means_bitop i (value_at syms pc))"
  using assms
  apply (cases i; simp only: encode_bitop.simps means_bitop.simps wf_bitop.simps)
     apply (erule (1) bit_op_decodes)
         apply (rule decodes_word [of 16]; simp add: word_eval reg_reads imm5_def)
        apply (rule with_ext_decodes [of 12]; simp add: ea_eval imm5_def)
       apply (rule decodes_word [of 14]; simp add: word_eval imm5_def imm6_def)
      apply (rule decodes_word [of 15]; simp add: word_eval imm5_def imm6_def)
     apply (rule decodes_word [of 13]; simp add: word_eval imm5_def imm6_def)
    apply (erule (1) bit_op_decodes)
        apply (rule decodes_word [of 21]; simp add: word_eval reg_reads imm5_def)
       apply (rule with_ext_decodes [of 17]; simp add: ea_eval imm5_def)
      apply (rule decodes_word [of 19]; simp add: word_eval imm5_def imm6_def)
     apply (rule decodes_word [of 20]; simp add: word_eval imm5_def imm6_def)
    apply (rule decodes_word [of 18]; simp add: word_eval imm5_def imm6_def)
   apply (erule (1) bit_op_decodes)
       apply (rule decodes_word [of 48]; simp add: word_eval reg_reads imm5_def)
      apply (rule with_ext_decodes [of 44]; simp add: ea_eval imm5_def)
     apply (rule decodes_word [of 46]; simp add: word_eval imm5_def imm6_def)
    apply (rule decodes_word [of 47]; simp add: word_eval imm5_def imm6_def)
   apply (rule decodes_word [of 45]; simp add: word_eval imm5_def imm6_def)
  apply (erule (1) bit_op_decodes)
      apply (rule decodes_word [of 61]; simp add: word_eval reg_reads imm5_def)
     apply (rule with_ext_decodes [of 57]; simp add: ea_eval imm5_def)
    apply (rule decodes_word [of 59]; simp add: word_eval imm5_def imm6_def)
   apply (rule decodes_word [of 60]; simp add: word_eval imm5_def imm6_def)
  apply (rule decodes_word [of 58]; simp add: word_eval imm5_def imm6_def)
  done

section \<open>Branches on a bit\<close>

lemma reject_mode6: "reject_bit_branch_mode6_ea ea = Ok u \<Longrightarrow> \<not> is_abs ea"
  by (cases ea) (auto simp: reject_bit_branch_mode6_ea_def)

text \<open>The relative branches; the two bits of the operation are \<open>bs\<close> and \<open>sb\<close>.\<close>

lemma bit_rel_decodes:
  assumes "encode_bit_branch_rel bs sb (n AND 0x1F) x t syms pc = Ok e" "wf_bit_target t"
    and reg: "\<And>r. wf_register r \<Longrightarrow> \<not> is_l_composite r \<Longrightarrow>
      decodes (words_enc (0x0CC080 OR push_bit 16 bs OR push_bit 8 (ucast (reg_of r)) OR push_bit 5 sb
        OR n AND 0x1F) x) (G (Reg (reg_of r) (imm5 n)), Some (x AND 0xFFFFFF))"
    and ea: "\<And>s ea. data_space s \<Longrightarrow> wf_ea ea \<Longrightarrow> \<not> is_abs ea \<Longrightarrow>
      decodes (words_enc (0x0C8000 OR push_bit 16 bs OR push_bit 8 (ucast (ea_of ea))
        OR push_bit 6 (ast_space_bit s) OR push_bit 5 sb OR n AND 0x1F) x)
        (G (Ea (space_of s) (norm_all (ea_of ea)) (imm5 n)), Some (x AND 0xFFFFFF))"
    and pp: "\<And>s a. data_space s \<Longrightarrow>
      decodes (words_enc (0x0CC000 OR push_bit 16 bs OR push_bit 8 (a AND 0x3F)
        OR push_bit 6 (ast_space_bit s) OR push_bit 5 sb OR n AND 0x1F) x)
        (G (Pp (space_of s) (imm6 a) (imm5 n)), Some (x AND 0xFFFFFF))"
    and qq: "\<And>s a. data_space s \<Longrightarrow>
      decodes (words_enc (0x048000 OR push_bit 7 bs OR push_bit 8 (a AND 0x3F)
        OR push_bit 6 (ast_space_bit s) OR push_bit 5 sb OR n AND 0x1F) x)
        (G (Qq (space_of s) (imm6 a) (imm5 n)), Some (x AND 0xFFFFFF))"
    and aa: "\<And>s a. data_space s \<Longrightarrow>
      decodes (words_enc (0x0C8000 OR push_bit 16 bs OR push_bit 8 (a AND 0x3F) OR push_bit 7 1
        OR push_bit 6 (ast_space_bit s) OR push_bit 5 sb OR n AND 0x1F) x)
        (G (Aa (space_of s) (imm6 a) (imm5 n)), Some (x AND 0xFFFFFF))"
  shows "decodes e (to_target G x (means_bit_target Ea Aa Pp Qq Reg id t (value_at syms pc) (imm5 n)))"
proof (cases t)
  case (Bt_Reg r)
  with assms(1,2) show ?thesis
    by (auto simp: encode_bit_branch_rel_def means_bit_target_def to_target_def ext24_def
        dest!: reg6_read intro!: reg)
next
  case (Bt_Ea s ea')
  with assms(1,2) show ?thesis
    by (auto simp: encode_bit_branch_rel_def means_bit_target_def to_target_def ext24_def
        dest!: encode_ea_of reject_mode6 intro!: ea)
next
  case (Bt_Addr s a)
  with assms(1) obtain z where "eval a syms pc = Ok z"
    by (auto simp: encode_bit_branch_rel_def)
  then show ?thesis
    using Bt_Addr assms(1,2) unfolding encode_bit_branch_rel_def Let_def
    by (cases z rule: data_cases; auto simp: means_bit_target_def to_target_def ext24_def means_data_def
        value_at_def imm6_def [symmetric] below_imm6 simp del: not_le intro!: pp qq aa [simplified])
qed

lemma bit_abs_decodes:
  fixes k :: u32
  defines "js \<equiv> if k AND 2 \<noteq> 0 then push_bit 16 1 else 0" and "jq \<equiv> if k AND 2 \<noteq> 0 then push_bit 14 1 else 0"
  assumes "encode_bit_branch_abs k sb (n AND 0x1F) x t syms pc = Ok e" "wf_bit_target t"
    and reg: "\<And>r. wf_register r \<Longrightarrow> \<not> is_l_composite r \<Longrightarrow>
      decodes (words_enc (0x0AC000 OR js OR push_bit 8 (ucast (reg_of r)) OR push_bit 5 sb
        OR n AND 0x1F) x) (G (Reg (reg_of r) (imm5 n)), Some (x AND 0xFFFFFF))"
    and ea: "\<And>s ea. data_space s \<Longrightarrow> wf_ea ea \<Longrightarrow> \<not> is_abs ea \<Longrightarrow>
      decodes (words_enc (0x0A4080 OR js OR push_bit 8 (ucast (ea_of ea))
        OR push_bit 6 (ast_space_bit s) OR push_bit 5 sb OR n AND 0x1F) x)
        (G (Ea (space_of s) (norm_all (ea_of ea)) (imm5 n)), Some (x AND 0xFFFFFF))"
    and pp: "\<And>s a. data_space s \<Longrightarrow>
      decodes (words_enc (0x0A8080 OR js OR push_bit 8 (a AND 0x3F)
        OR push_bit 6 (ast_space_bit s) OR push_bit 5 sb OR n AND 0x1F) x)
        (G (Pp (space_of s) (imm6 a) (imm5 n)), Some (x AND 0xFFFFFF))"
    and qq: "\<And>s a. data_space s \<Longrightarrow>
      decodes (words_enc (0x018080 OR jq OR push_bit 8 (a AND 0x3F)
        OR push_bit 6 (ast_space_bit s) OR push_bit 5 sb OR n AND 0x1F) x)
        (G (Qq (space_of s) (imm6 a) (imm5 n)), Some (x AND 0xFFFFFF))"
    and aa: "\<And>s a. data_space s \<Longrightarrow>
      decodes (words_enc (0x0A0080 OR js OR push_bit 8 (a AND 0x3F)
        OR push_bit 6 (ast_space_bit s) OR push_bit 5 sb OR n AND 0x1F) x)
        (G (Aa (space_of s) (imm6 a) (imm5 n)), Some (x AND 0xFFFFFF))"
  shows "decodes e (to_target G x (means_bit_target Ea Aa Pp Qq Reg raise_periph t (value_at syms pc) (imm5 n)))"
proof (cases t)
  case (Bt_Reg r)
  with assms(3,4) show ?thesis
    unfolding encode_bit_branch_abs_def Let_def js_def [symmetric] jq_def [symmetric]
    by (auto simp: means_bit_target_def to_target_def ext24_def dest!: reg6_read intro!: reg)
next
  case (Bt_Ea s ea')
  with assms(3,4) show ?thesis
    unfolding encode_bit_branch_abs_def Let_def js_def [symmetric] jq_def [symmetric]
    by (auto simp: means_bit_target_def to_target_def ext24_def dest!: encode_ea_of reject_mode6 intro!: ea)
next
  case (Bt_Addr s a)
  with assms(3) obtain y where y: "eval a syms pc = Ok y"
    by (auto simp: encode_bit_branch_abs_def Let_def)
  define z where "z = raise_periph y"
  show ?thesis
    using Bt_Addr assms(3,4) y
    unfolding encode_bit_branch_abs_def Let_def js_def [symmetric] jq_def [symmetric]
    by (cases z rule: data_cases; auto simp: means_bit_target_def to_target_def ext24_def means_data_def value_at_def
        imm6_def [symmetric] below_imm6 raise_normalize z_def [symmetric] simp del: not_le intro!: pp qq aa)
qed

lemma bit_branch_parts:
  assumes "encode_bit_branch k b t a pc syms = Ok e"
  shows "if 4 \<le> k
    then encode_bit_branch_rel (if 6 \<le> k then 1 else 0) (k AND 1) (value_at syms pc b AND 0x1F)
      ((value_at syms pc a - pc) AND 0xFFFFFF) t syms pc = Ok e
    else encode_bit_branch_abs k (k AND 1) (value_at syms pc b AND 0x1F)
      (value_at syms pc a AND 0xFFFFFF) t syms pc = Ok e"
  using assms by (auto simp: encode_bit_branch_def Let_def value_at_def)

lemma to_target_ext: "to_target G (x AND 0xFFFFFF) m = to_target G x m"
  by (simp add: to_target_def ext24_def and.assoc)

lemma bitbr_decodes:
  assumes "encode_bitbr i syms pc = Ok e" "wf_bit_target (bitbr_target i)"
  shows "decodes e (means_bitbr i (value_at syms pc) pc)"
  apply (insert assms)
  apply (cases i; simp only: encode_bitbr.simps means_bitbr.simps bitbr_target.simps;
      drule bit_branch_parts; simp add: word_le_nat_alt; subst to_target_ext [symmetric])
  apply (erule (1) bit_abs_decodes)
  apply (rule decodes_word [of 98]; simp add: word_eval reg_reads imm5_def imm6_def)
  apply (rule decodes_word [of 94]; simp add: word_eval ea_reads imm5_def imm6_def)
  apply (rule decodes_word [of 96]; simp add: word_eval imm5_def imm6_def)
  apply (rule decodes_word [of 97]; simp add: word_eval imm5_def imm6_def)
  apply (rule decodes_word [of 95]; simp add: word_eval imm5_def imm6_def)
  apply (erule (1) bit_abs_decodes)
  apply (rule decodes_word [of 112]; simp add: word_eval reg_reads imm5_def imm6_def)
  apply (rule decodes_word [of 108]; simp add: word_eval ea_reads imm5_def imm6_def)
  apply (rule decodes_word [of 110]; simp add: word_eval imm5_def imm6_def)
  apply (rule decodes_word [of 111]; simp add: word_eval imm5_def imm6_def)
  apply (rule decodes_word [of 109]; simp add: word_eval imm5_def imm6_def)
  apply (erule (1) bit_abs_decodes)
  apply (rule decodes_word [of 107]; simp add: word_eval reg_reads imm5_def imm6_def)
  apply (rule decodes_word [of 103]; simp add: word_eval ea_reads imm5_def imm6_def)
  apply (rule decodes_word [of 105]; simp add: word_eval imm5_def imm6_def)
  apply (rule decodes_word [of 106]; simp add: word_eval imm5_def imm6_def)
  apply (rule decodes_word [of 104]; simp add: word_eval imm5_def imm6_def)
  apply (erule (1) bit_abs_decodes)
  apply (rule decodes_word [of 119]; simp add: word_eval reg_reads imm5_def imm6_def)
  apply (rule decodes_word [of 115]; simp add: word_eval ea_reads imm5_def imm6_def)
  apply (rule decodes_word [of 117]; simp add: word_eval imm5_def imm6_def)
  apply (rule decodes_word [of 118]; simp add: word_eval imm5_def imm6_def)
  apply (rule decodes_word [of 116]; simp add: word_eval imm5_def imm6_def)
  apply (erule (1) bit_rel_decodes)
  apply (rule decodes_word [of 29]; simp add: word_eval reg_reads imm5_def imm6_def)
  apply (rule decodes_word [of 25]; simp add: word_eval ea_reads imm5_def imm6_def)
  apply (rule decodes_word [of 27]; simp add: word_eval imm5_def imm6_def)
  apply (rule decodes_word [of 28]; simp add: word_eval imm5_def imm6_def)
  apply (rule decodes_word [of 26]; simp add: word_eval imm5_def imm6_def)
  apply (erule (1) bit_rel_decodes)
  apply (rule decodes_word [of 35]; simp add: word_eval reg_reads imm5_def imm6_def)
  apply (rule decodes_word [of 31]; simp add: word_eval ea_reads imm5_def imm6_def)
  apply (rule decodes_word [of 33]; simp add: word_eval imm5_def imm6_def)
  apply (rule decodes_word [of 34]; simp add: word_eval imm5_def imm6_def)
  apply (rule decodes_word [of 32]; simp add: word_eval imm5_def imm6_def)
  apply (erule (1) bit_rel_decodes)
  apply (rule decodes_word [of 43]; simp add: word_eval reg_reads imm5_def imm6_def)
  apply (rule decodes_word [of 39]; simp add: word_eval ea_reads imm5_def imm6_def)
  apply (rule decodes_word [of 42]; simp add: word_eval imm5_def imm6_def)
  apply (rule decodes_word [of 41]; simp add: word_eval imm5_def imm6_def)
  apply (rule decodes_word [of 40]; simp add: word_eval imm5_def imm6_def)
  apply (erule (1) bit_rel_decodes)
  apply (rule decodes_word [of 56]; simp add: word_eval reg_reads imm5_def imm6_def)
  apply (rule decodes_word [of 52]; simp add: word_eval ea_reads imm5_def imm6_def)
  apply (rule decodes_word [of 54]; simp add: word_eval imm5_def imm6_def)
  apply (rule decodes_word [of 55]; simp add: word_eval imm5_def imm6_def)
  apply (rule decodes_word [of 53]; simp add: word_eval imm5_def imm6_def)
  done

end
