(* ===== verification/Asm_Misc_Laws.thy ===== *)
theory Asm_Misc_Laws
  imports Asm_Operand_Laws
begin

text \<open>
  The encoder is correct, continued: loops, multiplications and divisions, address arithmetic, bit
  fields, traps, cache control and conditional transfers.
\<close>

unbundle bit_operations_syntax

declare unpack [simp del] nth_index_cong [cong]

section \<open>Loops\<close>

lemma loop_decodes:
  assumes "encode_do_dor_inner src (x AND 0xFFFFFF) off syms pc = Ok e" "wf_source src"
    and imm: "\<And>c. decodes (words_enc (0x060080 OR off OR push_bit 8 (c AND 0xFF) OR drop_bit 8 c AND 0xF) (x AND 0xFFFFFF))
      (Loop (Imm (ucast (c AND 0xFFF))), Some ((x AND 0xFFFFFF) AND 0xFFFFFF))"
    and reg: "\<And>r. wf_register r \<Longrightarrow> \<not> is_l_composite r \<Longrightarrow>
      decodes (words_enc (0x06C000 OR off OR push_bit 8 (ucast (reg_of r))) (x AND 0xFFFFFF))
      (Loop (Reg (reg_of r)), Some ((x AND 0xFFFFFF) AND 0xFFFFFF))"
    and aa: "\<And>s a. data_space s \<Longrightarrow>
      decodes (words_enc (0x060000 OR off OR push_bit 8 (a AND 0x3F) OR push_bit 6 (ast_space_bit s)) (x AND 0xFFFFFF))
      (Loop (Aa (space_of s) (imm6 a)), Some ((x AND 0xFFFFFF) AND 0xFFFFFF))"
    and ea: "\<And>s ea. data_space s \<Longrightarrow> wf_ea ea \<Longrightarrow> \<not> is_abs ea \<Longrightarrow>
      decodes (words_enc (0x064000 OR off OR push_bit 8 (ucast (ea_of ea)) OR push_bit 6 (ast_space_bit s)) (x AND 0xFFFFFF))
      (Loop (Ea (space_of s) (ea_of ea)), Some ((x AND 0xFFFFFF) AND 0xFFFFFF))"
  shows "decodes e (Loop (means_count Imm Reg Aa Ea src (value_at syms pc)), ext24 x)"
proof (cases src)
  case (Ls_Imm c)
  with assms(1) show ?thesis
    by (auto simp: encode_do_dor_inner_def pack_loop_count_def means_count_def value_at_def ext24_def
        intro!: imm [unfolded and.assoc, simplified])
next
  case (Ls_Reg r)
  with assms(1,2) show ?thesis
    by (auto simp: encode_do_dor_inner_def means_count_def ext24_def dest!: reg6_read
        intro!: reg [unfolded and.assoc, simplified])
next
  case (Ls_Aa s a)
  with assms(1,2) show ?thesis
    by (auto simp: encode_do_dor_inner_def encode_do_aa_def means_count_def value_at_def ext24_def
        le_imm6 split: if_splits intro!: aa [unfolded and.assoc, simplified])
next
  case (Ls_Ea s ea')
  show ?thesis
  proof (cases "is_abs ea'")
    case True
    with Ls_Ea assms(1,2) show ?thesis
      by (cases ea') (auto simp: encode_do_dor_inner_def encode_do_aa_def means_count_def value_at_def
          ext24_def le_imm6 split: if_splits intro!: aa [unfolded and.assoc, simplified])
  next
    case False
    with Ls_Ea assms(1) have "\<exists>b w. encode_ea ea' syms pc = Ok (b, w) \<and> e = words_enc (0x064000 OR off
        OR push_bit 8 (ucast b) OR push_bit 6 (ast_space_bit s)) (x AND 0xFFFFFF)"
      and "means_count Imm Reg Aa Ea src (value_at syms pc) = Ea (space_of s) (ea_of ea')"
      by (cases ea'; auto simp: encode_do_dor_inner_def means_count_def)+
    with False Ls_Ea assms(1,2) show ?thesis
      by (auto simp: ext24_def dest!: encode_ea_of intro!: ea [unfolded and.assoc, simplified])
  qed
qed

lemma rep_decodes:
  assumes "encode_rep src syms pc = Ok e" "wf_source (rep_as_loop src)"
  shows "decodes e (Loop (means_count RepImm RepReg RepAa RepEa (rep_as_loop src) (value_at syms pc)), None)"
proof -
  have aa: "decodes (word_enc (0x060020 OR push_bit 8 (a AND 0x3F) OR push_bit 6 (ast_space_bit s)))
      (Loop (RepAa (space_of s) (imm6 a)), None)" if "data_space s" for s a
    by (rule decodes_word [of 169]; simp add: word_eval imm6_def that)
  show ?thesis
  proof (cases src)
    case (Rs_Imm c)
    with assms show ?thesis
      apply (clarsimp simp: encode_rep_def pack_loop_count_def means_count_def value_at_def)
      apply (rule decodes_word [of 170]; simp add: word_eval)
      done
  next
    case (Rs_Reg r)
    with assms show ?thesis
      apply (clarsimp simp: encode_rep_def means_count_def dest!: reg6_read)
      apply (rule decodes_word [of 171]; simp add: word_eval reg_reads)
      done
  next
    case (Rs_Aa s a)
    with assms show ?thesis
      by (auto simp: encode_rep_def encode_rep_aa_def means_count_def value_at_def le_imm6
          split: if_splits intro!: aa)
  next
    case (Rs_Ea s ea')
    show ?thesis
    proof (cases "is_abs ea'")
      case True
      with Rs_Ea assms show ?thesis
        by (cases ea') (auto simp: encode_rep_def encode_rep_aa_def means_count_def value_at_def le_imm6
            split: if_splits intro!: aa)
    next
      case False
      with Rs_Ea assms(1) have "\<exists>b w. encode_ea ea' syms pc = Ok (b, w) \<and>
          e = word_enc (0x064020 OR push_bit 8 (ucast b) OR push_bit 6 (ast_space_bit s))"
        and "means_count RepImm RepReg RepAa RepEa (rep_as_loop src) (value_at syms pc) =
          RepEa (space_of s) (ea_of ea')"
        by (cases ea'; auto simp: encode_rep_def means_count_def)+
      with False Rs_Ea assms(2) show ?thesis
        apply clarsimp
        apply (drule (1) encode_ea_of)
        apply clarsimp
        apply (rule decodes_word [of 168]; simp add: ea_eval abs_immediate)
        done
    qed
  qed
qed

lemma diff_mask: "((x AND 0xFFFFFF) - y) AND 0xFFFFFF = (x - y :: u32) AND 0xFFFFFF"
proof -
  have m: "(0xFFFFFF :: u32) = mask 24" by (simp add: mask_eq_exp_minus_1)
  have "take_bit 24 (take_bit 24 i - j) = take_bit 24 (i - j)" for i j :: int
    by (subst (1 2) take_bit_diff [symmetric]) simp
  then show ?thesis
    unfolding m take_bit_eq_mask [symmetric] by transfer simp
qed

lemma do_decodes:
  assumes "encode_loop i syms pc = Ok e" "wf_loop i"
  shows "decodes e (means_loop i (value_at syms pc) pc)"
  using assms
  apply (cases i; clarsimp simp: encode_do_def encode_dor_def value_at Let_def diff_mask)
      apply (erule (1) loop_decodes)
         apply (rule decodes_word [of 73]; simp add: word_eval)
        apply (rule decodes_word [of 74]; simp add: word_eval reg_reads)
       apply (rule decodes_word [of 72]; simp add: word_eval imm6_def)
      apply (rule decodes_word [of 71]; simp add: ea_eval abs_immediate)
     apply (rule decodes_word [of 75]; simp add: word_eval ext24_def)
    apply (erule (1) loop_decodes)
       apply (rule decodes_word [of 78]; simp add: word_eval)
      apply (rule decodes_word [of 79]; simp add: word_eval reg_reads)
     apply (rule decodes_word [of 77]; simp add: word_eval imm6_def)
    apply (rule decodes_word [of 76]; simp add: ea_eval abs_immediate)
   apply (rule decodes_word [of 80]; simp add: word_eval ext24_def)
  apply (erule (1) rep_decodes)
  done

section \<open>Multiplication and division\<close>

text \<open>The register tables of the encoder are inverse to those of the decoder.\<close>

lemma qq_read:
  assumes "reg_to_qq r = Ok x"
  obtains y where "x = y AND 3" "qq_reg (ucast (y AND 3)) = Some (register_index r)"
proof -
  have "x = x AND 3 \<and> qq_reg (ucast (x AND 3)) = Some (register_index r)"
    using assms by (cases r) (auto simp: reg_to_qq_def qq_reg_def)
  then show thesis by (blast intro: that)
qed

lemma switch_qq_read:
  assumes "switch r [(R_X0, Ok 0), (R_Y0, Ok 1), (R_X1, Ok 2), (R_Y1, Ok 3)] (Err err) = Ok (x :: u32)"
  obtains y where "x = y AND 3" "qq_reg (ucast (y AND 3)) = Some (register_index r)"
proof -
  have "x = x AND 3 \<and> qq_reg (ucast (x AND 3)) = Some (register_index r)"
    using assms by (cases r) (auto simp: qq_reg_def)
  then show thesis by (blast intro: that)
qed

lemma qq_shift_read:
  assumes "switch r [(R_Y1, Ok 0), (R_X0, Ok 1), (R_Y0, Ok 2), (R_X1, Ok 3)] (Err err) = Ok (x :: u32)"
  obtains y where "x = y AND 3" "qq_reg_mulshift (ucast (y AND 3)) = Some (register_index r)"
proof -
  have "x = x AND 3 \<and> qq_reg_mulshift (ucast (x AND 3)) = Some (register_index r)"
    using assms by (cases r) (auto simp: qq_reg_mulshift_def)
  then show thesis by (blast intro: that)
qed

lemma qqqq_read:
  assumes "regs_to_qqqq r s = Ok x"
  obtains y where "x = y AND 0xF" "qqqq_regs (ucast (y AND 0xF)) = Some (register_index r, register_index s)"
proof -
  have "x = x AND 0xF \<and> qqqq_regs (ucast (x AND 0xF)) = Some (register_index r, register_index s)"
    using assms by (auto simp: regs_to_qqqq_def qqqq_regs_def split: if_splits)
  then show thesis by (blast intro: that)
qed

lemma ggg_read:
  assumes "cmpu_ggg r d = Ok x"
  obtains y where "x = y AND 7" "ggg_reg (ucast (y AND 7)) (acc_of d) = Some (register_index r)"
proof -
  have "x = x AND 7 \<and> ggg_reg (ucast (x AND 7)) (acc_of d) = Some (register_index r)"
    using assms by (cases r; cases d) (auto simp: cmpu_ggg_def ggg_reg_def acc_of_def split: if_splits)
  then show thesis by (blast intro: that)
qed

lemma qqq_read:
  assumes "reg_to_qqq r = Ok x"
  obtains y where "x = y AND 7" "qqq_reg (ucast (y AND 7)) = Some (register_index r)"
proof -
  have "x = x AND 7 \<and> qqq_reg (ucast (x AND 7)) = Some (register_index r)"
    using assms by (cases r) (auto simp: reg_to_qqq_def qqq_reg_def)
  then show thesis by (blast intro: that)
qed

text \<open>The shift count of a multiplication is a number below 32.\<close>

lemma below_read5:
  assumes "\<not> 31 < n"
  obtains y where "n = y AND (0x1F :: u32)"
proof -
  have "n = n AND 0x1F"
    using assms less_mask_eq [of n 5] by (simp add: mask_eq_exp_minus_1 word_less_nat_alt)
  then show thesis by (rule that)
qed

lemma minus_iff: "s \<noteq> Plus \<longleftrightarrow> s = Minus"
  by (cases s) simp_all

lemmas mul_eval = word_eval minus_iff

lemma mul_shift_read:
  assumes "encode_mul_shift m s src n d syms pc = Ok e"
  obtains x y where "qq_reg_mulshift (ucast (y AND 3)) = Some (register_index src)"
    "value_at syms pc n = x AND 0x1F"
    "e = word_enc (0x010000 OR push_bit 8 (x AND 0x1F) OR push_bit 6 3 OR push_bit 4 (y AND 3)
      OR push_bit 3 (ast_acc_bits d) OR push_bit 2 (sign_bit s) OR mul_shift_op_bits m)"
proof -
  from assms obtain q x where q: "switch src [(R_Y1, Ok 0), (R_X0, Ok 1), (R_Y0, Ok 2), (R_X1, Ok 3)]
      (Err Mul_shift_source) = Ok q" and x: "eval n syms pc = Ok x" "\<not> 31 < x"
    and e: "e = word_enc (0x010000 OR push_bit 8 x OR push_bit 6 3 OR push_bit 4 q
      OR push_bit 3 (ast_acc_bits d) OR push_bit 2 (sign_bit s) OR mul_shift_op_bits m)"
    by (auto simp: encode_mul_shift_def simp del: switch.simps split: if_splits)
  from q obtain y where y: "q = y AND 3" "qq_reg_mulshift (ucast (y AND 3)) = Some (register_index src)"
    by (rule qq_shift_read)
  from x(2) obtain z where "x = z AND 0x1F" by (rule below_read5)
  with x(1) e y that [of y z] show thesis by (simp add: value_at)
qed

lemma mul_shift_decodes:
  assumes "encode_mul_shift m s src n d syms pc = Ok e"
  shows "decodes e (Mul (MulShift (mul_shift_of m) (ucast (value_at syms pc n)) (register_index src)
    (acc_of d) (s = Minus)), None)"
  using assms
  apply (rule mul_shift_read)
  apply (cases m; simp add: mul_shift_op_bits_def mul_shift_of_def)
     apply (rule decodes_word [of 150]; simp add: mul_eval)
    apply (rule decodes_word [of 153]; simp add: mul_eval)
   apply (rule decodes_word [of 128]; simp add: mul_eval)
  apply (rule decodes_word [of 131]; simp add: mul_eval)
  done

lemma dmac_decodes:
  assumes "encode_dmac ss s s1 s2 d = Ok e" "ss \<in> {0, 2, 3}"
  shows "decodes e (Mul (Dmac ss (s = Minus) (acc_of d) (register_index s1) (register_index s2)), None)"
  using assms(2,1)
  apply (clarsimp simp: encode_dmac_def Let_def elim!: qqqq_read)
  apply (elim disjE; clarsimp)
    apply (rule decodes_word [of 70]; simp add: mul_eval)+
  done

lemma mul_decodes:
  assumes "encode_mul i syms pc = Ok e" "wf_mul i"
  shows "decodes e (means_mul i (value_at syms pc))"
  using assms
proof (cases i)
  case (I_MacSU su s s1 s2 d)
  with assms show ?thesis
    apply (cases su; clarsimp simp: encode_mac_mpy_su_def Let_def elim!: qqqq_read)
     apply (rule decodes_word [of 130]; simp add: mul_eval)+
    done
next
  case (I_MpySU su s s1 s2 d)
  with assms show ?thesis
    apply (cases su; clarsimp simp: encode_mac_mpy_su_def Let_def elim!: qqqq_read)
     apply (rule decodes_word [of 151]; simp add: mul_eval)+
    done
next
  case (I_MpyI s n src d)
  with assms show ?thesis
    apply (clarsimp simp: encode_mpyi_def value_at simp del: switch.simps elim!: switch_qq_read)
    apply (rule decodes_word [of 152]; simp add: mul_eval ext24_def)
    done
next
  case (I_MpyrI s n src d)
  with assms show ?thesis
    apply (clarsimp simp: encode_imm_mul_def value_at elim!: qq_read)
    apply (rule decodes_word [of 154]; simp add: mul_eval ext24_def)
    done
next
  case (I_MacI s n src d)
  with assms show ?thesis
    apply (clarsimp simp: encode_imm_mul_def value_at elim!: qq_read)
    apply (rule decodes_word [of 129]; simp add: mul_eval ext24_def)
    done
next
  case (I_MacrI s n src d)
  with assms show ?thesis
    apply (clarsimp simp: encode_imm_mul_def value_at elim!: qq_read)
    apply (rule decodes_word [of 132]; simp add: mul_eval ext24_def)
    done
next
  case (I_Div src d)
  with assms show ?thesis
    apply (clarsimp simp: encode_div_def simp del: switch.simps elim!: switch_qq_read)
    apply (rule decodes_word [of 69]; simp add: mul_eval)
    done
next
  case (I_CmpU src d)
  with assms show ?thesis
    apply (clarsimp simp: encode_cmpu_def elim!: ggg_read)
    apply (rule decodes_word [of 65]; simp add: mul_eval)
    done
next
  case (I_Norm n d)
  with assms show ?thesis
    apply clarsimp
    apply (rule decodes_word [of 156]; simp add: mul_eval)
    done
qed (auto simp: mul_shift_decodes dmac_decodes)

section \<open>Address arithmetic\<close>

lemma post_mask:
  "wf_ea ea \<Longrightarrow> is_post_update ea \<Longrightarrow>
   \<exists>y. ea_of ea = ucast (y AND 0x1F :: u32) \<and> ucast (ea_of ea) AND 0x1F = y AND 0x1F"
  by (cases ea) (auto simp: encode_ea_mode_def dest!: byte_less8 intro: exI [of _ "ucast (ea_of ea)"])

lemma post_word: "is_post_update ea \<Longrightarrow> ea_word ea v = None"
  by (cases ea) auto

lemma and3_not_6: "x AND 3 \<noteq> (6 :: u32)"
proof
  assume "x AND 3 = 6"
  then have "(x AND 3) AND 4 = 6 AND 4" by simp
  then show False by (simp add: and.assoc)
qed

lemma address_decodes:
  assumes "encode_address i syms pc = Ok e" "wf_address i"
  shows "decodes e (means_address i (value_at syms pc) pc)"
  using assms
proof (cases i)
  case (I_Lua ea d)
  with assms obtain b w x where "encode_ea ea syms pc = Ok (b, w)" "pm5_reg_bits d = Ok x"
    and e: "e = with_ext (0x044000 OR push_bit 8 (ucast b AND 0x1F) OR x) w"
    and wf: "wf_ea ea" "is_post_update ea" "wf_register d"
    by auto
  then have b: "b = ea_of ea" and w: "w = None"
    by (auto dest!: encode_ea_of simp: post_word)
  from post_mask [OF wf(1,2)] obtain z
    where z: "ea_of ea = ucast (z AND 0x1F :: u32)" "ucast (ea_of ea) AND 0x1F = z AND 0x1F" by blast
  from reg5_read [OF \<open>pm5_reg_bits d = Ok x\<close> wf(3)] obtain y where
    y: "x = y AND 0x1F" "ucast (y AND 0x1F) = reg_of d" "\<not> reg_name_empty (unat (reg_of d))" by blast
  show ?thesis
    unfolding e b w I_Lua means_address.simps with_ext_def option.case
    unfolding y(2) [symmetric] y(1) z(2) unfolding z(1)
    by (rule decodes_word [of 126]; simp add: word_eval y and3_not_6)
next
  case (I_LuaRel base off n dst)
  with assms show ?thesis
    apply (cases n; clarsimp simp: Let_def value_at)
     apply (rule decodes_word [of 127]; simp add: word_eval)+
    done
next
  case (I_LraRn n d)
  with assms show ?thesis
    apply (clarsimp elim!: reg5_read)
    apply (rule decodes_word [of 120]; simp add: word_eval)
    done
next
  case (I_LraDisp t d)
  with assms show ?thesis
    apply (clarsimp simp: value_at elim!: reg5_read)
    apply (rule decodes_word [of 121]; simp add: word_eval ext24_def)
    done
qed

section \<open>Bit fields, traps and cache control\<close>

lemma special_decodes:
  assumes "encode_special i syms pc = Ok e" "wf_special i"
  shows "decodes e (means_special i (value_at syms pc) pc)"
  using assms
  apply (cases i; clarsimp simp: value_at encode_plock_ea_def encode_plock_rel_def wf_jump_ea_def
      elim!: sss_read qqq_read)
                      apply (rule decodes_word [of 62]; simp add: word_eval)
  apply (rule decodes_word [of 157]; simp add: word_eval)
  apply (rule decodes_word [of 133]; simp add: word_eval)
  apply (rule decodes_word [of 84]; simp add: word_eval)
  apply (rule decodes_word [of 85]; simp add: word_eval ext24_def)
  apply (rule decodes_word [of 86]; simp add: word_eval)
  apply (rule decodes_word [of 87]; simp add: word_eval ext24_def)
  apply (rule decodes_word [of 90]; simp add: word_eval)
  apply (rule decodes_word [of 91]; simp add: word_eval ext24_def)
  apply (drule (1) encode_ea_of; clarsimp, rule with_ext_decodes [of 183]; simp add: ea_eval)
  apply (rule decodes_word [of 66]; simp add: word_eval)
  apply (rule decodes_word [of 67]; simp add: word_eval)
  apply (rule decodes_word [of 181]; simp add: word_eval)
  apply (rule decodes_word [of 182]; simp add: word_eval)
  apply (rule decodes_word [of 161]; simp add: word_eval)
  apply (rule decodes_word [of 162]; simp add: word_eval)
  apply (rule decodes_word [of 163]; simp add: word_eval)
  apply (drule (1) encode_ea_of; clarsimp, rule with_ext_decodes [of 164]; simp add: ea_eval)
  apply (rule decodes_word [of 165]; simp add: word_eval ext24_def)
  apply (drule (1) encode_ea_of; clarsimp, rule with_ext_decodes [of 166]; simp add: ea_eval)
  apply (rule decodes_word [of 167]; simp add: word_eval ext24_def)
  done

section \<open>Conditional transfers\<close>

lemma position_Some: "position P xs = Some k \<Longrightarrow> k < length xs \<and> P (xs ! k)"
  by (induction xs arbitrary: k) (auto split: if_splits)

lemma tcc_read:
  assumes "position (\<lambda>pair. pair = p) REGISTERS_TCC = Some k"
  obtains y where "word_of_nat k = y AND (0xF :: u32)" "REGISTERS_TCC ! unat (y AND 0xF) = p"
proof -
  from position_Some [OF assms] have k: "k < 16" "REGISTERS_TCC ! k = p"
    by (auto simp: REGISTERS_TCC_def)
  then have "k < 2 ^ 32" by simp
  then have u: "unat (word_of_nat k :: u32) = k" by (simp add: unsigned_of_nat take_bit_nat_eq_self)
  with k(1) have "(word_of_nat k :: u32) < 2 ^ 4" by (simp add: word_less_nat_alt)
  then have "word_of_nat k AND 0xF = (word_of_nat k :: u32)"
    by (simp add: less_mask_eq [of _ 4, unfolded mask_eq_exp_minus_1, simplified])
  with u k(2) that [of "word_of_nat k"] show thesis by simp
qed

text \<open>The reserved rows of the table are not rows of registers.\<close>

lemma index_nonzero: "\<not> is_l_composite r \<Longrightarrow> register_index r \<noteq> 0"
  by (cases r) (auto simp: is_l_composite_def)

lemma tcc_decodes:
  assumes "encode_tcc cc acc r = Ok e" "wf_tcc acc r"
  shows "decodes e (Tcc (cc_of cc) (map_option (map_prod register_index register_index) acc) r, None)"
proof (cases acc)
  case None
  with assms obtain m n where r: "r = Some (m, n)" and mn: "m < 8" "n < 8"
    and e: "e = word_enc (0x020000 OR push_bit 12 (ast_cc_bits cc) OR push_bit 11 1
      OR push_bit 8 (ucast m) OR ucast n)"
    by (auto simp: encode_tcc_def split: option.splits)
  show ?thesis
    unfolding e r None
    by (rule decodes_word [of 180]; simp add: word_eval dec_tcc_def mn)
next
  case (Some p)
  then obtain s d where acc: "acc = Some (s, d)" by (cases p) auto
  with assms(1) obtain k where
    k: "position (\<lambda>pair. pair = (register_index s, register_index d)) REGISTERS_TCC = Some k"
    by (auto simp: encode_tcc_def split: prod.splits option.splits)
  from k obtain y where y: "word_of_nat k = y AND (0xF :: u32)"
      "REGISTERS_TCC ! unat (y AND 0xF) = (register_index s, register_index d)" by (rule tcc_read)
  have nz: "register_index s \<noteq> 0" "register_index d \<noteq> 0"
    using assms(2) acc by (auto simp: index_nonzero)
  show ?thesis
  proof (cases r)
    case None
    with assms(1) acc k have e: "e = word_enc (0x020000 OR push_bit 12 (ast_cc_bits cc) OR 0
        OR push_bit 8 0 OR push_bit 3 (word_of_nat k) OR 0)"
      by (simp add: encode_tcc_def)
    show ?thesis
      unfolding e None acc y(1)
      by (rule decodes_word [of 178]; simp add: word_eval dec_tcc_def y(2) nz)
  next
    case (Some q)
    with assms obtain m n where r: "r = Some (m, n)" and mn: "m < 8" "n < 8"
      by (cases q) auto
    with assms(1) acc k have e: "e = word_enc (0x020000 OR push_bit 12 (ast_cc_bits cc) OR push_bit 16 1
        OR push_bit 8 (ucast m) OR push_bit 3 (word_of_nat k) OR ucast n)"
      by (simp add: encode_tcc_def)
    show ?thesis
      unfolding e r acc y(1)
      by (rule decodes_word [of 179]; simp add: word_eval dec_tcc_def y(2) nz mn)
  qed
qed

end
