(* ===== verification/Asm_Move_Laws.thy ===== *)
theory Asm_Move_Laws
  imports Asm_Parallel_Laws Asm_Word_Laws Asm_Bit_Laws Asm_Misc_Laws
begin

text \<open>
  The encoder is correct for the moves of control registers, program memory and peripherals, and
  so for every instruction: the word it makes decodes to the meaning of the instruction.
\<close>

unbundle bit_operations_syntax

declare unpack [simp del] nth_index_cong [cong]

section \<open>Control registers\<close>

lemma if_Ok: "(if c then Ok x else Ok y) = Ok (if c then x else y)"
  by simp

lemma imm_byte: "ucast (0x500 OR (x AND 0xFF) :: u32) = (ucast x :: u8)"
  by (subst byte_and [symmetric], simp only: bit.conj_disj_distrib2 and.assoc) simp

lemma index_word: "wf_register r \<Longrightarrow> word_of_nat (register_index r) = (ucast (reg_of r) :: u32)"
proof -
  assume "wf_register r"
  then have "register_index r < 2 ^ 8" using reg_of_index [of r] by simp
  then have "take_bit 8 (register_index r) = register_index r" by (rule take_bit_nat_eq_self)
  then show ?thesis by (simp add: reg_of_def unsigned_of_nat)
qed

text \<open>The five-bit code of a control register is its number without the upper bit.\<close>

lemma control_read:
  assumes "0x20 \<le> register_index r" "wf_register r"
  shows "ucast (0x20 OR (word_of_nat (register_index r) AND 0x1F :: u32)) = reg_of r"
  using assms by (cases r) (auto simp: reg_of_def dest!: byte_less8)

lemma ddddd_read:
  assumes "movec_ddddd r = Ok x" "wf_register r"
  obtains y where "x = y AND 0x1F" "ucast (0x20 OR (y AND 0x1F)) = reg_of r"
    "\<not> reg_name_empty (unat (reg_of r))" "is_movec_only r"
proof -
  have "\<not> is_l_composite r" "0x20 \<le> register_index r" "x = word_of_nat (register_index r) AND 0x1F"
    using assms(1) by (auto simp: movec_ddddd_def Let_def split: if_splits)
  then show thesis
    using that [of "word_of_nat (register_index r)"] control_read [of r] reg_named [OF assms(2)] assms(2)
    by (auto simp: is_movec_only_def)
qed

lemma decode_move: "decode_parallel_alu 0 = Some Move"
  by (rule alu_byte_decodes) (simp_all add: decodable_misc)

lemma movec_reg_decodes:
  assumes "encode_movec_reg src dst w = Ok e" "wf_register src" "wf_register dst"
  shows "decodes e (means_movec_reg Move src dst (word0 e))"
proof -
  have c: "\<not> is_l_composite src" "\<not> is_l_composite dst"
    using assms(1) by (auto simp: encode_movec_reg_def split: if_splits)
  consider (regs) "register_index src < 0x20" "register_index dst < 0x20"
    | (src) "0x20 \<le> register_index src" | (dst) "register_index src < 0x20" "0x20 \<le> register_index dst"
    by linarith
  then show ?thesis
  proof cases
    case regs
    with assms(1) c obtain x y where x: "pm5_reg_bits src = Ok x" "pm5_reg_bits dst = Ok y"
      and e: "e = word_enc (0x200000 OR push_bit 13 x OR push_bit 8 y)"
      by (auto simp: encode_movec_reg_def Let_def)
    from e have "e = word_enc (0x200000 OR push_bit 13 x OR push_bit 8 y OR ucast (0 :: u8))" by simp
    from registers_decode [OF x assms(2,3) decode_move this] show ?thesis
      using regs by (simp add: means_movec_reg_def is_movec_only_def)
  next
    case src
    with assms(1) c have e: "e = word_enc (0x0440A0 OR push_bit 8 (ucast (reg_of dst) AND 0x3F)
        OR (word_of_nat (register_index src) AND 0x1F))"
      by (simp add: encode_movec_reg_def Let_def index_word [OF assms(3)])
    show ?thesis
      using src c unfolding e
      apply (simp add: means_movec_reg_def is_movec_only_def)
      apply (rule decodes_word [of 138]; simp add: word_eval control_read assms reg_reads)
      done
  next
    case dst
    with assms(1) c have e: "e = word_enc (0x0440A0 OR push_bit 15 1 OR push_bit 8 (ucast (reg_of src) AND 0x3F)
        OR (word_of_nat (register_index dst) AND 0x1F))"
      by (simp add: encode_movec_reg_def Let_def index_word [OF assms(2)])
    show ?thesis
      using dst c unfolding e
      apply (simp add: means_movec_reg_def is_movec_only_def)
      apply (rule decodes_word [of 138]; simp add: word_eval control_read assms reg_reads)
      done
  qed
qed

lemma movec_ea_decodes:
  assumes "encode_movec_ea s ea r w syms pc = Ok e" "data_space s" "wf_ea ea" "wf_register r" "wf_imm_ea s ea w"
  shows "decodes e (means_movec_ea Move s ea r w (value_at syms pc) (word0 e))"
proof (cases "\<not> is_l_composite r \<and> register_index r < 0x20")
  case True
  with assms(1) have "encode_parallel_xy_mem s ea r w (ucast (0 :: u8)) syms pc = Ok e"
    by (simp add: encode_movec_ea_def)
  from xy_mem_decodes [OF this assms(3,5,2) decode_move] True show ?thesis
    by (simp add: means_movec_ea_def is_movec_only_def)
next
  case False
  with assms(1) obtain x b v where x: "movec_ddddd r = Ok x" and ea: "encode_ea ea syms pc = Ok (b, v)"
    and e: "e = with_ext (0x054020 OR push_bit 8 (ucast b) OR w15 w OR push_bit 6 (ast_space_bit s) OR x) v"
    by (auto simp: encode_movec_ea_def)
  from ddddd_read [OF x assms(4)] obtain y where y: "x = y AND 0x1F" "ucast (0x20 OR (y AND 0x1F)) = reg_of r"
    "\<not> reg_name_empty (unat (reg_of r))" "is_movec_only r" by metis
  have imm: "\<not> w \<Longrightarrow> \<not> is_immediate ea" using assms(5) by (cases ea) auto
  have v: "b = ea_of ea" "v = ea_word ea (value_at syms pc)"
    using encode_ea_of [OF ea assms(3)] by auto
  show ?thesis
    unfolding e v y(1) means_movec_ea_def
    using y(4) assms(2,3) imm
    by (cases w; simp; intro with_ext_decodes [of 136]; simp add: ea_eval y)
qed

lemma movec_aa_decodes:
  assumes "encode_movec_aa s x r w syms pc = Ok e" "data_space s" "wf_register r"
  shows "decodes e (means_movec_aa Move s (value_at syms pc x) r w (word1 e \<noteq> None) (word0 e))"
proof (cases "\<not> is_l_composite r \<and> register_index r < 0x20")
  case True
  with assms(1) have "encode_parallel_xy_abs s x r w False (ucast (0 :: u8)) syms pc = Ok e"
    by (simp add: encode_movec_aa_def)
  from xy_abs_decodes [OF this assms(2) decode_move] True show ?thesis
    by (simp add: means_movec_aa_def is_movec_only_def)
next
  case False
  with assms(1) obtain c a where x: "movec_ddddd r = Ok c" and a: "eval x syms pc = Ok a"
    and e: "e = (if 0x3F < a then words_enc (0x054020 OR push_bit 8 0x30 OR w15 w OR push_bit 6 (ast_space_bit s) OR c) (a AND 0xFFFFFF)
      else word_enc (0x050020 OR push_bit 8 (a AND 0x3F) OR w15 w OR push_bit 6 (ast_space_bit s) OR c))"
    by (auto simp: encode_movec_aa_def if_Ok)
  from ddddd_read [OF x assms(3)] obtain y where y: "c = y AND 0x1F" "ucast (0x20 OR (y AND 0x1F)) = reg_of r"
    "\<not> reg_name_empty (unat (reg_of r))" "is_movec_only r" by metis
  show ?thesis
  proof (cases "0x3F < a")
    case True
    show ?thesis
      using True y(4) assms(2) unfolding e y(1) means_movec_aa_def
      by (cases w; simp add: value_at [OF a] ext24_def; intro decodes_word [of 136];
          simp add: word_eval y norm_all_def norm_lo_def)
  next
    case False
    then have "a \<le> 0x3F" by simp
    then have "ucast a = imm6 a" by (rule le_imm6)
    with False show ?thesis
      using y(4) assms(2) unfolding e y(1) means_movec_aa_def
      by (cases w; simp add: value_at [OF a] imm6_def; intro decodes_word [of 137]; simp add: word_eval y)
  qed
qed

lemma movec_imm_decodes:
  assumes "encode_movec_imm x r syms pc = Ok e" "wf_register r"
  shows "decodes e (if is_movec_only r then (Move_op (MovecImm (ucast (value_at syms pc x)) (reg_of r)), None)
    else means_imm Move (value_at syms pc x) r (word1 e \<noteq> None) (word0 e))"
proof (cases "\<not> is_l_composite r \<and> register_index r < 0x20")
  case True
  with assms(1) have "encode_plain_imm_to_reg x r (ucast (0 :: u8)) syms pc = Ok e"
    by (simp add: encode_movec_imm_def)
  from plain_imm_decodes [OF this decode_move] True show ?thesis
    by (simp add: is_movec_only_def)
next
  case False
  with assms(1) obtain c a where x: "movec_ddddd r = Ok c" and a: "eval x syms pc = Ok a"
    and e: "e = word_enc (0x0500A0 OR push_bit 8 (a AND 0xFF) OR c)"
    by (auto simp: encode_movec_imm_def)
  from ddddd_read [OF x assms(2)] obtain y where y: "c = y AND 0x1F" "ucast (0x20 OR (y AND 0x1F)) = reg_of r"
    "\<not> reg_name_empty (unat (reg_of r))" "is_movec_only r" by metis
  show ?thesis
    using y(4) unfolding e y(1)
    by (simp add: value_at [OF a]) (rule decodes_word [of 139]; simp add: word_eval imm_byte y)
qed

text \<open>An immediate to a control register in a parallel instruction may be long.\<close>

lemma control_imm_decodes:
  assumes "is_movec_only r" "wf_register r" "e = encode_control_imm x r f (v AND 0xFFFFFF)"
  shows "decodes e (if word1 e \<noteq> None then (Move_op (MovecEa 0x34 (reg_of r) True Space_X), ext24 v)
    else (Move_op (MovecImm (ucast v) (reg_of r)), None))"
proof -
  define y :: u32 where "y = word_of_nat (register_index r)"
  have y: "ucast (0x20 OR (y AND 0x1F)) = reg_of r" "\<not> reg_name_empty (unat (reg_of r))"
    using assms(1,2) unfolding y_def by (auto simp: is_movec_only_def control_read reg_named)
  have long: "decodes (words_enc (0x05F420 OR (y AND 0x1F)) (v AND 0xFFFFFF))
      (Move_op (MovecEa 0x34 (reg_of r) True Space_X), ext24 v)"
    by (rule decodes_word [of 136]; simp add: word_eval y norm_lo_def mem_space_xy_def ext24_def and.assoc)
  have short: "decodes (word_enc (0x0500A0 OR push_bit 8 z OR (y AND 0x1F)))
      (Move_op (MovecImm (ucast v) (reg_of r)), None)" if "v AND 0xFFFFFF = z" "z \<le> 0xFF" for z
  proof -
    have "z < 2 ^ 8" using that(2) by (simp add: word_le_nat_alt word_less_nat_alt)
    then have z: "z = z AND 0xFF" by (simp add: less_mask_eq [of _ 8, unfolded mask_eq_exp_minus_1, simplified])
    have v: "v AND 0xFF = z AND 0xFF" unfolding that(1) [symmetric] by (simp add: and.assoc)
    have "ucast v = (ucast (v AND 0xFF) :: u8)" by simp
    then have "ucast v = (ucast (z AND 0xFF) :: u8)" by (simp only: v)
    then show ?thesis
      by (subst z) (rule decodes_word [of 139]; simp add: word_eval imm_byte y)
  qed
  show ?thesis
    using long short [OF refl] unfolding assms(3) encode_control_imm_def Let_def y_def [symmetric] by auto
qed

section \<open>Program memory\<close>

lemma reg6_read_named:
  assumes "reg6_bits r = Ok x" "wf_register r"
  shows "x = ucast (reg_of r)" "\<not> reg_name_empty (unat (reg_of r))"
  using reg6_read [OF assms] reg_named [OF assms(2)] by auto

lemma movem_ea_decodes:
  assumes "encode_movem_ea ea r w syms pc = Ok e" "wf_jump_ea ea" "wf_register r"
  shows "decodes e (Move_op (MovemEa (ea_of ea) (reg_of r) w), ea_word ea (value_at syms pc))"
proof -
  from assms(1) obtain b v x where ea: "encode_ea ea syms pc = Ok (b, v)" and x: "reg6_bits r = Ok x"
    and e: "e = with_ext (0x074080 OR push_bit 8 (ucast b) OR w15 w OR x) v"
    by (auto simp: encode_movem_ea_def)
  have wf: "wf_ea ea" "\<not> is_immediate ea" using assms(2) by (auto simp: wf_jump_ea_def)
  have v: "b = ea_of ea" "v = ea_word ea (value_at syms pc)"
    using encode_ea_of [OF ea wf(1)] by auto
  show ?thesis
    unfolding e v reg6_read_named(1) [OF x assms(3)]
    by (cases w; simp; intro with_ext_decodes [of 140];
        simp add: ea_eval wf reg_reads assms(3) reg6_read_named(2) [OF x])
qed

lemma movem_aa_decodes:
  assumes "encode_movem_aa x r w syms pc = Ok e" "wf_register r"
  shows "decodes e (if word1 e \<noteq> None then (Move_op (MovemEa 0x30 (reg_of r) w), ext24 (value_at syms pc x))
    else (Move_op (MovemAa (ucast (value_at syms pc x)) (reg_of r) w), None))"
proof -
  from assms(1) obtain a c where a: "eval x syms pc = Ok a" and c: "reg6_bits r = Ok c"
    and e: "e = (if 0x3F < a then words_enc (0x074080 OR push_bit 8 0x30 OR w15 w OR c) (a AND 0xFFFFFF)
      else word_enc (0x070000 OR push_bit 8 (a AND 0x3F) OR w15 w OR c))"
    by (auto simp: encode_movem_aa_def if_Ok)
  note r = reg6_read_named [OF c assms(2)]
  show ?thesis
  proof (cases "0x3F < a")
    case True
    show ?thesis
      using True unfolding e r(1)
      by (cases w; simp add: value_at [OF a] ext24_def; intro decodes_word [of 140];
          simp add: word_eval reg_reads r(2) assms(2) norm_all_def)
  next
    case False
    then have "a \<le> 0x3F" by simp
    then have "ucast a = imm6 a" by (rule le_imm6)
    with False show ?thesis
      unfolding e r(1)
      by (cases w; simp add: value_at [OF a] imm6_def; intro decodes_word [of 141];
          simp add: word_eval reg_reads r(2) assms(2))
  qed
qed

section \<open>Peripherals\<close>

text \<open>A peripheral and the memory: an immediate only as a source.\<close>

lemma movep_words:
  assumes "data_space ps" "data_space es" "wf_ea ea" "\<not> w \<Longrightarrow> \<not> is_immediate ea"
  shows "decodes (with_ext (0x084080 OR push_bit 16 (ast_space_bit ps) OR push_bit 8 (ucast (ea_of ea)) OR w15 w
      OR push_bit 6 (ast_space_bit es) OR (q AND 0x3F)) (ea_word ea v))
      (Move_op (Movep23 (imm6 q) (ea_of ea) w (space_of ps) (space_of es)), ea_word ea v)"
    and "decodes (with_ext ((if ps = Sp_X then 0x074000 else 0x070080) OR push_bit 8 (ucast (ea_of ea)) OR w15 w
      OR push_bit 6 (ast_space_bit es) OR (q AND 0x3F)) (ea_word ea v))
      (Move_op (MovepQq (imm6 q) (ea_of ea) w (space_of ps) (space_of es)), ea_word ea v)"
proof -
  show "decodes (with_ext (0x084080 OR push_bit 16 (ast_space_bit ps) OR push_bit 8 (ucast (ea_of ea)) OR w15 w
      OR push_bit 6 (ast_space_bit es) OR (q AND 0x3F)) (ea_word ea v))
      (Move_op (Movep23 (imm6 q) (ea_of ea) w (space_of ps) (space_of es)), ea_word ea v)"
    using assms by (cases w; simp; intro with_ext_decodes [of 142]; simp add: ea_eval imm6_def)
  have "ps = Sp_X \<or> ps = Sp_Y" using assms(1) by (simp add: data_space_def)
  then show "decodes (with_ext ((if ps = Sp_X then 0x074000 else 0x070080) OR push_bit 8 (ucast (ea_of ea)) OR w15 w
      OR push_bit 6 (ast_space_bit es) OR (q AND 0x3F)) (ea_word ea v))
      (Move_op (MovepQq (imm6 q) (ea_of ea) w (space_of ps) (space_of es)), ea_word ea v)"
  proof
    assume "ps = Sp_X"
    then show ?thesis
      using assms by (cases w; simp; intro with_ext_decodes [of 143]; simp add: ea_eval imm6_def space_of_def)
  next
    assume "ps = Sp_Y"
    then show ?thesis
      using assms by (cases w; simp; intro with_ext_decodes [of 144]; simp add: ea_eval imm6_def space_of_def)
  qed
qed

lemma movep23_periph_decodes:
  assumes "encode_movep23_periph ps pa es ea w syms pc = Ok e" "data_space ps" "data_space es" "wf_jump_ea ea"
  shows "decodes e (means_movep ps pa es (ea_of ea) w, ea_word ea (value_at syms pc))"
proof -
  have wf: "wf_ea ea" "\<not> is_immediate ea" using assms(4) by (auto simp: wf_jump_ea_def)
  from assms(1) obtain b v where ea: "encode_ea ea syms pc = Ok (b, v)"
    by (auto simp: encode_movep23_periph_def)
  have "b = ea_of ea" "v = ea_word ea (value_at syms pc)"
    using encode_ea_of [OF ea wf(1)] by auto
  with ea assms(1) show ?thesis
    using movep_words [OF assms(2,3) wf(1), of w] wf(2)
    by (cases "0xFFFFC0 \<le> pa") (auto simp: encode_movep23_periph_def means_movep_def Let_def)
qed

lemma movep23_in_range:
  assumes "eval p syms pc = Ok x" "\<not> raise_periph x < 0xFFFF80"
  shows "encode_movep23 ps p es ea w syms pc = encode_movep23_periph ps (raise_periph x) es ea w syms pc"
  using assms by (subst encode_movep23.simps) (simp add: raise_normalize Let_def)

lemma movep23_swapped:
  assumes "eval p syms pc = Ok x" "raise_periph x < 0xFFFF80" "encode_movep23 ps p es ea w syms pc = Ok e"
  obtains a y where "ea = Ea_AbsAddr a \<or> ea = Ea_ForceLongAbsAddr a" "eval a syms pc = Ok y"
    "encode_movep23_periph es (raise_periph y) ps (Ea_ForceLongAbsAddr p) True syms pc = Ok e"
proof -
  have "\<exists>a y. (ea = Ea_AbsAddr a \<or> ea = Ea_ForceLongAbsAddr a) \<and> eval a syms pc = Ok y \<and>
      0xFFFF80 \<le> raise_periph y \<and> encode_movep23 es a ps (Ea_ForceLongAbsAddr p) True syms pc = Ok e"
    using assms(3) assms(1,2)
    by (subst (asm) encode_movep23.simps)
      (auto simp: raise_normalize Let_def split: effective_address.splits outcome.splits if_splits)
  then show thesis
    using that by (auto simp: movep23_in_range)
qed

lemma movep23_decodes:
  assumes "encode_movep23 ps p es ea w syms pc = Ok e" "data_space ps" "data_space es" "wf_jump_ea ea"
  shows "decodes e (means_move (I_Movep23 ps p es ea w) (value_at syms pc) long w0)"
proof -
  obtain x where x: "eval p syms pc = Ok x"
    using assms(1) by (subst (asm) encode_movep23.simps) (auto split: outcome.splits)
  show ?thesis
  proof (cases "raise_periph x < 0xFFFF80")
    case True
    from movep23_swapped [OF x True assms(1)] obtain a y where ay: "ea = Ea_AbsAddr a \<or> ea = Ea_ForceLongAbsAddr a"
      "eval a syms pc = Ok y"
      "encode_movep23_periph es (raise_periph y) ps (Ea_ForceLongAbsAddr p) True syms pc = Ok e" by metis
    from movep23_periph_decodes [OF ay(3) assms(3,2)] show ?thesis
      using ay(1,2) True x by (auto simp: value_at_def ext24_def wf_jump_ea_def encode_ea_mode_def)
  next
    case False
    with assms(1) x have "encode_movep23_periph ps (raise_periph x) es ea w syms pc = Ok e"
      by (simp add: movep23_in_range)
    from movep23_periph_decodes [OF this assms(2-)] show ?thesis
      using False x assms(4) by (cases ea) (auto simp: value_at_def ext24_def encode_ea_mode_def wf_jump_ea_def Let_def)
  qed
qed

lemma movep23_imm_decodes:
  assumes "encode_movep23_imm ps p i syms pc = Ok e" "data_space ps"
  shows "decodes e (means_movep ps (raise_periph (value_at syms pc p)) Sp_X 0x34 True, ext24 (value_at syms pc i))"
proof -
  from assms(1) obtain x v where x: "eval p syms pc = Ok x" and v: "eval i syms pc = Ok v"
    by (auto simp: encode_movep23_imm_def)
  have w: "decodes (words_enc (0x084080 OR push_bit 16 (ast_space_bit ps) OR push_bit 8 0x34 OR push_bit 15 1
      OR (q AND 0x3F)) (v AND 0xFFFFFF)) (Move_op (Movep23 (imm6 q) 0x34 True (space_of ps) Space_X), ext24 v)"
    "decodes (words_enc ((if ps = Sp_X then 0x074000 else 0x070080) OR push_bit 8 0x34 OR push_bit 15 1
      OR (q AND 0x3F)) (v AND 0xFFFFFF)) (Move_op (MovepQq (imm6 q) 0x34 True (space_of ps) Space_X), ext24 v)" for q
    using movep_words [OF assms(2), of Sp_X "Ea_Immediate i" True q "\<lambda>_. v"]
    by (simp_all add: data_space_def ast_space_bit_def encode_ea_mode_def with_ext_def ext24_def space_of_def and.assoc)
  show ?thesis
    using assms(1) x v w
    by (cases "raise_periph x" rule: data_cases)
      (auto simp: encode_movep23_imm_def raise_normalize Let_def value_at_def means_movep_def space_of_def
        split: if_splits simp del: not_le)
qed

lemma qq_offset:
  assumes "periph_offset_qq a = Ok x"
  shows "x = raise_periph a - 0xFFFF80"
  using assms by (auto simp: periph_offset_qq_def raise_normalize Let_def split: if_splits)

lemma movep_xqq_decodes:
  assumes "encode_movep_xqq p es ea w syms pc = Ok e" "data_space es" "wf_jump_ea ea"
  shows "decodes e (Move_op (MovepQq (imm6 (raise_periph (value_at syms pc p) - 0xFFFF80)) (ea_of ea) w Space_X
    (space_of es)), ea_word ea (value_at syms pc))"
proof -
  have wf: "wf_ea ea" "\<not> is_immediate ea" using assms(3) by (auto simp: wf_jump_ea_def)
  from assms(1) obtain x q b v where x: "eval p syms pc = Ok x" and q: "periph_offset_qq x = Ok q"
    and ea: "encode_ea ea syms pc = Ok (b, v)"
    and e: "e = with_ext (0x074000 OR push_bit 8 (ucast b) OR w15 w OR push_bit 6 (ast_space_bit es) OR (q AND 0x3F)) v"
    by (auto simp: encode_movep_xqq_def)
  have "b = ea_of ea" "v = ea_word ea (value_at syms pc)"
    using encode_ea_of [OF ea wf(1)] by auto
  with movep_words(2) [of Sp_X es ea w q, OF _ assms(2) wf(1)] wf(2) show ?thesis
    unfolding e by (simp add: value_at [OF x] qq_offset [OF q] data_space_def space_of_def)
qed

lemma movep_xqq_imm_decodes:
  assumes "encode_movep_xqq_imm p i syms pc = Ok e"
  shows "decodes e (Move_op (MovepQq (imm6 (raise_periph (value_at syms pc p) - 0xFFFF80)) 0x34 True Space_X
    Space_X), ext24 (value_at syms pc i))"
proof -
  from assms obtain x q v where x: "eval p syms pc = Ok x" and q: "periph_offset_qq x = Ok q"
    and v: "eval i syms pc = Ok v"
    and e: "e = words_enc (0x074000 OR push_bit 8 0x34 OR push_bit 15 1 OR (q AND 0x3F)) (v AND 0xFFFFFF)"
    by (auto simp: encode_movep_xqq_imm_def)
  show ?thesis
    using movep_words(2) [of Sp_X Sp_X "Ea_Immediate i" True q "\<lambda>_. v"]
    unfolding e by (simp add: value_at [OF x] value_at [OF v] qq_offset [OF q] data_space_def space_of_def
        ast_space_bit_def encode_ea_mode_def with_ext_def ext24_def and.assoc)
qed

text \<open>A peripheral and program memory, or a register.\<close>

lemma movep1_decodes:
  assumes "encode_movep1 ps p ea w syms pc = Ok e" "data_space ps" "wf_jump_ea ea"
  shows "decodes e (means_move (I_Movep1 ps p ea w) (value_at syms pc) long w0)"
proof -
  have wf: "wf_ea ea" "\<not> is_immediate ea" using assms(3) by (auto simp: wf_jump_ea_def)
  from assms(1) obtain x b v where x: "eval p syms pc = Ok x" and ea: "encode_ea ea syms pc = Ok (b, v)"
    by (auto simp: encode_movep1_def)
  have v: "b = ea_of ea" "v = ea_word ea (value_at syms pc)"
    using encode_ea_of [OF ea wf(1)] by auto
  have pp: "decodes (with_ext (0x084040 OR push_bit 16 (ast_space_bit ps) OR push_bit 8 (ucast (ea_of ea)) OR w15 w
      OR (q AND 0x3F)) (ea_word ea u)) (Move_op (Movep1 (imm6 q) (ea_of ea) w (space_of ps)), ea_word ea u)" for q u
    using assms(2) wf by (cases w; simp; intro with_ext_decodes [of 145]; simp add: ea_eval imm6_def)
  have qq: "decodes (with_ext (0x008000 OR push_bit 8 (ucast (ea_of ea)) OR (if w then push_bit 14 1 else 0)
      OR push_bit 6 (ast_space_bit ps) OR (q AND 0x3F)) (ea_word ea u))
      (Move_op (MovepQqPea (imm6 q) (ea_of ea) w (space_of ps)), ea_word ea u)" for q u
    using assms(2) wf by (cases w; simp; intro with_ext_decodes [of 146]; simp add: ea_eval imm6_def)
  show ?thesis
    using assms(1) x ea v pp qq
    by (cases "raise_periph x" rule: data_cases)
      (auto simp: encode_movep1_def raise_normalize Let_def value_at_def simp del: not_le split: if_splits)
qed

lemma movep0_decodes:
  assumes "encode_movep0 ps p r w syms pc = Ok e" "data_space ps" "wf_register r"
  shows "decodes e (means_move (I_Movep0 ps p r w) (value_at syms pc) long w0)"
proof -
  from assms(1) obtain x c where x: "eval p syms pc = Ok x" and c: "reg6_bits r = Ok c"
    by (auto simp: encode_movep0_def)
  note r = reg6_read_named [OF c assms(3)]
  have pp: "decodes (word_enc (0x084000 OR push_bit 16 (ast_space_bit ps) OR push_bit 8 (ucast (reg_of r)) OR w15 w
      OR (q AND 0x3F))) (Move_op (Movep0 (imm6 q) (reg_of r) w (space_of ps)), None)" for q
    using assms(2) by (cases w; simp; intro decodes_word [of 147];
        simp add: word_eval imm6_def reg_reads r(2) assms(3))
  have qx: "decodes (word_enc (0x044080 OR push_bit 8 (ucast (reg_of r)) OR w15 w
      OR push_bit 6 (drop_bit 5 q AND 1) OR (q AND 0x1F))) (Move_op (MovepQqR (imm6 q) (reg_of r) w Space_X), None)" for q
    by (cases w; simp; intro decodes_word [of 148]; simp add: word_eval imm6_def reg_reads r(2) assms(3))
  have qy: "decodes (word_enc (0x044020 OR push_bit 8 (ucast (reg_of r)) OR w15 w
      OR push_bit 6 (drop_bit 5 q AND 1) OR (q AND 0x1F))) (Move_op (MovepQqR (imm6 q) (reg_of r) w Space_Y), None)" for q
    by (cases w; simp; intro decodes_word [of 149]; simp add: word_eval imm6_def reg_reads r(2) assms(3))
  have "ps = Sp_X \<or> ps = Sp_Y" using assms(2) by (simp add: data_space_def)
  then show ?thesis
    using assms(1) x c pp qx qy r(1)
    by (cases "raise_periph x" rule: data_cases)
      (auto simp: encode_movep0_def raise_normalize Let_def value_at_def space_of_def simp del: not_le split: if_splits)
qed

section \<open>Indexed moves\<close>

lemma long_disp_decodes:
  assumes "encode_move_long_disp s n x r w syms pc = Ok e" "data_space s" "n < 8" "wf_register r"
  shows "decodes e (Move_op (MoveLongDisp (space_of s) w n (reg_of r)), ext24 (value_at syms pc x))"
proof -
  from assms(1) obtain v c where v: "eval x syms pc = Ok v" and c: "reg6_bits r = Ok c"
    and e: "e = words_enc ((if s = Sp_X then 0x0A7080 else 0x0B7080) OR push_bit 8 (ucast n)
      OR (if w then push_bit 6 1 else 0) OR c) (v AND 0xFFFFFF)"
    by (auto simp: encode_move_long_disp_def Let_def)
  note r = reg6_read_named [OF c assms(4)]
  have "s = Sp_X \<or> s = Sp_Y" using assms(2) by (simp add: data_space_def)
  then show ?thesis
    unfolding e r(1) value_at [OF v]
    by (elim disjE; cases w; simp; intro decodes_word [of 135];
        simp add: word_eval reg_reads r(2) assms(3,4) space_of_def mem_space_xy_def ext24_def)
qed

lemma reg4_read:
  assumes "4 \<le> register_index r" "register_index r \<le> 0x0F" "wf_register r" "\<not> is_l_composite r"
  shows "ucast (word_of_nat (register_index r) AND 0xF :: u32) = reg_of r" "\<not> reg_name_empty (unat (reg_of r))"
  using assms reg_named [OF assms(3,4)] by (cases r; auto simp: reg_of_def dest!: byte_less8)+

lemma or_mask_one: "(v AND 1) OR (v AND numeral n) = v AND (1 OR numeral n :: u32)"
  by (rule bit.conj_disj_distrib [symmetric])

lemma short_disp_decodes:
  assumes "encode_move_short_disp s n x r w syms pc = Ok e" "data_space s" "n < 8" "wf_register r"
  shows "decodes e (Move_op (MoveShortDisp (space_of s) (ucast (value_at syms pc x AND 0x7F)) w n (reg_of r)), None)"
proof -
  define c :: u32 where "c = word_of_nat (register_index r)"
  from assms(1) obtain v where v: "eval x syms pc = Ok v" and i: "4 \<le> register_index r" "register_index r \<le> 0x0F"
      "\<not> is_l_composite r"
    and e: "e = word_enc (0x020080 OR push_bit 11 (drop_bit 1 (v AND 0x7F) AND 0x3F) OR push_bit 8 (ucast n)
      OR push_bit 6 ((v AND 0x7F) AND 1) OR push_bit 5 (if s = Sp_Y then 1 else 0) OR (if w then push_bit 4 1 else 0)
      OR (c AND 0xF))"
    unfolding c_def by (auto simp: encode_move_short_disp_def Let_def pack_xy_imm_offset_def split: if_splits)
  note r = reg4_read [OF i(1,2) assms(4) i(3), folded c_def]
  have "s = Sp_X \<or> s = Sp_Y" using assms(2) by (simp add: data_space_def)
  then show ?thesis
    unfolding e value_at [OF v]
    by (elim disjE; cases w; simp; intro decodes_word [of 134];
        simp add: word_eval or_mask_one r assms(3) space_of_def mem_space_xy_def)
qed

section \<open>Every instruction\<close>

lemma move_decodes:
  assumes "encode_move i syms pc = Ok e" "wf_move i"
  shows "decodes e (means_move i (value_at syms pc) (word1 e \<noteq> None) (word0 e))"
proof (cases i)
  case (I_MovecReg src dst w)
  with assms show ?thesis by (auto intro: movec_reg_decodes)
next
  case (I_MovecAa s x r w)
  with assms show ?thesis using movec_aa_decodes by auto
next
  case (I_MovecEa s ea r w)
  with assms show ?thesis by (auto intro: movec_ea_decodes)
next
  case (I_MovecImm x r)
  with assms movec_imm_decodes [of x r syms pc e] show ?thesis by auto
next
  case (I_MovemEa ea r w)
  with assms show ?thesis by (auto intro: movem_ea_decodes)
next
  case (I_MovemAa x r w)
  with assms movem_aa_decodes [of x r w syms pc e] show ?thesis by auto
next
  case (I_Movep23 ps p es ea w)
  with assms movep23_decodes [of ps p es ea w syms pc e] show ?thesis by (simp del: means_move.simps)
next
  case (I_Movep23Imm ps p x)
  with assms show ?thesis by (auto intro: movep23_imm_decodes)
next
  case (I_MovepXQq p es ea w)
  with assms show ?thesis by (auto intro: movep_xqq_decodes)
next
  case (I_MovepXQqImm p x)
  with assms show ?thesis by (auto intro: movep_xqq_imm_decodes)
next
  case (I_Movep1 ps p ea w)
  with assms movep1_decodes [of ps p ea w syms pc e] show ?thesis by (simp del: means_move.simps)
next
  case (I_Movep0 ps p r w)
  with assms movep0_decodes [of ps p r w syms pc e] show ?thesis by (simp del: means_move.simps)
next
  case (I_MoveLongDisp s n x r w)
  with assms show ?thesis by (auto intro: long_disp_decodes)
next
  case (I_MoveShortDisp s n x r w)
  with assms show ?thesis by (auto intro: short_disp_decodes)
qed

text \<open>The control registers of a parallel move: the ALU byte is zero, and no move keeps it.\<close>

lemma means_movec_any:
  "is_movec_only src \<or> is_movec_only dst \<Longrightarrow> means_movec_reg alu src dst w0 = means_movec_reg Move src dst w0"
  "is_movec_only r \<Longrightarrow> means_movec_ea alu s ea r w v w0 = means_movec_ea Move s ea r w v w0"
  "is_movec_only r \<Longrightarrow> means_movec_aa alu s a r w long w0 = means_movec_aa Move s a r w long w0"
  by (auto simp: means_movec_reg_def means_movec_ea_def means_movec_aa_def)

lemma pmove_decodes:
  assumes "encode_pmove pmove (ucast b) syms pc = Ok e" "wf_pmove pmove" "decode_parallel_alu b = Some alu"
  shows "decodes e (means_pmove alu pmove (value_at syms pc) (word1 e \<noteq> None) (word0 e))"
proof (cases pmove)
  case (M_RegToReg src dst)
  show ?thesis
  proof (cases "is_movec_only src \<or> is_movec_only dst")
    case True
    with M_RegToReg assms(1) have "encode_movec_reg src dst True = Ok e"
      by (simp del: disj_not1 split: if_splits)
    moreover from M_RegToReg assms(2) have "wf_register src" "wf_register dst" by simp_all
    ultimately have r: "encode_movec_reg src dst True = Ok e" "wf_register src" "wf_register dst" .
    from movec_reg_decodes [OF r] M_RegToReg True show ?thesis by (simp add: means_movec_any(1) [OF True, of alu])
  next
    case False
    with M_RegToReg assms(1,2) obtain x y where r: "pm5_reg_bits src = Ok x" "pm5_reg_bits dst = Ok y"
      "wf_register src" "wf_register dst"
      and e: "e = word_enc (0x200000 OR push_bit 13 x OR push_bit 8 y OR ucast b)" by auto
    from registers_decode [OF r assms(3) e] M_RegToReg False show ?thesis
      by (simp add: means_movec_reg_def)
  qed
next
  case (M_ImmToReg x r f)
  show ?thesis
  proof (cases "is_movec_only r")
    case True
    with M_ImmToReg assms(1,2) obtain v where v: "eval x syms pc = Ok v"
      and e: "e = encode_control_imm x r f (v AND 0xFFFFFF)" and r: "wf_register r"
      by (auto split: if_splits)
    from control_imm_decodes [OF True r e] True M_ImmToReg show ?thesis
      by (simp add: value_at [OF v] split: if_splits)
  next
    case False
    with M_ImmToReg assms have "encode_plain_imm_to_reg x r (ucast b) syms pc = Ok e" by auto
    from plain_imm_decodes [OF this assms(3)] False M_ImmToReg show ?thesis by simp
  qed
next
  case (M_XYMem s ea r w)
  show ?thesis
  proof (cases "is_movec_only r")
    case True
    with M_XYMem assms have "encode_movec_ea s ea r w syms pc = Ok e" "data_space s" "wf_ea ea"
      "wf_register r" "wf_imm_ea s ea w" by (auto split: if_splits)
    from movec_ea_decodes [OF this] M_XYMem True show ?thesis by (simp add: means_movec_any(2) [OF True, of alu])
  next
    case False
    with M_XYMem assms have "encode_parallel_xy_mem s ea r w (ucast b) syms pc = Ok e" "wf_ea ea"
      "wf_imm_ea s ea w" "data_space s" by auto
    from xy_mem_decodes [OF this assms(3)] M_XYMem False show ?thesis by (simp add: means_movec_ea_def)
  qed
next
  case (M_XYAbs s x r w f)
  show ?thesis
  proof (cases "is_movec_only r")
    case True
    with M_XYAbs assms have "encode_movec_aa s x r w syms pc = Ok e" "data_space s" "wf_register r"
      by (auto split: if_splits)
    from movec_aa_decodes [OF this] M_XYAbs True show ?thesis by (simp add: means_movec_any(3) [OF True, of alu])
  next
    case False
    with M_XYAbs assms have "encode_parallel_xy_abs s x r w f (ucast b) syms pc = Ok e" "data_space s" by auto
    from xy_abs_decodes [OF this assms(3)] M_XYAbs False show ?thesis by (simp add: means_movec_aa_def)
  qed
next
  case (M_LMem ea r w)
  with assms l_mem_decodes [of ea r w b syms pc e alu] show ?thesis by simp
next
  case (M_LAbs x r w f)
  with assms l_abs_decodes [of x r w f b syms pc e alu] show ?thesis by simp
next
  case (M_LImm x r)
  with assms show ?thesis by (simp add: encode_parallel_l_imm_def)
next
  case (M_XReg ea r s2 d2 w)
  with assms pm1_x_decodes [of ea r s2 d2 w b syms pc e alu] show ?thesis by simp
next
  case (M_XImmReg x r s2 d2)
  with assms pm1_x_imm_decodes [of x r s2 d2 b syms pc e alu] show ?thesis by simp
next
  case (M_RegY s1 d1 ea r w)
  with assms pm1_y_decodes [of s1 d1 ea r w b syms pc e alu] show ?thesis by simp
next
  case (M_RegYImm s1 d1 x r)
  with assms pm1_y_imm_decodes [of s1 d1 x r b syms pc e alu] show ?thesis by simp
next
  case (M_XYDouble x_ea x_reg y_ea y_reg x_w y_w)
  with assms xy_double_decodes [of x_ea x_reg y_ea y_reg x_w y_w b syms pc e alu] show ?thesis by simp
next
  case (M_Pm0 acc s ea r)
  with assms pm0_decodes [of acc s ea r b syms pc e alu] show ?thesis by simp
qed (use assms pm2_decodes [of pmove b syms pc e alu] in auto)

lemma encode_decodes:
  assumes "encode i pc syms = Ok e" "wf_instruction i"
  shows "decodes e (means i (value_at syms pc) pc e)"
proof (cases i)
  case (I_Parallel alu pmove)
  with assms(1) obtain b where b: "parallel_alu_encode alu = Some b"
    and e: "encode_pmove pmove (ucast b) syms pc = Ok e"
    by (auto simp: encode_parallel_def split: option.splits)
  from alu_byte_decodes [OF _ b] I_Parallel assms(2) pmove_decodes [OF e] show ?thesis by simp
next
  case (I_zero z)
  with assms zero_decodes [of z] show ?thesis by auto
next
  case (I_branch z)
  with assms branch_decodes [of z syms pc e] show ?thesis by simp
next
  case (I_acc z)
  with assms acc_decodes [of z] show ?thesis by auto
next
  case (I_move z)
  with assms move_decodes [of z syms pc e] show ?thesis by (simp del: means_move.simps)
qed (use assms in \<open>simp_all add: arith_decodes shift_decodes branch_decodes bitop_decodes bitbr_decodes
  do_decodes mul_decodes address_decodes special_decodes tcc_decodes\<close>)

section \<open>The property\<close>



end
