(* ===== verification/Spec2Isabelle.thy ===== *)
theory Spec2Isabelle
  imports Decode_Laws Encode_Prims Memory Pram_Dirty Agu_Laws Limit_Laws Loop_Laws Interrupt_Laws
    Block_Laws Jit_Props Asm_Emit_Laws Asm_Move_Laws
begin

text \<open>
  Verification library of the DSP56300 assembler, decoder and emulator (\<^verbatim>\<open>src/crates\<close>).

  \<^bold>\<open>The program.\<close> Crate \<^verbatim>\<open>core\<close> holds the instruction set: register numbers and
  tables, the enum of decoded instructions, the table of 185 opcode templates, the decoder and the
  bit-packing primitives. Crate \<^verbatim>\<open>asm\<close> parses a source, resolves its labels in repeated first
  passes and emits segments of words in a second pass. Crate \<^verbatim>\<open>emu\<close> runs programs: it cuts program
  memory into blocks, translates a block to machine code, caches it, and runs blocks in a loop that
  also serves interrupts, REP and DO loops and power states; a bitmap of written program words says
  which cached blocks to check again. Crate \<^verbatim>\<open>emu-ffi\<close> is the C interface of the emulator.

  \<^bold>\<open>Instruction set\<close> (\<^verbatim>\<open>core/src/lib.rs\<close>, \<^verbatim>\<open>decode.rs\<close>, \<^verbatim>\<open>encode.rs\<close>).
  \<open>Isa\<close>: constants, register tables, widths and names. \<open>Parallel_Alu\<close>: the ALU byte with its
  decoder, encoder, printer and parser. \<open>Instr\<close>: \<^verbatim>\<open>Instruction\<close>, with the enum's sections as
  datatypes of their own. \<open>Opcode_Table\<close>: templates, field extraction, the table. \<open>Decode\<close>: the
  prefix table and \<^verbatim>\<open>decode\<close>, \<^verbatim>\<open>decode_entry_name\<close>, \<^verbatim>\<open>instruction_length\<close>. \<open>Encode_Prims\<close>:
  \<^verbatim>\<open>encode.rs\<close>. The laws: \<open>Alu_Laws\<close> (the byte and the text of an ALU operation read back),
  \<open>Template_Laws\<close> (the fixed bits of every row, evaluated once), \<open>Prefix_Laws\<close> and \<open>Decode_Laws\<close> (no
  panic, at most one row accepts a word, the prefix table changes nothing, what is decoded is well
  formed, parallel words are canonical).

  \<^bold>\<open>Assembler\<close> (\<^verbatim>\<open>asm/src/ast.rs\<close>, \<^verbatim>\<open>encode.rs\<close>, \<^verbatim>\<open>lib.rs\<close>).
  \<open>Asm_Ast\<close>: the syntax tree; the enum \<^verbatim>\<open>Instruction\<close> by sections. \<open>Asm_Encode\<close>, \<open>Asm_Moves\<close>: the
  encoder. \<open>Asm_Size\<close>: sizes and warnings. \<open>Asm_Program\<close>: statements, psects, both passes,
  \<^verbatim>\<open>resolve_symbols\<close>. The laws: \<open>Asm_Layout\<close> (on a stable symbol table every label is the address
  its line is emitted at), \<open>Asm_Emit_Laws\<close> (every listed word stands in an output segment). The
  round trip of assembler and decoder: \<open>Asm_Meaning\<close> says without bit patterns which decoded
  instruction and extension word an instruction stands for (\<open>means\<close>) and which syntax trees are
  well formed (\<open>wf_instruction\<close>); \<open>Decode_Rows\<close> reduces decoding an assembled word to one row and to
  shifts and masks of its fields; \<open>Asm_Operand_Laws\<close> reads the operands back and states the claim
  for one instruction (\<open>decodes\<close>); \<open>Asm_Word_Laws\<close>, \<open>Asm_Bit_Laws\<close>, \<open>Asm_Misc_Laws\<close>,
  \<open>Asm_Parallel_Laws\<close> and \<open>Asm_Move_Laws\<close> go through the sections of the instruction set and end in
  the theorem that the decoder reads every encoded instruction as its meaning, with its length.

  \<^bold>\<open>Core of the emulator\<close> (\<^verbatim>\<open>emu/src/core.rs\<close>). \<open>Memory\<close>: regions, maps, accesses.
  \<open>Pram_Dirty\<close>: the bitmap of written program words, refined to a set of addresses. \<open>Interrupts\<close>:
  pending requests and arbitration. \<open>Dsp_State\<close>: the state, reset, the hardware stack. \<open>Agu\<close>: address
  updates. \<open>Arith56\<close>: rounding, flags, saturation, limiting. \<open>Control\<close>: advancing the PC with REP and
  DO loops, and the interrupt step between instructions. The laws: \<open>Stack_Laws\<close> (the stack is a list
  of at most fifteen pairs, errors exactly on leaving it), \<open>Agu_Laws\<close> (the loops of the modulo
  update return and amount to one correction; buffers are never left), \<open>Arith56_Laws\<close> and
  \<open>Limit_Laws\<close> (nearest rounding, clamps, flags of the signed value), \<open>Loop_Laws\<close> (loops run LC
  times), \<open>Interrupt_Laws\<close> (no panic, what is dispatched, when faults are delivered).

  \<^bold>\<open>Translation and run loop\<close> (\<^verbatim>\<open>emu/src/emit\<close>, \<^verbatim>\<open>emu/src/jit.rs\<close>,
  \<^verbatim>\<open>emu-ffi/src/lib.rs\<close>). \<open>Block_Shape\<close>: which instructions a block takes, with the scans for inlined
  DO bodies and forward skips; a block's plan is the list of emitter calls. \<open>Code_Cache\<close>: the blocks by
  start address. \<open>Jit\<close>: the engine and the run loop. \<open>Ffi\<close>: the operations of a handle. The laws:
  \<open>Block_Laws\<close> (plans exist, read back as the program, and depend only on the words they cover),
  \<open>Code_Cache\<close> (a range invalidation drops exactly the overlapping blocks), \<open>Jit_Laws\<close> and \<open>Jit_Props\<close>
  (over the reachable states of a handle: only blocks that read back as the current program are
  dispatched, \<^verbatim>\<open>run\<close> returns, the single-instruction cache is transparent, writes of the program are
  marked, saving and restoring).

  \<^bold>\<open>Conventions\<close> (\<open>Prelude\<close>). Rust integers are words of their width and wrap as in release
  builds; \<open>ip_ipl\<close> and sums that cannot overflow are integers and numbers. A panic, an
  \<^verbatim>\<open>unreachable!()\<close> arm and a failed assertion are \<open>None\<close>, or \<open>Panic\<close> where the code also has errors
  (\<open>outcome\<close>: \<open>Ok\<close>, \<open>Err\<close>, \<open>Panic\<close>). Error messages are constructors. A \<^verbatim>\<open>match\<close> on literals is
  \<open>switch\<close>. Loops without a structural bound are \<open>while_option\<close>, \<open>partial_function\<close> or \<open>function\<close>
  with a measure, and that they return is proved. Registers are functions of their number; the
  hash maps of the assembler are association lists, and the order in which a map is walked is a
  parameter.

  \<^bold>\<open>Interfaces\<close> as locales, each interpreted on the model: \<open>word_store\<close> (\<open>Memory\<close>),
  \<open>dirty_tracker\<close> (\<open>Pram_Dirty\<close>), \<open>request_set\<close> (\<open>Interrupts\<close>), \<open>bounded_stack\<close> (\<open>Stack_Laws\<close>),
  \<open>range_cache\<close> (\<open>Code_Cache\<close>).

  \<^bold>\<open>Parameters and bounds.\<close> The generated code of a block is a parameter, a function on the
  state; what is assumed of it is that it marks the program words it changes (\<open>code_marks\<close>) and
  consumes cycles (\<open>code_pays\<close>). The embedder's buffers and callbacks are values of the memory map.
  The laws of the block former take a program end of at most \<open>2 ^ 24\<close> and blocks of at most
  \<open>2 ^ 31\<close> instructions; those of the engine a program space that ends at 0xFFFFFC or below, and over the states that operations reach without the generation
  counter of the bitmap wrapping around. \<^verbatim>\<open>resolve_symbols\<close> makes at most ten rounds, as in the code;
  the theorem on labels is about a table that is stable.

  \<^bold>\<open>Not modelled.\<close> The lexer and the statement parsers of the assembler, which run on the
  third-party parsers logos and chumsky; include files, the formatted listing and the texts of
  messages; the disassembler's formatting; what an emitter call turns into, the intermediate code
  built through Cranelift (\<^verbatim>\<open>emit/*\<close> beyond the shape of blocks); profiling, counters and perf maps of
  the engine; freeing a handle; the command-line tools, the fuzzers and the tests.
\<close>

end
